(* ===== verification/Prelude.thy ===== *)
theory Prelude
  imports Complex_Main
begin

text \<open>
  Shared vocabulary of the FreelanceFinder development. The backend keeps its
  data in MongoDB collections reached through Mongoose; this theory gives the
  model of a collection (a list of documents, each carrying its \<open>_id\<close>) and
  of the Mongoose operations the route handlers call on it (\<open>findById\<close>,
  \<open>find\<close>, \<open>updateMany\<close>, \<open>deleteMany\<close>, \<open>countDocuments\<close>, \<open>save\<close>), the
  JavaScript string built-ins the handlers use (\<open>split\<close>, \<open>trim\<close>,
  \<open>startsWith\<close>), and the shape of an HTTP error reply. The lemmas about them
  are declared into the collection \<open>coll_simps\<close> or \<open>[simp]\<close>, so that the
  component theories prove their handler lemmas with \<open>simp add: coll_simps\<close>.
\<close>

named_theorems coll_simps "characteristic equations of the collection operations"

type_synonym oid = nat

text \<open>\<open>res.status(code).json({ message })\<close>: an error reply, its status and message.\<close>

datatype http_error = HttpError nat string

type_synonym 'a result = "http_error + 'a"

fun err_code :: "http_error \<Rightarrow> nat" where
  "err_code (HttpError c _) = c"

text \<open>
  An identifier received in a route parameter or a request body: a string that
  \<open>mongoose.Types.ObjectId.isValid\<close> accepts, standing for a document
  identifier, or one it rejects. A number field of a JSON body: absent, not a
  number (\<open>parseFloat\<close> gives \<open>NaN\<close>), or a number.
\<close>

datatype rid = ObjId oid | Malformed

datatype num_input = Missing | NotANumber | Number real

fun parse_float :: "num_input \<Rightarrow> real option" where
  "parse_float (Number x) = Some x"
| "parse_float _ = None"

subsection \<open>Collections\<close>

definition find_by :: "('a \<Rightarrow> oid) \<Rightarrow> oid \<Rightarrow> 'a list \<Rightarrow> 'a option" where
  "find_by key i xs = find (\<lambda>x. key x = i) xs"

text \<open>\<open>doc.save()\<close> of a document already stored: the stored copy is replaced.\<close>

definition save_by :: "('a \<Rightarrow> oid) \<Rightarrow> 'a \<Rightarrow> 'a list \<Rightarrow> 'a list" where
  "save_by key x xs = map (\<lambda>y. if key y = key x then x else y) xs"

definition update_where :: "('a \<Rightarrow> bool) \<Rightarrow> ('a \<Rightarrow> 'a) \<Rightarrow> 'a list \<Rightarrow> 'a list" where
  "update_where P f xs = map (\<lambda>x. if P x then f x else x) xs"

definition delete_where :: "('a \<Rightarrow> bool) \<Rightarrow> 'a list \<Rightarrow> 'a list" where
  "delete_where P xs = filter (\<lambda>x. \<not> P x) xs"

definition count_where :: "('a \<Rightarrow> bool) \<Rightarrow> 'a list \<Rightarrow> nat" where
  "count_where P xs = length (filter P xs)"

text \<open>Well-formed identifiers: distinct, and below the next identifier to hand out.\<close>

definition ids_ok :: "('a \<Rightarrow> oid) \<Rightarrow> oid \<Rightarrow> 'a list \<Rightarrow> bool" where
  "ids_ok key n xs \<longleftrightarrow> distinct (map key xs) \<and> list_all (\<lambda>x. key x < n) xs"

subsection \<open>JavaScript strings\<close>

text \<open>\<open>s.split(c)\<close> for a one-character separator: the pieces between the separators.\<close>

fun js_split_aux :: "char \<Rightarrow> string \<Rightarrow> string \<Rightarrow> string list" where
  "js_split_aux c acc [] = [rev acc]"
| "js_split_aux c acc (x # xs) =
     (if x = c then rev acc # js_split_aux c [] xs else js_split_aux c (x # acc) xs)"

definition js_split :: "char \<Rightarrow> string \<Rightarrow> string list" where
  "js_split c s = js_split_aux c [] s"

text \<open>\<open>ps.join(sep)\<close>.\<close>

fun js_join :: "string \<Rightarrow> string list \<Rightarrow> string" where
  "js_join sep [] = []"
| "js_join sep [p] = p"
| "js_join sep (p # ps) = p @ sep @ js_join sep ps"

definition js_whitespace :: "char \<Rightarrow> bool" where
  "js_whitespace ch \<longleftrightarrow> ch \<in> {CHR '' '', CHR ''\<newline>'', CHR 0x09, CHR 0x0D, CHR 0x0B, CHR 0x0C}"

definition js_trim :: "string \<Rightarrow> string" where
  "js_trim s = rev (dropWhile js_whitespace (rev (dropWhile js_whitespace s)))"

definition starts_with :: "string \<Rightarrow> string \<Rightarrow> bool" where
  "starts_with p s \<longleftrightarrow> take (length p) s = p"

text \<open>\<open>s.toLowerCase()\<close> on ASCII letters.\<close>

definition js_lower :: "string \<Rightarrow> string" where
  "js_lower s = map (\<lambda>c. let n = (of_char c :: nat) in if 65 \<le> n \<and> n \<le> 90 then char_of (n + 32) else c) s"

fun nth_opt :: "'a list \<Rightarrow> nat \<Rightarrow> 'a option" where
  "nth_opt [] _ = None"
| "nth_opt (x # _) 0 = Some x"
| "nth_opt (_ # xs) (Suc n) = nth_opt xs n"

subsection \<open>Lemmas on collections\<close>

lemma find_by_Some [coll_simps]:
  "find_by key i xs = Some x \<Longrightarrow> x \<in> set xs \<and> key x = i"
  by (auto simp: find_by_def dest: find_Some_iff [THEN iffD1])

lemma find_by_None [coll_simps]:
  "find_by key i xs = None \<longleftrightarrow> (\<forall>x\<in>set xs. key x \<noteq> i)"
  by (auto simp: find_by_def find_None_iff)

lemma find_by_distinct:
  "distinct (map key xs) \<Longrightarrow> x \<in> set xs \<Longrightarrow> find_by key (key x) xs = Some x"
proof (induction xs)
  case Nil
  then show ?case by simp
next
  case (Cons y ys)
  then show ?case by (auto simp: find_by_def)
qed

lemma set_update_where [coll_simps]:
  "x \<in> set (update_where P f xs) \<longleftrightarrow> (\<exists>y\<in>set xs. x = (if P y then f y else y))"
  by (auto simp: update_where_def)

lemma map_update_where [coll_simps]:
  "(\<And>x. key (f x) = key x) \<Longrightarrow> map key (update_where P f xs) = map key xs"
  by (induction xs) (auto simp: update_where_def)

lemma map_save_by [coll_simps]:
  "map key (save_by key x xs) = map key xs"
  by (induction xs) (auto simp: save_by_def)

lemma set_save_by:
  "y \<in> set (save_by key x xs) \<Longrightarrow> y = x \<or> (y \<in> set xs \<and> key y \<noteq> key x)"
  by (auto simp: save_by_def)

lemma set_delete_where [coll_simps]:
  "x \<in> set (delete_where P xs) \<longleftrightarrow> x \<in> set xs \<and> \<not> P x"
  by (simp add: delete_where_def)

lemma distinct_map_delete_where [coll_simps]:
  "distinct (map key xs) \<Longrightarrow> distinct (map key (delete_where P xs))"
  by (simp add: delete_where_def distinct_map_filter)

lemma list_all_update_where:
  "(\<And>x. key (f x) = key x) \<Longrightarrow>
   list_all (\<lambda>x. key x < n) (update_where P f xs) = list_all (\<lambda>x. key x < n) xs"
  by (induction xs) (auto simp: update_where_def)

lemma ids_ok_update_where [coll_simps]:
  "(\<And>x. key (f x) = key x) \<Longrightarrow> ids_ok key n (update_where P f xs) = ids_ok key n xs"
  by (simp add: ids_ok_def map_update_where list_all_update_where)

lemma ids_ok_save_by [coll_simps]:
  "key x < n \<Longrightarrow> ids_ok key n xs \<Longrightarrow> ids_ok key n (save_by key x xs)"
  by (auto simp: ids_ok_def map_save_by list_all_iff dest: set_save_by)

lemma ids_ok_delete_where [coll_simps]:
  "ids_ok key n xs \<Longrightarrow> ids_ok key n (delete_where P xs)"
  by (auto simp: ids_ok_def distinct_map_delete_where list_all_iff set_delete_where)

lemma ids_ok_append_fresh [coll_simps]:
  "ids_ok key n xs \<Longrightarrow> key x = n \<Longrightarrow> ids_ok key (Suc n) (xs @ [x])"
  by (auto simp: ids_ok_def list_all_iff)

lemma ids_ok_Suc [coll_simps]:
  "ids_ok key n xs \<Longrightarrow> ids_ok key (Suc n) xs"
  by (auto simp: ids_ok_def list_all_iff)

lemma count_where_le [coll_simps]: "count_where P xs \<le> length xs"
  by (simp add: count_where_def)

lemma find_by_save_by [coll_simps]:
  "key x \<in> set (map key xs) \<Longrightarrow> find_by key (key x) (save_by key x xs) = Some x"
  by (induction xs) (auto simp: find_by_def save_by_def)

lemma update_where_keep: "x \<in> set xs \<Longrightarrow> \<not> P x \<Longrightarrow> x \<in> set (update_where P f xs)"
  by (auto simp: set_update_where intro!: bexI [of _ x])

lemma save_by_keep: "x \<in> set xs \<Longrightarrow> key x \<noteq> key y \<Longrightarrow> x \<in> set (save_by key y xs)"
  by (induction xs) (auto simp: save_by_def)

lemma map_save_by_same:
  "(\<And>y. y \<in> set xs \<Longrightarrow> key y = key x \<Longrightarrow> g y = g x) \<Longrightarrow> map g (save_by key x xs) = map g xs"
  by (induction xs) (auto simp: save_by_def)

lemma distinct_key_eq:
  "distinct (map key xs) \<Longrightarrow> x \<in> set xs \<Longrightarrow> y \<in> set xs \<Longrightarrow> key x = key y \<Longrightarrow> x = y"
  by (metis distinct_map inj_on_def)

lemma ids_ok_cong: "map key ys = map key xs \<Longrightarrow> ids_ok key n ys = ids_ok key n xs"
proof -
  have "\<And>zs. ids_ok key n zs \<longleftrightarrow> distinct (map key zs) \<and> list_all (\<lambda>k. k < n) (map key zs)"
    by (simp add: ids_ok_def list_all_iff)
  then show "map key ys = map key xs \<Longrightarrow> ids_ok key n ys = ids_ok key n xs" by simp
qed

subsection \<open>Lemmas on strings\<close>

lemma js_split_aux_nonempty [simp]: "js_split_aux c acc s \<noteq> []"
  by (induction c acc s rule: js_split_aux.induct) auto

lemma js_join_split_aux: "js_join [c] (js_split_aux c acc s) = rev acc @ s"
proof (induction c acc s rule: js_split_aux.induct)
  case (1 c acc)
  then show ?case by simp
next
  case (2 c acc x xs)
  then show ?case
    by (cases "js_split_aux c [] xs") (auto simp: neq_Nil_conv)
qed

lemma js_split_aux_pieces:
  "p \<in> set (js_split_aux c acc s) \<Longrightarrow> c \<notin> set acc \<Longrightarrow> c \<notin> set p"
  by (induction c acc s rule: js_split_aux.induct) (auto split: if_splits)

lemma js_split_nonempty [simp]: "js_split c s \<noteq> []"
  by (simp add: js_split_def)

lemma js_join_split [simp]: "js_join [c] (js_split c s) = s"
  by (simp add: js_split_def js_join_split_aux)

lemma js_split_pieces: "p \<in> set (js_split c s) \<Longrightarrow> c \<notin> set p"
  by (auto simp: js_split_def dest: js_split_aux_pieces)

end
