(* ===== verification/Store.thy ===== *)
theory Store
  imports Prelude
begin

text \<open>
  The persistent state of the backend: the Mongoose schemas of
  \<open>server/models\<close> (\<open>Project.js\<close>, \<open>Application.js\<close>, \<open>Message.js\<close>, and the
  \<open>User\<close> model the routes import, whose file is not in the repository and is
  modelled from the spec: a role among client, freelancer and admin), the
  database as a record of four collections, and the insertion of a new
  document by \<open>new Model(...).save()\<close> with the schema's validators and the
  unique index of \<open>Application.js\<close>. The well-formedness invariant
  \<open>db_inv\<close> says that identifiers are distinct and fresh and that no two
  applications share a (project, freelancer) pair.
\<close>

subsection \<open>Enumerations and their stored strings\<close>

datatype role = Client | Freelancer | Admin

fun role_str :: "role \<Rightarrow> string" where
  "role_str Client = ''client''"
| "role_str Freelancer = ''freelancer''"
| "role_str Admin = ''admin''"

definition role_of :: "string \<Rightarrow> role option" where
  "role_of s =
     (if s = ''client'' then Some Client
      else if s = ''freelancer'' then Some Freelancer
      else if s = ''admin'' then Some Admin else None)"

datatype project_status = Open | Assigned | InProgress | Completed | Cancelled

fun project_status_str :: "project_status \<Rightarrow> string" where
  "project_status_str Open = ''open''"
| "project_status_str Assigned = ''assigned''"
| "project_status_str InProgress = ''in progress''"
| "project_status_str Completed = ''completed''"
| "project_status_str Cancelled = ''cancelled''"

definition project_status_of :: "string \<Rightarrow> project_status option" where
  "project_status_of s =
     (if s = ''open'' then Some Open
      else if s = ''assigned'' then Some Assigned
      else if s = ''in progress'' then Some InProgress
      else if s = ''completed'' then Some Completed
      else if s = ''cancelled'' then Some Cancelled else None)"

datatype application_status = Pending | Accepted | Rejected | Withdrawn

fun application_status_str :: "application_status \<Rightarrow> string" where
  "application_status_str Pending = ''pending''"
| "application_status_str Accepted = ''accepted''"
| "application_status_str Rejected = ''rejected''"
| "application_status_str Withdrawn = ''withdrawn''"

definition application_status_of :: "string \<Rightarrow> application_status option" where
  "application_status_of s =
     (if s = ''pending'' then Some Pending
      else if s = ''accepted'' then Some Accepted
      else if s = ''rejected'' then Some Rejected
      else if s = ''withdrawn'' then Some Withdrawn else None)"

subsection \<open>Documents\<close>

record user_doc =
  u_id :: oid
  username :: string
  email :: string
  password :: string
  role :: role
  u_createdAt :: nat

record project_doc =
  p_id :: oid
  client :: oid
  title :: string
  description :: string
  budget :: string
  p_status :: project_status
  skillsRequired :: "string list"
  assignedTo :: "oid option"
  assignedAt :: "nat option"

record application_doc =
  a_id :: oid
  project :: oid
  freelancer :: oid
  bidAmount :: real
  coverLetter :: string
  a_status :: application_status
  applicationDate :: nat

record message_doc =
  m_id :: oid
  sender :: oid
  receiver :: "oid option"
  m_project :: oid
  content :: string
  timestamp :: nat
  read :: bool

text \<open>
  The database: one list per collection in insertion order, the source of
  fresh \<open>ObjectId\<close>s, and the clock read by \<open>Date.now\<close> defaults.
\<close>

record db =
  users :: "user_doc list"
  projects :: "project_doc list"
  applications :: "application_doc list"
  messages :: "message_doc list"
  next_oid :: oid
  now :: nat

text \<open>The errors a Mongoose call raises, as the handlers' catch blocks see them.\<close>

datatype mongo_error = ValidationError "string list" | DuplicateKey | CastError

subsection \<open>Inserting documents\<close>

text \<open>
  The validators of \<open>ApplicationSchema\<close>: \<open>bidAmount\<close> has \<open>min: 0\<close> and
  \<open>coverLetter\<close> is \<open>required\<close> (Mongoose rejects the empty string for a
  required string). Errors are listed in schema path order.
\<close>

definition application_errors :: "application_doc \<Rightarrow> string list" where
  "application_errors a =
     (if bidAmount a < 0 then [''Bid amount cannot be negative.''] else []) @
     (if coverLetter a = [] then [''Path `coverLetter` is required.''] else [])"

definition pair_taken :: "oid \<Rightarrow> oid \<Rightarrow> application_doc list \<Rightarrow> bool" where
  "pair_taken pid fid as \<longleftrightarrow> (\<exists>a\<in>set as. project a = pid \<and> freelancer a = fid)"

text \<open>
  \<open>new Application({...}).save()\<close>: a fresh \<open>_id\<close>, \<open>status\<close> and
  \<open>applicationDate\<close> from their defaults, the validators, then the unique
  index on \<open>(project, freelancer)\<close> (MongoDB error 11000).
\<close>

definition insert_application ::
  "oid \<Rightarrow> oid \<Rightarrow> real \<Rightarrow> string \<Rightarrow> db \<Rightarrow> mongo_error + application_doc \<times> db" where
  "insert_application pid fid bid cl d =
     (let a = \<lparr>a_id = next_oid d, project = pid, freelancer = fid, bidAmount = bid,
               coverLetter = cl, a_status = Pending, applicationDate = now d\<rparr>
      in if application_errors a \<noteq> [] then Inl (ValidationError (application_errors a))
         else if pair_taken pid fid (applications d) then Inl DuplicateKey
         else Inr (a, d\<lparr>applications := applications d @ [a], next_oid := Suc (next_oid d)\<rparr>))"

text \<open>\<open>ProjectSchema\<close>: \<open>title\<close> is trimmed and required, \<open>description\<close> and \<open>budget\<close> required.\<close>

definition project_errors :: "project_doc \<Rightarrow> string list" where
  "project_errors p =
     (if title p = [] then [''Path `title` is required.''] else []) @
     (if description p = [] then [''Path `description` is required.''] else []) @
     (if budget p = [] then [''Path `budget` is required.''] else [])"

definition insert_project ::
  "oid \<Rightarrow> string \<Rightarrow> string \<Rightarrow> string \<Rightarrow> string list \<Rightarrow> db \<Rightarrow> mongo_error + project_doc \<times> db" where
  "insert_project cid t ds b sk d =
     (let p = \<lparr>p_id = next_oid d, client = cid, title = js_trim t, description = ds, budget = b,
               p_status = Open, skillsRequired = sk, assignedTo = None, assignedAt = None\<rparr>
      in if project_errors p \<noteq> [] then Inl (ValidationError (project_errors p))
         else Inr (p, d\<lparr>projects := projects d @ [p], next_oid := Suc (next_oid d)\<rparr>))"

text \<open>\<open>project.save()\<close> of a stored project: the validators, then the stored copy replaced.\<close>

definition save_project :: "project_doc \<Rightarrow> db \<Rightarrow> mongo_error + db" where
  "save_project p d =
     (if project_errors p \<noteq> [] then Inl (ValidationError (project_errors p))
      else Inr (d\<lparr>projects := save_by p_id p (projects d)\<rparr>))"

text \<open>\<open>MessageSchema\<close>: \<open>content\<close> is trimmed and required.\<close>

definition insert_message ::
  "oid \<Rightarrow> oid option \<Rightarrow> oid \<Rightarrow> string \<Rightarrow> db \<Rightarrow> mongo_error + message_doc \<times> db" where
  "insert_message s r pid c d =
     (let m = \<lparr>m_id = next_oid d, sender = s, receiver = r, m_project = pid,
               content = js_trim c, timestamp = now d, read = False\<rparr>
      in if content m = [] then Inl (ValidationError [''Path `content` is required.''])
         else Inr (m, d\<lparr>messages := messages d @ [m], next_oid := Suc (next_oid d)\<rparr>))"

subsection \<open>Well-formed databases\<close>

definition pairs_unique :: "application_doc list \<Rightarrow> bool" where
  "pairs_unique as \<longleftrightarrow> distinct (map (\<lambda>a. (project a, freelancer a)) as)"

definition db_inv :: "db \<Rightarrow> bool" where
  "db_inv d \<longleftrightarrow>
     ids_ok u_id (next_oid d) (users d) \<and> ids_ok p_id (next_oid d) (projects d) \<and>
     ids_ok a_id (next_oid d) (applications d) \<and> ids_ok m_id (next_oid d) (messages d) \<and>
     pairs_unique (applications d)"

definition empty_db :: db where
  "empty_db = \<lparr>users = [], projects = [], applications = [], messages = [], next_oid = 0, now = 0\<rparr>"

lemma db_inv_empty: "db_inv empty_db"
  by (simp add: db_inv_def empty_db_def ids_ok_def pairs_unique_def)

subsection \<open>Stored strings: parse and print\<close>

lemma role_of_str [simp]: "role_of (role_str r) = Some r"
  by (cases r) (simp_all add: role_of_def)

lemma project_status_of_str [simp]: "project_status_of (project_status_str s) = Some s"
  by (cases s) (simp_all add: project_status_of_def)

lemma application_status_of_str [simp]: "application_status_of (application_status_str s) = Some s"
  by (cases s) (simp_all add: application_status_of_def)

lemma application_status_of_Some:
  "application_status_of t = Some s \<Longrightarrow> application_status_str s = t"
  by (auto simp: application_status_of_def split: if_splits)

lemma project_status_of_Some:
  "project_status_of t = Some s \<Longrightarrow> project_status_str s = t"
  by (auto simp: project_status_of_def split: if_splits)

lemma a_status_update_self: "(x = x\<lparr>a_status := s\<rparr>) \<longleftrightarrow> a_status x = s"
  by (cases x) auto

subsection \<open>Insertion keeps the database well-formed\<close>

lemma pairs_unique_append:
  "pairs_unique as \<Longrightarrow> \<not> pair_taken (project a) (freelancer a) as \<Longrightarrow> pairs_unique (as @ [a])"
  by (auto simp: pairs_unique_def pair_taken_def)

lemma insert_application_Inr:
  "insert_application pid fid bid cl d = Inr (a, d') \<longleftrightarrow>
     0 \<le> bid \<and> cl \<noteq> [] \<and> \<not> pair_taken pid fid (applications d) \<and>
     a = \<lparr>a_id = next_oid d, project = pid, freelancer = fid, bidAmount = bid,
          coverLetter = cl, a_status = Pending, applicationDate = now d\<rparr> \<and>
     d' = d\<lparr>applications := applications d @ [a], next_oid := Suc (next_oid d)\<rparr>"
  by (auto simp: insert_application_def application_errors_def Let_def)

lemma insert_application_inv:
  assumes "db_inv d" and "insert_application pid fid bid cl d = Inr (a, d')"
  shows "db_inv d'"
proof -
  from assms(2) have a: "a_id a = next_oid d" "project a = pid" "freelancer a = fid"
    and d': "d' = d\<lparr>applications := applications d @ [a], next_oid := Suc (next_oid d)\<rparr>"
    and free: "\<not> pair_taken pid fid (applications d)"
    by (auto simp: insert_application_Inr)
  with assms(1) show ?thesis
    by (auto simp: db_inv_def d' intro: ids_ok_append_fresh ids_ok_Suc pairs_unique_append)
qed

lemma insert_project_inv:
  assumes "db_inv d" and "insert_project cid t ds b sk d = Inr (p, d')"
  shows "db_inv d'"
proof -
  from assms(2) have "p_id p = next_oid d"
    and d': "d' = d\<lparr>projects := projects d @ [p], next_oid := Suc (next_oid d)\<rparr>"
    by (auto simp: insert_project_def Let_def split: if_splits)
  with assms(1) show ?thesis
    by (auto simp: db_inv_def d' intro: ids_ok_append_fresh ids_ok_Suc)
qed

lemma insert_message_inv:
  assumes "db_inv d" and "insert_message s r pid c d = Inr (m, d')"
  shows "db_inv d'"
proof -
  from assms(2) have "m_id m = next_oid d"
    and d': "d' = d\<lparr>messages := messages d @ [m], next_oid := Suc (next_oid d)\<rparr>"
    by (auto simp: insert_message_def Let_def split: if_splits)
  with assms(1) show ?thesis
    by (auto simp: db_inv_def d' intro: ids_ok_append_fresh ids_ok_Suc)
qed

subsection \<open>Updates that keep the database well-formed\<close>

lemma db_inv_applications_cong:
  assumes "db_inv d" and "map a_id as = map a_id (applications d)"
    and "map (\<lambda>a. (project a, freelancer a)) as = map (\<lambda>a. (project a, freelancer a)) (applications d)"
  shows "db_inv (d\<lparr>applications := as\<rparr>)"
  using assms ids_ok_cong [OF assms(2)] by (simp add: db_inv_def pairs_unique_def)

lemma db_inv_projects_cong:
  assumes "db_inv d" and "map p_id ps = map p_id (projects d)"
  shows "db_inv (d\<lparr>projects := ps\<rparr>)"
  using assms ids_ok_cong [OF assms(2)] by (simp add: db_inv_def)

lemma db_inv_delete_applications:
  assumes "db_inv d"
  shows "db_inv (d\<lparr>applications := delete_where P (applications d)\<rparr>)"
  using assms
  by (simp add: db_inv_def pairs_unique_def ids_ok_delete_where)
     (simp add: delete_where_def distinct_map_filter)

lemma db_inv_save_status:
  assumes "db_inv d" and "a \<in> set (applications d)"
  shows "db_inv (d\<lparr>applications := save_by a_id (a\<lparr>a_status := s\<rparr>) (applications d)\<rparr>)"
proof -
  have dist: "distinct (map a_id (applications d))" using assms(1) by (simp add: db_inv_def ids_ok_def)
  have "map (\<lambda>a. (project a, freelancer a)) (save_by a_id (a\<lparr>a_status := s\<rparr>) (applications d)) =
        map (\<lambda>a. (project a, freelancer a)) (applications d)"
  proof (rule map_save_by_same)
    fix y assume y: "y \<in> set (applications d)" and k: "a_id y = a_id (a\<lparr>a_status := s\<rparr>)"
    have "y = a" using distinct_key_eq [OF dist y assms(2)] k by simp
    then show "(project y, freelancer y) = (project (a\<lparr>a_status := s\<rparr>), freelancer (a\<lparr>a_status := s\<rparr>))"
      by simp
  qed
  with assms(1) show ?thesis by (simp add: db_inv_applications_cong map_save_by)
qed

end
