(* ===== verification/Auth.thy ===== *)
theory Auth
  imports Store
begin

text \<open>
  Authentication and authorisation (\<open>server/middleware/authMiddleware.js\<close>,
  \<open>server/routes/auth.js\<close>). The JSON Web Token library and bcrypt are
  external: a token is checked by a function \<open>verify\<close> (\<open>jwt.verify\<close>,
  \<open>None\<close> when it throws) and issued by \<open>sign\<close> (\<open>jwt.sign\<close>), a password is
  hashed by \<open>hash\<close> and checked by \<open>hash_ok\<close> (\<open>bcrypt.compare\<close>). The only
  law assumed of them is the one stated where it is used: a token signed for
  an identifier verifies to it.

  \<open>protect\<close> resolves the bearer token of the \<open>Authorization\<close> header to a
  stored user, \<open>authorize_roles\<close> checks the user's role, and \<open>route\<close>
  composes them with a handler the way \<open>router.METHOD(path, protect,
  authorizeRoles(...), handler)\<close> does: the handler runs only when both pass,
  and a rejected request leaves the database unchanged.
\<close>

definition protect :: "(string \<Rightarrow> oid option) \<Rightarrow> db \<Rightarrow> string option \<Rightarrow> user_doc result" where
  "protect verify d hdr =
     (case hdr of
        None \<Rightarrow> Inl (HttpError 401 ''Not authorized, no token'')
      | Some h \<Rightarrow>
          (if starts_with ''Bearer'' h then
             (case nth_opt (js_split CHR '' '' h) 1 of
                None \<Rightarrow> Inl (HttpError 401 ''Not authorized, token failed'')
              | Some tok \<Rightarrow>
                  (case verify tok of
                     None \<Rightarrow> Inl (HttpError 401 ''Not authorized, token failed'')
                   | Some uid \<Rightarrow>
                       (case find_by u_id uid (users d) of
                          None \<Rightarrow> Inl (HttpError 401 ''Not authorized, user not found'')
                        | Some u \<Rightarrow> Inr u)))
           else Inl (HttpError 401 ''Not authorized, no token'')))"

definition authorize_roles :: "role list \<Rightarrow> user_doc \<Rightarrow> unit result" where
  "authorize_roles rs u =
     (if role u \<in> set rs then Inr ()
      else Inl (HttpError 403 (''User role '' @ role_str (role u) @
                               '' is not authorized to access this route'')))"

text \<open>
  A route: \<open>protect\<close>, then \<open>authorizeRoles\<close> when the route names roles
  (\<open>None\<close> for the routes guarded by \<open>protect\<close> alone), then the handler.
\<close>

definition route ::
  "(string \<Rightarrow> oid option) \<Rightarrow> role list option \<Rightarrow> (user_doc \<Rightarrow> db \<Rightarrow> 'a result \<times> db) \<Rightarrow>
   db \<Rightarrow> string option \<Rightarrow> 'a result \<times> db" where
  "route verify rs h d hdr =
     (case protect verify d hdr of
        Inl e \<Rightarrow> (Inl e, d)
      | Inr u \<Rightarrow>
          (case rs of
             None \<Rightarrow> h u d
           | Some rs' \<Rightarrow> (case authorize_roles rs' u of Inl e \<Rightarrow> (Inl e, d) | Inr _ \<Rightarrow> h u d)))"

subsection \<open>Registration and login\<close>

record register_body =
  reg_username :: string
  reg_email :: string
  reg_password :: string
  reg_role :: string

text \<open>
  \<open>POST /api/auth/register\<close>. The role is taken from the request body as it
  is; the \<open>User\<close> schema (modelled from the spec) accepts the three roles, and
  any other value fails validation inside the \<open>try\<close>, which answers 500.
  The reply carries the signed token and the stored user.
\<close>

definition register ::
  "(string \<Rightarrow> string) \<Rightarrow> (oid \<Rightarrow> string) \<Rightarrow> register_body \<Rightarrow> db \<Rightarrow> (string \<times> user_doc) result \<times> db" where
  "register hash sign b d =
     (if reg_username b = [] \<or> reg_email b = [] \<or> reg_password b = [] \<or> reg_role b = []
      then (Inl (HttpError 400 ''Please enter all fields.''), d)
      else if (\<exists>u\<in>set (users d). email u = reg_email b)
      then (Inl (HttpError 400 ''User already exists.''), d)
      else (case role_of (reg_role b) of
              None \<Rightarrow> (Inl (HttpError 500 ''Server error during registration.''), d)
            | Some r \<Rightarrow>
                (let u = \<lparr>u_id = next_oid d, username = reg_username b, email = reg_email b,
                          password = hash (reg_password b), role = r, u_createdAt = now d\<rparr>
                 in (Inr (sign (u_id u), u),
                     d\<lparr>users := users d @ [u], next_oid := Suc (next_oid d)\<rparr>))))"

text \<open>\<open>POST /api/auth/login\<close>: the first user with the e-mail, then the password check.\<close>

definition login ::
  "(string \<Rightarrow> string \<Rightarrow> bool) \<Rightarrow> (oid \<Rightarrow> string) \<Rightarrow> string \<Rightarrow> string \<Rightarrow> db \<Rightarrow> (string \<times> user_doc) result" where
  "login hash_ok sign em pw d =
     (if em = [] \<or> pw = [] then Inl (HttpError 400 ''Please enter all fields.'')
      else (case find (\<lambda>u. email u = em) (users d) of
              None \<Rightarrow> Inl (HttpError 400 ''Invalid credentials.'')
            | Some u \<Rightarrow>
                (if hash_ok pw (password u) then Inr (sign (u_id u), u)
                 else Inl (HttpError 400 ''Invalid credentials.''))))"

text \<open>\<open>GET /api/auth/me\<close>: the user \<open>protect\<close> attached to the request.\<close>

definition me :: "(string \<Rightarrow> oid option) \<Rightarrow> db \<Rightarrow> string option \<Rightarrow> user_doc result" where
  "me verify d hdr = fst (route verify None (\<lambda>u d. (Inr u, d)) d hdr)"

subsection \<open>Lemmas\<close>

lemma js_split_aux_no_sep: "c \<notin> set s \<Longrightarrow> js_split_aux c acc s = [rev acc @ s]"
  by (induction c acc s rule: js_split_aux.induct) auto

lemma js_split_bearer:
  "CHR '' '' \<notin> set tok \<Longrightarrow> js_split CHR '' '' (''Bearer '' @ tok) = [''Bearer'', tok]"
  by (simp add: js_split_def js_split_aux_no_sep)

lemma protect_bearer:
  "CHR '' '' \<notin> set tok \<Longrightarrow>
   protect verify d (Some (''Bearer '' @ tok)) =
     (case verify tok of
        None \<Rightarrow> Inl (HttpError 401 ''Not authorized, token failed'')
      | Some uid \<Rightarrow>
          (case find_by u_id uid (users d) of
             None \<Rightarrow> Inl (HttpError 401 ''Not authorized, user not found'')
           | Some u \<Rightarrow> Inr u))"
  by (simp add: protect_def js_split_bearer [simplified] starts_with_def)

lemma protect_Inr: "protect verify d hdr = Inr u \<Longrightarrow> u \<in> set (users d)"
  by (auto simp: protect_def split: option.splits if_splits dest: find_by_Some)

lemma route_Inl_unchanged:
  "protect verify d hdr = Inl e \<Longrightarrow> route verify rs h d hdr = (Inl e, d)"
  by (simp add: route_def)

lemma route_role_rejected:
  "protect verify d hdr = Inr u \<Longrightarrow> role u \<notin> set rs \<Longrightarrow>
   route verify (Some rs) h d hdr = (authorize_roles rs u, d) \<and> isl (authorize_roles rs u)"
  by (simp add: route_def authorize_roles_def)

lemma route_runs_handler:
  "protect verify d hdr = Inr u \<Longrightarrow> role u \<in> set rs \<Longrightarrow>
   route verify (Some rs) h d hdr = h u d"
  by (simp add: route_def authorize_roles_def)

end
