(* ===== verification/Applications.thy ===== *)
theory Applications
  imports Auth
begin

text \<open>
  The application workflow of \<open>server/routes/applicationRoutes.js\<close>, the
  core of the system: a freelancer submits an application to an open project
  (\<open>POST /api/applications\<close>, \<open>submit_application\<close>); the client who owns
  the project, or an admin, sets its status (\<open>PUT /api/applications/:id/status\<close>,
  \<open>update_application_status\<close>), and accepting it assigns the project to the
  freelancer and rejects the other pending applications of the project
  (\<open>accept_effects\<close>); the freelancer or an admin deletes it
  (\<open>DELETE /api/applications/:id\<close>, \<open>delete_application\<close>). Three read
  views list applications by project, by freelancer and by client.

  Each handler takes the user \<open>protect\<close> attached, the request's parameters
  and the database, and returns the reply with the database after the
  handler's writes. Every early \<open>return res.status(...)\<close> and every branch of
  the \<open>catch\<close> block is a branch of the definition.
\<close>

subsection \<open>Submitting an application\<close>

record apply_body =
  projectId :: "rid option"
  bid_in :: num_input
  cover_in :: "string option"

text \<open>The \<open>catch\<close> block of \<open>POST /api/applications\<close> (lines 92--111).\<close>

fun submit_catch :: "mongo_error \<Rightarrow> http_error" where
  "submit_catch (ValidationError ms) = HttpError 400 (''Validation failed: '' @ js_join '', '' ms)"
| "submit_catch DuplicateKey = HttpError 409 ''You have already applied for this project.''"
| "submit_catch CastError = HttpError 400 ''Invalid ID format encountered during processing.''"

definition submit_application :: "user_doc \<Rightarrow> apply_body \<Rightarrow> db \<Rightarrow> application_doc result \<times> db" where
  "submit_application u b d =
     (case (projectId b, cover_in b) of
        (Some pid_in, Some cl) \<Rightarrow>
          (if bid_in b = Missing
           then (Inl (HttpError 400 ''Please provide project ID, bid amount, and cover letter.''), d)
           else (case pid_in of
                   Malformed \<Rightarrow> (Inl (HttpError 400 ''Invalid Project ID format provided.''), d)
                 | ObjId pid \<Rightarrow>
                     (case parse_float (bid_in b) of
                        None \<Rightarrow> (Inl (HttpError 400 ''Bid amount must be a positive number.''), d)
                      | Some x \<Rightarrow>
                          (if x \<le> 0
                           then (Inl (HttpError 400 ''Bid amount must be a positive number.''), d)
                           else if pair_taken pid (u_id u) (applications d)
                           then (Inl (HttpError 400 ''You have already applied for this project.''), d)
                           else (case find_by p_id pid (projects d) of
                                   None \<Rightarrow> (Inl (HttpError 404 ''Project not found or may have been deleted.''), d)
                                 | Some p \<Rightarrow>
                                     (if p_status p \<noteq> Open
                                      then (Inl (HttpError 400
                                              (''This project is not currently open for applications. Current status: ''
                                               @ project_status_str (p_status p))), d)
                                      else (case insert_application pid (u_id u) x cl d of
                                              Inl e \<Rightarrow> (Inl (submit_catch e), d)
                                            | Inr (a, d') \<Rightarrow> (Inr a, d'))))))))
      | _ \<Rightarrow> (Inl (HttpError 400 ''Please provide project ID, bid amount, and cover letter.''), d))"

subsection \<open>Read views\<close>

text \<open>
  \<open>.sort({ applicationDate: -1 })\<close>: newest first. MongoDB leaves the order of
  equal dates open; the model keeps insertion order among them.
\<close>

definition by_date_desc :: "application_doc list \<Rightarrow> application_doc list" where
  "by_date_desc as = sort_key (\<lambda>a. - int (applicationDate a)) as"

text \<open>\<open>GET /api/applications/project/:projectId\<close>: the owner's (or an admin's) view.\<close>

definition project_applications :: "user_doc \<Rightarrow> rid \<Rightarrow> db \<Rightarrow> application_doc list result" where
  "project_applications u r d =
     (case r of
        Malformed \<Rightarrow> Inl (HttpError 400 ''Invalid Project ID format.'')
      | ObjId pid \<Rightarrow>
          (case find_by p_id pid (projects d) of
             None \<Rightarrow> Inl (HttpError 404 ''Project not found.'')
           | Some p \<Rightarrow>
               (if client p \<noteq> u_id u \<and> role u \<noteq> Admin
                then Inl (HttpError 403 ''Not authorized to view applications for this project.'')
                else Inr (by_date_desc (filter (\<lambda>a. project a = pid) (applications d))))))"

text \<open>
  \<open>GET /api/applications/my-applications\<close>: the freelancer's applications
  whose project still exists (the \<open>populate\<close> of a deleted project is
  \<open>null\<close> and is filtered out).
\<close>

definition my_applications :: "user_doc \<Rightarrow> db \<Rightarrow> application_doc list result" where
  "my_applications u d =
     Inr (by_date_desc
       (filter (\<lambda>a. freelancer a = u_id u \<and> find_by p_id (project a) (projects d) \<noteq> None)
          (applications d)))"

text \<open>\<open>GET /api/applications/client-review\<close>: applications to the client's projects.\<close>

definition client_review :: "user_doc \<Rightarrow> db \<Rightarrow> application_doc list result" where
  "client_review u d =
     (let pids = map p_id (filter (\<lambda>p. client p = u_id u) (projects d))
      in if pids = [] then Inr []
         else Inr (by_date_desc (filter (\<lambda>a. project a \<in> set pids) (applications d))))"

subsection \<open>Setting the status of an application\<close>

text \<open>
  The side effects of accepting (lines 285--293): \<open>Application.updateMany\<close>
  rejects the other pending applications of the project, then the populated
  project is assigned to the freelancer and saved.
\<close>

definition reject_other_pending :: "oid \<Rightarrow> oid \<Rightarrow> application_doc list \<Rightarrow> application_doc list" where
  "reject_other_pending pid aid =
     update_where (\<lambda>x. project x = pid \<and> a_id x \<noteq> aid \<and> a_status x = Pending)
       (\<lambda>x. x\<lparr>a_status := Rejected\<rparr>)"

definition assign_project :: "oid \<Rightarrow> project_doc \<Rightarrow> project_doc" where
  "assign_project fid p = p\<lparr>assignedTo := Some fid, p_status := Assigned\<rparr>"

definition accept_effects :: "oid \<Rightarrow> application_doc \<Rightarrow> project_doc \<Rightarrow> db \<Rightarrow> db" where
  "accept_effects aid a p d =
     (let d1 = d\<lparr>applications := reject_other_pending (p_id p) aid (applications d)\<rparr>
      in d1\<lparr>projects := save_by p_id (assign_project (freelancer a) p) (projects d1)\<rparr>)"

text \<open>
  \<open>PUT /api/applications/:id/status\<close>. The requested status is a string of
  the request body; it is compared with \<open>'accepted'\<close>, and stored by
  \<open>application.save()\<close>, whose enum validator rejects a string outside the
  four statuses (the \<open>ValidationError\<close> has no \<open>kind\<close>, so the \<open>catch\<close>
  answers 500). The handler does not look at the application's current status.
\<close>

definition update_application_status ::
  "user_doc \<Rightarrow> rid \<Rightarrow> string \<Rightarrow> db \<Rightarrow> application_doc result \<times> db" where
  "update_application_status u r st d =
     (case r of
        Malformed \<Rightarrow> (Inl (HttpError 400 ''Invalid Application ID.''), d)
      | ObjId aid \<Rightarrow>
          (case find_by a_id aid (applications d) of
             None \<Rightarrow> (Inl (HttpError 404 ''Application not found.''), d)
           | Some a \<Rightarrow>
               (case find_by p_id (project a) (projects d) of
                  None \<Rightarrow> (Inl (HttpError 403 ''Not authorized to update this application.''), d)
                | Some p \<Rightarrow>
                    (if client p \<noteq> u_id u \<and> role u \<noteq> Admin
                     then (Inl (HttpError 403 ''Not authorized to update this application.''), d)
                     else if p_status p = Completed
                     then (Inl (HttpError 400 ''Cannot change application status for a completed project.''), d)
                     else if st = ''accepted'' \<and> assignedTo p \<noteq> None
                     then (Inl (HttpError 400 ''Project is already assigned to a freelancer.''), d)
                     else
                       (let d1 = (if st = ''accepted'' then accept_effects aid a p d else d)
                        in (case application_status_of st of
                              None \<Rightarrow> (Inl (HttpError 500 ''Server error: Could not update application status.''), d1)
                            | Some s \<Rightarrow>
                                (Inr (a\<lparr>a_status := s\<rparr>),
                                 d1\<lparr>applications := save_by a_id (a\<lparr>a_status := s\<rparr>) (applications d1)\<rparr>)))))))"

subsection \<open>Deleting an application\<close>

text \<open>
  \<open>DELETE /api/applications/:id\<close>: a withdrawal is a hard delete, allowed to
  the freelancer who applied and to an admin, whatever the status.
\<close>

definition delete_application :: "user_doc \<Rightarrow> rid \<Rightarrow> db \<Rightarrow> unit result \<times> db" where
  "delete_application u r d =
     (case r of
        Malformed \<Rightarrow> (Inl (HttpError 400 ''Invalid application ID.''), d)
      | ObjId aid \<Rightarrow>
          (case find_by a_id aid (applications d) of
             None \<Rightarrow> (Inl (HttpError 404 ''Application not found.''), d)
           | Some a \<Rightarrow>
               (if freelancer a \<noteq> u_id u \<and> role u \<noteq> Admin
                then (Inl (HttpError 403 ''Not authorized to delete this application.''), d)
                else (Inr (), d\<lparr>applications := delete_where (\<lambda>x. a_id x = aid) (applications d)\<rparr>))))"

subsection \<open>The routes\<close>

text \<open>
  \<open>router.METHOD(path, protect, authorizeRoles(...), handler)\<close>: each
  handler behind its middleware, as \<open>route\<close> composes them. The read views
  change nothing.
\<close>

definition api_submit_application ::
  "(string \<Rightarrow> oid option) \<Rightarrow> string option \<Rightarrow> apply_body \<Rightarrow> db \<Rightarrow> application_doc result \<times> db" where
  "api_submit_application verify hdr b d =
     route verify (Some [Freelancer]) (\<lambda>u. submit_application u b) d hdr"

definition api_project_applications ::
  "(string \<Rightarrow> oid option) \<Rightarrow> string option \<Rightarrow> rid \<Rightarrow> db \<Rightarrow> application_doc list result \<times> db" where
  "api_project_applications verify hdr r d =
     route verify None (\<lambda>u d. (project_applications u r d, d)) d hdr"

definition api_my_applications ::
  "(string \<Rightarrow> oid option) \<Rightarrow> string option \<Rightarrow> db \<Rightarrow> application_doc list result \<times> db" where
  "api_my_applications verify hdr d =
     route verify (Some [Freelancer]) (\<lambda>u d. (my_applications u d, d)) d hdr"

definition api_client_review ::
  "(string \<Rightarrow> oid option) \<Rightarrow> string option \<Rightarrow> db \<Rightarrow> application_doc list result \<times> db" where
  "api_client_review verify hdr d =
     route verify (Some [Client]) (\<lambda>u d. (client_review u d, d)) d hdr"

definition api_update_application_status ::
  "(string \<Rightarrow> oid option) \<Rightarrow> string option \<Rightarrow> rid \<Rightarrow> string \<Rightarrow> db \<Rightarrow> application_doc result \<times> db" where
  "api_update_application_status verify hdr r st d =
     route verify (Some [Client, Admin]) (\<lambda>u. update_application_status u r st) d hdr"

definition api_delete_application ::
  "(string \<Rightarrow> oid option) \<Rightarrow> string option \<Rightarrow> rid \<Rightarrow> db \<Rightarrow> unit result \<times> db" where
  "api_delete_application verify hdr r d =
     route verify (Some [Freelancer, Admin]) (\<lambda>u. delete_application u r) d hdr"

subsection \<open>A small database used by the witnesses\<close>

definition demo_client :: user_doc where
  "demo_client = \<lparr>u_id = 0, username = ''carol'', email = ''carol@example.com'', password = ''h0'',
                  role = Client, u_createdAt = 0\<rparr>"

definition demo_f1 :: user_doc where
  "demo_f1 = \<lparr>u_id = 1, username = ''fred'', email = ''fred@example.com'', password = ''h1'',
              role = Freelancer, u_createdAt = 0\<rparr>"

definition demo_f2 :: user_doc where
  "demo_f2 = \<lparr>u_id = 2, username = ''fay'', email = ''fay@example.com'', password = ''h2'',
              role = Freelancer, u_createdAt = 0\<rparr>"

definition demo_project :: project_doc where
  "demo_project = \<lparr>p_id = 3, client = 0, title = ''Logo'', description = ''A logo'', budget = ''500'',
                   p_status = Open, skillsRequired = [''design''], assignedTo = None, assignedAt = None\<rparr>"

definition demo_a1 :: application_doc where
  "demo_a1 = \<lparr>a_id = 4, project = 3, freelancer = 1, bidAmount = 500, coverLetter = ''hire me'',
              a_status = Pending, applicationDate = 1\<rparr>"

definition demo_a2 :: application_doc where
  "demo_a2 = \<lparr>a_id = 5, project = 3, freelancer = 2, bidAmount = 400, coverLetter = ''me too'',
              a_status = Pending, applicationDate = 2\<rparr>"

definition demo_db :: db where
  "demo_db = \<lparr>users = [demo_client, demo_f1, demo_f2], projects = [demo_project],
              applications = [demo_a1, demo_a2], messages = [], next_oid = 6, now = 3\<rparr>"

lemmas demo_defs = demo_client_def demo_f1_def demo_f2_def demo_project_def demo_a1_def
  demo_a2_def demo_db_def

subsection \<open>Lemmas\<close>

lemma set_reject_other_pending:
  "x \<in> set (reject_other_pending pid aid as) \<longleftrightarrow>
   (\<exists>y\<in>set as. x = (if project y = pid \<and> a_id y \<noteq> aid \<and> a_status y = Pending
                     then y\<lparr>a_status := Rejected\<rparr> else y))"
  by (simp add: reject_other_pending_def set_update_where)

lemma map_reject_other_pending:
  "map g (reject_other_pending pid aid as) = map g as"
  if "\<And>x. g (x\<lparr>a_status := Rejected\<rparr>) = g x"
  using that by (simp add: reject_other_pending_def map_update_where)

text \<open>The three outcomes of a request on a stored application and its project.\<close>

lemma update_status_eq:
  assumes "find_by a_id aid (applications d) = Some a"
    and "find_by p_id (project a) (projects d) = Some p"
  shows "update_application_status u (ObjId aid) st d =
    (if client p \<noteq> u_id u \<and> role u \<noteq> Admin
     then (Inl (HttpError 403 ''Not authorized to update this application.''), d)
     else if p_status p = Completed
     then (Inl (HttpError 400 ''Cannot change application status for a completed project.''), d)
     else if st = ''accepted'' \<and> assignedTo p \<noteq> None
     then (Inl (HttpError 400 ''Project is already assigned to a freelancer.''), d)
     else
       (let d1 = (if st = ''accepted'' then accept_effects aid a p d else d)
        in (case application_status_of st of
              None \<Rightarrow> (Inl (HttpError 500 ''Server error: Could not update application status.''), d1)
            | Some s \<Rightarrow>
                (Inr (a\<lparr>a_status := s\<rparr>),
                 d1\<lparr>applications := save_by a_id (a\<lparr>a_status := s\<rparr>) (applications d1)\<rparr>))))"
  using assms by (simp add: update_application_status_def)

lemma update_status_accept_eq:
  assumes "find_by a_id aid (applications d) = Some a"
    and "find_by p_id (project a) (projects d) = Some p"
    and "client p = u_id u \<or> role u = Admin"
    and "p_status p \<noteq> Completed" and "assignedTo p = None"
  shows "update_application_status u (ObjId aid) ''accepted'' d =
           (Inr (a\<lparr>a_status := Accepted\<rparr>),
            d\<lparr>applications := save_by a_id (a\<lparr>a_status := Accepted\<rparr>)
                               (reject_other_pending (p_id p) aid (applications d)),
              projects := save_by p_id (assign_project (freelancer a) p) (projects d)\<rparr>)"
  using assms
  by (auto simp: update_status_eq accept_effects_def application_status_of_def Let_def)

lemma submit_eq:
  assumes "0 < x"
  shows "submit_application u \<lparr>projectId = Some (ObjId pid), bid_in = Number x, cover_in = Some cl\<rparr> d =
    (if pair_taken pid (u_id u) (applications d)
     then (Inl (HttpError 400 ''You have already applied for this project.''), d)
     else (case find_by p_id pid (projects d) of
             None \<Rightarrow> (Inl (HttpError 404 ''Project not found or may have been deleted.''), d)
           | Some p \<Rightarrow>
               (if p_status p \<noteq> Open
                then (Inl (HttpError 400
                        (''This project is not currently open for applications. Current status: ''
                         @ project_status_str (p_status p))), d)
                else (case insert_application pid (u_id u) x cl d of
                        Inl e \<Rightarrow> (Inl (submit_catch e), d)
                      | Inr (a, d') \<Rightarrow> (Inr a, d')))))"
  using assms by (simp add: submit_application_def)

lemma delete_eq:
  assumes "find_by a_id aid (applications d) = Some a"
  shows "delete_application u (ObjId aid) d =
    (if freelancer a \<noteq> u_id u \<and> role u \<noteq> Admin
     then (Inl (HttpError 403 ''Not authorized to delete this application.''), d)
     else (Inr (), d\<lparr>applications := delete_where (\<lambda>x. a_id x = aid) (applications d)\<rparr>))"
  using assms by (simp add: delete_application_def)

lemma pair_reject_other_pending [simp]:
  "map (\<lambda>a. (project a, freelancer a)) (reject_other_pending pid aid as) =
   map (\<lambda>a. (project a, freelancer a)) as"
  by (simp add: map_reject_other_pending)

subsection \<open>The handlers keep the database well-formed\<close>

lemma accept_effects_inv:
  "db_inv d \<Longrightarrow> db_inv (accept_effects aid a p d)"
  unfolding accept_effects_def Let_def
  by (intro db_inv_projects_cong db_inv_applications_cong)
     (simp_all add: map_save_by map_reject_other_pending)

lemma accept_effects_keeps:
  "a \<in> set (applications d) \<Longrightarrow> a_id a = aid \<Longrightarrow> a \<in> set (applications (accept_effects aid a p d))"
  unfolding accept_effects_def Let_def reject_other_pending_def
  by (simp add: update_where_keep)

lemma update_status_found_inv:
  assumes "db_inv d" and fa: "find_by a_id aid (applications d) = Some a"
    and fp: "find_by p_id (project a) (projects d) = Some p"
  shows "db_inv (snd (update_application_status u (ObjId aid) st d))"
proof -
  from fa have a: "a \<in> set (applications d)" "a_id a = aid" by (auto dest: find_by_Some)
  show ?thesis
  proof (cases "st = ''accepted''")
    case True
    have "db_inv ((accept_effects aid a p d)\<lparr>applications :=
            save_by a_id (a\<lparr>a_status := Accepted\<rparr>) (applications (accept_effects aid a p d))\<rparr>)"
      by (rule db_inv_save_status [OF accept_effects_inv [OF assms(1)] accept_effects_keeps [OF a]])
    with True assms(1) show ?thesis
      by (simp add: update_status_eq [OF fa fp] application_status_of_def Let_def)
  next
    case False
    have "\<And>s. db_inv (d\<lparr>applications := save_by a_id (a\<lparr>a_status := s\<rparr>) (applications d)\<rparr>)"
      by (rule db_inv_save_status [OF assms(1) a(1)])
    with False assms(1) show ?thesis
      by (simp add: update_status_eq [OF fa fp] split: option.split)
  qed
qed

lemma update_application_status_inv:
  assumes "db_inv d"
  shows "db_inv (snd (update_application_status u r st d))"
proof (cases r)
  case Malformed
  with assms show ?thesis by (simp add: update_application_status_def)
next
  case (ObjId aid)
  show ?thesis
  proof (cases "find_by a_id aid (applications d)")
    case None
    with ObjId assms show ?thesis by (simp add: update_application_status_def)
  next
    case (Some a)
    show ?thesis
    proof (cases "find_by p_id (project a) (projects d)")
      case None
      with ObjId Some assms show ?thesis by (simp add: update_application_status_def)
    next
      case (Some p)
      with ObjId \<open>find_by a_id aid (applications d) = Some a\<close> assms show ?thesis
        by (simp add: update_status_found_inv)
    qed
  qed
qed

lemma delete_application_inv:
  "db_inv d \<Longrightarrow> db_inv (snd (delete_application u r d))"
  by (simp add: delete_application_def db_inv_delete_applications split: rid.split option.split)

lemma submit_application_outcome:
  "snd (submit_application u b d) = d \<or>
   (\<exists>pid x cl a. insert_application pid (u_id u) x cl d = Inr (a, snd (submit_application u b d)))"
  unfolding submit_application_def
  by (auto split: option.split prod.split sum.split rid.split)

lemma submit_application_inv:
  "db_inv d \<Longrightarrow> db_inv (snd (submit_application u b d))"
  by (metis submit_application_outcome insert_application_inv)

subsection \<open>Properties of the workflow\<close>

text \<open>
  C1. Accepting a pending application of a project that is not completed and
  not yet assigned, by the project's client or an admin, succeeds: the project
  is assigned to the applicant with status \<open>assigned\<close>, the application is
  accepted, every other application of the project is no longer pending, the
  other applications of the project that were already decided are untouched,
  no application of another project changes, and no application is created or
  removed.
\<close>

theorem accept_application:
  assumes "find_by a_id aid (applications d) = Some a"
    and "find_by p_id (project a) (projects d) = Some p"
    and "client p = u_id u \<or> role u = Admin"
    and "p_status p \<noteq> Completed" and "assignedTo p = None"
  shows "\<exists>d'. update_application_status u (ObjId aid) ''accepted'' d = (Inr (a\<lparr>a_status := Accepted\<rparr>), d') \<and>
     find_by p_id (project a) (projects d') =
       Some (p\<lparr>assignedTo := Some (freelancer a), p_status := Assigned\<rparr>) \<and>
     (\<forall>x\<in>set (applications d'). a_id x = aid \<longrightarrow> a_status x = Accepted) \<and>
     (\<forall>x\<in>set (applications d'). project x = project a \<and> a_id x \<noteq> aid \<longrightarrow> a_status x \<noteq> Pending) \<and>
     (\<forall>x\<in>set (applications d). project x = project a \<and> a_id x \<noteq> aid \<and> a_status x \<noteq> Pending \<longrightarrow>
        x \<in> set (applications d')) \<and>
     (\<forall>x\<in>set (applications d'). project x \<noteq> project a \<longrightarrow> x \<in> set (applications d)) \<and>
     map a_id (applications d') = map a_id (applications d)"
proof -
  let ?a' = "a\<lparr>a_status := Accepted\<rparr>"
  let ?rs = "reject_other_pending (p_id p) aid (applications d)"
  let ?d' = "d\<lparr>applications := save_by a_id ?a' ?rs,
               projects := save_by p_id (assign_project (freelancer a) p) (projects d)\<rparr>"
  from assms(1) have a: "a \<in> set (applications d)" "a_id a = aid" by (auto dest: find_by_Some)
  from assms(2) have p: "p \<in> set (projects d)" "p_id p = project a" by (auto dest: find_by_Some)
  have "find_by p_id (project a) (projects ?d') =
      Some (p\<lparr>assignedTo := Some (freelancer a), p_status := Assigned\<rparr>)"
  proof -
    from p have "project a \<in> p_id ` set (projects d)" by force
    then show ?thesis
      using find_by_save_by [of p_id "assign_project (freelancer a) p" "projects d"] p
      by (simp add: assign_project_def)
  qed
  moreover have "\<forall>x\<in>set (applications ?d'). a_id x = aid \<longrightarrow> a_status x = Accepted"
    using a by (auto dest!: set_save_by)
  moreover have "\<forall>x\<in>set (applications ?d'). project x = project a \<and> a_id x \<noteq> aid \<longrightarrow> a_status x \<noteq> Pending"
    using a p
    by (auto dest!: set_save_by simp: set_reject_other_pending a_status_update_self split: if_splits)
  moreover have "\<forall>x\<in>set (applications d). project x = project a \<and> a_id x \<noteq> aid \<and> a_status x \<noteq> Pending \<longrightarrow>
        x \<in> set (applications ?d')"
  proof (intro ballI impI)
    fix x assume x: "x \<in> set (applications d)"
      and c: "project x = project a \<and> a_id x \<noteq> aid \<and> a_status x \<noteq> Pending"
    then have "x \<in> set ?rs"
      unfolding reject_other_pending_def by (intro update_where_keep) auto
    with c a show "x \<in> set (applications ?d')"
      by (simp add: save_by_keep)
  qed
  moreover have "\<forall>x\<in>set (applications ?d'). project x \<noteq> project a \<longrightarrow> x \<in> set (applications d)"
    using a p by (auto dest!: set_save_by simp: set_reject_other_pending)
  moreover have "map a_id (applications ?d') = map a_id (applications d)"
    by (simp add: map_save_by map_reject_other_pending)
  ultimately show ?thesis
    using update_status_accept_eq [OF assms] by blast
qed

theorem accept_application_witness:
  "\<exists>d'. update_application_status demo_client (ObjId 4) ''accepted'' demo_db =
         (Inr (demo_a1\<lparr>a_status := Accepted\<rparr>), d') \<and>
       find_by p_id 3 (projects d') = Some (demo_project\<lparr>assignedTo := Some 1, p_status := Assigned\<rparr>) \<and>
       (\<forall>x\<in>set (applications d'). project x = 3 \<and> a_id x \<noteq> 4 \<longrightarrow> a_status x \<noteq> Pending)"
proof -
  have h1: "find_by a_id 4 (applications demo_db) = Some demo_a1"
    and h2: "find_by p_id (project demo_a1) (projects demo_db) = Some demo_project"
    and h3: "client demo_project = u_id demo_client \<or> role demo_client = Admin"
    and h4: "p_status demo_project \<noteq> Completed" and h5: "assignedTo demo_project = None"
    by (simp_all add: demo_defs find_by_def)
  have e: "project demo_a1 = 3" "freelancer demo_a1 = 1" by (simp_all add: demo_a1_def)
  show ?thesis
    using accept_application [OF h1 h2 h3 h4 h5] unfolding e by blast
qed

text \<open>
  C2. Whoever asks and whatever status is asked for, a status change on an
  application whose project is completed fails and leaves the database as it
  was.
\<close>

theorem completed_project_frozen:
  assumes "find_by a_id aid (applications d) = Some a"
    and "find_by p_id (project a) (projects d) = Some p"
    and "p_status p = Completed"
  shows "\<exists>e. update_application_status u (ObjId aid) st d = (Inl e, d)"
  using assms by (simp add: update_status_eq)

theorem completed_project_frozen_witness:
  "\<exists>e. update_application_status demo_client (ObjId 4) ''accepted''
          (demo_db\<lparr>projects := [demo_project\<lparr>p_status := Completed\<rparr>]\<rparr>) =
        (Inl e, demo_db\<lparr>projects := [demo_project\<lparr>p_status := Completed\<rparr>]\<rparr>)"
  by (rule completed_project_frozen [where a = demo_a1 and p = "demo_project\<lparr>p_status := Completed\<rparr>"])
     (simp_all add: demo_defs find_by_def)

text \<open>
  C3. An accept request for an application whose project is already assigned
  fails, for every requester, and changes nothing.
\<close>

theorem accept_assigned_project_fails:
  assumes "find_by a_id aid (applications d) = Some a"
    and "find_by p_id (project a) (projects d) = Some p"
    and "assignedTo p \<noteq> None"
  shows "\<exists>e. update_application_status u (ObjId aid) ''accepted'' d = (Inl e, d)"
  using assms by (simp add: update_status_eq)

theorem accept_assigned_project_fails_witness:
  "\<exists>e. update_application_status demo_client (ObjId 5) ''accepted''
          (demo_db\<lparr>projects := [demo_project\<lparr>assignedTo := Some 1, p_status := Assigned\<rparr>]\<rparr>) =
        (Inl e, demo_db\<lparr>projects := [demo_project\<lparr>assignedTo := Some 1, p_status := Assigned\<rparr>]\<rparr>)"
  by (rule accept_assigned_project_fails [where a = demo_a2
        and p = "demo_project\<lparr>assignedTo := Some 1, p_status := Assigned\<rparr>"])
     (simp_all add: demo_defs find_by_def)

text \<open>
  C4. A freelancer's first application to an open project, with a positive
  bid and a cover letter, is stored as a new pending application with a fresh
  identifier; nothing else changes, so the project stays open.
\<close>

theorem submit_first_application:
  assumes "find_by p_id pid (projects d) = Some p" and "p_status p = Open"
    and "\<not> pair_taken pid (u_id u) (applications d)" and "0 < x" and "cl \<noteq> []"
  shows "\<exists>a. submit_application u \<lparr>projectId = Some (ObjId pid), bid_in = Number x, cover_in = Some cl\<rparr> d =
              (Inr a, d\<lparr>applications := applications d @ [a], next_oid := Suc (next_oid d)\<rparr>) \<and>
            a_status a = Pending \<and> project a = pid \<and> freelancer a = u_id u \<and> bidAmount a = x \<and>
            coverLetter a = cl \<and> a_id a = next_oid d"
proof -
  let ?a = "\<lparr>a_id = next_oid d, project = pid, freelancer = u_id u, bidAmount = x,
             coverLetter = cl, a_status = Pending, applicationDate = now d\<rparr>"
  have "insert_application pid (u_id u) x cl d =
          Inr (?a, d\<lparr>applications := applications d @ [?a], next_oid := Suc (next_oid d)\<rparr>)"
    using assms(3-5) by (simp add: insert_application_Inr)
  with assms show ?thesis by (simp add: submit_eq)
qed

theorem submit_first_application_witness:
  "\<exists>a. submit_application demo_f1 \<lparr>projectId = Some (ObjId 3), bid_in = Number 500, cover_in = Some ''hire me''\<rparr>
          (demo_db\<lparr>applications := []\<rparr>) =
        (Inr a, demo_db\<lparr>applications := [a], next_oid := 7\<rparr>) \<and> a_status a = Pending"
proof -
  have h: "find_by p_id 3 (projects (demo_db\<lparr>applications := []\<rparr>)) = Some demo_project"
    "p_status demo_project = Open" "\<not> pair_taken 3 (u_id demo_f1) (applications (demo_db\<lparr>applications := []\<rparr>))"
    "(0::real) < 500" "''hire me'' \<noteq> []"
    by (simp_all add: demo_defs find_by_def pair_taken_def)
  show ?thesis
    using submit_first_application [OF h] by (simp add: demo_db_def) blast
qed

text \<open>
  C5. A second application of the same freelancer to the same project is
  refused before the project is even looked up, with status 400 (the spec
  promises a Conflict; 409 is only answered when the unique index trips), and
  the database is unchanged.
\<close>

theorem submit_duplicate_rejected:
  assumes "pair_taken pid (u_id u) (applications d)" and "0 < x"
  shows "submit_application u \<lparr>projectId = Some (ObjId pid), bid_in = Number x, cover_in = Some cl\<rparr> d =
           (Inl (HttpError 400 ''You have already applied for this project.''), d)"
  using assms by (simp add: submit_eq)

theorem submit_duplicate_rejected_witness:
  "submit_application demo_f1 \<lparr>projectId = Some (ObjId 3), bid_in = Number 300, cover_in = Some ''again''\<rparr> demo_db =
     (Inl (HttpError 400 ''You have already applied for this project.''), demo_db)"
proof -
  have "pair_taken 3 (u_id demo_f1) (applications demo_db)" "(0::real) < 300"
    by (simp_all add: demo_defs pair_taken_def)
  then show ?thesis by (rule submit_duplicate_rejected)
qed

text \<open>
  Rejecting an application of a project that is not completed, by its
  client or an admin, stores the rejection and leaves every project as it was
  (also when the application had been accepted: the project stays assigned to
  that freelancer), and no other application changes.
\<close>

theorem reject_application:
  assumes "find_by a_id aid (applications d) = Some a"
    and "find_by p_id (project a) (projects d) = Some p"
    and "client p = u_id u \<or> role u = Admin" and "p_status p \<noteq> Completed"
  shows "\<exists>d'. update_application_status u (ObjId aid) ''rejected'' d = (Inr (a\<lparr>a_status := Rejected\<rparr>), d') \<and>
           projects d' = projects d \<and> map a_id (applications d') = map a_id (applications d) \<and>
           (\<forall>x\<in>set (applications d'). a_id x \<noteq> aid \<longrightarrow> x \<in> set (applications d))"
  using assms find_by_Some [OF assms(1)]
  by (auto simp: update_status_eq application_status_of_def map_save_by dest!: set_save_by)

theorem reject_application_witness:
  "\<exists>d'. update_application_status demo_client (ObjId 5) ''rejected'' demo_db =
         (Inr (demo_a2\<lparr>a_status := Rejected\<rparr>), d') \<and> projects d' = projects demo_db"
proof -
  have h: "find_by a_id 5 (applications demo_db) = Some demo_a2"
    "find_by p_id (project demo_a2) (projects demo_db) = Some demo_project"
    "client demo_project = u_id demo_client \<or> role demo_client = Admin"
    "p_status demo_project \<noteq> Completed"
    by (simp_all add: demo_defs find_by_def)
  show ?thesis using reject_application [OF h] by blast
qed

text \<open>
  C7. The freelancer who applied, or an admin, withdraws an application by
  deleting it: exactly that application disappears, whatever its status, and
  projects and users are unchanged (an accepted application's project stays
  assigned).
\<close>

theorem withdraw_application:
  assumes "db_inv d" and "find_by a_id aid (applications d) = Some a"
    and "freelancer a = u_id u \<or> role u = Admin"
  shows "\<exists>d'. delete_application u (ObjId aid) d = (Inr (), d') \<and>
           set (applications d') = set (applications d) - {a} \<and>
           projects d' = projects d \<and> users d' = users d"
proof -
  from assms(2) have a: "a \<in> set (applications d)" "a_id a = aid" by (auto dest: find_by_Some)
  from assms(1) have "distinct (map a_id (applications d))" by (simp add: db_inv_def ids_ok_def)
  with a have "set (delete_where (\<lambda>x. a_id x = aid) (applications d)) = set (applications d) - {a}"
    by (auto simp: set_delete_where dest: distinct_key_eq)
  with assms(2,3) show ?thesis by (auto simp: delete_eq)
qed

theorem withdraw_application_witness:
  "\<exists>d'. delete_application demo_f1 (ObjId 4) demo_db = (Inr (), d') \<and>
        set (applications d') = {demo_a2}"
proof -
  have h: "db_inv demo_db" "find_by a_id 4 (applications demo_db) = Some demo_a1"
    "freelancer demo_a1 = u_id demo_f1 \<or> role demo_f1 = Admin"
    by (simp_all add: demo_defs find_by_def db_inv_def ids_ok_def pairs_unique_def)
  have "set (applications demo_db) - {demo_a1} = {demo_a2}"
    by (simp add: demo_defs)
  then show ?thesis using withdraw_application [OF h] by auto
qed

text \<open>
  C8. A \<open>DELETE /api/applications/:id\<close> request by an authenticated user who
  neither submitted the application nor is an admin is refused with 403 and
  changes nothing: a client is stopped by \<open>authorizeRoles\<close>, another
  freelancer by the handler.
\<close>

theorem withdraw_by_other_forbidden:
  assumes "protect verify d hdr = Inr u" and "find_by a_id aid (applications d) = Some a"
    and "freelancer a \<noteq> u_id u" and "role u \<noteq> Admin"
  shows "\<exists>e. api_delete_application verify hdr (ObjId aid) d = (Inl e, d) \<and> err_code e = 403"
proof (cases "role u \<in> set [Freelancer, Admin]")
  case True
  with assms show ?thesis by (simp add: api_delete_application_def route_runs_handler delete_eq)
next
  case False
  with assms(1) show ?thesis
    by (simp add: api_delete_application_def route_def authorize_roles_def)
qed

theorem withdraw_by_other_forbidden_witness:
  "\<exists>e. api_delete_application (\<lambda>t. if t = ''tok2'' then Some 2 else None) (Some ''Bearer tok2'')
          (ObjId 4) demo_db = (Inl e, demo_db) \<and> err_code e = 403"
proof -
  have h: "protect (\<lambda>t. if t = ''tok2'' then Some 2 else None) demo_db (Some ''Bearer tok2'') = Inr demo_f2"
    "find_by a_id 4 (applications demo_db) = Some demo_a1"
    "freelancer demo_a1 \<noteq> u_id demo_f2" "role demo_f2 \<noteq> Admin"
    by (simp_all add: demo_defs find_by_def protect_def starts_with_def js_split_def)
  then show ?thesis by (rule withdraw_by_other_forbidden)
qed

end
