(* ===== verification/Projects.thy ===== *)
theory Projects
  imports Applications
begin

text \<open>
  The project routes of \<open>server/routes/projectRoutes.js\<close>: a client posts a
  project (\<open>create_project\<close>); projects are listed for browsing
  (\<open>all_projects\<close>), for their client (\<open>my_posted_projects\<close>) and for the
  assigned freelancer (\<open>freelancer_working_projects\<close>), read one by one
  (\<open>get_project\<close>), edited (\<open>update_project\<close>, which may also set
  \<open>assignedTo\<close>), given a status directly (\<open>update_project_status\<close>, which
  runs none of the workflow's checks) and deleted with their applications
  (\<open>delete_project\<close>). Query strings such as \<open>?status=open,assigned\<close> are
  split at commas and trimmed, as the handlers do.
\<close>

subsection \<open>Creating a project\<close>

record project_body =
  pb_title :: string
  pb_description :: string
  pb_budget :: string
  pb_skills :: "string list option"

definition create_project :: "user_doc \<Rightarrow> project_body \<Rightarrow> db \<Rightarrow> project_doc result \<times> db" where
  "create_project u b d =
     (if pb_title b = [] \<or> pb_description b = [] \<or> pb_budget b = []
      then (Inl (HttpError 400 ''Please enter all required fields: title, description, and budget.''), d)
      else (case insert_project (u_id u) (pb_title b) (pb_description b) (pb_budget b)
                   (case pb_skills b of None \<Rightarrow> [] | Some sk \<Rightarrow> sk) d of
              Inl (ValidationError ms) \<Rightarrow>
                (Inl (HttpError 400 (''Validation failed: '' @ js_join '', '' ms)), d)
            | Inl _ \<Rightarrow> (Inl (HttpError 500 ''Server error: Could not post project.''), d)
            | Inr (p, d') \<Rightarrow> (Inr p, d')))"

subsection \<open>Listing projects\<close>

text \<open>A reference \<open>populate\<close> resolves: the user it names exists.\<close>

definition user_exists :: "db \<Rightarrow> oid \<Rightarrow> bool" where
  "user_exists d i \<longleftrightarrow> find_by u_id i (users d) \<noteq> None"

text \<open>
  \<open>GET /api/projects\<close>: every project whose client still exists, except those
  marked \<open>assigned\<close> whose \<open>assignedTo\<close> is empty or names a deleted user.
\<close>

definition all_projects :: "db \<Rightarrow> project_doc list" where
  "all_projects d =
     filter (\<lambda>p. user_exists d (client p) \<and>
                 \<not> (p_status p = Assigned \<and>
                    (case assignedTo p of None \<Rightarrow> True | Some f \<Rightarrow> \<not> user_exists d f)))
       (projects d)"

text \<open>\<open>status.split(',').map(s => s.trim())\<close>.\<close>

definition status_list :: "string \<Rightarrow> string list" where
  "status_list s = map js_trim (js_split CHR '','' s)"

definition status_matches :: "string \<Rightarrow> project_doc \<Rightarrow> bool" where
  "status_matches q p \<longleftrightarrow> project_status_str (p_status p) \<in> set (status_list q)"

text \<open>\<open>GET /api/projects/my-posted-projects?status=...\<close> (an empty query filters nothing).\<close>

definition my_posted_projects :: "user_doc \<Rightarrow> string \<Rightarrow> db \<Rightarrow> project_doc list" where
  "my_posted_projects u q d =
     filter (\<lambda>p. user_exists d (client p))
       (filter (\<lambda>p. client p = u_id u \<and> (q = [] \<or> status_matches q p)) (projects d))"

text \<open>
  \<open>GET /api/projects/freelancer-working-projects/:freelancerId?status=...\<close>:
  a freelancer may only ask for their own projects (401 otherwise, also for a
  malformed identifier, which never equals theirs); without a query the
  statuses \<open>assigned\<close> and \<open>in progress\<close> are meant.
\<close>

definition freelancer_working_projects ::
  "user_doc \<Rightarrow> rid \<Rightarrow> string \<Rightarrow> db \<Rightarrow> project_doc list result" where
  "freelancer_working_projects u r q d =
     (if role u = Freelancer \<and> r \<noteq> ObjId (u_id u)
      then Inl (HttpError 401 ''Not authorized to view these projects.'')
      else (case r of
              Malformed \<Rightarrow> Inl (HttpError 400 ''Invalid Freelancer ID format.'')
            | ObjId f \<Rightarrow>
                Inr (filter (\<lambda>p. user_exists d (client p) \<and> user_exists d f)
                       (filter (\<lambda>p. assignedTo p = Some f \<and>
                                    (if q = [] then p_status p \<in> {Assigned, InProgress}
                                     else status_matches q p))
                          (projects d)))))"

text \<open>\<open>GET /api/projects/:id\<close>: any authenticated user may read any project.\<close>

definition get_project :: "rid \<Rightarrow> db \<Rightarrow> project_doc result" where
  "get_project r d =
     (case r of
        Malformed \<Rightarrow> Inl (HttpError 400 ''Invalid Project ID format.'')
      | ObjId pid \<Rightarrow>
          (case find_by p_id pid (projects d) of
             None \<Rightarrow> Inl (HttpError 404 ''Project not found'')
           | Some p \<Rightarrow>
               (if \<not> user_exists d (client p)
                then Inl (HttpError 404 ''Project found but client data is missing or invalid.'')
                else Inr p)))"

subsection \<open>Editing a project\<close>

text \<open>
  The \<open>assignedTo\<close> field of a \<open>PUT /api/projects/:id\<close> body: absent, \<open>null\<close>,
  or an identifier string.
\<close>

datatype assign_in = AssignUndefined | AssignNull | AssignTo rid

record project_update =
  pu_title :: string
  pu_description :: string
  pu_budget :: string
  pu_skills :: "string list option"
  pu_assigned :: assign_in

text \<open>\<open>project.save()\<close> in \<open>PUT /api/projects/:id\<close>, with its \<open>catch\<close> block.\<close>

definition save_edited_project :: "project_doc \<Rightarrow> db \<Rightarrow> project_doc result \<times> db" where
  "save_edited_project p d =
     (case save_project p d of
        Inl (ValidationError ms) \<Rightarrow> (Inl (HttpError 400 (''Validation failed: '' @ js_join '', '' ms)), d)
      | Inl _ \<Rightarrow> (Inl (HttpError 500 ''Server error: Could not update project.''), d)
      | Inr d' \<Rightarrow> (Inr p, d'))"

text \<open>
  \<open>PUT /api/projects/:id\<close>: \<open>field || project.field\<close> keeps a field the body
  leaves empty (an empty string is falsy, an empty array is not); an
  \<open>assignedTo\<close> in the body is stored as it is, without touching the status
  or the applications.
\<close>

definition update_project :: "user_doc \<Rightarrow> rid \<Rightarrow> project_update \<Rightarrow> db \<Rightarrow> project_doc result \<times> db" where
  "update_project u r b d =
     (case r of
        Malformed \<Rightarrow> (Inl (HttpError 400 ''Invalid Project ID format.''), d)
      | ObjId pid \<Rightarrow>
          (case find_by p_id pid (projects d) of
             None \<Rightarrow> (Inl (HttpError 404 ''Project not found''), d)
           | Some p \<Rightarrow>
               (if client p \<noteq> u_id u \<and> role u \<noteq> Admin
                then (Inl (HttpError 401 ''Not authorized to update this project.''), d)
                else
                  (let p1 = p\<lparr>title := (if pu_title b = [] then title p else js_trim (pu_title b)),
                              description := (if pu_description b = [] then description p else pu_description b),
                              budget := (if pu_budget b = [] then budget p else pu_budget b),
                              skillsRequired := (case pu_skills b of None \<Rightarrow> skillsRequired p | Some sk \<Rightarrow> sk)\<rparr>
                   in (case pu_assigned b of
                         AssignTo Malformed \<Rightarrow> (Inl (HttpError 400 ''Invalid assignedTo user ID format.''), d)
                       | AssignTo (ObjId f) \<Rightarrow> save_edited_project (p1\<lparr>assignedTo := Some f\<rparr>) d
                       | AssignNull \<Rightarrow> save_edited_project (p1\<lparr>assignedTo := None\<rparr>) d
                       | AssignUndefined \<Rightarrow> save_edited_project p1 d)))))"

text \<open>
  \<open>PUT /api/projects/:id/status\<close>: the lower-cased status must be one of
  open, assigned, in progress and completed (not cancelled); it is stored as
  it is, whatever \<open>assignedTo\<close> and the applications say.
\<close>

definition update_project_status :: "user_doc \<Rightarrow> rid \<Rightarrow> string \<Rightarrow> db \<Rightarrow> project_doc result \<times> db" where
  "update_project_status u r st d =
     (case r of
        Malformed \<Rightarrow> (Inl (HttpError 400 ''Invalid Project ID format.''), d)
      | ObjId pid \<Rightarrow>
          (case find_by p_id pid (projects d) of
             None \<Rightarrow> (Inl (HttpError 404 ''Project not found.''), d)
           | Some p \<Rightarrow>
               (if client p \<noteq> u_id u \<and> role u \<noteq> Admin
                then (Inl (HttpError 403 ''Not authorized to update this project status.''), d)
                else if st \<noteq> [] \<and> js_lower st \<in> set [''open'', ''assigned'', ''in progress'', ''completed'']
                then (case project_status_of (js_lower st) of
                        None \<Rightarrow> (Inl (HttpError 500 ''Server error: Could not update project status.''), d)
                      | Some s \<Rightarrow>
                          (Inr (p\<lparr>p_status := s\<rparr>), d\<lparr>projects := save_by p_id (p\<lparr>p_status := s\<rparr>) (projects d)\<rparr>))
                else (Inl (HttpError 400 ''Invalid status provided. Allowed statuses: open, assigned, in progress, completed.''), d))))"

text \<open>
  \<open>DELETE /api/projects/:id\<close>: the project's applications first, then the
  project (its messages stay).
\<close>

definition delete_project :: "user_doc \<Rightarrow> rid \<Rightarrow> db \<Rightarrow> unit result \<times> db" where
  "delete_project u r d =
     (case r of
        Malformed \<Rightarrow> (Inl (HttpError 400 ''Invalid Project ID format.''), d)
      | ObjId pid \<Rightarrow>
          (case find_by p_id pid (projects d) of
             None \<Rightarrow> (Inl (HttpError 404 ''Project not found''), d)
           | Some p \<Rightarrow>
               (if client p \<noteq> u_id u \<and> role u \<noteq> Admin
                then (Inl (HttpError 401 ''Not authorized to delete this project.''), d)
                else
                  (let d1 = d\<lparr>applications := delete_where (\<lambda>a. project a = pid) (applications d)\<rparr>
                   in (Inr (), d1\<lparr>projects := delete_where (\<lambda>q. p_id q = pid) (projects d1)\<rparr>)))))"

subsection \<open>The routes\<close>

definition api_create_project ::
  "(string \<Rightarrow> oid option) \<Rightarrow> string option \<Rightarrow> project_body \<Rightarrow> db \<Rightarrow> project_doc result \<times> db" where
  "api_create_project verify hdr b d = route verify (Some [Client]) (\<lambda>u. create_project u b) d hdr"

definition api_all_projects ::
  "(string \<Rightarrow> oid option) \<Rightarrow> string option \<Rightarrow> db \<Rightarrow> project_doc list result \<times> db" where
  "api_all_projects verify hdr d =
     route verify (Some [Freelancer, Client, Admin]) (\<lambda>u d. (Inr (all_projects d), d)) d hdr"

definition api_my_posted_projects ::
  "(string \<Rightarrow> oid option) \<Rightarrow> string option \<Rightarrow> string \<Rightarrow> db \<Rightarrow> project_doc list result \<times> db" where
  "api_my_posted_projects verify hdr q d =
     route verify (Some [Client]) (\<lambda>u d. (Inr (my_posted_projects u q d), d)) d hdr"

definition api_freelancer_working_projects ::
  "(string \<Rightarrow> oid option) \<Rightarrow> string option \<Rightarrow> rid \<Rightarrow> string \<Rightarrow> db \<Rightarrow> project_doc list result \<times> db" where
  "api_freelancer_working_projects verify hdr r q d =
     route verify (Some [Freelancer, Admin]) (\<lambda>u d. (freelancer_working_projects u r q d, d)) d hdr"

definition api_get_project ::
  "(string \<Rightarrow> oid option) \<Rightarrow> string option \<Rightarrow> rid \<Rightarrow> db \<Rightarrow> project_doc result \<times> db" where
  "api_get_project verify hdr r d = route verify None (\<lambda>u d. (get_project r d, d)) d hdr"

definition api_update_project ::
  "(string \<Rightarrow> oid option) \<Rightarrow> string option \<Rightarrow> rid \<Rightarrow> project_update \<Rightarrow> db \<Rightarrow> project_doc result \<times> db" where
  "api_update_project verify hdr r b d = route verify (Some [Client, Admin]) (\<lambda>u. update_project u r b) d hdr"

definition api_update_project_status ::
  "(string \<Rightarrow> oid option) \<Rightarrow> string option \<Rightarrow> rid \<Rightarrow> string \<Rightarrow> db \<Rightarrow> project_doc result \<times> db" where
  "api_update_project_status verify hdr r st d =
     route verify (Some [Client, Admin]) (\<lambda>u. update_project_status u r st) d hdr"

definition api_delete_project ::
  "(string \<Rightarrow> oid option) \<Rightarrow> string option \<Rightarrow> rid \<Rightarrow> db \<Rightarrow> unit result \<times> db" where
  "api_delete_project verify hdr r d = route verify (Some [Client, Admin]) (\<lambda>u. delete_project u r) d hdr"

subsection \<open>Lemmas\<close>

lemma db_inv_delete_projects:
  "db_inv d \<Longrightarrow> db_inv (d\<lparr>projects := delete_where P (projects d)\<rparr>)"
  by (simp add: db_inv_def ids_ok_delete_where)

lemma save_project_inv:
  "db_inv d \<Longrightarrow> p_id p < next_oid d \<Longrightarrow> save_project p d = Inr d' \<Longrightarrow> db_inv d'"
  by (auto simp: save_project_def db_inv_def ids_ok_save_by split: if_splits)

lemma create_project_inv:
  "db_inv d \<Longrightarrow> db_inv (snd (create_project u b d))"
  by (auto simp: create_project_def insert_project_inv split: sum.split mongo_error.split prod.split)

lemma save_edited_project_inv:
  "db_inv d \<Longrightarrow> p_id p < next_oid d \<Longrightarrow> db_inv (snd (save_edited_project p d))"
  by (auto simp: save_edited_project_def dest: save_project_inv split: sum.split mongo_error.split)

lemma find_project_below:
  "db_inv d \<Longrightarrow> find_by p_id pid (projects d) = Some p \<Longrightarrow> p_id p < next_oid d"
  by (auto simp: db_inv_def ids_ok_def list_all_iff dest: find_by_Some)

lemma update_project_inv:
  assumes "db_inv d"
  shows "db_inv (snd (update_project u r b d))"
proof (cases r)
  case Malformed
  with assms show ?thesis by (simp add: update_project_def)
next
  case (ObjId pid)
  show ?thesis
  proof (cases "find_by p_id pid (projects d)")
    case None
    with ObjId assms show ?thesis by (simp add: update_project_def)
  next
    case (Some p)
    have "p_id p < next_oid d" using find_project_below [OF assms Some] .
    with ObjId Some assms show ?thesis
      by (simp add: update_project_def Let_def save_edited_project_inv
               split: assign_in.split rid.split)
  qed
qed

lemma update_project_status_inv:
  "db_inv d \<Longrightarrow> db_inv (snd (update_project_status u r st d))"
  by (auto simp: update_project_status_def map_save_by intro!: db_inv_projects_cong
           split: rid.split option.split)

lemma delete_project_inv:
  assumes "db_inv d"
  shows "db_inv (snd (delete_project u r d))"
proof -
  have "\<And>P Q. db_inv (d\<lparr>applications := delete_where P (applications d),
                          projects := delete_where Q (projects d)\<rparr>)"
    using db_inv_delete_projects [OF db_inv_delete_applications [OF assms]] by simp
  with assms show ?thesis by (simp add: delete_project_def Let_def split: rid.split option.split)
qed

subsection \<open>Properties of the project routes\<close>

text \<open>
  C9. Deleting a project, by its client or an admin, removes it together with
  every application that refers to it, and nothing else: other projects and
  their applications, the users and the messages stay.
\<close>

theorem delete_project_cascade:
  assumes "find_by p_id pid (projects d) = Some p" and "client p = u_id u \<or> role u = Admin"
  shows "\<exists>d'. delete_project u (ObjId pid) d = (Inr (), d') \<and>
     (\<forall>a\<in>set (applications d'). project a \<noteq> pid) \<and> (\<forall>q\<in>set (projects d'). p_id q \<noteq> pid) \<and>
     (\<forall>a\<in>set (applications d). project a \<noteq> pid \<longrightarrow> a \<in> set (applications d')) \<and>
     (\<forall>q\<in>set (projects d). p_id q \<noteq> pid \<longrightarrow> q \<in> set (projects d')) \<and>
     users d' = users d \<and> messages d' = messages d"
  using assms by (auto simp: delete_project_def Let_def set_delete_where)

theorem delete_project_cascade_witness:
  "\<exists>d'. delete_project demo_client (ObjId 3) demo_db = (Inr (), d') \<and>
        (\<forall>a\<in>set (applications d'). project a \<noteq> 3) \<and> (\<forall>q\<in>set (projects d'). p_id q \<noteq> 3)"
proof -
  have h: "find_by p_id 3 (projects demo_db) = Some demo_project"
    "client demo_project = u_id demo_client \<or> role demo_client = Admin"
    by (simp_all add: demo_defs find_by_def)
  show ?thesis using delete_project_cascade [OF h] by blast
qed

text \<open>
  C10. The direct status edit \<open>PUT /api/projects/:id/status\<close> reopens a
  project without clearing its assignment and without touching any
  application: a project can be \<open>open\<close> and assigned at once.
\<close>

theorem project_status_edit_keeps_assignment:
  assumes "find_by p_id pid (projects d) = Some p" and "client p = u_id u \<or> role u = Admin"
  shows "\<exists>d'. update_project_status u (ObjId pid) ''open'' d = (Inr (p\<lparr>p_status := Open\<rparr>), d') \<and>
           find_by p_id pid (projects d') = Some (p\<lparr>p_status := Open\<rparr>) \<and>
           assignedTo (p\<lparr>p_status := Open\<rparr>) = assignedTo p \<and>
           applications d' = applications d"
proof -
  from assms(1) have p: "p \<in> set (projects d)" "p_id p = pid" by (auto dest: find_by_Some)
  then have "pid \<in> p_id ` set (projects d)" by force
  then have "find_by p_id pid (save_by p_id (p\<lparr>p_status := Open\<rparr>) (projects d)) = Some (p\<lparr>p_status := Open\<rparr>)"
    using find_by_save_by [of p_id "p\<lparr>p_status := Open\<rparr>" "projects d"] p by simp
  with assms show ?thesis
    by (simp add: update_project_status_def js_lower_def project_status_of_def)
qed

theorem project_status_edit_keeps_assignment_witness:
  "\<exists>d'. update_project_status demo_client (ObjId 3) ''open''
          (demo_db\<lparr>projects := [demo_project\<lparr>assignedTo := Some 1, p_status := Assigned\<rparr>]\<rparr>) =
        (Inr (demo_project\<lparr>assignedTo := Some 1, p_status := Open\<rparr>), d')"
proof -
  have h: "find_by p_id 3 (projects (demo_db\<lparr>projects := [demo_project\<lparr>assignedTo := Some 1, p_status := Assigned\<rparr>]\<rparr>)) =
        Some (demo_project\<lparr>assignedTo := Some 1, p_status := Assigned\<rparr>)"
    "client (demo_project\<lparr>assignedTo := Some 1, p_status := Assigned\<rparr>) = u_id demo_client \<or> role demo_client = Admin"
    by (simp_all add: demo_defs find_by_def)
  show ?thesis using project_status_edit_keeps_assignment [OF h] by auto
qed

text \<open>
  A client's new project, with a title that is not blank after trimming,
  a description and a budget, is stored open and unassigned, owned by the
  client, under a fresh identifier.
\<close>

theorem create_project_open:
  assumes "pb_title b \<noteq> []" and "js_trim (pb_title b) \<noteq> []"
    and "pb_description b \<noteq> []" and "pb_budget b \<noteq> []"
  shows "\<exists>p. create_project u b d = (Inr p, d\<lparr>projects := projects d @ [p], next_oid := Suc (next_oid d)\<rparr>) \<and>
           p_status p = Open \<and> assignedTo p = None \<and> client p = u_id u \<and> p_id p = next_oid d"
  using assms by (simp add: create_project_def insert_project_def project_errors_def Let_def)

theorem create_project_open_witness:
  "\<exists>p. create_project demo_client \<lparr>pb_title = '' Logo '', pb_description = ''A logo'', pb_budget = ''500'',
        pb_skills = None\<rparr> demo_db =
      (Inr p, demo_db\<lparr>projects := projects demo_db @ [p], next_oid := 7\<rparr>) \<and> p_status p = Open"
proof -
  have h: "'' Logo '' \<noteq> []" "js_trim '' Logo '' \<noteq> []" "''A logo'' \<noteq> []" "''500'' \<noteq> []"
    by (simp_all add: js_trim_def js_whitespace_def)
  show ?thesis
    using create_project_open [of "\<lparr>pb_title = '' Logo '', pb_description = ''A logo'', pb_budget = ''500'',
        pb_skills = None\<rparr>" demo_client demo_db] h
    by (simp add: demo_db_def) blast
qed

end
