(* ===== verification/Admin.thy ===== *)
theory Admin
  imports Projects
begin

text \<open>
  The admin routes of \<open>server/routes/adminRoutes.js\<close>: the dashboard counters
  (\<open>admin_stats\<close>, with the revenue read from the free-text budgets of the
  completed projects by \<open>budget_value\<close>, which strips every character but
  digits and dots and then applies \<open>parseFloat\<close>, modelled over the JavaScript
  number values with sign, exponent and \<open>Infinity\<close>), the user list, and the deletion of a
  user (\<open>delete_user\<close>) with its cascade: a client's projects and their
  applications go, a freelancer's projects are detached and reopened and
  their applications go.
\<close>

subsection \<open>Reading a budget\<close>

text \<open>
  A JavaScript number: \<open>NaN\<close>, a finite value, or one of the two
  infinities. Doubles are modelled as reals: rounding and overflow to an
  infinity are not modelled.
\<close>

datatype js_num = NaN | Num real | PosInf | NegInf

definition is_digit :: "char \<Rightarrow> bool" where
  "is_digit c \<longleftrightarrow> (48::nat) \<le> of_char c \<and> of_char c \<le> (57::nat)"

definition digit_val :: "char \<Rightarrow> nat" where
  "digit_val c = of_char c - 48"

fun digits_nat :: "nat \<Rightarrow> string \<Rightarrow> nat" where
  "digits_nat acc [] = acc"
| "digits_nat acc (c # cs) = digits_nat (10 * acc + digit_val c) cs"

text \<open>\<open>x * 10 ** e\<close> for an integer exponent.\<close>

definition scale10 :: "real \<Rightarrow> int \<Rightarrow> real" where
  "scale10 x e = (if 0 \<le> e then x * 10 ^ nat e else x / 10 ^ nat (- e))"

text \<open>An optional sign: \<open>-\<close> gives -1, \<open>+\<close> or none gives 1.\<close>

definition sign_prefix :: "string \<Rightarrow> int \<times> string" where
  "sign_prefix s =
     (case s of
        c # cs \<Rightarrow> if c = CHR ''-'' then (-1, cs) else if c = CHR ''+'' then (1, cs) else (1, s)
      | [] \<Rightarrow> (1, []))"

text \<open>The \<open>ExponentPart\<close> of a numeric literal, \<open>[eE][+-]?digits\<close>, and the rest.\<close>

definition exp_part :: "string \<Rightarrow> (int \<times> string) option" where
  "exp_part s =
     (case s of
        c # cs \<Rightarrow>
          if c = CHR ''e'' \<or> c = CHR ''E''
          then (let (sg, t) = sign_prefix cs; ds = takeWhile is_digit t
                in if ds = [] then None else Some (sg * int (digits_nat 0 ds), dropWhile is_digit t))
          else None
      | [] \<Rightarrow> None)"

text \<open>
  The lexical parts of a decimal literal at the start of a string: the
  integer digits, whether a dot follows them, the digits after the dot, and
  the rest of the string.
\<close>

definition decimal_parts :: "string \<Rightarrow> string \<times> bool \<times> string \<times> string" where
  "decimal_parts s =
     (let ip = takeWhile is_digit s; r1 = dropWhile is_digit s
      in case r1 of
           c # cs \<Rightarrow> if c = CHR ''.'' then (ip, True, takeWhile is_digit cs, dropWhile is_digit cs)
                    else (ip, False, [], r1)
         | [] \<Rightarrow> (ip, False, [], []))"

text \<open>
  The longest prefix of a string that is an unsigned decimal literal
  (\<open>StrUnsignedDecimalLiteral\<close> without \<open>Infinity\<close>): digits, a dot and
  digits (one of the two digit parts non-empty), an optional exponent; its
  value and the rest of the string.
\<close>

definition decimal_prefix :: "string \<Rightarrow> (real \<times> string) option" where
  "decimal_prefix s =
     (let (ip, _, fp, r2) = decimal_parts s
      in if ip = [] \<and> fp = [] then None
         else (let m = real (digits_nat 0 ip) + real (digits_nat 0 fp) / 10 ^ length fp
               in case exp_part r2 of None \<Rightarrow> Some (m, r2) | Some (e, r3) \<Rightarrow> Some (scale10 m e, r3)))"

text \<open>
  \<open>parseFloat(s)\<close>: leading white space is skipped, then an optional sign
  and the longest prefix that is \<open>Infinity\<close> or an unsigned decimal
  literal; anything else is \<open>NaN\<close>.
\<close>

definition parse_float_prefix :: "string \<Rightarrow> js_num" where
  "parse_float_prefix s =
     (let (sg, t) = sign_prefix (dropWhile js_whitespace s)
      in if take 8 t = ''Infinity'' then (if sg < 0 then NegInf else PosInf)
         else (case decimal_prefix t of None \<Rightarrow> NaN | Some (x, _) \<Rightarrow> Num (of_int sg * x)))"

text \<open>
  \<open>parseFloat(project.budget.replace(/[^0-9.]/g, '')) || 0\<close>: every character
  other than a digit or a dot is dropped, then the string is read by
  \<open>parseFloat\<close>; \<open>NaN\<close> (no digits at all) is turned into 0 by \<open>|| 0\<close>. No
  letter survives the replacement, so \<open>parseFloat\<close> never reads
  \<open>Infinity\<close> here (lemma \<open>strip_budget_finite\<close>).
\<close>

definition strip_budget :: "string \<Rightarrow> string" where
  "strip_budget s = filter (\<lambda>c. is_digit c \<or> c = CHR ''.'') s"

definition budget_value :: "string \<Rightarrow> real" where
  "budget_value b = (case parse_float_prefix (strip_budget b) of Num x \<Rightarrow> x | _ \<Rightarrow> 0)"

subsection \<open>Dashboard\<close>

record admin_stats =
  totalUsers :: nat
  activeProjects :: nat
  pendingApplications :: nat
  totalRevenue :: real

definition admin_dashboard :: "db \<Rightarrow> admin_stats" where
  "admin_dashboard d =
     \<lparr>totalUsers = length (users d),
      activeProjects = count_where (\<lambda>p. p_status p \<in> {Open, Assigned, InProgress}) (projects d),
      pendingApplications = count_where (\<lambda>a. a_status a = Pending) (applications d),
      totalRevenue = sum_list (map (\<lambda>p. budget_value (budget p))
                                 (filter (\<lambda>p. p_status p = Completed) (projects d)))\<rparr>"

text \<open>\<open>GET /api/admin/users\<close>: every user, the password left out.\<close>

definition all_users :: "db \<Rightarrow> user_doc list" where
  "all_users d = map (\<lambda>u. u\<lparr>password := []\<rparr>) (users d)"

subsection \<open>Deleting a user\<close>

text \<open>
  The cascade of \<open>DELETE /api/admin/users/:id\<close> (lines 84--98): for a client,
  each of their projects loses its applications and is deleted; for a
  freelancer, every project assigned to them gets \<open>assignedTo: null\<close> and
  status \<open>open\<close> (whatever its status was) and their applications are
  deleted; an admin has no cascade.
\<close>

definition delete_client_projects :: "oid \<Rightarrow> db \<Rightarrow> db" where
  "delete_client_projects uid d =
     foldl (\<lambda>d p. d\<lparr>applications := delete_where (\<lambda>a. project a = p_id p) (applications d),
                      projects := delete_where (\<lambda>q. p_id q = p_id p) (projects d)\<rparr>)
       d (filter (\<lambda>p. client p = uid) (projects d))"

definition detach_freelancer :: "oid \<Rightarrow> db \<Rightarrow> db" where
  "detach_freelancer uid d =
     d\<lparr>projects := update_where (\<lambda>p. assignedTo p = Some uid)
                    (\<lambda>p. p\<lparr>assignedTo := None, p_status := Open\<rparr>) (projects d),
       applications := delete_where (\<lambda>a. freelancer a = uid) (applications d)\<rparr>"

definition delete_user :: "rid \<Rightarrow> db \<Rightarrow> unit result \<times> db" where
  "delete_user r d =
     (case r of
        Malformed \<Rightarrow> (Inl (HttpError 400 ''Invalid User ID.''), d)
      | ObjId uid \<Rightarrow>
          (case find_by u_id uid (users d) of
             None \<Rightarrow> (Inl (HttpError 404 ''User not found.''), d)
           | Some u \<Rightarrow>
               (let d1 = (case role u of
                            Client \<Rightarrow> delete_client_projects uid d
                          | Freelancer \<Rightarrow> detach_freelancer uid d
                          | Admin \<Rightarrow> d)
                in (Inr (), d1\<lparr>users := delete_where (\<lambda>v. u_id v = uid) (users d1)\<rparr>))))"

subsection \<open>The routes\<close>

definition api_admin_dashboard ::
  "(string \<Rightarrow> oid option) \<Rightarrow> string option \<Rightarrow> db \<Rightarrow> admin_stats result \<times> db" where
  "api_admin_dashboard verify hdr d = route verify (Some [Admin]) (\<lambda>u d. (Inr (admin_dashboard d), d)) d hdr"

definition api_all_users ::
  "(string \<Rightarrow> oid option) \<Rightarrow> string option \<Rightarrow> db \<Rightarrow> user_doc list result \<times> db" where
  "api_all_users verify hdr d = route verify (Some [Admin]) (\<lambda>u d. (Inr (all_users d), d)) d hdr"

definition api_delete_user ::
  "(string \<Rightarrow> oid option) \<Rightarrow> string option \<Rightarrow> rid \<Rightarrow> db \<Rightarrow> unit result \<times> db" where
  "api_delete_user verify hdr r d = route verify (Some [Admin]) (\<lambda>u. delete_user r) d hdr"

subsection \<open>Lemmas\<close>

lemma foldl_delete_projects:
  "foldl (\<lambda>d p. d\<lparr>applications := delete_where (\<lambda>a. project a = p_id p) (applications d),
                   projects := delete_where (\<lambda>q. p_id q = p_id p) (projects d)\<rparr>) d ps =
   d\<lparr>applications := filter (\<lambda>a. project a \<notin> p_id ` set ps) (applications d),
     projects := filter (\<lambda>q. p_id q \<notin> p_id ` set ps) (projects d)\<rparr>"
proof (induction ps arbitrary: d)
  case Nil
  then show ?case by simp
next
  case (Cons p ps)
  then show ?case by (simp add: delete_where_def conj_commute)
qed

lemma delete_client_projects_eq:
  "delete_client_projects uid d =
   d\<lparr>applications := filter (\<lambda>a. project a \<notin> p_id ` {p \<in> set (projects d). client p = uid}) (applications d),
     projects := filter (\<lambda>q. p_id q \<notin> p_id ` {p \<in> set (projects d). client p = uid}) (projects d)\<rparr>"
  by (simp add: delete_client_projects_def foldl_delete_projects)

lemma delete_user_found:
  assumes "find_by u_id uid (users d) = Some u"
  shows "delete_user (ObjId uid) d =
    (let d1 = (case role u of Client \<Rightarrow> delete_client_projects uid d
                            | Freelancer \<Rightarrow> detach_freelancer uid d | Admin \<Rightarrow> d)
     in (Inr (), d1\<lparr>users := delete_where (\<lambda>v. u_id v = uid) (users d1)\<rparr>))"
  using assms by (simp add: delete_user_def)

lemma detach_self:
  "(p = p\<lparr>assignedTo := None, p_status := s\<rparr>) \<longleftrightarrow> assignedTo p = None \<and> p_status p = s"
  by (cases p) auto

lemma exp_part_Nil [simp]: "exp_part [] = None"
  by (simp add: exp_part_def)

lemma exp_part_split:
  "exp_part s = Some (e, r) \<Longrightarrow> \<exists>p. s = p @ r \<and> (\<forall>c\<in>set p. is_digit c \<or> c \<in> {CHR ''e'', CHR ''E'', CHR ''+'', CHR ''-''})"
proof (cases s)
  case (Cons c cs)
  assume h: "exp_part s = Some (e, r)"
  obtain sg t where st: "sign_prefix cs = (sg, t)" by fastforce
  have t: "\<exists>q. cs = q @ t \<and> set q \<subseteq> {CHR ''+'', CHR ''-''}"
    using st by (auto simp: sign_prefix_def split: list.splits if_splits intro: exI [of _ "[]"])
  from h Cons st have c: "c = CHR ''e'' \<or> c = CHR ''E''" and r: "r = dropWhile is_digit t"
    by (auto simp: exp_part_def Let_def split: if_splits)
  from t obtain q where "cs = q @ t" "set q \<subseteq> {CHR ''+'', CHR ''-''}" by blast
  then show ?thesis
    using Cons c r
    by (intro exI [of _ "c # q @ takeWhile is_digit t"]) (auto dest: set_takeWhileD)
qed (simp add: exp_part_def)

lemma decimal_parts_split:
  "decimal_parts s = (ip, dot, fp, r) \<Longrightarrow>
   s = ip @ (if dot then CHR ''.'' # fp @ r else r) \<and> (\<forall>c\<in>set ip. is_digit c) \<and> (\<forall>c\<in>set fp. is_digit c)"
  by (auto simp: decimal_parts_def Let_def split: list.splits if_splits dest: set_takeWhileD)
     (metis takeWhile_dropWhile_id append_Nil2 dropWhile_eq_Nil_conv)+

lemma scale10_nonneg: "0 \<le> x \<Longrightarrow> 0 \<le> scale10 x e"
  by (simp add: scale10_def)

lemma decimal_prefix_nonneg: "decimal_prefix s = Some (x, r) \<Longrightarrow> 0 \<le> x"
  by (auto simp: decimal_prefix_def Let_def scale10_nonneg split: if_splits option.splits prod.splits)

lemma strip_budget_chars: "c \<in> set (strip_budget s) \<Longrightarrow> is_digit c \<or> c = CHR ''.''"
  by (simp add: strip_budget_def)

lemma strip_budget_unsigned:
  "dropWhile js_whitespace (strip_budget s) = strip_budget s \<and> sign_prefix (strip_budget s) = (1, strip_budget s)"
proof (cases "strip_budget s")
  case (Cons c cs)
  then have "is_digit c \<or> c = CHR ''.''" using strip_budget_chars [of c s] by simp
  then show ?thesis using Cons by (auto simp: js_whitespace_def sign_prefix_def is_digit_def)
qed (simp add: sign_prefix_def)

lemma strip_budget_finite: "parse_float_prefix (strip_budget b) \<notin> {PosInf, NegInf}"
proof -
  have "take 8 (strip_budget b) \<noteq> ''Infinity''"
  proof
    assume "take 8 (strip_budget b) = ''Infinity''"
    then have "CHR ''I'' \<in> set (strip_budget b)" by (metis in_set_takeD list.set_intros(1))
    then show False using strip_budget_chars [of "CHR ''I''" b] by (simp add: is_digit_def)
  qed
  then show ?thesis
    using strip_budget_unsigned [of b]
    by (auto simp: parse_float_prefix_def split: option.splits prod.splits)
qed

text \<open>
  The budget a completed project contributes is never negative: the
  replacement drops the minus sign before \<open>parseFloat\<close> reads the string.
\<close>

lemma budget_value_nonneg: "0 \<le> budget_value b"
  using strip_budget_unsigned [of b]
  by (auto simp: budget_value_def parse_float_prefix_def dest: decimal_prefix_nonneg
           split: js_num.split option.splits prod.splits)

lemma db_inv_delete_users:
  "db_inv d \<Longrightarrow> db_inv (d\<lparr>users := delete_where P (users d)\<rparr>)"
  by (simp add: db_inv_def ids_ok_delete_where)

lemma filter_is_delete_where: "filter (\<lambda>x. \<not> P x) xs = delete_where P xs"
  by (simp add: delete_where_def)

lemma delete_client_projects_inv:
  assumes "db_inv d"
  shows "db_inv (delete_client_projects uid d)"
proof -
  let ?S = "p_id ` {p \<in> set (projects d). client p = uid}"
  have "db_inv (d\<lparr>applications := delete_where (\<lambda>a. project a \<in> ?S) (applications d),
                 projects := delete_where (\<lambda>q. p_id q \<in> ?S) (projects d)\<rparr>)"
    using db_inv_delete_projects [OF db_inv_delete_applications [OF assms]] by simp
  then show ?thesis by (simp add: delete_client_projects_eq filter_is_delete_where)
qed

lemma detach_freelancer_inv:
  assumes "db_inv d"
  shows "db_inv (detach_freelancer uid d)"
proof -
  let ?d0 = "d\<lparr>projects := update_where (\<lambda>p. assignedTo p = Some uid)
                    (\<lambda>p. p\<lparr>assignedTo := None, p_status := Open\<rparr>) (projects d)\<rparr>"
  have "db_inv ?d0"
    using assms by (rule db_inv_projects_cong) (simp add: map_update_where)
  then have "db_inv (?d0\<lparr>applications := delete_where (\<lambda>a. freelancer a = uid) (applications ?d0)\<rparr>)"
    by (rule db_inv_delete_applications)
  then show ?thesis
    by (simp add: detach_freelancer_def)
qed

lemma delete_user_inv:
  assumes "db_inv d"
  shows "db_inv (snd (delete_user r d))"
proof (cases "\<exists>uid u. r = ObjId uid \<and> find_by u_id uid (users d) = Some u")
  case True
  then obtain uid u where r: "r = ObjId uid" and f: "find_by u_id uid (users d) = Some u"
    by blast
  let ?d1 = "case role u of Client \<Rightarrow> delete_client_projects uid d
               | Freelancer \<Rightarrow> detach_freelancer uid d | Admin \<Rightarrow> d"
  have "db_inv ?d1"
    using assms delete_client_projects_inv detach_freelancer_inv by (simp split: role.split)
  then have "db_inv (?d1\<lparr>users := delete_where (\<lambda>v. u_id v = uid) (users ?d1)\<rparr>)"
    by (rule db_inv_delete_users)
  then show ?thesis
    by (simp add: r delete_user_found [OF f] Let_def)
next
  case False
  then show ?thesis
    using assms by (auto simp: delete_user_def split: rid.split option.split)
qed

text \<open>
  C12. Deleting a client succeeds and cascades: afterwards no project of the
  client is left, no application to one of their former projects is left, the
  user is gone, and the messages are untouched.
\<close>

theorem delete_client_cascade:
  assumes "find_by u_id uid (users d) = Some u" and "role u = Client"
  shows "\<exists>d'. delete_user (ObjId uid) d = (Inr (), d') \<and>
           (\<forall>p\<in>set (projects d'). client p \<noteq> uid) \<and>
           (\<forall>a\<in>set (applications d'). \<forall>p\<in>set (projects d). project a = p_id p \<longrightarrow> client p \<noteq> uid) \<and>
           (\<forall>v\<in>set (users d'). u_id v \<noteq> uid) \<and> messages d' = messages d"
  using assms by (auto simp: delete_user_found delete_client_projects_eq set_delete_where)

text \<open>
  C13. Deleting a freelancer succeeds, leaves no project assigned to them and
  no application of theirs, and every project that was assigned to them comes
  back unassigned and \<open>open\<close>, whatever its status was: a completed project
  is reopened.
\<close>

theorem delete_freelancer_reopens:
  assumes "find_by u_id uid (users d) = Some u" and "role u = Freelancer"
  shows "\<exists>d'. delete_user (ObjId uid) d = (Inr (), d') \<and>
           (\<forall>p\<in>set (projects d'). assignedTo p \<noteq> Some uid) \<and>
           (\<forall>a\<in>set (applications d'). freelancer a \<noteq> uid) \<and>
           (\<forall>p\<in>set (projects d). assignedTo p = Some uid \<longrightarrow>
              p\<lparr>assignedTo := None, p_status := Open\<rparr> \<in> set (projects d'))"
  using assms
  by (auto simp: delete_user_found detach_freelancer_def set_delete_where set_update_where detach_self split: if_splits)

text \<open>
  The revenue counter reads a budget written as a range by dropping every
  character but digits and dots: \<open>$500 - $1000\<close> counts as 5001000.
\<close>

theorem budget_range_misread:
  "budget_value ''$500 - $1000'' = 5001000"
  by (simp add: budget_value_def parse_float_prefix_def strip_budget_def is_digit_def digit_val_def Let_def
        decimal_prefix_def decimal_parts_def sign_prefix_def js_whitespace_def exp_part_def)

text \<open>
  C15. The dashboard's revenue is never negative: no budget string, whatever
  its characters, reads as a negative amount.
\<close>

theorem admin_revenue_nonneg: "0 \<le> totalRevenue (admin_dashboard d)"
  by (simp add: admin_dashboard_def) (rule sum_list_nonneg, auto simp: budget_value_nonneg)

theorem delete_client_cascade_witness:
  "\<exists>d'. delete_user (ObjId 0) demo_db = (Inr (), d') \<and> (\<forall>p\<in>set (projects d'). client p \<noteq> 0) \<and>
        (\<forall>v\<in>set (users d'). u_id v \<noteq> 0)"
proof -
  have h: "find_by u_id 0 (users demo_db) = Some demo_client" "role demo_client = Client"
    by (simp_all add: demo_defs find_by_def)
  show ?thesis using delete_client_cascade [OF h] by blast
qed

theorem delete_freelancer_reopens_witness:
  "\<exists>d'. delete_user (ObjId 1)
          (demo_db\<lparr>projects := [demo_project\<lparr>p_status := Completed, assignedTo := Some 1\<rparr>]\<rparr>) = (Inr (), d') \<and>
        demo_project\<lparr>assignedTo := None, p_status := Open\<rparr> \<in> set (projects d')"
proof -
  let ?d = "demo_db\<lparr>projects := [demo_project\<lparr>p_status := Completed, assignedTo := Some 1\<rparr>]\<rparr>"
  have h: "find_by u_id 1 (users ?d) = Some demo_f1" "role demo_f1 = Freelancer"
    by (simp_all add: demo_defs find_by_def)
  have p: "demo_project\<lparr>p_status := Completed, assignedTo := Some 1\<rparr> \<in> set (projects ?d)"
    by simp
  show ?thesis using delete_freelancer_reopens [OF h] p by fastforce
qed

end
