(* ===== verification/Messages.thy ===== *)
theory Messages
  imports Applications
begin

text \<open>
  Project chat (\<open>server/routes/messageRoutes.js\<close>): \<open>send_message\<close>
  (\<open>POST /api/messages\<close>) and \<open>project_messages\<close>
  (\<open>GET /api/messages/project/:projectId\<close>). Only the project's client and its
  assigned freelancer take part; a message goes from one of them to the other,
  and the chat can start only once the project is assigned. The lemmas show who
  may send and read, what a sent message holds, and that sending keeps the
  database well-formed. The JSON of a message as each route sends it, with the
  sender populated, and the send route's reply after \<open>execPopulate()\<close> (which
  Mongoose 6 removed) are given for the chat of the client.
\<close>

record message_body =
  mb_projectId :: "rid option"
  mb_content :: string

text \<open>
  \<open>isClient\<close> and \<open>isAssignedFreelancer\<close> of both handlers.
\<close>

definition is_party :: "oid \<Rightarrow> project_doc \<Rightarrow> bool" where
  "is_party uid p \<longleftrightarrow> client p = uid \<or> assignedTo p = Some uid"

text \<open>
  The receiver chosen at lines 40--50: the assigned freelancer when the client
  writes to an assigned project, the client when the assigned freelancer
  writes, and none (the 400 reply) otherwise.
\<close>

definition message_receiver :: "oid \<Rightarrow> project_doc \<Rightarrow> oid option" where
  "message_receiver uid p =
     (if client p = uid \<and> assignedTo p \<noteq> None then assignedTo p
      else if assignedTo p = Some uid then Some (client p)
      else None)"

text \<open>
  \<open>POST /api/messages\<close>. A missing id or empty content is refused first; a
  malformed id makes \<open>Project.findById\<close> throw a cast error, answered 400 by the
  catch block; content of blanks passes the route's check but fails the
  schema's \<open>required\<close> after trimming, which the catch block answers with 500.
\<close>

definition send_message :: "user_doc \<Rightarrow> message_body \<Rightarrow> db \<Rightarrow> message_doc result \<times> db" where
  "send_message u b d =
     (case mb_projectId b of
        None \<Rightarrow> (Inl (HttpError 400 ''Project ID and message content are required.''), d)
      | Some r \<Rightarrow>
          if mb_content b = [] then
            (Inl (HttpError 400 ''Project ID and message content are required.''), d)
          else (case r of
            Malformed \<Rightarrow> (Inl (HttpError 400 ''Invalid Project ID or User ID.''), d)
          | ObjId pid \<Rightarrow>
              (case find_by p_id pid (projects d) of
                 None \<Rightarrow> (Inl (HttpError 404 ''Project not found.''), d)
               | Some p \<Rightarrow>
                   if \<not> is_party (u_id u) p then
                     (Inl (HttpError 403 ''Not authorized to send messages for this project.''), d)
                   else (case message_receiver (u_id u) p of
                     None \<Rightarrow> (Inl (HttpError 400 ''Project is not assigned yet. Cannot initiate chat.''), d)
                   | Some rc \<Rightarrow>
                       (case insert_message (u_id u) (Some rc) pid (mb_content b) d of
                          Inl _ \<Rightarrow> (Inl (HttpError 500 ''Server error: Could not send message.''), d)
                        | Inr (m, d') \<Rightarrow> (Inr m, d'))))))"

text \<open>
  \<open>GET /api/messages/project/:projectId\<close>: the project's messages, oldest
  first (\<open>sort('timestamp')\<close>; messages with equal timestamps keep their
  insertion order).
\<close>

definition project_messages :: "user_doc \<Rightarrow> rid \<Rightarrow> db \<Rightarrow> message_doc list result" where
  "project_messages u r d =
     (case r of
        Malformed \<Rightarrow> Inl (HttpError 400 ''Invalid Project ID.'')
      | ObjId pid \<Rightarrow>
          (case find_by p_id pid (projects d) of
             None \<Rightarrow> Inl (HttpError 404 ''Project not found.'')
           | Some p \<Rightarrow>
               if \<not> is_party (u_id u) p then
                 Inl (HttpError 403 ''Not authorized to view messages for this project.'')
               else Inr (sort_key timestamp (filter (\<lambda>m. m_project m = pid) (messages d)))))"

definition api_send_message ::
  "(string \<Rightarrow> oid option) \<Rightarrow> string option \<Rightarrow> message_body \<Rightarrow> db \<Rightarrow> message_doc result \<times> db" where
  "api_send_message verify hdr b d = route verify None (\<lambda>u. send_message u b) d hdr"

definition api_project_messages ::
  "(string \<Rightarrow> oid option) \<Rightarrow> string option \<Rightarrow> rid \<Rightarrow> db \<Rightarrow> message_doc list result \<times> db" where
  "api_project_messages verify hdr r d = route verify None (\<lambda>u d. (project_messages u r d, d)) d hdr"

subsection \<open>Replies as JSON\<close>

text \<open>
  A message as a page receives it: the fields of the document in the
  schema's order, the sender populated (\<open>_id\<close>, \<open>username\<close> and, where
  the route asks for it, \<open>role\<close>; \<open>null\<close> for a deleted user).
\<close>

record chat_sender =
  cs_id :: oid
  cs_username :: string
  cs_role :: "string option"

record chat_entry =
  ce_id :: oid
  ce_sender :: "chat_sender option"
  ce_receiver :: "oid option"
  ce_project :: oid
  ce_content :: string
  ce_timestamp :: nat
  ce_read :: bool

definition message_entry :: "chat_sender option \<Rightarrow> message_doc \<Rightarrow> chat_entry" where
  "message_entry sd m =
     \<lparr>ce_id = m_id m, ce_sender = sd, ce_receiver = receiver m, ce_project = m_project m,
      ce_content = content m, ce_timestamp = timestamp m, ce_read = read m\<rparr>"

text \<open>
  \<open>res.json(messages)\<close> of \<open>GET /api/messages/project/:projectId\<close>, after
  \<open>.populate('sender', 'username role')\<close>.
\<close>

definition msg_json :: "db \<Rightarrow> message_doc \<Rightarrow> chat_entry" where
  "msg_json d m =
     message_entry
       (map_option (\<lambda>v. \<lparr>cs_id = u_id v, cs_username = username v, cs_role = Some (role_str (role v))\<rparr>)
          (find_by u_id (sender m) (users d)))
       m"

text \<open>
  The reply of \<open>POST /api/messages\<close> after the save: line 64 calls
  \<open>message.populate(...).execPopulate()\<close>. \<open>Document.execPopulate\<close> exists
  up to Mongoose 5 and was removed in Mongoose 6; there the call throws a
  \<open>TypeError\<close> after the message is saved, and the catch block answers 500.
  The repository pins no Mongoose version (its \<open>db.js\<close> comments refer to
  6.0), so \<open>exec_populate\<close> says whether the method exists.
\<close>

definition send_message_reply :: "bool \<Rightarrow> message_doc result \<times> db \<Rightarrow> message_doc result \<times> db" where
  "send_message_reply exec_populate r =
     (case r of
        (Inr m, d') \<Rightarrow> if exec_populate then (Inr m, d')
                       else (Inl (HttpError 500 ''Server error: Could not send message.''), d')
      | _ \<Rightarrow> r)"

text \<open>An assigned project for the examples.\<close>

definition chat_db :: db where
  "chat_db = demo_db\<lparr>projects := [demo_project\<lparr>p_status := Assigned, assignedTo := Some 1\<rparr>]\<rparr>"

subsection \<open>Lemmas\<close>

lemma message_receiver_Some:
  "message_receiver uid p = Some rc \<Longrightarrow>
   (client p = uid \<and> assignedTo p = Some rc) \<or> (assignedTo p = Some uid \<and> rc = client p)"
  by (auto simp: message_receiver_def split: if_splits)

lemma send_message_Inr:
  assumes "send_message u b d = (Inr m, d')"
  shows "\<exists>pid p. mb_projectId b = Some (ObjId pid) \<and> find_by p_id pid (projects d) = Some p \<and>
           message_receiver (u_id u) p = Some (the (receiver m)) \<and> receiver m \<noteq> None \<and>
           insert_message (u_id u) (receiver m) pid (mb_content b) d = Inr (m, d')"
  using assms
  by (auto simp: send_message_def insert_message_def Let_def
           split: option.splits rid.splits if_splits sum.splits)

lemma send_message_inv:
  assumes "db_inv d" shows "db_inv (snd (send_message u b d))"
proof (cases "send_message u b d")
  case (Pair res d')
  show ?thesis
  proof (cases res)
    case (Inl e)
    with Pair have "d' = d"
      by (auto simp: send_message_def split: option.splits rid.splits if_splits sum.splits)
    with Pair assms show ?thesis by simp
  next
    case (Inr m)
    with Pair obtain pid where "insert_message (u_id u) (receiver m) pid (mb_content b) d = Inr (m, d')"
      using send_message_Inr by blast
    with Pair assms show ?thesis by (simp add: insert_message_inv)
  qed
qed

text \<open>
  C16. A message that is stored was sent by the project's client to its
  assigned freelancer or by the assigned freelancer to the client, about that
  project; it is appended to the messages and nothing else changes.
\<close>

theorem send_message_between_parties:
  assumes "send_message u b d = (Inr m, d')"
  shows "\<exists>p\<in>set (projects d). m_project m = p_id p \<and> sender m = u_id u \<and> receiver m \<noteq> None \<and>
           ((client p = u_id u \<and> receiver m = assignedTo p) \<or>
            (assignedTo p = Some (u_id u) \<and> receiver m = Some (client p))) \<and>
           messages d' = messages d @ [m] \<and> projects d' = projects d \<and>
           applications d' = applications d \<and> users d' = users d"
proof -
  obtain pid p where f: "find_by p_id pid (projects d) = Some p"
    and r: "message_receiver (u_id u) p = Some (the (receiver m))" and rn: "receiver m \<noteq> None"
    and i: "insert_message (u_id u) (receiver m) pid (mb_content b) d = Inr (m, d')"
    using send_message_Inr [OF assms] by blast
  have p: "p \<in> set (projects d)" "p_id p = pid"
    using find_by_Some [OF f] by auto
  have m0: "m = \<lparr>m_id = next_oid d, sender = u_id u, receiver = receiver m, m_project = pid,
               content = js_trim (mb_content b), timestamp = now d, read = False\<rparr>"
    and d': "d' = d\<lparr>messages := messages d @ [m], next_oid := Suc (next_oid d)\<rparr>"
    using i by (auto simp: insert_message_def Let_def split: if_splits)
  have m: "m_project m = pid" "sender m = u_id u"
    using arg_cong [OF m0, of m_project] arg_cong [OF m0, of sender] by simp_all
  have "(client p = u_id u \<and> receiver m = assignedTo p) \<or>
        (assignedTo p = Some (u_id u) \<and> receiver m = Some (client p))"
    using message_receiver_Some [OF r] rn by auto
  with p m d' rn show ?thesis by auto
qed

theorem send_message_between_parties_witness:
  "\<exists>m d'. send_message demo_client \<lparr>mb_projectId = Some (ObjId 3), mb_content = '' hi ''\<rparr> chat_db = (Inr m, d') \<and>
     receiver m = Some 1 \<and> content m = ''hi'' \<and> messages d' = [m]"
proof -
  let ?m = "\<lparr>m_id = 6, sender = 0, receiver = Some 1, m_project = 3, content = ''hi'', timestamp = 3, read = False\<rparr>"
  have e: "send_message demo_client \<lparr>mb_projectId = Some (ObjId 3), mb_content = '' hi ''\<rparr> chat_db =
        (Inr ?m, chat_db\<lparr>messages := [?m], next_oid := 7\<rparr>)"
    by (simp add: send_message_def chat_db_def demo_defs find_by_def is_party_def message_receiver_def insert_message_def js_trim_def js_whitespace_def Let_def)
  have "\<exists>p\<in>set (projects chat_db). receiver ?m \<noteq> None \<and> messages (chat_db\<lparr>messages := [?m], next_oid := 7\<rparr>) = messages chat_db @ [?m]"
    using send_message_between_parties [OF e] by blast
  with e show ?thesis by (simp add: chat_db_def demo_db_def)
qed

text \<open>
  A user who is neither the project's client nor its assigned freelancer
  can neither send nor read the project's messages: both answer 403 and the
  database is unchanged.
\<close>

theorem outsider_chat_forbidden:
  assumes "find_by p_id pid (projects d) = Some p" and "\<not> is_party (u_id u) p" and "c \<noteq> []"
  shows "send_message u \<lparr>mb_projectId = Some (ObjId pid), mb_content = c\<rparr> d =
           (Inl (HttpError 403 ''Not authorized to send messages for this project.''), d) \<and>
         project_messages u (ObjId pid) d =
           Inl (HttpError 403 ''Not authorized to view messages for this project.'')"
  using assms by (simp add: send_message_def project_messages_def)

theorem outsider_chat_forbidden_witness:
  "send_message demo_f2 \<lparr>mb_projectId = Some (ObjId 3), mb_content = ''hi''\<rparr> chat_db =
     (Inl (HttpError 403 ''Not authorized to send messages for this project.''), chat_db) \<and>
   project_messages demo_f2 (ObjId 3) chat_db =
     Inl (HttpError 403 ''Not authorized to view messages for this project.'')"
proof -
  have "find_by p_id 3 (projects chat_db) = Some (demo_project\<lparr>p_status := Assigned, assignedTo := Some 1\<rparr>)"
    "\<not> is_party (u_id demo_f2) (demo_project\<lparr>p_status := Assigned, assignedTo := Some 1\<rparr>)"
    "''hi'' \<noteq> []"
    by (simp_all add: chat_db_def demo_defs find_by_def is_party_def)
  then show ?thesis by (rule outsider_chat_forbidden)
qed

text \<open>
  The client cannot start the chat of a project that is not assigned: the
  request is refused with 400 and nothing is stored.
\<close>

theorem chat_needs_assignment:
  assumes "find_by p_id pid (projects d) = Some p" and "client p = u_id u" and "assignedTo p = None"
    and "c \<noteq> []"
  shows "send_message u \<lparr>mb_projectId = Some (ObjId pid), mb_content = c\<rparr> d =
           (Inl (HttpError 400 ''Project is not assigned yet. Cannot initiate chat.''), d)"
  using assms by (simp add: send_message_def is_party_def message_receiver_def)

theorem chat_needs_assignment_witness:
  "send_message demo_client \<lparr>mb_projectId = Some (ObjId 3), mb_content = ''hi''\<rparr> demo_db =
     (Inl (HttpError 400 ''Project is not assigned yet. Cannot initiate chat.''), demo_db)"
proof -
  have "find_by p_id 3 (projects demo_db) = Some demo_project" "client demo_project = u_id demo_client"
    "assignedTo demo_project = None" "''hi'' \<noteq> []"
    by (simp_all add: demo_defs find_by_def)
  then show ?thesis by (rule chat_needs_assignment)
qed

end
