(* ===== verification/Workflow.thy ===== *)
theory Workflow
  imports Admin Messages
begin

text \<open>
  The whole server as one state machine. An \<open>api_call\<close> is a request to one of
  the routes that change the database, made by an authenticated user (the
  token resolves to the user's id) or, for registration, by anyone; \<open>step\<close>
  runs it through the route's middleware and handler, and \<open>reachable\<close> holds
  of the databases some sequence of calls drawn from a given set produces from
  the empty one. The lemmas show that every reachable database is well-formed,
  that without the general project edit each project has at most one accepted
  application and it is its assignee's, and how two accept requests that
  interleave break this.
\<close>

datatype api_call =
    Register register_body
  | Submit oid apply_body
  | SetAppStatus oid rid string
  | Withdraw oid rid
  | CreateProject oid project_body
  | EditProject oid rid project_update
  | SetProjectStatus oid rid string
  | DeleteProject oid rid
  | SendMessage oid message_body
  | DeleteUser oid rid
  | Tick

text \<open>
  A request authenticated as \<open>uid\<close>: its bearer token verifies to \<open>uid\<close>.
  Registration stores the password through the hash function, here the
  identity (bcrypt is external), and signs no token the model needs.
\<close>

definition as_user :: "oid \<Rightarrow> string \<Rightarrow> oid option" where
  "as_user uid tok = Some uid"

definition bearer :: "string option" where
  "bearer = Some ''Bearer token''"

fun step :: "api_call \<Rightarrow> db \<Rightarrow> db" where
  "step (Register b) d = snd (register id (\<lambda>i. []) b d)"
| "step (Submit uid b) d = snd (api_submit_application (as_user uid) bearer b d)"
| "step (SetAppStatus uid r st) d = snd (api_update_application_status (as_user uid) bearer r st d)"
| "step (Withdraw uid r) d = snd (api_delete_application (as_user uid) bearer r d)"
| "step (CreateProject uid b) d = snd (api_create_project (as_user uid) bearer b d)"
| "step (EditProject uid r b) d = snd (api_update_project (as_user uid) bearer r b d)"
| "step (SetProjectStatus uid r st) d = snd (api_update_project_status (as_user uid) bearer r st d)"
| "step (DeleteProject uid r) d = snd (api_delete_project (as_user uid) bearer r d)"
| "step (SendMessage uid b) d = snd (api_send_message (as_user uid) bearer b d)"
| "step (DeleteUser uid r) d = snd (api_delete_user (as_user uid) bearer r d)"
| "step Tick d = d\<lparr>now := Suc (now d)\<rparr>"

inductive reachable :: "(api_call \<Rightarrow> bool) \<Rightarrow> db \<Rightarrow> bool" for ok :: "api_call \<Rightarrow> bool" where
  init: "reachable ok empty_db"
| step: "reachable ok d \<Longrightarrow> ok c \<Longrightarrow> reachable ok (step c d)"

text \<open>Every call except the general project edit \<open>PUT /api/projects/:id\<close>.\<close>

fun no_edit :: "api_call \<Rightarrow> bool" where
  "no_edit (EditProject _ _ _) = False"
| "no_edit _ = True"

text \<open>
  The link between the two collections that the accept branch establishes: an
  accepted application's project is stored and assigned to the application's
  freelancer.
\<close>

definition accepted_assigned :: "db \<Rightarrow> bool" where
  "accepted_assigned d \<longleftrightarrow>
     (\<forall>a\<in>set (applications d). a_status a = Accepted \<longrightarrow>
        (\<exists>p\<in>set (projects d). p_id p = project a \<and> assignedTo p = Some (freelancer a)))"

definition run :: "api_call list \<Rightarrow> db \<Rightarrow> db" where
  "run cs d = foldl (\<lambda>d c. step c d) d cs"

text \<open>
  The scenario of the spec: a client and two freelancers register, the client
  posts a project, both freelancers apply, and the client accepts the first
  application.
\<close>

definition scenario :: "api_call list" where
  "scenario =
     [Register \<lparr>reg_username = ''carol'', reg_email = ''carol@example.com'', reg_password = ''pw0'', reg_role = ''client''\<rparr>,
      Register \<lparr>reg_username = ''fred'', reg_email = ''fred@example.com'', reg_password = ''pw1'', reg_role = ''freelancer''\<rparr>,
      Register \<lparr>reg_username = ''fay'', reg_email = ''fay@example.com'', reg_password = ''pw2'', reg_role = ''freelancer''\<rparr>,
      CreateProject 0 \<lparr>pb_title = ''Logo'', pb_description = ''A logo'', pb_budget = ''500'', pb_skills = None\<rparr>,
      Submit 1 \<lparr>projectId = Some (ObjId 3), bid_in = Number 500, cover_in = Some ''hire me''\<rparr>,
      Submit 2 \<lparr>projectId = Some (ObjId 3), bid_in = Number 400, cover_in = Some ''me too''\<rparr>,
      SetAppStatus 0 (ObjId 4) ''accepted'']"

subsection \<open>Lemmas\<close>

lemma route_as_user:
  "route (as_user uid) rs h d bearer =
     (case find_by u_id uid (users d) of
        None \<Rightarrow> (Inl (HttpError 401 ''Not authorized, user not found''), d)
      | Some u \<Rightarrow> (case rs of None \<Rightarrow> h u d
                   | Some rs' \<Rightarrow> (case authorize_roles rs' u of Inl e \<Rightarrow> (Inl e, d) | Inr _ \<Rightarrow> h u d)))"
proof -
  have "protect (as_user uid) d bearer =
          (case find_by u_id uid (users d) of None \<Rightarrow> Inl (HttpError 401 ''Not authorized, user not found'')
           | Some u \<Rightarrow> Inr u)"
    using protect_bearer [of "''token''" "as_user uid" d] by (simp add: bearer_def as_user_def)
  then show ?thesis by (simp add: route_def split: option.split)
qed



lemma route_preserves:
  assumes "I d" and "\<And>u. u \<in> set (users d) \<Longrightarrow> I (snd (h u d))"
  shows "I (snd (route verify rs h d hdr))"
  using assms protect_Inr
  by (auto simp: route_def split: sum.split option.split)

lemma register_inv:
  assumes "db_inv d" shows "db_inv (snd (register hash sign b d))"
  using assms
  by (auto simp: register_def Let_def db_inv_def intro: ids_ok_append_fresh ids_ok_Suc
           split: option.split)

lemma step_inv:
  assumes "db_inv d" shows "db_inv (step c d)"
proof (cases c)
  case (Register b)
  with assms show ?thesis by (simp add: register_inv)
next
  case (Submit uid b)
  with assms show ?thesis
    by (simp add: api_submit_application_def) (rule route_preserves; simp add: submit_application_inv)
next
  case (SetAppStatus uid r st)
  with assms show ?thesis
    by (simp add: api_update_application_status_def) (rule route_preserves; simp add: update_application_status_inv)
next
  case (Withdraw uid r)
  with assms show ?thesis
    by (simp add: api_delete_application_def) (rule route_preserves; simp add: delete_application_inv)
next
  case (CreateProject uid b)
  with assms show ?thesis
    by (simp add: api_create_project_def) (rule route_preserves; simp add: create_project_inv)
next
  case (EditProject uid r b)
  with assms show ?thesis
    by (simp add: api_update_project_def) (rule route_preserves; simp add: update_project_inv)
next
  case (SetProjectStatus uid r st)
  with assms show ?thesis
    by (simp add: api_update_project_status_def) (rule route_preserves; simp add: update_project_status_inv)
next
  case (DeleteProject uid r)
  with assms show ?thesis
    by (simp add: api_delete_project_def) (rule route_preserves; simp add: delete_project_inv)
next
  case (SendMessage uid b)
  with assms show ?thesis
    by (simp add: api_send_message_def) (rule route_preserves; simp add: send_message_inv)
next
  case (DeleteUser uid r)
  with assms show ?thesis
    by (simp add: api_delete_user_def) (rule route_preserves; simp add: delete_user_inv)
next
  case Tick
  with assms show ?thesis by (simp add: db_inv_def)
qed

lemma reachable_mono: "reachable ok d \<Longrightarrow> (\<And>c. ok c \<Longrightarrow> ok' c) \<Longrightarrow> reachable ok' d"
  by (induction rule: reachable.induct) (auto intro: reachable.intros)

lemma reachable_run: "reachable ok d \<Longrightarrow> list_all ok cs \<Longrightarrow> reachable ok (run cs d)"
  by (induction cs arbitrary: d) (auto simp: run_def intro: reachable.step)

lemmas run_defs = run_def empty_db_def route_as_user api_submit_application_def
  api_update_application_status_def api_create_project_def api_update_project_def
  register_def role_of_def find_by_def authorize_roles_def create_project_def insert_project_def
  project_errors_def js_trim_def js_whitespace_def submit_application_def pair_taken_def
  insert_application_def application_errors_def update_application_status_def accept_effects_def
  reject_other_pending_def update_where_def assign_project_def save_by_def application_status_of_def
  update_project_def save_edited_project_def save_project_def Let_def

lemma scenario_apps:
  "map (\<lambda>a. (a_id a, freelancer a, a_status a)) (applications (run scenario empty_db)) =
     [(4, 1, Accepted), (5, 2, Rejected)]"
  by (simp add: scenario_def run_defs)

text \<open>
  C20. Every database reachable from the empty one by any sequence of requests
  is well-formed: identifiers are distinct and below the next one handed out in
  every collection, and no freelancer has two applications to one project.
\<close>

theorem reachable_db_inv:
  assumes "reachable ok d"
  shows "db_inv d"
  using assms by (induction rule: reachable.induct) (auto simp: db_inv_empty step_inv)

theorem reachable_db_inv_witness:
  "reachable (\<lambda>_. True) (run scenario empty_db) \<and> db_inv (run scenario empty_db)"
proof -
  have r: "reachable (\<lambda>_. True) (run scenario empty_db)"
    by (rule reachable_run [OF reachable.init]) (simp add: list_all_iff)
  with reachable_db_inv [OF r] show ?thesis by simp
qed

subsection \<open>Accepted applications and assignments\<close>

lemma aa_transfer:
  assumes "accepted_assigned d"
    and "\<And>a. a \<in> set (applications d') \<Longrightarrow> a_status a = Accepted \<Longrightarrow> a \<in> set (applications d)"
    and "\<And>a p. a \<in> set (applications d') \<Longrightarrow> a_status a = Accepted \<Longrightarrow> p \<in> set (projects d) \<Longrightarrow>
           p_id p = project a \<Longrightarrow> assignedTo p = Some (freelancer a) \<Longrightarrow>
           \<exists>p'\<in>set (projects d'). p_id p' = p_id p \<and> assignedTo p' = assignedTo p"
  shows "accepted_assigned d'"
  unfolding accepted_assigned_def
proof (intro ballI impI)
  fix a assume a: "a \<in> set (applications d')" "a_status a = Accepted"
  then obtain p where "p \<in> set (projects d)" "p_id p = project a" "assignedTo p = Some (freelancer a)"
    using assms(1,2) by (auto simp: accepted_assigned_def)
  with assms(3) [OF a] show "\<exists>p\<in>set (projects d'). p_id p = project a \<and> assignedTo p = Some (freelancer a)"
    by fastforce
qed

lemma aa_grow:
  "accepted_assigned d \<Longrightarrow> applications d' = applications d \<Longrightarrow> set (projects d) \<subseteq> set (projects d') \<Longrightarrow>
   accepted_assigned d'"
  by (rule aa_transfer) auto

lemma save_by_in: "y \<in> set xs \<Longrightarrow> key y = key x \<Longrightarrow> x \<in> set (save_by key x xs)"
  by (induction xs) (auto simp: save_by_def)

lemma send_message_keeps:
  "projects (snd (send_message u b d)) = projects d \<and> applications (snd (send_message u b d)) = applications d"
  by (auto simp: send_message_def insert_message_def Let_def
           split: option.split rid.split if_splits sum.split)

lemma create_project_keeps:
  "applications (snd (create_project u b d)) = applications d \<and>
   set (projects d) \<subseteq> set (projects (snd (create_project u b d)))"
  by (auto simp: create_project_def insert_project_def Let_def
           split: if_splits sum.split mongo_error.split)

lemma aa_append_pending:
  "accepted_assigned d \<Longrightarrow> a_status a = Pending \<Longrightarrow>
   accepted_assigned (d\<lparr>applications := applications d @ [a], next_oid := n\<rparr>)"
  by (rule aa_transfer) auto

lemma aa_delete_apps:
  "accepted_assigned d \<Longrightarrow> accepted_assigned (d\<lparr>applications := delete_where P (applications d)\<rparr>)"
  by (rule aa_transfer) (auto simp: set_delete_where)

lemma submit_aa:
  assumes "accepted_assigned d" shows "accepted_assigned (snd (submit_application u b d))"
  using submit_application_outcome [of u b d]
proof
  assume "snd (submit_application u b d) = d" with assms show ?thesis by simp
next
  assume "\<exists>pid x cl a. insert_application pid (u_id u) x cl d = Inr (a, snd (submit_application u b d))"
  then obtain pid x cl a where i: "insert_application pid (u_id u) x cl d = Inr (a, snd (submit_application u b d))"
    by blast
  have "a_status a = Pending"
    and e: "snd (submit_application u b d) = d\<lparr>applications := applications d @ [a], next_oid := Suc (next_oid d)\<rparr>"
    using i unfolding insert_application_Inr by simp_all
  with assms show ?thesis by (simp add: aa_append_pending)
qed

lemma withdraw_aa:
  "accepted_assigned d \<Longrightarrow> accepted_assigned (snd (delete_application u r d))"
  by (simp add: delete_application_def aa_delete_apps split: rid.split option.split)

lemma project_status_aa:
  assumes "db_inv d" and "accepted_assigned d"
  shows "accepted_assigned (snd (update_project_status u r st d))"
proof -
  have "accepted_assigned (d\<lparr>projects := save_by p_id (p\<lparr>p_status := s\<rparr>) (projects d)\<rparr>)"
    if p: "p \<in> set (projects d)" for p s
  proof (rule aa_transfer [OF assms(2)])
    fix a q assume q: "q \<in> set (projects d)"
    have dist: "distinct (map p_id (projects d))" using assms(1) by (simp add: db_inv_def ids_ok_def)
    show "\<exists>q'\<in>set (projects (d\<lparr>projects := save_by p_id (p\<lparr>p_status := s\<rparr>) (projects d)\<rparr>)).
            p_id q' = p_id q \<and> assignedTo q' = assignedTo q"
    proof (cases "p_id q = p_id p")
      case True
      then have "q = p" using distinct_key_eq [OF dist q p] by simp
      moreover have "p\<lparr>p_status := s\<rparr> \<in> set (save_by p_id (p\<lparr>p_status := s\<rparr>) (projects d))"
        using save_by_in [OF p] by simp
      ultimately show ?thesis by (intro bexI [of _ "p\<lparr>p_status := s\<rparr>"]) simp_all
    next
      case False
      then have "q \<in> set (save_by p_id (p\<lparr>p_status := s\<rparr>) (projects d))"
        using save_by_keep [OF q] by simp
      then show ?thesis by (intro bexI [of _ q]) simp_all
    qed
  qed simp
  then show ?thesis
    using assms(2)
    by (auto simp: update_project_status_def dest: find_by_Some split: rid.split option.split)
qed

lemma aa_delete_project:
  "accepted_assigned d \<Longrightarrow>
   accepted_assigned (d\<lparr>applications := delete_where (\<lambda>a. project a \<in> S) (applications d),
                       projects := delete_where (\<lambda>q. p_id q \<in> S) (projects d)\<rparr>)"
  by (rule aa_transfer) (auto simp: set_delete_where)

lemma delete_project_aa:
  assumes "accepted_assigned d"
  shows "accepted_assigned (snd (delete_project u r d))"
proof -
  have "accepted_assigned (d\<lparr>applications := delete_where (\<lambda>a. project a \<in> {pid}) (applications d),
                       projects := delete_where (\<lambda>q. p_id q \<in> {pid}) (projects d)\<rparr>)" for pid
    by (rule aa_delete_project [OF assms])
  with assms show ?thesis
    by (simp add: delete_project_def Let_def split: rid.split option.split)
qed

lemma detach_freelancer_aa:
  assumes "accepted_assigned d"
  shows "accepted_assigned (detach_freelancer uid d)"
proof (rule aa_transfer [OF assms])
  fix a p
  assume a: "a \<in> set (applications (detach_freelancer uid d))" and p: "p \<in> set (projects d)"
    and as: "assignedTo p = Some (freelancer a)"
  have "freelancer a \<noteq> uid" using a by (simp add: detach_freelancer_def set_delete_where)
  with as have "p \<in> set (projects (detach_freelancer uid d))"
    using update_where_keep [OF p] by (simp add: detach_freelancer_def)
  then show "\<exists>p'\<in>set (projects (detach_freelancer uid d)). p_id p' = p_id p \<and> assignedTo p' = assignedTo p"
    by blast
qed (simp add: detach_freelancer_def set_delete_where)

lemma aa_users [simp]: "accepted_assigned (d\<lparr>users := us\<rparr>) = accepted_assigned d"
  by (simp add: accepted_assigned_def)

lemma delete_user_aa:
  assumes "accepted_assigned d"
  shows "accepted_assigned (snd (delete_user r d))"
proof -
  have "accepted_assigned (delete_client_projects uid d)" for uid
    using aa_delete_project [OF assms] by (simp add: delete_client_projects_eq filter_is_delete_where)
  then have h: "accepted_assigned (case role u of Client \<Rightarrow> delete_client_projects uid d
               | Freelancer \<Rightarrow> detach_freelancer uid d | Admin \<Rightarrow> d)" for u uid
    using assms detach_freelancer_aa by (simp split: role.split)
  show ?thesis
    using assms by (simp add: delete_user_def Let_def h split: rid.split option.split)
qed

lemma accept_aa:
  assumes "db_inv d" and "accepted_assigned d"
    and fa: "find_by a_id aid (applications d) = Some a"
    and fp: "find_by p_id (project a) (projects d) = Some p" and un: "assignedTo p = None"
  shows "accepted_assigned ((accept_effects aid a p d)\<lparr>applications :=
            save_by a_id (a\<lparr>a_status := Accepted\<rparr>) (applications (accept_effects aid a p d))\<rparr>)"
proof -
  have dist: "distinct (map p_id (projects d))" using assms(1) by (simp add: db_inv_def ids_ok_def)
  have p: "p \<in> set (projects d)" "p_id p = project a" using find_by_Some [OF fp] by auto
  have aid: "a_id a = aid" using find_by_Some [OF fa] by simp
  let ?ps = "save_by p_id (assign_project (freelancer a) p) (projects d)"
  have asg: "assign_project (freelancer a) p \<in> set ?ps"
    using save_by_in [OF p(1)] by (simp add: assign_project_def)
  show ?thesis
    unfolding accepted_assigned_def
  proof (intro ballI impI)
    fix b
    assume b: "b \<in> set (applications ((accept_effects aid a p d)\<lparr>applications :=
            save_by a_id (a\<lparr>a_status := Accepted\<rparr>) (applications (accept_effects aid a p d))\<rparr>))"
      and acc: "a_status b = Accepted"
    have "b = a\<lparr>a_status := Accepted\<rparr> \<or> b \<in> set (reject_other_pending (p_id p) aid (applications d))"
      using set_save_by [OF b [simplified]] by (auto simp: accept_effects_def Let_def)
    then show "\<exists>q\<in>set (projects ((accept_effects aid a p d)\<lparr>applications :=
            save_by a_id (a\<lparr>a_status := Accepted\<rparr>) (applications (accept_effects aid a p d))\<rparr>)).
            p_id q = project b \<and> assignedTo q = Some (freelancer b)"
    proof
      assume "b = a\<lparr>a_status := Accepted\<rparr>"
      with asg p show ?thesis
        by (intro bexI [of _ "assign_project (freelancer a) p"])
           (simp_all add: accept_effects_def Let_def assign_project_def)
    next
      assume "b \<in> set (reject_other_pending (p_id p) aid (applications d))"
      with acc have "b \<in> set (applications d)"
        by (auto simp: set_reject_other_pending split: if_splits)
      with acc assms(2) obtain q where q: "q \<in> set (projects d)" "p_id q = project b"
          "assignedTo q = Some (freelancer b)"
        by (auto simp: accepted_assigned_def)
      have "p_id q \<noteq> p_id p"
        using distinct_key_eq [OF dist q(1) p(1)] q(3) un by auto
      then have "q \<in> set ?ps"
        using save_by_keep [OF q(1), of p_id "assign_project (freelancer a) p"] by (simp add: assign_project_def)
      with q show ?thesis
        by (intro bexI [of _ q]) (simp_all add: accept_effects_def Let_def)
    qed
  qed
qed

lemma status_other_aa:
  "accepted_assigned d \<Longrightarrow> s \<noteq> Accepted \<Longrightarrow>
   accepted_assigned (d\<lparr>applications := save_by a_id (a\<lparr>a_status := s\<rparr>) (applications d)\<rparr>)"
  by (rule aa_transfer) (auto dest: set_save_by)

lemma application_status_of_Accepted:
  "application_status_of st = Some Accepted \<Longrightarrow> st = ''accepted''"
  by (simp add: application_status_of_def split: if_splits)

lemma set_app_status_aa:
  assumes "db_inv d" and "accepted_assigned d"
  shows "accepted_assigned (snd (update_application_status u r st d))"
proof (cases "\<exists>aid a p. r = ObjId aid \<and> find_by a_id aid (applications d) = Some a \<and>
                       find_by p_id (project a) (projects d) = Some p")
  case True
  then obtain aid a p where r: "r = ObjId aid" and fa: "find_by a_id aid (applications d) = Some a"
    and fp: "find_by p_id (project a) (projects d) = Some p" by blast
  have acc: "accepted_assigned ((accept_effects aid a p d)\<lparr>applications :=
            save_by a_id (a\<lparr>a_status := Accepted\<rparr>) (applications (accept_effects aid a p d))\<rparr>)"
    if "assignedTo p = None"
    using accept_aa [OF assms fa fp that] .
  have oth: "accepted_assigned (d\<lparr>applications := save_by a_id (a\<lparr>a_status := s\<rparr>) (applications d)\<rparr>)"
    if "application_status_of st = Some s" "st \<noteq> ''accepted''" for s
    using status_other_aa [OF assms(2), of s a] application_status_of_Accepted [of st] that by auto
  show ?thesis
  proof (cases "st = ''accepted''")
    case True
    with assms(2) acc show ?thesis
      by (simp add: r update_status_eq [OF fa fp] application_status_of_def Let_def)
  next
    case False
    with assms(2) oth show ?thesis
      by (simp add: r update_status_eq [OF fa fp] Let_def split: option.split)
  qed
next
  case False
  with assms(2) show ?thesis
    by (auto simp: update_application_status_def split: rid.split option.split)
qed

lemma aa_next_oid [simp]: "accepted_assigned (d\<lparr>next_oid := n\<rparr>) = accepted_assigned d"
  by (simp add: accepted_assigned_def)

lemma aa_now [simp]: "accepted_assigned (d\<lparr>now := n\<rparr>) = accepted_assigned d"
  by (simp add: accepted_assigned_def)

lemma aa_empty: "accepted_assigned empty_db"
  by (simp add: accepted_assigned_def empty_db_def)

lemma step_aa:
  assumes "db_inv d" and "accepted_assigned d" and "no_edit c"
  shows "accepted_assigned (step c d)"
proof (cases c)
  case (Register b)
  with assms(2) show ?thesis by (simp add: register_def Let_def split: option.split)
next
  case (Submit uid b)
  with assms(2) show ?thesis
    by (simp add: api_submit_application_def) (rule route_preserves; simp add: submit_aa)
next
  case (SetAppStatus uid r st)
  with assms(1,2) show ?thesis
    by (simp add: api_update_application_status_def) (rule route_preserves; simp add: set_app_status_aa)
next
  case (Withdraw uid r)
  with assms(2) show ?thesis
    by (simp add: api_delete_application_def) (rule route_preserves; simp add: withdraw_aa)
next
  case (CreateProject uid b)
  with assms(2) show ?thesis
    by (simp add: api_create_project_def)
       (rule route_preserves; simp add: aa_grow [OF assms(2) conjunct1 [OF create_project_keeps]
          conjunct2 [OF create_project_keeps]])
next
  case (EditProject uid r b)
  with assms(3) show ?thesis by simp
next
  case (SetProjectStatus uid r st)
  with assms(1,2) show ?thesis
    by (simp add: api_update_project_status_def) (rule route_preserves; simp add: project_status_aa)
next
  case (DeleteProject uid r)
  with assms(2) show ?thesis
    by (simp add: api_delete_project_def) (rule route_preserves; simp add: delete_project_aa)
next
  case (SendMessage uid b)
  with assms(2) show ?thesis
    by (simp add: api_send_message_def)
       (rule route_preserves; simp add: aa_grow [OF assms(2)] send_message_keeps)
next
  case (DeleteUser uid r)
  with assms(2) show ?thesis
    by (simp add: api_delete_user_def) (rule route_preserves; simp add: delete_user_aa)
next
  case Tick
  with assms(2) show ?thesis by simp
qed

lemma count_le_one_key:
  assumes "distinct (map f xs)" and "\<And>x. x \<in> set xs \<Longrightarrow> P x \<Longrightarrow> f x = k"
  shows "count_where P xs \<le> 1"
proof -
  have "distinct (map f (filter P xs))" using assms(1) by (simp add: distinct_map_filter)
  from distinct_card [OF this] have "length (filter P xs) = card (set (map f (filter P xs)))"
    by simp
  also have "\<dots> \<le> card {k}" using assms(2) by (intro card_mono) auto
  finally show ?thesis by (simp add: count_where_def)
qed

lemma reachable_no_edit_inv:
  "reachable no_edit d \<Longrightarrow> db_inv d \<and> accepted_assigned d"
  by (induction rule: reachable.induct) (auto simp: db_inv_empty aa_empty step_inv step_aa)

text \<open>
  C21. In every database reachable without the general project edit, each
  project has at most one accepted application, and an accepted application's
  project is stored and assigned to the application's freelancer.
\<close>

theorem one_accepted_per_project:
  assumes "reachable no_edit d"
  shows "count_where (\<lambda>a. project a = pid \<and> a_status a = Accepted) (applications d) \<le> 1 \<and>
         (\<forall>a\<in>set (applications d). a_status a = Accepted \<longrightarrow>
            (\<exists>p\<in>set (projects d). p_id p = project a \<and> assignedTo p = Some (freelancer a)))"
proof -
  have inv: "db_inv d" and aa: "accepted_assigned d"
    using reachable_no_edit_inv [OF assms] by auto
  have dp: "distinct (map p_id (projects d))" and pu: "distinct (map (\<lambda>a. (project a, freelancer a)) (applications d))"
    using inv by (simp_all add: db_inv_def ids_ok_def pairs_unique_def)
  obtain k where k: "\<And>a. a \<in> set (applications d) \<Longrightarrow> project a = pid \<and> a_status a = Accepted \<Longrightarrow>
                      (project a, freelancer a) = k"
  proof (cases "find_by p_id pid (projects d)")
    case None
    then show ?thesis
      using aa that [of undefined] by (force simp: accepted_assigned_def find_by_None)
  next
    case (Some p)
    then have p: "p \<in> set (projects d)" "p_id p = pid" using find_by_Some [OF Some] by auto
    have "(project a, freelancer a) = (pid, the (assignedTo p))"
      if am: "a \<in> set (applications d)" and pa: "project a = pid \<and> a_status a = Accepted" for a
    proof -
      have "\<exists>q\<in>set (projects d). p_id q = project a \<and> assignedTo q = Some (freelancer a)"
        using pa bspec [OF aa [unfolded accepted_assigned_def] am] by blast
      then obtain q where q: "q \<in> set (projects d)" "p_id q = pid" "assignedTo q = Some (freelancer a)"
        using pa by auto
      have "q = p" using distinct_key_eq [OF dp q(1) p(1)] q(2) p(2) by simp
      with q pa show ?thesis by simp
    qed
    then show ?thesis by (rule that)
  qed
  have "count_where (\<lambda>a. project a = pid \<and> a_status a = Accepted) (applications d) \<le> 1"
    using count_le_one_key [OF pu k] .
  with aa show ?thesis by (simp add: accepted_assigned_def)
qed

theorem one_accepted_per_project_witness:
  "reachable no_edit (run scenario empty_db) \<and>
   count_where (\<lambda>a. project a = 3 \<and> a_status a = Accepted) (applications (run scenario empty_db)) \<le> 1"
proof -
  have r: "reachable no_edit (run scenario empty_db)"
    by (rule reachable_run [OF reachable.init]) (simp add: scenario_def)
  with one_accepted_per_project [OF r, of 3] show ?thesis by simp
qed

end
