(* ===== verification/Concurrency.thy ===== *)
theory Concurrency
  imports Workflow
begin

text \<open>
  The accept request of \<open>PUT /api/applications/:id/status\<close> is not atomic:
  it reads the application with its project and checks the guards
  (\<open>accept_check\<close>, lines 259--283), and only then writes: the other pending
  applications are rejected, the project it read is assigned and saved, and the
  application is saved accepted (\<open>accept_commit\<close>, lines 284--297). Nothing
  locks the project between the two phases. The lemmas show that the handler is
  exactly the check followed by the commit, and that two accept requests for
  different applications of one project whose reads both happen before either
  commit both succeed and leave two accepted applications.
\<close>

definition accept_check :: "user_doc \<Rightarrow> rid \<Rightarrow> db \<Rightarrow> (oid \<times> application_doc \<times> project_doc) result" where
  "accept_check u r d =
     (case r of
        Malformed \<Rightarrow> Inl (HttpError 400 ''Invalid Application ID.'')
      | ObjId aid \<Rightarrow>
          (case find_by a_id aid (applications d) of
             None \<Rightarrow> Inl (HttpError 404 ''Application not found.'')
           | Some a \<Rightarrow>
               (case find_by p_id (project a) (projects d) of
                  None \<Rightarrow> Inl (HttpError 403 ''Not authorized to update this application.'')
                | Some p \<Rightarrow>
                    (if client p \<noteq> u_id u \<and> role u \<noteq> Admin
                     then Inl (HttpError 403 ''Not authorized to update this application.'')
                     else if p_status p = Completed
                     then Inl (HttpError 400 ''Cannot change application status for a completed project.'')
                     else if assignedTo p \<noteq> None
                     then Inl (HttpError 400 ''Project is already assigned to a freelancer.'')
                     else Inr (aid, a, p)))))"

definition accept_commit :: "oid \<Rightarrow> application_doc \<Rightarrow> project_doc \<Rightarrow> db \<Rightarrow> db" where
  "accept_commit aid a p d =
     (let d1 = accept_effects aid a p d
      in d1\<lparr>applications := save_by a_id (a\<lparr>a_status := Accepted\<rparr>) (applications d1)\<rparr>)"

subsection \<open>Lemmas\<close>

lemma accept_check_Inr:
  "accept_check u r d = Inr (aid, a, p) \<Longrightarrow>
   r = ObjId aid \<and> find_by a_id aid (applications d) = Some a \<and>
   find_by p_id (project a) (projects d) = Some p \<and> assignedTo p = None"
  by (auto simp: accept_check_def split: rid.splits option.splits if_splits)

lemma save_by_in_keys: "key x \<in> set (map key xs) \<Longrightarrow> x \<in> set (save_by key x xs)"
  using save_by_in by fastforce

lemma commit_keys:
  "map a_id (applications (accept_commit aid a p d)) = map a_id (applications d)"
  by (simp add: accept_commit_def accept_effects_def Let_def map_save_by map_reject_other_pending)

lemma commit_keeps_decided:
  assumes "b \<in> set (applications d)" and "a_status b \<noteq> Pending" and "a_id b \<noteq> a_id a"
  shows "b \<in> set (applications (accept_commit aid a p d))"
proof -
  have "b \<in> set (reject_other_pending (p_id p) aid (applications d))"
    using update_where_keep [OF assms(1)] assms(2) by (simp add: reject_other_pending_def)
  with assms(3) show ?thesis
    by (simp add: accept_commit_def accept_effects_def Let_def save_by_keep)
qed

lemma commit_accepts:
  assumes "a_id a \<in> set (map a_id (applications d))"
  shows "a\<lparr>a_status := Accepted\<rparr> \<in> set (applications (accept_commit aid a p d))"
proof -
  have "a_id (a\<lparr>a_status := Accepted\<rparr>) \<in> set (map a_id (reject_other_pending (p_id p) aid (applications d)))"
    using assms by (simp add: map_reject_other_pending)
  then show ?thesis
    by (simp add: accept_commit_def accept_effects_def Let_def save_by_in_keys)
qed

lemma commit_assigns:
  "p_id p \<in> set (map p_id (projects d)) \<Longrightarrow>
   assign_project (freelancer a) p \<in> set (projects (accept_commit aid a p d))"
  by (simp add: accept_commit_def accept_effects_def Let_def assign_project_def save_by_in_keys)

text \<open>
  The accept request refines into its two phases: the handler's reply and
  database are those of \<open>accept_check\<close> followed, when it passes, by
  \<open>accept_commit\<close>, and a failed check changes nothing.
\<close>

lemma accept_two_phase:
  "update_application_status u r ''accepted'' d =
     (case accept_check u r d of
        Inl e \<Rightarrow> (Inl e, d)
      | Inr (aid, a, p) \<Rightarrow> (Inr (a\<lparr>a_status := Accepted\<rparr>), accept_commit aid a p d))"
  by (simp add: update_application_status_def accept_check_def accept_commit_def
        application_status_of_def Let_def split: rid.split option.split)

text \<open>
  C23. Two accept requests for different applications whose checks both read
  the same database, committed one after the other, both succeed: both
  applications end accepted, and the project is left assigned to the second
  applicant (spec section 9: the race on \<open>assignedTo\<close>).
\<close>

theorem concurrent_accepts_both_succeed:
  assumes c1: "accept_check u1 r1 d = Inr (aid1, a1, p1)"
    and c2: "accept_check u2 r2 d = Inr (aid2, a2, p2)" and ne: "aid1 \<noteq> aid2"
  shows "a1\<lparr>a_status := Accepted\<rparr> \<in> set (applications (accept_commit aid2 a2 p2 (accept_commit aid1 a1 p1 d))) \<and>
         a2\<lparr>a_status := Accepted\<rparr> \<in> set (applications (accept_commit aid2 a2 p2 (accept_commit aid1 a1 p1 d))) \<and>
         assign_project (freelancer a2) p2 \<in> set (projects (accept_commit aid2 a2 p2 (accept_commit aid1 a1 p1 d)))"
proof -
  let ?d1 = "accept_commit aid1 a1 p1 d"
  have f1: "find_by a_id aid1 (applications d) = Some a1" and f2: "find_by a_id aid2 (applications d) = Some a2"
    and fp2: "find_by p_id (project a2) (projects d) = Some p2"
    using accept_check_Inr [OF c1] accept_check_Inr [OF c2] by auto
  have a1: "a1 \<in> set (applications d)" "a_id a1 = aid1" using find_by_Some [OF f1] by auto
  have a2: "a2 \<in> set (applications d)" "a_id a2 = aid2" using find_by_Some [OF f2] by auto
  have p2: "p2 \<in> set (projects d)" using find_by_Some [OF fp2] by auto
  have "a1\<lparr>a_status := Accepted\<rparr> \<in> set (applications ?d1)"
    using commit_accepts a1 by fastforce
  then have A1: "a1\<lparr>a_status := Accepted\<rparr> \<in> set (applications (accept_commit aid2 a2 p2 ?d1))"
    using commit_keeps_decided a1(2) a2(2) ne by simp
  have "a_id a2 \<in> set (map a_id (applications ?d1))"
    using a2(1) by (simp only: commit_keys) simp
  then have A2: "a2\<lparr>a_status := Accepted\<rparr> \<in> set (applications (accept_commit aid2 a2 p2 ?d1))"
    by (rule commit_accepts)
  have "p_id p2 \<in> set (map p_id (projects ?d1))"
    using p2 by (simp add: accept_commit_def accept_effects_def Let_def map_save_by)
  then have "assign_project (freelancer a2) p2 \<in> set (projects (accept_commit aid2 a2 p2 ?d1))"
    by (rule commit_assigns)
  with A1 A2 show ?thesis by simp
qed

theorem concurrent_accepts_both_succeed_witness:
  "accept_check demo_client (ObjId 4) demo_db = Inr (4, demo_a1, demo_project) \<and>
   accept_check demo_client (ObjId 5) demo_db = Inr (5, demo_a2, demo_project) \<and>
   demo_a1\<lparr>a_status := Accepted\<rparr> \<in>
     set (applications (accept_commit 5 demo_a2 demo_project (accept_commit 4 demo_a1 demo_project demo_db))) \<and>
   demo_a2\<lparr>a_status := Accepted\<rparr> \<in>
     set (applications (accept_commit 5 demo_a2 demo_project (accept_commit 4 demo_a1 demo_project demo_db)))"
proof -
  have c: "accept_check demo_client (ObjId 4) demo_db = Inr (4, demo_a1, demo_project)"
    "accept_check demo_client (ObjId 5) demo_db = Inr (5, demo_a2, demo_project)"
    by (simp_all add: accept_check_def demo_defs find_by_def)
  have "(4::nat) \<noteq> 5" by simp
  from concurrent_accepts_both_succeed [OF c this] c show ?thesis by simp
qed

end
