(* ===== verification/Dashboards.thy ===== *)
theory Dashboards
  imports Applications
begin

text \<open>
  The dashboards of the client and the freelancer
  (\<open>server/routes/clientRoutes.js\<close>, \<open>server/routes/freelancerRoutes.js\<close>):
  counters over the collections, and the freelancer's earnings, computed by an
  aggregation pipeline that joins the accepted applications with their
  projects. The lemmas bound the counters and show that on a well-formed
  database the pipeline is the plain sum over the freelancer's accepted
  applications of completed projects assigned to them.
\<close>

subsection \<open>Client dashboard\<close>

record client_stats =
  totalPostedProjects :: nat
  cs_activeProjects :: nat
  cs_pendingApplications :: nat
  cs_completedProjects :: nat

definition client_dashboard :: "oid \<Rightarrow> db \<Rightarrow> client_stats" where
  "client_dashboard cid d =
     (let projectIds = map p_id (filter (\<lambda>p. client p = cid) (projects d))
      in \<lparr>totalPostedProjects = count_where (\<lambda>p. client p = cid) (projects d),
          cs_activeProjects = count_where (\<lambda>p. client p = cid \<and> p_status p \<in> {Assigned, InProgress}) (projects d),
          cs_pendingApplications =
            count_where (\<lambda>a. project a \<in> set projectIds \<and> a_status a = Pending) (applications d),
          cs_completedProjects = count_where (\<lambda>p. client p = cid \<and> p_status p = Completed) (projects d)\<rparr>)"

subsection \<open>Freelancer dashboard\<close>

record freelancer_stats =
  fs_activeProjects :: nat
  fs_pendingApplications :: nat
  fs_completedProjects :: nat
  earningsLastMonth :: real

text \<open>
  The earnings pipeline stage by stage: \<open>$match\<close> the freelancer's accepted
  applications, \<open>$lookup\<close> the projects with the application's project id
  and \<open>$unwind\<close> them (one row per matching project, none when the project is
  gone), \<open>$match\<close> the completed projects assigned to the freelancer, and
  \<open>$group\<close> with \<open>$sum\<close> of the bid; no row at all gives 0.
\<close>

definition earnings_rows :: "oid \<Rightarrow> db \<Rightarrow> (application_doc \<times> project_doc) list" where
  "earnings_rows fid d =
     filter (\<lambda>(a, p). p_status p = Completed \<and> assignedTo p = Some fid)
       (concat (map (\<lambda>a. map (\<lambda>p. (a, p)) (filter (\<lambda>p. p_id p = project a) (projects d)))
         (filter (\<lambda>a. freelancer a = fid \<and> a_status a = Accepted) (applications d))))"

definition freelancer_earnings :: "oid \<Rightarrow> db \<Rightarrow> real" where
  "freelancer_earnings fid d = sum_list (map (\<lambda>(a, p). bidAmount a) (earnings_rows fid d))"

definition freelancer_dashboard :: "oid \<Rightarrow> db \<Rightarrow> freelancer_stats" where
  "freelancer_dashboard fid d =
     \<lparr>fs_activeProjects = count_where (\<lambda>p. assignedTo p = Some fid \<and> p_status p \<in> {Assigned, InProgress}) (projects d),
      fs_pendingApplications = count_where (\<lambda>a. freelancer a = fid \<and> a_status a = Pending) (applications d),
      fs_completedProjects = count_where (\<lambda>p. assignedTo p = Some fid \<and> p_status p = Completed) (projects d),
      earningsLastMonth = freelancer_earnings fid d\<rparr>"

definition api_client_dashboard ::
  "(string \<Rightarrow> oid option) \<Rightarrow> string option \<Rightarrow> db \<Rightarrow> client_stats result \<times> db" where
  "api_client_dashboard verify hdr d =
     route verify (Some [Client]) (\<lambda>u d. (Inr (client_dashboard (u_id u) d), d)) d hdr"

definition api_freelancer_dashboard ::
  "(string \<Rightarrow> oid option) \<Rightarrow> string option \<Rightarrow> db \<Rightarrow> freelancer_stats result \<times> db" where
  "api_freelancer_dashboard verify hdr d =
     route verify (Some [Freelancer]) (\<lambda>u d. (Inr (freelancer_dashboard (u_id u) d), d)) d hdr"

text \<open>A completed project with its accepted application, for the examples.\<close>

definition earn_db :: db where
  "earn_db = demo_db\<lparr>projects := [demo_project\<lparr>p_status := Completed, assignedTo := Some 1\<rparr>],
     applications := [demo_a1\<lparr>a_status := Accepted\<rparr>, demo_a2\<lparr>a_status := Rejected\<rparr>]\<rparr>"

subsection \<open>Lemmas\<close>

lemma count_where_disjoint:
  assumes "\<And>x. P x \<Longrightarrow> Q x \<Longrightarrow> False" and "\<And>x. P x \<Longrightarrow> R x" and "\<And>x. Q x \<Longrightarrow> R x"
  shows "count_where P xs + count_where Q xs \<le> count_where R xs"
  by (induction xs) (use assms in \<open>auto simp: count_where_def le_SucI\<close>)

lemma filter_key_single:
  assumes "distinct (map key xs)" and "x \<in> set xs"
  shows "filter (\<lambda>y. key y = key x) xs = [x]"
  using assms by (induction xs) (auto simp: filter_empty_conv rev_image_eqI)

lemma join_unique_sum:
  assumes "distinct (map p_id ps)"
  shows "sum_list (map (\<lambda>(a, p). bidAmount a)
           (filter Q (concat (map (\<lambda>a. map (\<lambda>p. (a, p)) (filter (\<lambda>p. p_id p = project a) ps)) as)))) =
         sum_list (map bidAmount (filter (\<lambda>a. \<exists>p\<in>set ps. p_id p = project a \<and> Q (a, p)) as))"
proof (induction as)
  case Nil
  then show ?case by simp
next
  case (Cons a as)
  show ?case
  proof (cases "find_by p_id (project a) ps")
    case None
    then have "filter (\<lambda>p. p_id p = project a) ps = []" "\<forall>p\<in>set ps. p_id p \<noteq> project a"
      by (auto simp: find_by_None filter_empty_conv)
    with Cons.IH show ?thesis by simp
  next
    case (Some p)
    then have p: "p \<in> set ps" "p_id p = project a"
      using find_by_Some [OF Some] by auto
    then have f: "filter (\<lambda>p. p_id p = project a) ps = [p]"
      using filter_key_single [OF assms p(1)] by simp
    have "(\<exists>p'\<in>set ps. p_id p' = project a \<and> Q (a, p')) \<longleftrightarrow> Q (a, p)"
      using p distinct_key_eq [OF assms] by metis
    with f Cons.IH show ?thesis by simp
  qed
qed

text \<open>
  C18. On a well-formed database the earnings aggregation (match, lookup,
  unwind, match, group) equals the sum of the bids of the freelancer's accepted
  applications whose project is completed and assigned to the freelancer: the
  join neither duplicates nor loses an application.
\<close>

theorem earnings_pipeline_sum:
  assumes "db_inv d"
  shows "freelancer_earnings fid d =
           sum_list (map bidAmount (filter (\<lambda>a. freelancer a = fid \<and> a_status a = Accepted \<and>
             (\<exists>p\<in>set (projects d). p_id p = project a \<and> p_status p = Completed \<and> assignedTo p = Some fid))
             (applications d)))"
proof -
  have "distinct (map p_id (projects d))"
    using assms by (simp add: db_inv_def ids_ok_def)
  then show ?thesis
    by (simp add: freelancer_earnings_def earnings_rows_def join_unique_sum filter_filter conj_ac
             cong: filter_cong)
qed

theorem earnings_pipeline_sum_witness:
  "db_inv earn_db \<and> freelancer_earnings 1 earn_db = 500"
proof -
  have i: "db_inv earn_db"
    by (simp add: earn_db_def demo_defs db_inv_def ids_ok_def pairs_unique_def)
  have "freelancer_earnings 1 earn_db = 500"
    using earnings_pipeline_sum [OF i, of 1] by (simp add: earn_db_def demo_defs)
  with i show ?thesis by simp
qed

text \<open>
  On the client dashboard the active and the completed projects together
  never outnumber the posted projects.
\<close>

theorem client_counts_bounded:
  "cs_activeProjects (client_dashboard cid d) + cs_completedProjects (client_dashboard cid d)
     \<le> totalPostedProjects (client_dashboard cid d)"
  by (simp add: client_dashboard_def Let_def) (rule count_where_disjoint; auto)

end
