(* ===== verification/ClientAuth.thy ===== *)
theory ClientAuth
  imports Applications
begin

text \<open>
  The React client's authentication (\<open>client/src/context/AuthContext.jsx\<close>),
  its route table and guards (\<open>client/src/App.js\<close>) and its login forms
  (\<open>pages/Authenticate.jsx\<close>, \<open>components/AdminLoginForm.jsx\<close>). The
  browser side is a \<open>session\<close>: the context's state, the token in
  \<open>localStorage\<close>, the current location and the toasts shown so far. A
  request to the server is the server's handler applied to the database, so the
  client and the server compose: \<open>auth_set_from_token\<close> calls \<open>me\<close>, the
  forms call \<open>register\<close> and \<open>login\<close>. The lemmas show where a login lands,
  that the guards let a freshly logged-in user into their dashboard and keep
  everyone else out, and that a reload restores the session a login made.
\<close>

record session =
  isAuthenticated :: bool
  s_user :: "user_doc option"
  userRole :: "string option"
  s_loading :: bool
  token :: "string option"
  location :: string
  toasts :: "string list"

text \<open>The provider's state when the page loads: only \<open>localStorage\<close> survives.\<close>

definition fresh_session :: "string option \<Rightarrow> string \<Rightarrow> session" where
  "fresh_session tok loc =
     \<lparr>isAuthenticated = False, s_user = None, userRole = None, s_loading = True, token = tok,
      location = loc, toasts = []\<rparr>"

text \<open>A token string is truthy when it is present and not empty.\<close>

definition has_token :: "string option \<Rightarrow> bool" where
  "has_token tok \<longleftrightarrow> tok \<noteq> None \<and> tok \<noteq> Some []"

definition auth_logout :: "bool \<Rightarrow> session \<Rightarrow> session" where
  "auth_logout shouldNavigate s =
     s\<lparr>isAuthenticated := False, s_user := None, userRole := None, token := None,
       toasts := toasts s @ [''You have been logged out.''],
       location := (if shouldNavigate then ''/'' else location s), s_loading := False\<rparr>"

text \<open>
  \<open>setAuthFromToken\<close>: the reply of \<open>GET /api/auth/me\<close> (\<open>None\<close> when the
  request fails on the network). A refused token logs out without navigating.
\<close>

definition auth_set_from_token :: "string option \<Rightarrow> user_doc result option \<Rightarrow> session \<Rightarrow> session" where
  "auth_set_from_token tok reply s =
     (if \<not> has_token tok
      then s\<lparr>isAuthenticated := False, s_user := None, userRole := None, s_loading := False\<rparr>
      else (case reply of
              Some (Inr u) \<Rightarrow>
                s\<lparr>isAuthenticated := True, s_user := Some u, userRole := Some (role_str (role u)),
                  token := tok, s_loading := False\<rparr>
            | Some (Inl _) \<Rightarrow> (auth_logout False s)\<lparr>s_loading := False\<rparr>
            | None \<Rightarrow> (auth_logout False s)\<lparr>s_loading := False\<rparr>))"

definition bearer_header :: "string \<Rightarrow> string option" where
  "bearer_header tok = Some (''Bearer '' @ tok)"

text \<open>The token check against the server: \<open>fetch('/api/auth/me')\<close> then \<open>setAuthFromToken\<close>.\<close>

definition auth_check ::
  "(string \<Rightarrow> oid option) \<Rightarrow> db \<Rightarrow> string option \<Rightarrow> session \<Rightarrow> session" where
  "auth_check verify d tok s =
     auth_set_from_token tok
       (case tok of None \<Rightarrow> None | Some t \<Rightarrow> Some (me verify d (bearer_header t))) s"

definition dashboard_path :: "string \<Rightarrow> string" where
  "dashboard_path r =
     (if r = ''admin'' then ''/admin/dashboard''
      else if r = ''client'' then ''/client/dashboard''
      else if r = ''freelancer'' then ''/freelancer/dashboard''
      else ''/'')"

definition auth_login :: "string \<Rightarrow> user_doc \<Rightarrow> session \<Rightarrow> session" where
  "auth_login tok u s =
     s\<lparr>isAuthenticated := True, s_user := Some u, userRole := Some (role_str (role u)),
       token := Some tok, location := dashboard_path (role_str (role u)), s_loading := False\<rparr>"

text \<open>The mount effect: check a stored token, or stop loading.\<close>

definition auth_init :: "(string \<Rightarrow> oid option) \<Rightarrow> db \<Rightarrow> session \<Rightarrow> session" where
  "auth_init verify d s =
     (if has_token (token s) then auth_check verify d (token s) s else s\<lparr>s_loading := False\<rparr>)"

subsection \<open>Routes and guards\<close>

datatype page =
    Landing | Authenticate | AboutUs | AdminLogin
  | FreelancerOverview | AllProjectsF | MyApplicationsF | MyWorkingProjectsF | ProfileF
  | ProjectDataF string | WorkingProjectF string
  | AdminOverview | AllUsers | AdminProjects | AdminApplications
  | ClientOverview | NewProjectC | ClientMyProjects | ClientWorkingProjects
  | ProjectApplicationsC string | ProjectWorkingC string | ClientProfile | ClientReview
  | NotFound

datatype guard = Public | Protected "string list option" | AdminProtected

datatype outcome = Render page | LoadingScreen | RedirectTo string

text \<open>
  The \<open><Routes>\<close> tree of \<open>App\<close>, by path segments. A path that no child
  route matches falls through to the top-level \<open>*\<close> route: the public 404 page.
\<close>

definition freelancer_child :: "string list \<Rightarrow> page option" where
  "freelancer_child ps =
     (case ps of
        [] \<Rightarrow> Some FreelancerOverview
      | [p] \<Rightarrow>
          if p = ''dashboard'' then Some FreelancerOverview
          else if p = ''all-projects'' then Some AllProjectsF
          else if p = ''my-applications'' then Some MyApplicationsF
          else if p = ''my-projects'' then Some MyWorkingProjectsF
          else if p = ''profile'' then Some ProfileF else None
      | [p, i] \<Rightarrow>
          if p = ''project-data'' then Some (ProjectDataF i)
          else if p = ''working-project'' then Some (WorkingProjectF i) else None
      | _ \<Rightarrow> None)"

definition admin_child :: "string list \<Rightarrow> page option" where
  "admin_child ps =
     (case ps of
        [] \<Rightarrow> Some AdminOverview
      | [p] \<Rightarrow>
          if p = ''dashboard'' then Some AdminOverview
          else if p = ''users'' then Some AllUsers
          else if p = ''projects'' then Some AdminProjects
          else if p = ''applications'' then Some AdminApplications else None
      | _ \<Rightarrow> None)"

definition client_child :: "string list \<Rightarrow> page option" where
  "client_child ps =
     (case ps of
        [] \<Rightarrow> Some ClientOverview
      | [p] \<Rightarrow>
          if p = ''dashboard'' then Some ClientOverview
          else if p = ''new-project'' then Some NewProjectC
          else if p = ''my-posted-projects'' then Some ClientMyProjects
          else if p = ''my-working-projects'' then Some ClientWorkingProjects
          else if p = ''profile'' then Some ClientProfile
          else if p = ''review-applications'' then Some ClientReview else None
      | [p, i] \<Rightarrow>
          if p = ''view-applications'' then Some (ProjectApplicationsC i)
          else if p = ''working-project'' then Some (ProjectWorkingC i) else None
      | _ \<Rightarrow> None)"

definition guarded :: "guard \<Rightarrow> page option \<Rightarrow> guard \<times> page" where
  "guarded g pg = (case pg of Some p \<Rightarrow> (g, p) | None \<Rightarrow> (Public, NotFound))"

definition app_routes :: "string list \<Rightarrow> guard \<times> page" where
  "app_routes segs =
     (case segs of
        [] \<Rightarrow> (Public, Landing)
      | a # ps \<Rightarrow>
          if a = ''login'' \<and> ps = [] then (Public, Authenticate)
          else if a = ''about-us'' \<and> ps = [] then (Public, AboutUs)
          else if a = ''admin-login'' \<and> ps = [] then (Public, AdminLogin)
          else if a = ''freelancer'' then guarded (Protected (Some [''freelancer''])) (freelancer_child ps)
          else if a = ''admin'' then guarded AdminProtected (admin_child ps)
          else if a = ''client'' then guarded (Protected (Some [''client''])) (client_child ps)
          else (Public, NotFound))"

definition protected_route :: "session \<Rightarrow> string list option \<Rightarrow> page \<Rightarrow> outcome" where
  "protected_route s allowed pg =
     (if s_loading s then LoadingScreen
      else if \<not> isAuthenticated s then RedirectTo ''/login''
      else (case allowed of
              Some rs \<Rightarrow> if userRole s \<notin> Some ` set rs then RedirectTo ''/'' else Render pg
            | None \<Rightarrow> Render pg))"

definition admin_protected_route :: "session \<Rightarrow> page \<Rightarrow> outcome" where
  "admin_protected_route s pg =
     (if s_loading s then LoadingScreen
      else if \<not> isAuthenticated s \<or> userRole s \<noteq> Some ''admin'' then RedirectTo ''/admin-login''
      else Render pg)"

definition path_segments :: "string \<Rightarrow> string list" where
  "path_segments p = filter (\<lambda>x. x \<noteq> []) (js_split CHR ''/'' p)"

definition resolve :: "session \<Rightarrow> string \<Rightarrow> outcome" where
  "resolve s p =
     (case app_routes (path_segments p) of
        (Public, pg) \<Rightarrow> Render pg
      | (Protected rs, pg) \<Rightarrow> protected_route s rs pg
      | (AdminProtected, pg) \<Rightarrow> admin_protected_route s pg)"

subsection \<open>Login forms\<close>

record auth_form =
  isLogin :: bool
  af_username :: string
  af_email :: string
  af_password :: string
  af_role :: string

text \<open>
  \<open>handleAuth\<close> of \<open>Authenticate\<close>: the login or the register request, then
  \<open>login(data.token, data.user)\<close> of the context on success, the server's
  message as a toast otherwise. The server's bcrypt and JWT functions are
  parameters, as in \<open>Auth\<close>.
\<close>

definition handle_auth ::
  "(string \<Rightarrow> string) \<Rightarrow> (string \<Rightarrow> string \<Rightarrow> bool) \<Rightarrow> (oid \<Rightarrow> string) \<Rightarrow>
   auth_form \<Rightarrow> session \<Rightarrow> db \<Rightarrow> session \<times> db" where
  "handle_auth hash hash_ok sign f s d =
     (if isLogin f then
        (case login hash_ok sign (af_email f) (af_password f) d of
           Inr (tok, u) \<Rightarrow> (auth_login tok u (s\<lparr>toasts := toasts s @ [''Logged in successfully!'']\<rparr>), d)
         | Inl (HttpError _ m) \<Rightarrow> (s\<lparr>toasts := toasts s @ [if m = [] then ''Authentication failed.'' else m]\<rparr>, d))
      else
        (case register hash sign \<lparr>reg_username = af_username f, reg_email = af_email f,
                                  reg_password = af_password f, reg_role = af_role f\<rparr> d of
           (Inr (tok, u), d') \<Rightarrow>
             (auth_login tok u (s\<lparr>toasts := toasts s @ [''User registered successfully!'',
                                                       ''Registration successful! Logging you in...'']\<rparr>), d')
         | (Inl (HttpError _ m), d') \<Rightarrow>
             (s\<lparr>toasts := toasts s @ [if m = [] then ''Authentication failed.'' else m]\<rparr>, d')))"

text \<open>
  \<open>handleSubmit\<close> of \<open>AdminLoginForm\<close>: a successful login of a user who is
  not an admin removes the stored token and goes to \<open>/login\<close>, without
  touching the rest of the context.
\<close>

definition admin_login_submit ::
  "(string \<Rightarrow> string \<Rightarrow> bool) \<Rightarrow> (oid \<Rightarrow> string) \<Rightarrow> string \<Rightarrow> string \<Rightarrow> session \<Rightarrow> db \<Rightarrow> session" where
  "admin_login_submit hash_ok sign em pw s d =
     (case login hash_ok sign em pw d of
        Inr (tok, u) \<Rightarrow>
          (if role_str (role u) = ''admin''
           then auth_login tok u (s\<lparr>toasts := toasts s @ [''Logged in as Admin successfully!'']\<rparr>)
           else s\<lparr>toasts := toasts s @ [''Access Denied: You are not an Admin.''], token := None,
                  location := ''/login''\<rparr>)
      | Inl (HttpError _ m) \<Rightarrow> s\<lparr>toasts := toasts s @ [if m = [] then ''Login failed.'' else m]\<rparr>)"

text \<open>A logged-in client and a token verifier for the examples.\<close>

definition demo_session :: session where
  "demo_session = auth_login ''tok'' demo_client (fresh_session None ''/login'')"

definition demo_verify :: "string \<Rightarrow> oid option" where
  "demo_verify t = (if t = ''tok'' then Some 0 else None)"

subsection \<open>Lemmas\<close>

lemma path_segments_dash:
  "path_segments ''/admin/dashboard'' = [''admin'', ''dashboard'']"
  "path_segments ''/client/dashboard'' = [''client'', ''dashboard'']"
  "path_segments ''/freelancer/dashboard'' = [''freelancer'', ''dashboard'']"
  by (simp_all add: path_segments_def js_split_def)

text \<open>
  After a login, the location the context navigates to is the dashboard of
  the user's role, and the router renders that dashboard there: the guard
  admits the user it has just logged in.
\<close>

theorem login_lands_on_dashboard:
  "resolve (auth_login tok u s) (location (auth_login tok u s)) =
     Render (case role u of Client \<Rightarrow> ClientOverview | Freelancer \<Rightarrow> FreelancerOverview
                          | Admin \<Rightarrow> AdminOverview)"
  by (cases "role u")
     (simp_all add: auth_login_def dashboard_path_def resolve_def path_segments_dash app_routes_def
        guarded_def client_child_def freelancer_child_def admin_child_def protected_route_def
        admin_protected_route_def)

lemma me_bearer:
  assumes "verify tok = Some (u_id u)" and "find_by u_id (u_id u) (users d) = Some u"
    and "CHR '' '' \<notin> set tok"
  shows "me verify d (bearer_header tok) = Inr u"
  using assms protect_bearer [OF assms(3), of verify d]
  by (simp add: me_def route_def bearer_header_def)

text \<open>
  C25. Login and reload round-trip: after a login with a token the server
  verifies for a stored user, reloading the page (a fresh context with only
  the stored token) and running the mount effect against the server restores
  the same session, toasts apart.
\<close>

theorem reload_restores_session:
  assumes "verify tok = Some (u_id u)" and "find_by u_id (u_id u) (users d) = Some u"
    and "CHR '' '' \<notin> set tok" and "tok \<noteq> []"
  shows "auth_init verify d (fresh_session (token (auth_login tok u s)) (location (auth_login tok u s))) =
           (auth_login tok u s)\<lparr>toasts := []\<rparr>"
  using me_bearer [of verify tok u d, OF assms(1-3)] assms(4)
  by (simp add: auth_init_def auth_check_def auth_set_from_token_def has_token_def fresh_session_def
        auth_login_def)

text \<open>
  C26. A guarded page renders only when the authentication check has finished,
  the session is authenticated, and its role is one the guard allows (admin
  for the admin pages).
\<close>

theorem guards_admit_only_allowed:
  assumes "app_routes (path_segments p) = (g, pg0)" and "g \<noteq> Public" and "resolve s p = Render pg"
  shows "\<not> s_loading s \<and> isAuthenticated s \<and> pg = pg0 \<and>
         (g = AdminProtected \<longrightarrow> userRole s = Some ''admin'') \<and>
         (\<forall>rs. g = Protected (Some rs) \<longrightarrow> (\<exists>r\<in>set rs. userRole s = Some r))"
  using assms
  by (cases g) (auto simp: resolve_def protected_route_def admin_protected_route_def
                     split: if_splits option.splits)

theorem guards_admit_only_allowed_witness:
  "app_routes (path_segments ''/client/new-project'') = (Protected (Some [''client'']), NewProjectC) \<and>
   resolve demo_session ''/client/new-project'' = Render NewProjectC \<and>
   isAuthenticated demo_session \<and> userRole demo_session = Some ''client''"
proof -
  have a: "app_routes (path_segments ''/client/new-project'') = (Protected (Some [''client'']), NewProjectC)"
    by (simp add: path_segments_def js_split_def app_routes_def guarded_def client_child_def)
  have r: "resolve demo_session ''/client/new-project'' = Render NewProjectC"
    by (simp add: resolve_def a protected_route_def demo_session_def auth_login_def demo_defs)
  have "Protected (Some [''client'']) \<noteq> Public" by simp
  from guards_admit_only_allowed [OF a this r] a r show ?thesis by simp
qed

theorem reload_restores_session_witness:
  "auth_init demo_verify demo_db (fresh_session (token (auth_login ''tok'' demo_client (fresh_session None ''/login'')))
      (location (auth_login ''tok'' demo_client (fresh_session None ''/login'')))) = (auth_login ''tok'' demo_client (fresh_session None ''/login''))\<lparr>toasts := []\<rparr>"
proof -
  have "demo_verify ''tok'' = Some (u_id demo_client)" "find_by u_id (u_id demo_client) (users demo_db) = Some demo_client"
    "CHR '' '' \<notin> set ''tok''" "''tok'' \<noteq> []"
    by (simp_all add: demo_verify_def demo_defs find_by_def)
  then show ?thesis by (rule reload_restores_session)
qed

text \<open>
  C27. The registration form sends the role it is given and the server stores
  it: a registration with role admin and a fresh e-mail creates an admin
  account and logs its creator in as admin, though the form offers only
  freelancer and client.
\<close>

theorem register_as_admin:
  assumes "\<not> isLogin f" and "af_username f \<noteq> []" and "af_email f \<noteq> []" and "af_password f \<noteq> []"
    and "af_role f = ''admin''" and "\<forall>u\<in>set (users d). email u \<noteq> af_email f"
  shows "\<exists>s' d'. handle_auth hash hash_ok sign f s d = (s', d') \<and>
           isAuthenticated s' \<and> userRole s' = Some ''admin'' \<and> location s' = ''/admin/dashboard'' \<and>
           (\<exists>u\<in>set (users d'). role u = Admin \<and> email u = af_email f)"
  using assms
  by (simp add: handle_auth_def register_def role_of_def Let_def auth_login_def dashboard_path_def)

theorem register_as_admin_witness:
  "\<exists>s' d'. handle_auth id (\<lambda>_ _. False) (\<lambda>_. ''t'')
        \<lparr>isLogin = False, af_username = ''eve'', af_email = ''eve@example.com'', af_password = ''pw'',
         af_role = ''admin''\<rparr> demo_session demo_db = (s', d') \<and>
     isAuthenticated s' \<and> userRole s' = Some ''admin'' \<and> location s' = ''/admin/dashboard'' \<and>
     (\<exists>u\<in>set (users d'). role u = Admin \<and> email u = ''eve@example.com'')"
proof -
  have "\<forall>u\<in>set (users demo_db). email u \<noteq> ''eve@example.com''" by (simp add: demo_defs)
  then show ?thesis
    using register_as_admin [of "\<lparr>isLogin = False, af_username = ''eve'', af_email = ''eve@example.com'',
        af_password = ''pw'', af_role = ''admin''\<rparr>" demo_db id "\<lambda>_ _. False" "\<lambda>_. ''t''" demo_session]
    by simp
qed

end
