(* ===== verification/ClientPages.thy ===== *)
theory ClientPages
  imports ClientAuth Admin
begin

text \<open>
  Two pages of the React client that write to the server: the freelancer's
  project page (\<open>pages/freelancer/ProjectData.jsx\<close>), which loads a project,
  tells whether the freelancer has applied, and submits a bid, and the client's
  project form (\<open>pages/client/NewProject.jsx\<close>). Each page is a record of its
  \<open>useState\<close> variables; a handler takes the page state, the session of
  \<open>ClientAuth\<close> (token, role, toasts, location) and the server's database, and
  returns all three, calling the server's route definitions for its requests.
  The lemmas show that the page's "applied" flag agrees with the server's
  duplicate check, what a successful bid leaves on the page and in the
  database, that the bid field of the page's form only lets numbers through,
  and that skills shown by the
  project page parse back to the list the form sent.
\<close>

subsection \<open>JavaScript numbers\<close>

text \<open>
  \<open>Number(s)\<close> on a form field (\<open>StringToNumber\<close>): white space around the
  literal is ignored and the empty string is 0; otherwise the whole string
  must be a hexadecimal, octal or binary literal (\<open>0x\<close>, \<open>0o\<close>, \<open>0b\<close>, no
  sign), or an optional sign followed by \<open>Infinity\<close> or an unsigned decimal
  literal with an optional exponent; anything else is \<open>NaN\<close>. \<open>js_num\<close> and
  the decimal literal are those of \<open>parseFloat\<close> in \<open>Admin\<close>.
\<close>

definition radix_digit :: "nat \<Rightarrow> char \<Rightarrow> nat option" where
  "radix_digit b c =
     (let n = (of_char c :: nat);
          v = (if 48 \<le> n \<and> n \<le> 57 then n - 48 else if 97 \<le> n \<and> n \<le> 122 then n - 87
               else if 65 \<le> n \<and> n \<le> 90 then n - 55 else 36)
      in if v < b then Some v else None)"

fun radix_val :: "nat \<Rightarrow> nat \<Rightarrow> string \<Rightarrow> nat option" where
  "radix_val b acc [] = Some acc"
| "radix_val b acc (c # cs) = (case radix_digit b c of None \<Rightarrow> None | Some v \<Rightarrow> radix_val b (b * acc + v) cs)"

definition radix_literal :: "string \<Rightarrow> real option" where
  "radix_literal t =
     (case t of
        z # x # ds \<Rightarrow>
          (let b = (if x = CHR ''x'' \<or> x = CHR ''X'' then 16 else if x = CHR ''o'' \<or> x = CHR ''O'' then 8
                    else if x = CHR ''b'' \<or> x = CHR ''B'' then 2 else 0)
           in if z = CHR ''0'' \<and> b \<noteq> 0 \<and> ds \<noteq> [] then map_option real (radix_val b 0 ds) else None)
      | _ \<Rightarrow> None)"

definition js_Number :: "string \<Rightarrow> js_num" where
  "js_Number s =
     (let t = js_trim s
      in if t = [] then Num 0
         else (case radix_literal t of
                 Some x \<Rightarrow> Num x
               | None \<Rightarrow>
                   (let (sg, u) = sign_prefix t
                    in if u = ''Infinity'' then (if sg < 0 then NegInf else PosInf)
                       else (case decimal_prefix u of
                               Some (x, []) \<Rightarrow> Num (of_int sg * x)
                             | _ \<Rightarrow> NaN))))"

text \<open>\<open>Number(x) <= 0\<close>: false for \<open>NaN\<close> and \<open>Infinity\<close>, true for \<open>-Infinity\<close>.\<close>

fun js_le0 :: "js_num \<Rightarrow> bool" where
  "js_le0 NaN = False"
| "js_le0 (Num x) = (x \<le> 0)"
| "js_le0 PosInf = False"
| "js_le0 NegInf = True"

text \<open>
  A number in a JSON body as the server reads it: \<open>JSON.stringify\<close> sends
  \<open>NaN\<close> and the infinities as \<open>null\<close>, which \<open>parseFloat\<close> reads as \<open>NaN\<close>.
\<close>

fun json_num :: "js_num \<Rightarrow> num_input" where
  "json_num (Num x) = Number x"
| "json_num _ = NotANumber"

text \<open>The header of every page request: \<open>Bearer ${token}\<close>, \<open>null\<close> when there is none.\<close>

definition bearer_of :: "string option \<Rightarrow> string option" where
  "bearer_of tok = Some (''Bearer '' @ (case tok of None \<Rightarrow> ''null'' | Some t \<Rightarrow> t))"

definition toast :: "string \<Rightarrow> session \<Rightarrow> session" where
  "toast m s = s\<lparr>toasts := toasts s @ [m]\<rparr>"

definition msg_or :: "string \<Rightarrow> string \<Rightarrow> string" where
  "msg_or m dflt = (if m = [] then dflt else m)"

subsection \<open>The freelancer's project page\<close>

record pd_state =
  pd_project :: "project_doc option"
  pd_loading :: bool
  pd_error :: "string option"
  pd_showApplyModal :: bool
  pd_bidAmount :: string
  pd_coverLetter :: string
  pd_submitting :: bool
  pd_hasApplied :: bool

definition pd_initial :: pd_state where
  "pd_initial = \<lparr>pd_project = None, pd_loading = True, pd_error = None, pd_showApplyModal = False,
                 pd_bidAmount = [], pd_coverLetter = [], pd_submitting = False, pd_hasApplied = False\<rparr>"

text \<open>The \<open>catch\<close> of the fetch: the message becomes the error and a toast.\<close>

definition pd_fail :: "string \<Rightarrow> pd_state \<times> session \<Rightarrow> pd_state \<times> session" where
  "pd_fail m ss =
     (fst ss\<lparr>pd_error := Some m, pd_loading := False\<rparr>, toast (''Error loading project: '' @ m) (snd ss))"

text \<open>
  \<open>fetchProjectAndApplicationStatus\<close> for the URL's project id (\<open>None\<close> when
  it is missing): the project, then the freelancer's applications, of which
  one to this project sets \<open>hasApplied\<close>.
\<close>

definition pd_fetch ::
  "(string \<Rightarrow> oid option) \<Rightarrow> db \<Rightarrow> rid option \<Rightarrow> session \<Rightarrow> pd_state \<Rightarrow> pd_state \<times> session" where
  "pd_fetch verify d rid_in s st =
     (let st0 = st\<lparr>pd_loading := True, pd_error := None, pd_hasApplied := False\<rparr>
      in case rid_in of
           None \<Rightarrow> pd_fail ''Project ID is missing from the URL.'' (st0, s)
         | Some r \<Rightarrow>
             if \<not> has_token (token s)
             then (st0\<lparr>pd_error := Some ''Authentication token not found. Please log in.'',
                        pd_loading := False\<rparr>, s\<lparr>location := ''/login''\<rparr>)
             else (case fst (api_get_project verify (bearer_of (token s)) r d) of
                     Inl (HttpError c m) \<Rightarrow>
                       if c = 404 then pd_fail ''Project Not Found.'' (st0\<lparr>pd_project := None\<rparr>, s)
                       else pd_fail (msg_or m ''Failed to fetch project details.'') (st0, s)
                   | Inr p \<Rightarrow>
                       (let st1 = st0\<lparr>pd_project := Some p\<rparr>
                        in if isAuthenticated s \<and> userRole s = Some ''freelancer'' \<and> s_user s \<noteq> None
                           then (case fst (api_my_applications verify (bearer_of (token s)) d) of
                                   Inl _ \<Rightarrow> (st1\<lparr>pd_loading := False\<rparr>, s)
                                 | Inr apps \<Rightarrow>
                                     (st1\<lparr>pd_hasApplied := (\<exists>a\<in>set apps. ObjId (project a) = r),
                                          pd_loading := False\<rparr>, s))
                           else (st1\<lparr>pd_loading := False\<rparr>, s))))"

text \<open>The mount effect.\<close>

definition pd_mount ::
  "(string \<Rightarrow> oid option) \<Rightarrow> db \<Rightarrow> rid option \<Rightarrow> session \<Rightarrow> pd_state \<Rightarrow> pd_state \<times> session" where
  "pd_mount verify d rid_in s st =
     (if isAuthenticated s \<and> userRole s = Some ''freelancer'' \<and> rid_in \<noteq> None
      then pd_fetch verify d rid_in s st
      else if rid_in = None
      then (st\<lparr>pd_error := Some ''No Project ID provided in the URL.'', pd_loading := False\<rparr>, s)
      else (st\<lparr>pd_loading := False\<rparr>, s))"

definition status_of_project :: "project_doc option \<Rightarrow> string" where
  "status_of_project po = (case po of None \<Rightarrow> ''undefined'' | Some p \<Rightarrow> project_status_str (p_status p))"

definition pd_apply_click :: "session \<Rightarrow> pd_state \<Rightarrow> pd_state \<times> session" where
  "pd_apply_click s st =
     (if \<not> pd_hasApplied st \<and> status_of_project (pd_project st) = ''open''
      then (st\<lparr>pd_showApplyModal := True\<rparr>, s)
      else if pd_hasApplied st then (st, toast ''You have already applied for this project.'' s)
      else (st, toast (''This project is '' @ status_of_project (pd_project st) @ ''. Applications are not open.'') s))"

definition pd_close_modal :: "pd_state \<Rightarrow> pd_state" where
  "pd_close_modal st = st\<lparr>pd_showApplyModal := False, pd_bidAmount := [], pd_coverLetter := []\<rparr>"

text \<open>
  \<open>handleSubmitApplication\<close>: the form check, \<open>POST /api/applications\<close>, and
  on success the modal closed, \<open>hasApplied\<close> set and the page fetched again.
\<close>

definition pd_submit ::
  "(string \<Rightarrow> oid option) \<Rightarrow> db \<Rightarrow> rid \<Rightarrow> session \<Rightarrow> pd_state \<Rightarrow> pd_state \<times> session \<times> db" where
  "pd_submit verify d r s st =
     (let st0 = st\<lparr>pd_submitting := True, pd_error := None\<rparr>
      in if \<not> has_token (token s)
         then (st0\<lparr>pd_submitting := False\<rparr>,
               (toast ''Authentication token not found. Please log in.'' s)\<lparr>location := ''/login''\<rparr>, d)
         else if pd_bidAmount st = [] \<or> js_le0 (js_Number (pd_bidAmount st)) \<or> pd_coverLetter st = []
         then (st0\<lparr>pd_submitting := False\<rparr>, toast ''Please enter a valid bid amount and cover letter.'' s, d)
         else
           (let body = \<lparr>projectId = Some r, bid_in = json_num (js_Number (pd_bidAmount st)),
                        cover_in = Some (pd_coverLetter st)\<rparr>
            in case api_submit_application verify (bearer_of (token s)) body d of
                 (Inr a, d') \<Rightarrow>
                   (let st1 = (pd_close_modal st0)\<lparr>pd_hasApplied := True\<rparr>;
                        s1 = toast ''Application submitted successfully!'' s;
                        (st2, s2) = pd_fetch verify d' (Some r) s1 st1
                    in (st2\<lparr>pd_submitting := False\<rparr>, s2, d'))
               | (Inl (HttpError _ m), d') \<Rightarrow>
                   (st0\<lparr>pd_submitting := False\<rparr>, toast (msg_or m ''Failed to submit application.'') s, d')))"

subsection \<open>The application modal's form\<close>

text \<open>
  The bid field is \<open><input type="number" required min="0" step="0.01">\<close>.
  The browser keeps the value of a number input either empty or a valid
  floating-point number in the sense of HTML: an optional \<open>-\<close>, digits
  and/or a dot followed by digits, an optional exponent (no \<open>+\<close> sign, no
  trailing dot, no \<open>Infinity\<close>); other text typed into the field gives the
  empty string.
\<close>

definition html_valid_float :: "string \<Rightarrow> bool" where
  "html_valid_float s =
     (let u = (case s of c # cs \<Rightarrow> if c = CHR ''-'' then cs else s | [] \<Rightarrow> []);
          (ip, dot, fp, r2) = decimal_parts u
      in (ip \<noteq> [] \<or> dot) \<and> (if dot then fp \<noteq> [] else True) \<and>
         (r2 = [] \<or> (case exp_part r2 of Some (_, r3) \<Rightarrow> r3 = [] | None \<Rightarrow> False)))"

text \<open>
  The browser's check when the form is submitted: the bid is required, not
  below \<open>min\<close> and a whole number of \<open>step\<close>s above it; the cover letter is
  required.
\<close>

definition bid_input_valid :: "string \<Rightarrow> bool" where
  "bid_input_valid b \<longleftrightarrow>
     b \<noteq> [] \<and> html_valid_float b \<and>
     (case js_Number b of Num x \<Rightarrow> 0 \<le> x \<and> x * 100 = of_int \<lfloor>x * 100\<rfloor> | _ \<Rightarrow> False)"

text \<open>
  Submitting the modal: the form exists only while the modal is shown, its
  submit button is disabled while a submission runs, and the browser runs
  \<open>handleSubmitApplication\<close> only on a valid form.
\<close>

definition pd_form_submit ::
  "(string \<Rightarrow> oid option) \<Rightarrow> db \<Rightarrow> rid \<Rightarrow> session \<Rightarrow> pd_state \<Rightarrow> pd_state \<times> session \<times> db" where
  "pd_form_submit verify d r s st =
     (if pd_showApplyModal st \<and> \<not> pd_submitting st \<and> bid_input_valid (pd_bidAmount st) \<and> pd_coverLetter st \<noteq> []
      then pd_submit verify d r s st else (st, s, d))"

text \<open>What the page shows: the early returns, then the action area.\<close>

datatype pd_view =
    PdLoading
  | PdError string bool
  | PdUnavailable
  | PdProject bool bool "string option"

definition js_upper_char :: "char \<Rightarrow> char" where
  "js_upper_char c = (let n = (of_char c :: nat) in if 97 \<le> n \<and> n \<le> 122 then char_of (n - 32) else c)"

definition js_capitalize :: "string \<Rightarrow> string" where
  "js_capitalize s = (case s of [] \<Rightarrow> [] | c # cs \<Rightarrow> js_upper_char c # cs)"

definition pd_view :: "pd_state \<Rightarrow> pd_view" where
  "pd_view st =
     (if pd_loading st then PdLoading
      else (case pd_error st of
              Some e \<Rightarrow> PdError e (e = ''Project Not Found.'')
            | None \<Rightarrow>
                (case pd_project st of
                   None \<Rightarrow> PdUnavailable
                 | Some p \<Rightarrow>
                     (let showApply = (p_status p = Open \<and> \<not> pd_hasApplied st);
                          showApplied = (p_status p = Open \<and> pd_hasApplied st)
                      in PdProject showApply showApplied
                           (if p_status p \<noteq> Open \<and> \<not> showApplied
                            then Some (js_capitalize (project_status_str (p_status p))) else None)))))"

text \<open>The skills line of the page: \<open>skillsRequired.join(', ')\<close>, or a placeholder.\<close>

definition skills_display :: "string list \<Rightarrow> string" where
  "skills_display sk = (if sk = [] then ''None specified'' else js_join '', '' sk)"

subsection \<open>The client's project form\<close>

record np_state =
  projectTitle :: string
  projectDescription :: string
  projectBudget :: string
  skillsInput :: string
  np_loading :: bool

definition parse_skills :: "string \<Rightarrow> string list" where
  "parse_skills s = filter (\<lambda>x. x \<noteq> []) (map js_trim (js_split CHR '','' s))"

definition np_submit ::
  "(string \<Rightarrow> oid option) \<Rightarrow> db \<Rightarrow> session \<Rightarrow> np_state \<Rightarrow> np_state \<times> session \<times> db" where
  "np_submit verify d s st =
     (if \<not> isAuthenticated s \<or> userRole s \<noteq> Some ''client''
      then (st\<lparr>np_loading := False\<rparr>, toast ''You must be logged in as a client to post a project.'' s, d)
      else
        (let body = \<lparr>pb_title = projectTitle st, pb_description = projectDescription st,
                     pb_budget = projectBudget st, pb_skills = Some (parse_skills (skillsInput st))\<rparr>
         in case api_create_project verify (bearer_of (token s)) body d of
              (Inr p, d') \<Rightarrow>
                (st\<lparr>projectTitle := [], projectDescription := [], projectBudget := [], skillsInput := [],
                    np_loading := False\<rparr>,
                 (toast ''Project posted successfully!'' s)\<lparr>location := ''/client/my-posted-projects''\<rparr>, d')
            | (Inl (HttpError _ m), d') \<Rightarrow>
                (st\<lparr>np_loading := False\<rparr>,
                 toast (msg_or m ''Failed to post project. Please check your input.'') s, d')))"

text \<open>A logged-in freelancer and a token verifier for the examples.\<close>

definition f1_verify :: "string \<Rightarrow> oid option" where
  "f1_verify t = (if t = ''tok'' then Some 1 else None)"

definition f1_session :: session where
  "f1_session = auth_login ''tok'' demo_f1 (fresh_session None ''/login'')"

subsection \<open>Lemmas\<close>

lemma protect_bearer_of:
  assumes "verify tok = Some (u_id u)" and "find_by u_id (u_id u) (users d) = Some u"
    and "CHR '' '' \<notin> set tok"
  shows "protect verify d (bearer_of (Some tok)) = Inr u"
  using protect_bearer [OF assms(3), of verify d] assms(1,2) by (simp add: bearer_of_def)

lemma set_by_date_desc [simp]: "set (by_date_desc as) = set as"
  by (simp add: by_date_desc_def)

lemma pd_fetch_ok:
  assumes tok: "token s = Some tok" "tok \<noteq> []" "CHR '' '' \<notin> set tok"
    and ver: "verify tok = Some (u_id u)" "find_by u_id (u_id u) (users d) = Some u" "role u = Freelancer"
    and ses: "isAuthenticated s" "userRole s = Some ''freelancer''" "s_user s \<noteq> None"
    and prj: "find_by p_id pid (projects d) = Some p" "user_exists d (client p)"
  shows "pd_fetch verify d (Some (ObjId pid)) s st =
           (st\<lparr>pd_loading := False, pd_error := None, pd_hasApplied := pair_taken pid (u_id u) (applications d),
               pd_project := Some p\<rparr>, s)"
proof -
  have pr: "protect verify d (bearer_of (token s)) = Inr u"
    using protect_bearer_of [of verify tok u d, OF ver(1,2) tok(3)] tok(1) by simp
  have g: "fst (api_get_project verify (bearer_of (token s)) (ObjId pid) d) = Inr p"
    using pr prj by (simp add: api_get_project_def route_def get_project_def)
  have m: "fst (api_my_applications verify (bearer_of (token s)) d) =
             Inr (by_date_desc (filter (\<lambda>a. freelancer a = u_id u \<and> find_by p_id (project a) (projects d) \<noteq> None)
                (applications d)))"
    using pr ver(3) by (simp add: api_my_applications_def route_def authorize_roles_def my_applications_def)
  have e: "(\<exists>a\<in>set (by_date_desc (filter (\<lambda>a. freelancer a = u_id u \<and> find_by p_id (project a) (projects d) \<noteq> None)
                (applications d))). ObjId (project a) = ObjId pid) = pair_taken pid (u_id u) (applications d)"
    using prj(1) by (auto simp: pair_taken_def)
  show ?thesis
    using tok(1,2) ses g m e by (simp add: pd_fetch_def has_token_def Let_def)
qed


text \<open>
  C28. The project page's "applied" flag agrees with the server: for a logged-in
  freelancer whose token the server verifies, loading the page of an existing
  project shows the project, and the flag is set exactly when the server holds
  an application of this freelancer to it, the pair its duplicate check
  refuses.
\<close>

theorem applied_flag_agrees:
  assumes tok: "token s = Some tok" "tok \<noteq> []" "CHR '' '' \<notin> set tok"
    and ver: "verify tok = Some (u_id u)" "find_by u_id (u_id u) (users d) = Some u" "role u = Freelancer"
    and ses: "isAuthenticated s" "userRole s = Some ''freelancer''" "s_user s \<noteq> None"
    and prj: "find_by p_id pid (projects d) = Some p" "user_exists d (client p)"
  shows "pd_hasApplied (fst (pd_fetch verify d (Some (ObjId pid)) s st)) = pair_taken pid (u_id u) (applications d) \<and>
         pd_project (fst (pd_fetch verify d (Some (ObjId pid)) s st)) = Some p"
  using pd_fetch_ok [of s tok verify u d pid p st] assms by simp

lemma js_Number_pos_nonempty: "js_Number b = Num x \<Longrightarrow> 0 < x \<Longrightarrow> b \<noteq> []"
  by (auto simp: js_Number_def js_trim_def)

text \<open>
  A bid with a positive amount and a cover letter on an open project the
  freelancer has not applied to is stored by the server, and the page ends
  with the modal closed, the flag set and the "Applied!" badge shown instead of
  the apply button.
\<close>

theorem bid_submitted:
  assumes tok: "token s = Some tok" "tok \<noteq> []" "CHR '' '' \<notin> set tok"
    and ver: "verify tok = Some (u_id u)" "find_by u_id (u_id u) (users d) = Some u" "role u = Freelancer"
    and ses: "isAuthenticated s" "userRole s = Some ''freelancer''" "s_user s \<noteq> None"
    and prj: "find_by p_id pid (projects d) = Some p" "user_exists d (client p)" "p_status p = Open"
    and new: "\<not> pair_taken pid (u_id u) (applications d)"
    and form: "js_Number (pd_bidAmount st) = Num x" "0 < x" "pd_coverLetter st \<noteq> []"
  shows "\<exists>st' s' d'. pd_submit verify d (ObjId pid) s st = (st', s', d') \<and>
           pair_taken pid (u_id u) (applications d') \<and> pd_hasApplied st' \<and> \<not> pd_showApplyModal st' \<and>
           pd_view st' = PdProject False True None \<and>
           toasts s' = toasts s @ [''Application submitted successfully!'']"
proof -
  let ?a = "\<lparr>a_id = next_oid d, project = pid, freelancer = u_id u, bidAmount = x,
             coverLetter = pd_coverLetter st, a_status = Pending, applicationDate = now d\<rparr>"
  let ?d' = "d\<lparr>applications := applications d @ [?a], next_oid := Suc (next_oid d)\<rparr>"
  have pr: "protect verify d (bearer_of (token s)) = Inr u"
    using protect_bearer_of [of verify tok u d, OF ver(1,2) tok(3)] tok(1) by simp
  have ins: "insert_application pid (u_id u) x (pd_coverLetter st) d = Inr (?a, ?d')"
    using form(2,3) new by (simp add: insert_application_Inr)
  have sub: "api_submit_application verify (bearer_of (token s))
               \<lparr>projectId = Some (ObjId pid), bid_in = json_num (js_Number (pd_bidAmount st)),
                cover_in = Some (pd_coverLetter st)\<rparr> d = (Inr ?a, ?d')"
    using pr ver(3) form(1,2) new prj(1,3) ins
    by (simp add: api_submit_application_def route_def authorize_roles_def submit_eq)
  have taken: "pair_taken pid (u_id u) (applications ?d')"
    by (simp add: pair_taken_def)
  have f: "pd_fetch verify ?d' (Some (ObjId pid)) (toast ''Application submitted successfully!'' s) st1 =
           (st1\<lparr>pd_loading := False, pd_error := None, pd_hasApplied := True, pd_project := Some p\<rparr>,
            toast ''Application submitted successfully!'' s)" for st1
    using pd_fetch_ok [of "toast ''Application submitted successfully!'' s" tok verify u ?d' pid p st1]
      tok ver ses prj taken
    by (simp add: toast_def user_exists_def)
  have "pd_bidAmount st \<noteq> []" using js_Number_pos_nonempty [OF form(1,2)] .
  then show ?thesis
    using tok(1,2) form sub f taken prj(3)
    by (simp add: pd_submit_def has_token_def Let_def pd_close_modal_def pd_view_def toast_def)
qed

lemma html_valid_float_parts:
  assumes "html_valid_float b"
  obtains u where "b = u \<or> b = CHR ''-'' # u" and "\<exists>x. decimal_prefix u = Some (x, [])"
    and "\<forall>c\<in>set u. is_digit c \<or> c \<in> {CHR ''.'', CHR ''e'', CHR ''E'', CHR ''+'', CHR ''-''}"
    and "u \<noteq> []" and "is_digit (hd u) \<or> hd u = CHR ''.''"
proof -
  define u where "u = (case b of c # cs \<Rightarrow> if c = CHR ''-'' then cs else b | [] \<Rightarrow> [])"
  obtain ip dot fp r2 where p: "decimal_parts u = (ip, dot, fp, r2)" by (cases "decimal_parts u") auto
  have b: "b = u \<or> b = CHR ''-'' # u" by (cases b) (auto simp: u_def)
  have v: "ip \<noteq> [] \<or> dot" "dot \<longrightarrow> fp \<noteq> []" "r2 = [] \<or> (\<exists>e. exp_part r2 = Some (e, []))"
    using assms p by (auto simp: html_valid_float_def u_def [symmetric] split: if_splits option.splits)
  have s: "u = ip @ (if dot then CHR ''.'' # fp @ r2 else r2)" "\<forall>c\<in>set ip. is_digit c" "\<forall>c\<in>set fp. is_digit c"
    using decimal_parts_split [OF p] by blast+
  have "\<exists>x. decimal_prefix u = Some (x, [])"
    using v p by (auto simp: decimal_prefix_def Let_def split: option.splits)
  moreover have "\<forall>c\<in>set r2. is_digit c \<or> c \<in> {CHR ''e'', CHR ''E'', CHR ''+'', CHR ''-''}"
    using v(3) exp_part_split [of r2] by auto
  then have "\<forall>c\<in>set u. is_digit c \<or> c \<in> {CHR ''.'', CHR ''e'', CHR ''E'', CHR ''+'', CHR ''-''}"
    using s by (cases dot) auto
  moreover have "u \<noteq> [] \<and> (is_digit (hd u) \<or> hd u = CHR ''.'')"
    using v(1) s by (cases ip) auto
  ultimately show ?thesis using that b by blast
qed

lemma html_valid_float_Number:
  assumes "html_valid_float b"
  shows "\<exists>x. js_Number b = Num x"
proof -
  obtain u where b: "b = u \<or> b = CHR ''-'' # u" and x: "\<exists>x. decimal_prefix u = Some (x, [])"
    and cs: "\<forall>c\<in>set u. is_digit c \<or> c \<in> {CHR ''.'', CHR ''e'', CHR ''E'', CHR ''+'', CHR ''-''}"
    and ne: "u \<noteq> []" and hd: "is_digit (hd u) \<or> hd u = CHR ''.''"
    using html_valid_float_parts [OF assms] by blast
  have bcs: "\<forall>c\<in>set b. is_digit c \<or> c \<in> {CHR ''.'', CHR ''e'', CHR ''E'', CHR ''+'', CHR ''-''}"
    using b cs by auto
  then have ws: "\<forall>c\<in>set b. \<not> js_whitespace c" by (auto simp: js_whitespace_def is_digit_def)
  have dw: "dropWhile js_whitespace xs = xs" if "\<forall>c\<in>set xs. \<not> js_whitespace c" for xs
    using that by (cases xs) auto
  have trim: "js_trim b = b" using dw [of b] dw [of "rev b"] ws by (simp add: js_trim_def)
  have rad: "radix_literal b = None"
  proof (cases b)
    case (Cons z r)
    show ?thesis
    proof (cases r)
      case (Cons x ds)
      then have "is_digit x \<or> x \<in> {CHR ''.'', CHR ''e'', CHR ''E'', CHR ''+'', CHR ''-''}"
        using bcs \<open>b = z # r\<close> by simp
      then have "x \<notin> {CHR ''x'', CHR ''X'', CHR ''o'', CHR ''O'', CHR ''b'', CHR ''B''}"
        by (auto simp: is_digit_def)
      then show ?thesis using \<open>b = z # r\<close> Cons by (simp add: radix_literal_def Let_def)
    qed (simp add: radix_literal_def \<open>b = z # r\<close>)
  qed (simp add: radix_literal_def)
  have inf: "u \<noteq> ''Infinity''" using cs by (auto simp: is_digit_def)
  have sp: "sign_prefix b = (if b = u then 1 else -1, u)"
  proof -
    have "hd u \<noteq> CHR ''-'' \<and> hd u \<noteq> CHR ''+''" using hd by (auto simp: is_digit_def)
    then show ?thesis using b ne by (cases u) (auto simp: sign_prefix_def)
  qed
  have nb: "b \<noteq> []" using b ne by auto
  obtain y where y: "decimal_prefix u = Some (y, [])" using x by blast
  have "js_Number b = Num (of_int (if b = u then 1 else -1) * y)"
    using trim rad inf sp nb y by (simp add: js_Number_def)
  then show ?thesis by blast
qed

text \<open>
  A bid the modal's form lets through is a number: the page sends it as a
  number, never as \<open>null\<close>, so the \<open>NaN\<close> branch of the page's own check
  (\<open>NaN <= 0\<close> is false) cannot be reached from the page.
\<close>

lemma bid_input_number:
  "bid_input_valid b \<Longrightarrow> \<exists>x. js_Number b = Num x \<and> json_num (js_Number b) = Number x \<and> 0 \<le> x"
  using html_valid_float_Number [of b] by (auto simp: bid_input_valid_def)

lemma js_split_aux_prefix: "c \<notin> set s \<Longrightarrow> js_split_aux c acc (s @ rest) = js_split_aux c (rev s @ acc) rest"
  by (induction s arbitrary: acc) auto

lemma js_split_aux_join:
  assumes "\<forall>y\<in>set (x # xs). c \<notin> set y" and "c \<notin> set sep"
  shows "js_split_aux c acc (js_join (c # sep) (x # xs)) = (rev acc @ x) # map (\<lambda>y. sep @ y) xs"
  using assms
proof (induction xs arbitrary: x acc)
  case Nil
  then show ?case by (simp add: js_split_aux_no_sep)
next
  case (Cons y ys)
  have "js_split_aux c acc (js_join (c # sep) (x # y # ys)) =
        js_split_aux c (rev x @ acc) (c # sep @ js_join (c # sep) (y # ys))"
    using Cons.prems(1) by (simp add: js_split_aux_prefix)
  also have "\<dots> = (rev acc @ x) # js_split_aux c (rev sep) (js_join (c # sep) (y # ys))"
    using Cons.prems(2) by (simp add: js_split_aux_prefix [of c sep "[]", simplified])
  also have "\<dots> = (rev acc @ x) # (sep @ y) # map (\<lambda>y. sep @ y) ys"
    using Cons.prems Cons.IH [of y "rev sep"] by simp
  finally show ?case by simp
qed

lemma js_trim_space: "js_trim (CHR '' '' # y) = js_trim y"
  by (simp add: js_trim_def js_whitespace_def)

text \<open>
  C30. Skills round-trip between the two pages: a non-empty list of trimmed,
  non-empty skills without commas, as the project page displays it, is parsed
  back by the project form into the same list.
\<close>

theorem skills_roundtrip:
  assumes "sk \<noteq> []" and "\<forall>x\<in>set sk. x \<noteq> [] \<and> js_trim x = x \<and> CHR '','' \<notin> set x"
  shows "parse_skills (skills_display sk) = sk"
proof -
  obtain x xs where sk: "sk = x # xs" using assms(1) by (cases sk) auto
  have "js_split CHR '','' (js_join (CHR '','' # '' '') (x # xs)) = x # map (\<lambda>y. '' '' @ y) xs"
    using assms(2) js_split_aux_join [of x xs "CHR '',''" "'' ''" "[]"] by (simp add: sk js_split_def)
  moreover have "'', '' = CHR '','' # '' ''" by simp
  moreover have "map js_trim xs = xs" using assms(2) by (simp add: sk map_idI)
  ultimately show ?thesis
    using assms(2) by (simp add: sk parse_skills_def skills_display_def js_trim_space comp_def)
qed

lemma f1_facts:
  "token f1_session = Some ''tok''" "''tok'' \<noteq> []" "CHR '' '' \<notin> set ''tok''"
  "f1_verify ''tok'' = Some (u_id demo_f1)" "role demo_f1 = Freelancer"
  "isAuthenticated f1_session" "userRole f1_session = Some ''freelancer''" "s_user f1_session \<noteq> None"
  by (simp_all add: f1_session_def f1_verify_def auth_login_def demo_defs)

theorem applied_flag_agrees_witness:
  "pd_hasApplied (fst (pd_fetch f1_verify demo_db (Some (ObjId 3)) f1_session pd_initial)) \<and>
   pd_project (fst (pd_fetch f1_verify demo_db (Some (ObjId 3)) f1_session pd_initial)) = Some demo_project"
proof -
  have h: "find_by u_id (u_id demo_f1) (users demo_db) = Some demo_f1"
    "find_by p_id 3 (projects demo_db) = Some demo_project" "user_exists demo_db (client demo_project)"
    "pair_taken 3 (u_id demo_f1) (applications demo_db)"
    by (simp_all add: demo_defs find_by_def user_exists_def pair_taken_def)
  show ?thesis
    using applied_flag_agrees [of f1_session "''tok''" f1_verify demo_f1 demo_db 3 demo_project pd_initial]
      f1_facts h by simp
qed

theorem skills_roundtrip_witness:
  "parse_skills (skills_display [''design'', ''logo'']) = [''design'', ''logo'']"
proof -
  have "[''design'', ''logo''] \<noteq> []"
    "\<forall>x\<in>set [''design'', ''logo'']. x \<noteq> [] \<and> js_trim x = x \<and> CHR '','' \<notin> set x"
    by (simp_all add: js_trim_def js_whitespace_def)
  then show ?thesis by (rule skills_roundtrip)
qed

lemma js_Number_500: "js_Number ''500'' = Num 500"
  by (simp add: js_Number_def js_trim_def js_whitespace_def radix_literal_def sign_prefix_def
        decimal_prefix_def decimal_parts_def exp_part_def is_digit_def digit_val_def Let_def)

theorem bid_submitted_witness:
  "\<exists>st' s' d'. pd_submit f1_verify (demo_db\<lparr>applications := []\<rparr>) (ObjId 3) f1_session
        (pd_initial\<lparr>pd_bidAmount := ''500'', pd_coverLetter := ''hire me''\<rparr>) = (st', s', d') \<and>
     pair_taken 3 (u_id demo_f1) (applications d') \<and> pd_hasApplied st' \<and> \<not> pd_showApplyModal st' \<and>
     pd_view st' = PdProject False True None \<and>
     toasts s' = toasts f1_session @ [''Application submitted successfully!'']"
proof -
  have h: "find_by u_id (u_id demo_f1) (users (demo_db\<lparr>applications := []\<rparr>)) = Some demo_f1"
    "find_by p_id 3 (projects (demo_db\<lparr>applications := []\<rparr>)) = Some demo_project"
    "user_exists (demo_db\<lparr>applications := []\<rparr>) (client demo_project)" "p_status demo_project = Open"
    "\<not> pair_taken 3 (u_id demo_f1) (applications (demo_db\<lparr>applications := []\<rparr>))"
    by (simp_all add: demo_defs find_by_def user_exists_def pair_taken_def)
  have b: "js_Number (pd_bidAmount (pd_initial\<lparr>pd_bidAmount := ''500'', pd_coverLetter := ''hire me''\<rparr>)) = Num 500"
    "(0::real) < 500" "pd_coverLetter (pd_initial\<lparr>pd_bidAmount := ''500'', pd_coverLetter := ''hire me''\<rparr>) \<noteq> []"
    by (simp_all add: js_Number_500)
  show ?thesis
    using bid_submitted [of f1_session "''tok''" f1_verify demo_f1 "demo_db\<lparr>applications := []\<rparr>" 3 demo_project
        "pd_initial\<lparr>pd_bidAmount := ''500'', pd_coverLetter := ''hire me''\<rparr>" 500]
      f1_facts h b by blast
qed

end
