(* ===== verification/ClientReview.thy ===== *)
theory ClientReview
  imports ClientPages
begin

text \<open>
  The client's two pages for deciding on applications:
  \<open>pages/client/ProjectApplications.jsx\<close> (the applications of one project)
  and \<open>pages/client/ClientReviewApplications.jsx\<close> (the applications to all the
  client's projects). Both load a list, open an application in a "View Full"
  modal, and send \<open>PUT /api/applications/:id/status\<close> for the Accept and Reject
  buttons, which they show for pending applications only; after an accept they
  navigate to the working page of a project. The lemmas show where each page
  goes after an accept: the first to the accepted application's project, the
  second to the project of the application last opened in the modal.
\<close>

text \<open>A document id in a URL. Ids are naturals in the model and print in
  decimal, where MongoDB prints 24 hexadecimal digits; a page only puts the
  string in a path segment, where what matters is that it has no \<open>/\<close> and
  tells ids apart, as both renderings do.\<close>

fun oid_str :: "oid \<Rightarrow> string" where
  "oid_str n = (if n < 10 then [char_of (48 + n)] else oid_str (n div 10) @ [char_of (48 + n mod 10)])"

definition working_page :: "oid \<Rightarrow> string" where
  "working_page pid = ''/client/working-project/'' @ oid_str pid"

text \<open>\<open>populate('project', 'title ...')\<close>: the title of the referenced project, if it is stored.\<close>

definition populated_title :: "db \<Rightarrow> application_doc \<Rightarrow> string option" where
  "populated_title d a = map_option title (find_by p_id (project a) (projects d))"

text \<open>The Accept and Reject buttons of a row: for pending applications only.\<close>

definition row_actions :: "application_doc \<Rightarrow> string list" where
  "row_actions a = (if a_status a = Pending then [''accepted'', ''rejected''] else [])"

text \<open>The page's own role check before loading.\<close>

definition client_ready :: "session \<Rightarrow> bool" where
  "client_ready s \<longleftrightarrow> has_token (token s) \<and> isAuthenticated s \<and> userRole s = Some ''client'' \<and> s_user s \<noteq> None"

subsection \<open>The applications of one project\<close>

record pa_state =
  pa_applications :: "application_doc list"
  pa_projectTitle :: string
  pa_loading :: bool
  pa_error :: "string option"
  pa_showModal :: bool
  pa_selected :: "application_doc option"

definition pa_fetch ::
  "(string \<Rightarrow> oid option) \<Rightarrow> db \<Rightarrow> rid option \<Rightarrow> session \<Rightarrow> pa_state \<Rightarrow> pa_state \<times> session" where
  "pa_fetch verify d rid_in s st =
     (let st0 = st\<lparr>pa_loading := True, pa_error := None, pa_applications := []\<rparr>
      in case rid_in of
           None \<Rightarrow> (st0\<lparr>pa_error := Some ''Project ID is missing from the URL.'', pa_loading := False\<rparr>, s)
         | Some r \<Rightarrow>
             if \<not> client_ready s
             then (st0\<lparr>pa_error := Some ''Authentication or authorization required.'', pa_loading := False\<rparr>, s)
             else (case fst (api_project_applications verify (bearer_of (token s)) r d) of
                     Inl (HttpError _ m) \<Rightarrow>
                       (let e = msg_or m ''Failed to fetch applications for this project.''
                        in (st0\<lparr>pa_error := Some e, pa_loading := False\<rparr>, toast (''Error: '' @ e) s))
                   | Inr apps \<Rightarrow>
                       (let t = (case apps of
                                   a # _ \<Rightarrow> (case populated_title d a of Some t \<Rightarrow> if t \<noteq> [] then Some t else None
                                             | None \<Rightarrow> None)
                                 | [] \<Rightarrow> None)
                        in (st0\<lparr>pa_applications := apps, pa_loading := False,
                                pa_projectTitle :=
                                  (case t of Some t' \<Rightarrow> t'
                                   | None \<Rightarrow> (case fst (api_get_project verify (bearer_of (token s)) r d) of
                                               Inr p \<Rightarrow> title p | Inl _ \<Rightarrow> ''Unknown Project''))\<rparr>, s))))"

text \<open>
  \<open>handleApplicationStatusChange\<close>: nothing unless the user confirms; on
  success the server's message, the list fetched again, and after an accept
  the working page of the project the reply's application is populated with.
\<close>

definition pa_status_change ::
  "(string \<Rightarrow> oid option) \<Rightarrow> db \<Rightarrow> rid option \<Rightarrow> bool \<Rightarrow> oid \<Rightarrow> string \<Rightarrow> session \<Rightarrow> pa_state \<Rightarrow>
   pa_state \<times> session \<times> db" where
  "pa_status_change verify d rid_in confirmed aid newStatus s st =
     (if \<not> confirmed then (st, s, d)
      else (case api_update_application_status verify (bearer_of (token s)) (ObjId aid) newStatus d of
              (Inr a, d') \<Rightarrow>
                (let s1 = toast (''Application status updated to '' @ newStatus @ ''.'') s;
                     (st1, s2) = pa_fetch verify d' rid_in s1 st
                 in (st1, if newStatus = ''accepted'' \<and> find_by p_id (project a) (projects d') \<noteq> None
                          then s2\<lparr>location := working_page (project a)\<rparr> else s2, d'))
            | (Inl (HttpError _ m), d') \<Rightarrow>
                (st, toast (msg_or m ''Failed to update application status.'') s, d')))"

definition pa_view_full :: "application_doc \<Rightarrow> pa_state \<Rightarrow> pa_state" where
  "pa_view_full a st = st\<lparr>pa_selected := Some a, pa_showModal := True\<rparr>"

definition pa_close :: "pa_state \<Rightarrow> pa_state" where
  "pa_close st = st\<lparr>pa_showModal := False\<rparr>"

subsection \<open>The applications to all the client's projects\<close>

record cr_state =
  cr_applications :: "application_doc list"
  cr_loading :: bool
  cr_error :: "string option"
  cr_showModal :: bool
  cr_selected :: "application_doc option"

definition cr_fetch :: "(string \<Rightarrow> oid option) \<Rightarrow> db \<Rightarrow> session \<Rightarrow> cr_state \<Rightarrow> cr_state \<times> session" where
  "cr_fetch verify d s st =
     (let st0 = st\<lparr>cr_loading := True, cr_error := None\<rparr>
      in if \<not> client_ready s
         then (st0\<lparr>cr_error := Some ''Authentication or authorization required.'', cr_loading := False\<rparr>, s)
         else (case fst (api_client_review verify (bearer_of (token s)) d) of
                 Inl (HttpError _ m) \<Rightarrow>
                   (let e = msg_or m ''Failed to fetch applications for your projects.''
                    in (st0\<lparr>cr_error := Some e, cr_loading := False\<rparr>, toast (''Error: '' @ e) s))
               | Inr apps \<Rightarrow> (st0\<lparr>cr_applications := apps, cr_loading := False\<rparr>, s)))"

text \<open>
  The navigation after an accept (lines 77--81) looks first at
  \<open>selectedApplication\<close>, the application last opened in the modal, and only
  then at the reply.
\<close>

definition cr_status_change ::
  "(string \<Rightarrow> oid option) \<Rightarrow> db \<Rightarrow> bool \<Rightarrow> oid \<Rightarrow> string \<Rightarrow> session \<Rightarrow> cr_state \<Rightarrow>
   cr_state \<times> session \<times> db" where
  "cr_status_change verify d confirmed aid newStatus s st =
     (if \<not> confirmed then (st, s, d)
      else (case api_update_application_status verify (bearer_of (token s)) (ObjId aid) newStatus d of
              (Inr a, d') \<Rightarrow>
                (let s1 = toast (''Application status updated to '' @ newStatus @ ''.'') s;
                     (st1, s2) = cr_fetch verify d' s1 st
                 in (st1,
                     if newStatus = ''accepted'' \<and> (case cr_selected st of Some b \<Rightarrow> find_by p_id (project b) (projects d) \<noteq> None | None \<Rightarrow> False)
                     then s2\<lparr>location := working_page (project (the (cr_selected st)))\<rparr>
                     else if newStatus = ''accepted'' \<and> find_by p_id (project a) (projects d') \<noteq> None
                     then s2\<lparr>location := working_page (project a)\<rparr>
                     else s2, d'))
            | (Inl (HttpError _ m), d') \<Rightarrow>
                (st, toast (msg_or m ''Failed to update application status.'') s, d')))"

definition cr_view_full :: "application_doc \<Rightarrow> cr_state \<Rightarrow> cr_state" where
  "cr_view_full a st = st\<lparr>cr_selected := Some a, cr_showModal := True\<rparr>"

definition cr_close :: "cr_state \<Rightarrow> cr_state" where
  "cr_close st = st\<lparr>cr_showModal := False\<rparr>"

text \<open>Initial page states, and a second project with a pending application, for the examples.\<close>

definition review_project2 :: project_doc where
  "review_project2 = demo_project\<lparr>p_id := 6, title := ''Website''\<rparr>"

definition review_a3 :: application_doc where
  "review_a3 = demo_a1\<lparr>a_id := 7, project := 6\<rparr>"

definition review_db :: db where
  "review_db = demo_db\<lparr>projects := [demo_project, review_project2],
                       applications := [demo_a1, demo_a2, review_a3], next_oid := 8\<rparr>"

definition client_session :: session where
  "client_session = auth_login ''tok'' demo_client (fresh_session None ''/login'')"

definition cr_initial :: cr_state where
  "cr_initial = \<lparr>cr_applications = [], cr_loading = True, cr_error = None, cr_showModal = False,
                 cr_selected = None\<rparr>"

definition pa_initial :: pa_state where
  "pa_initial = \<lparr>pa_applications = [], pa_projectTitle = ''Loading Project...'', pa_loading = True,
                 pa_error = None, pa_showModal = False, pa_selected = None\<rparr>"

subsection \<open>Lemmas\<close>

lemma route_Inr: "route verify rs h d hdr = (Inr x, d') \<Longrightarrow> \<exists>u. h u d = (Inr x, d')"
  by (auto simp: route_def split: sum.splits option.splits)

lemma cr_fetch_location [simp]: "location (snd (cr_fetch verify d s st)) = location s"
  by (simp add: cr_fetch_def Let_def toast_def split: sum.split http_error.split)

lemma pa_fetch_location [simp]: "location (snd (pa_fetch verify d r s st)) = location s"
  by (simp add: pa_fetch_def Let_def toast_def split: sum.split http_error.split option.split)

lemma accept_Inr_project:
  assumes "update_application_status u r ''accepted'' d = (Inr a', d')"
  shows "find_by p_id (project a') (projects d') \<noteq> None"
proof -
  obtain aid a p where r: "r = ObjId aid" and fa: "find_by a_id aid (applications d) = Some a"
      and fp: "find_by p_id (project a) (projects d) = Some p"
    using assms by (auto simp: update_application_status_def split: rid.splits option.splits)
  have "a' = a\<lparr>a_status := Accepted\<rparr> \<and> projects d' = save_by p_id (assign_project (freelancer a) p) (projects d)"
    using assms by (auto simp: r update_status_eq [OF fa fp] accept_effects_def application_status_of_def
                          Let_def split: if_splits)
  moreover have "p_id p = project a" "p \<in> set (projects d)" using find_by_Some [OF fp] by auto
  moreover have "project a \<in> p_id ` set (projects d)" using calculation(2,3) by force
  ultimately show ?thesis
    using find_by_save_by [of p_id "assign_project (freelancer a) p" "projects d"]
    by (simp add: assign_project_def)
qed

text \<open>
  C31. After an accept on the review page, the page goes to the working page of
  the application last opened in the "View Full" modal whenever one was opened
  (closing the modal keeps it), whichever application was accepted.
\<close>

theorem review_accept_goes_to_last_viewed:
  assumes "api_update_application_status verify (bearer_of (token s)) (ObjId aid) ''accepted'' d = (Inr a, d')"
    and "cr_selected st = Some b" and "find_by p_id (project b) (projects d) = Some q"
  shows "location (fst (snd (cr_status_change verify d True aid ''accepted'' s st))) = working_page (project b)"
  using assms by (simp add: cr_status_change_def Let_def split: prod.split)

text \<open>
  After an accept on a project's applications page, the page goes to the
  working page of the accepted application's project.
\<close>

theorem project_page_accept_goes_to_project:
  assumes "api_update_application_status verify (bearer_of (token s)) (ObjId aid) ''accepted'' d = (Inr a, d')"
  shows "location (fst (snd (pa_status_change verify d r True aid ''accepted'' s st))) = working_page (project a)"
proof -
  obtain u where "update_application_status u (ObjId aid) ''accepted'' d = (Inr a, d')"
    using route_Inr [of verify "Some [Client, Admin]" "\<lambda>u. update_application_status u (ObjId aid) ''accepted''"]
      assms unfolding api_update_application_status_def by blast
  then have "find_by p_id (project a) (projects d') \<noteq> None" by (rule accept_Inr_project)
  with assms show ?thesis by (simp add: pa_status_change_def Let_def split: prod.split)
qed

lemma review_accept_reply:
  "api_update_application_status demo_verify (bearer_of (token client_session)) (ObjId 7) ''accepted'' review_db =
     (Inr (review_a3\<lparr>a_status := Accepted\<rparr>),
      snd (api_update_application_status demo_verify (bearer_of (token client_session)) (ObjId 7) ''accepted'' review_db))"
  by (simp add: api_update_application_status_def route_def protect_def bearer_of_def client_session_def
        auth_login_def demo_verify_def review_db_def review_a3_def review_project2_def demo_defs find_by_def
        starts_with_def js_split_def authorize_roles_def update_application_status_def accept_effects_def
        application_status_of_def Let_def)

theorem review_accept_goes_to_last_viewed_witness:
  "location (fst (snd (cr_status_change demo_verify review_db True 7 ''accepted'' client_session
      (cr_close (cr_view_full demo_a1 cr_initial))))) = working_page 3 \<and>
   project (review_a3\<lparr>a_status := Accepted\<rparr>) = 6"
proof -
  have "cr_selected (cr_close (cr_view_full demo_a1 cr_initial)) = Some demo_a1"
    "find_by p_id (project demo_a1) (projects review_db) = Some demo_project"
    by (simp_all add: cr_close_def cr_view_full_def review_db_def demo_defs find_by_def)
  then show ?thesis
    using review_accept_goes_to_last_viewed [OF review_accept_reply] by (simp add: review_a3_def demo_defs)
qed

theorem project_page_accept_goes_to_project_witness:
  "location (fst (snd (pa_status_change demo_verify review_db (Some (ObjId 6)) True 7 ''accepted''
      client_session pa_initial))) = working_page 6"
  using project_page_accept_goes_to_project [OF review_accept_reply] by (simp add: review_a3_def demo_defs)

end
