(* ===== verification/ClientFreelancer.thy ===== *)
theory ClientFreelancer
  imports ClientReview Workflow
begin

text \<open>
  The freelancer's applications page (\<open>pages/freelancer/MyApplications.jsx\<close>)
  and the project chat (\<open>components/ChatBox.jsx\<close>, used by both working
  pages). The applications page lists the freelancer's applications with a
  Withdraw button for pending ones and withdraws through
  \<open>DELETE /api/applications/:id\<close>; the chat polls
  \<open>GET /api/messages/project/:projectId\<close> and, after a send, appends the
  message the server returned without waiting for the next poll. The chat
  holds messages as JSON (\<open>chat_entry\<close>), with the sender as each reply
  populates it. The lemmas show that a withdrawal from the page removes the
  application on the server and from the list, that the poll after a send
  replaces the optimistic list (its sender lacks the role the poll's sender
  carries), and that with Mongoose 6 a send is stored but reported as failed.
\<close>

subsection \<open>My applications\<close>

record ma_state =
  myApplications :: "application_doc list"
  ma_loading :: bool
  ma_error :: "string option"

definition freelancer_ready :: "session \<Rightarrow> bool" where
  "freelancer_ready s \<longleftrightarrow> has_token (token s) \<and> s_user s \<noteq> None \<and> userRole s = Some ''freelancer''"

text \<open>\<open>String.prototype.includes\<close>: \<open>p\<close> occurs in \<open>s\<close> at some position.\<close>

fun contains :: "string \<Rightarrow> string \<Rightarrow> bool" where
  "contains [] p \<longleftrightarrow> p = []"
| "contains (c # cs) p \<longleftrightarrow> take (length p) (c # cs) = p \<or> contains cs p"

definition ma_fetch :: "(string \<Rightarrow> oid option) \<Rightarrow> db \<Rightarrow> session \<Rightarrow> ma_state \<Rightarrow> ma_state \<times> session" where
  "ma_fetch verify d s st =
     (let st0 = st\<lparr>ma_loading := True, ma_error := None\<rparr>
      in if \<not> freelancer_ready s
         then (st0\<lparr>ma_error := Some ''Authentication token or user ID not found, or not authorized as freelancer. Please log in.'',
                    ma_loading := False\<rparr>, s)
         else (case fst (api_my_applications verify (bearer_of (token s)) d) of
                 Inr apps \<Rightarrow> (st0\<lparr>myApplications := apps, ma_loading := False\<rparr>, s)
               | Inl (HttpError _ m) \<Rightarrow>
                   (let e = msg_or m ''Failed to fetch your applications.''
                    in if contains e ''Invalid Project ID''
                       then (st0\<lparr>ma_error := Some ''Failed to load your applications. Some associated projects may no longer exist or have invalid IDs.'',
                                  ma_loading := False\<rparr>,
                             toast (''Error loading applications: '' @ e @ ''. Check console for details.'') s)
                       else (st0\<lparr>ma_error := Some e, ma_loading := False\<rparr>,
                             toast (''Error loading applications: '' @ e) s))))"

definition ma_mount :: "(string \<Rightarrow> oid option) \<Rightarrow> db \<Rightarrow> session \<Rightarrow> ma_state \<Rightarrow> ma_state \<times> session" where
  "ma_mount verify d s st =
     (if isAuthenticated s \<and> userRole s = Some ''freelancer'' \<and> s_user s \<noteq> None
      then ma_fetch verify d s st
      else if \<not> isAuthenticated s \<or> userRole s \<noteq> Some ''freelancer''
      then (st\<lparr>ma_loading := False, myApplications := []\<rparr>, s)
      else (st, s))"

definition ma_withdraw ::
  "(string \<Rightarrow> oid option) \<Rightarrow> db \<Rightarrow> bool \<Rightarrow> oid \<Rightarrow> session \<Rightarrow> ma_state \<Rightarrow> ma_state \<times> session \<times> db" where
  "ma_withdraw verify d confirmed aid s st =
     (if \<not> confirmed then (st, s, d)
      else (case api_delete_application verify (bearer_of (token s)) (ObjId aid) d of
              (Inr _, d') \<Rightarrow>
                (let (st1, s1) = ma_fetch verify d' (toast ''Application withdrawn successfully!'' s) st
                 in (st1, s1, d'))
            | (Inl (HttpError _ m), d') \<Rightarrow>
                (st, toast (''Error withdrawing application: '' @ msg_or m ''Failed to withdraw application.'') s, d')))"

text \<open>
  A row of the table: the project title (or a placeholder when the project is
  gone), the View Project link, the Withdraw button for a pending application,
  and the Go To Work link for an accepted one.
\<close>

record ma_row =
  row_title :: string
  row_view :: "string option"
  row_withdraw :: bool
  row_work :: "string option"

definition ma_row_of :: "db \<Rightarrow> application_doc \<Rightarrow> ma_row" where
  "ma_row_of d a =
     (let present = (find_by p_id (project a) (projects d) \<noteq> None)
      in \<lparr>row_title = (case populated_title d a of Some t \<Rightarrow> t | None \<Rightarrow> ''Project Deleted/N/A''),
          row_view = (if present then Some (''/freelancer/project-data/'' @ oid_str (project a)) else None),
          row_withdraw = (a_status a = Pending),
          row_work = (if a_status a = Accepted \<and> present
                      then Some (''/freelancer/working-project/'' @ oid_str (project a)) else None)\<rparr>)"

subsection \<open>The project chat\<close>

record cb_state =
  cb_messages :: "chat_entry list"
  cb_newMessage :: string
  cb_loading :: bool
  cb_error :: "string option"

text \<open>
  The test of line 53: \<open>prevMessages.length !== data.length ||
  JSON.stringify(prevMessages) !== JSON.stringify(data)\<close>. Both lists hold
  objects with the keys in the schema's order (the spread of the optimistic
  message keeps the positions of its keys), so the serialisations differ
  exactly when the lists of JSON values differ.
\<close>

definition cb_changed :: "chat_entry list \<Rightarrow> chat_entry list \<Rightarrow> bool" where
  "cb_changed prev data \<longleftrightarrow> length prev \<noteq> length data \<or> prev \<noteq> data"

text \<open>
  \<open>fetchMessages\<close>, run on mount and every three seconds: the list is
  replaced by the server's when it differs (a new array, a re-render and
  possibly a scroll; the scrolling is presentation).
\<close>

definition cb_fetch :: "(string \<Rightarrow> oid option) \<Rightarrow> db \<Rightarrow> oid option \<Rightarrow> session \<Rightarrow> cb_state \<Rightarrow> cb_state \<times> session" where
  "cb_fetch verify d pid_in s st =
     (case pid_in of
        None \<Rightarrow> (st\<lparr>cb_loading := False\<rparr>, s)
      | Some pid \<Rightarrow>
          if \<not> isAuthenticated s \<or> s_user s = None then (st\<lparr>cb_loading := False\<rparr>, s)
          else (case fst (api_project_messages verify (bearer_of (token s)) (ObjId pid) d) of
                  Inr ms \<Rightarrow>
                    (let data = map (msg_json d) ms
                     in (st\<lparr>cb_messages := (if cb_changed (cb_messages st) data then data else cb_messages st),
                            cb_loading := False\<rparr>, s))
                | Inl (HttpError _ m) \<Rightarrow>
                    (let e = msg_or m ''Failed to fetch messages.''
                     in (st\<lparr>cb_error := Some e, cb_loading := False\<rparr>, toast (''Error loading chat: '' @ e) s))))"

text \<open>
  The optimistic message of \<open>handleSendMessage\<close>: the reply's message with
  the sender replaced by \<open>{ _id: user.id, username: user.username }\<close>.
\<close>

definition chat_optimistic :: "user_doc \<Rightarrow> message_doc \<Rightarrow> chat_entry" where
  "chat_optimistic u m = message_entry (Some \<lparr>cs_id = u_id u, cs_username = username u, cs_role = None\<rparr>) m"

text \<open>
  \<open>handleSendMessage\<close>: on a successful reply the optimistic message is
  appended at once and the input cleared; on an error reply the server's
  message is shown and the list and the input stay.
\<close>

definition cb_send ::
  "bool \<Rightarrow> (string \<Rightarrow> oid option) \<Rightarrow> db \<Rightarrow> oid option \<Rightarrow> session \<Rightarrow> cb_state \<Rightarrow> cb_state \<times> session \<times> db" where
  "cb_send ep verify d pid_in s st =
     (case (pid_in, s_user s) of
        (Some pid, Some u) \<Rightarrow>
          if js_trim (cb_newMessage st) = [] \<or> \<not> isAuthenticated s
          then (st, toast ''Message cannot be empty or you are not logged in.'' s, d)
          else (case send_message_reply ep (api_send_message verify (bearer_of (token s))
                       \<lparr>mb_projectId = Some (ObjId pid), mb_content = cb_newMessage st\<rparr> d) of
                  (Inr m, d') \<Rightarrow>
                    (st\<lparr>cb_messages := cb_messages st @ [chat_optimistic u m], cb_newMessage := []\<rparr>,
                     toast ''Message sent!'' s, d')
                | (Inl (HttpError _ e), d') \<Rightarrow>
                    (st, toast (''Error sending message: '' @ msg_or e ''Failed to send message.'') s, d'))
      | _ \<Rightarrow> (st, toast ''Message cannot be empty or you are not logged in.'' s, d))"

subsection \<open>Fixtures\<close>

definition chat_st0 :: cb_state where
  "chat_st0 = \<lparr>cb_messages = [], cb_newMessage = ''hi'', cb_loading = False, cb_error = None\<rparr>"

text \<open>The message \<open>demo_f1\<close> sends on \<open>chat_db\<close>, and the database after it.\<close>

definition chat_m0 :: message_doc where
  "chat_m0 = \<lparr>m_id = 6, sender = 1, receiver = Some 0, m_project = 3, content = ''hi'', timestamp = 3, read = False\<rparr>"

definition chat_db1 :: db where
  "chat_db1 = chat_db\<lparr>messages := [chat_m0], next_oid := 7\<rparr>"

definition ma_initial :: ma_state where
  "ma_initial = \<lparr>myApplications = [], ma_loading = True, ma_error = None\<rparr>"

subsection \<open>Lemmas\<close>

lemma insort_key_append_last:
  "f x \<le> f m \<Longrightarrow> insort_key f x (ys @ [m]) = insort_key f x ys @ [m]"
  by (induction ys) auto

lemma sort_key_append_max:
  fixes f :: "'a \<Rightarrow> 'b::linorder"
  shows "\<forall>x\<in>set xs. f x \<le> f m \<Longrightarrow> sort_key f (xs @ [m]) = sort_key f xs @ [m]"
  by (induction xs) (simp_all add: insort_key_append_last)

lemma insert_message_Inr:
  assumes "insert_message s r pid c d = Inr (m, d')"
  shows "sender m = s \<and> receiver m = r \<and> m_project m = pid \<and> timestamp m = now d \<and>
         d' = d\<lparr>messages := messages d @ [m], next_oid := Suc (next_oid d)\<rparr>"
proof -
  have "m = \<lparr>m_id = next_oid d, sender = s, receiver = r, m_project = pid,
               content = js_trim c, timestamp = now d, read = False\<rparr>"
    and "d' = d\<lparr>messages := messages d @ [m], next_oid := Suc (next_oid d)\<rparr>"
    using assms by (auto simp: insert_message_def Let_def split: if_splits)
  then show ?thesis by simp
qed

lemma api_as_session_user:
  assumes "token s = Some tok" "CHR '' '' \<notin> set tok"
    and "verify tok = Some (u_id u)" "find_by u_id (u_id u) (users d) = Some u"
  shows "route verify None h d (bearer_of (token s)) = h u d"
  using protect_bearer_of [of verify tok u d, OF assms(3,4,2)] assms(1) by (simp add: route_def)

lemma api_as_session_user_roles:
  assumes "token s = Some tok" "CHR '' '' \<notin> set tok"
    and "verify tok = Some (u_id u)" "find_by u_id (u_id u) (users d) = Some u" "role u \<in> set rs"
  shows "route verify (Some rs) h d (bearer_of (token s)) = h u d"
  using protect_bearer_of [of verify tok u d, OF assms(3,4,2)] assms(1,5)
  by (simp add: route_def authorize_roles_def)

lemma ma_fetch_ready:
  assumes "freelancer_ready s" "fst (api_my_applications verify (bearer_of (token s)) d) = Inr as"
  shows "ma_fetch verify d s st = (st\<lparr>ma_loading := False, ma_error := None, myApplications := as\<rparr>, s)"
  using assms by (simp add: ma_fetch_def)

lemma cb_fetch_Inr:
  assumes "isAuthenticated s" "s_user s \<noteq> None"
    and "fst (api_project_messages verify (bearer_of (token s)) (ObjId pid) d) = Inr ms"
  shows "fst (cb_fetch verify d (Some pid) s st) = st\<lparr>cb_messages := map (msg_json d) ms, cb_loading := False\<rparr>"
  using assms by (auto simp: cb_fetch_def cb_changed_def Let_def)

lemma cb_send_Inr:
  assumes "token s = Some tok" "CHR '' '' \<notin> set tok"
    and "verify tok = Some (u_id u)" "find_by u_id (u_id u) (users d) = Some u" "s_user s = Some u"
    and "isAuthenticated s" "js_trim (cb_newMessage st) \<noteq> []"
    and "send_message u \<lparr>mb_projectId = Some (ObjId pid), mb_content = cb_newMessage st\<rparr> d = (Inr m, d')"
  shows "cb_send ep verify d (Some pid) s st =
           (if ep then (st\<lparr>cb_messages := cb_messages st @ [chat_optimistic u m], cb_newMessage := []\<rparr>,
                        toast ''Message sent!'' s, d')
            else (st, toast ''Error sending message: Server error: Could not send message.'' s, d'))"
  using api_as_session_user [where s=s and tok=tok and verify=verify and u=u and d=d
      and h="\<lambda>u. send_message u \<lparr>mb_projectId = Some (ObjId pid), mb_content = cb_newMessage st\<rparr>"] assms
  by (simp add: cb_send_def api_send_message_def send_message_reply_def msg_or_def)

text \<open>
  After a message is stored, the server's list of the project's messages is
  the old one with the new message at the end, as the chat sees it: the other
  entries keep their JSON (no user changed).
\<close>

lemma poll_after_send:
  assumes tok: "token s = Some tok" "CHR '' '' \<notin> set tok"
    and ver: "verify tok = Some (u_id u)" "find_by u_id (u_id u) (users d) = Some u"
    and clock: "\<forall>x\<in>set (messages d). timestamp x \<le> now d"
    and synced: "fst (api_project_messages verify (bearer_of (token s)) (ObjId pid) d) = Inr ms"
    and sent: "send_message u \<lparr>mb_projectId = Some (ObjId pid), mb_content = c\<rparr> d = (Inr m, d')"
  shows "fst (api_project_messages verify (bearer_of (token s)) (ObjId pid) d') = Inr (ms @ [m])"
    and "map (msg_json d') ms = map (msg_json d) ms"
    and "msg_json d' m = message_entry (Some \<lparr>cs_id = u_id u, cs_username = username u, cs_role = Some (role_str (role u))\<rparr>) m"
    and "messages d' = messages d @ [m]"
proof -
  have route: "\<And>h. route verify None h d (bearer_of (token s)) = h u d"
    using api_as_session_user [where s=s and tok=tok and verify=verify and u=u and d=d] tok ver by blast
  from send_message_Inr [OF sent] obtain p where
    fp: "find_by p_id pid (projects d) = Some p" and
    ins: "insert_message (u_id u) (receiver m) pid c d = Inr (m, d')"
    by auto
  from ins have m: "sender m = u_id u" "m_project m = pid" "timestamp m = now d"
    and d': "d' = d\<lparr>messages := messages d @ [m], next_oid := Suc (next_oid d)\<rparr>"
    using insert_message_Inr by auto
  have route': "\<And>h. route verify None h d' (bearer_of (token s)) = h u d'"
    using api_as_session_user [where s=s and tok=tok and verify=verify and u=u and d=d'] tok ver by (simp add: d')
  from synced fp have old: "ms = sort_key timestamp (filter (\<lambda>x. m_project x = pid) (messages d))"
    and party: "is_party (u_id u) p"
    by (simp_all add: api_project_messages_def route project_messages_def split: if_splits)
  have "sort_key timestamp (filter (\<lambda>x. m_project x = pid) (messages d) @ [m]) =
        sort_key timestamp (filter (\<lambda>x. m_project x = pid) (messages d)) @ [m]"
    using clock m(3) by (intro sort_key_append_max) simp
  then have "project_messages u (ObjId pid) d' = Inr (ms @ [m])"
    using fp party m(2) old by (simp add: project_messages_def d')
  then show "fst (api_project_messages verify (bearer_of (token s)) (ObjId pid) d') = Inr (ms @ [m])"
    by (simp add: api_project_messages_def route')
  show "map (msg_json d') ms = map (msg_json d) ms" by (simp add: msg_json_def d')
  show "msg_json d' m = message_entry (Some \<lparr>cs_id = u_id u, cs_username = username u, cs_role = Some (role_str (role u))\<rparr>) m"
    using ver(2) m(1) by (simp add: msg_json_def d')
  show "messages d' = messages d @ [m]" by (simp add: d')
qed

text \<open>
  C33. With Mongoose 5 (\<open>execPopulate\<close> exists): a send appends the optimistic
  message; the next poll returns the same messages, but the new one's sender
  carries its role, which the optimistic sender lacks, so the test of line
  53 finds the lists different and the chat takes the server's list.
\<close>

theorem chat_poll_replaces_optimistic:
  assumes tok: "token s = Some tok" "CHR '' '' \<notin> set tok"
    and ver: "verify tok = Some (u_id u)" "find_by u_id (u_id u) (users d) = Some u" "s_user s = Some u"
    and auth: "isAuthenticated s" and typed: "js_trim (cb_newMessage st) \<noteq> []"
    and clock: "\<forall>x\<in>set (messages d). timestamp x \<le> now d"
    and synced: "fst (api_project_messages verify (bearer_of (token s)) (ObjId pid) d) = Inr ms"
      "cb_messages st = map (msg_json d) ms"
    and sent: "send_message u \<lparr>mb_projectId = Some (ObjId pid), mb_content = cb_newMessage st\<rparr> d = (Inr m, d')"
  shows "cb_send True verify d (Some pid) s st =
           (st\<lparr>cb_messages := cb_messages st @ [chat_optimistic u m], cb_newMessage := []\<rparr>, toast ''Message sent!'' s, d') \<and>
         fst (api_project_messages verify (bearer_of (token s)) (ObjId pid) d') = Inr (ms @ [m]) \<and>
         map (msg_json d') (ms @ [m]) = cb_messages st @ [(chat_optimistic u m)\<lparr>ce_sender :=
             Some \<lparr>cs_id = u_id u, cs_username = username u, cs_role = Some (role_str (role u))\<rparr>\<rparr>] \<and>
         cb_changed (cb_messages st @ [chat_optimistic u m]) (map (msg_json d') (ms @ [m])) \<and>
         cb_messages (fst (cb_fetch verify d' (Some pid) (toast ''Message sent!'' s)
             (st\<lparr>cb_messages := cb_messages st @ [chat_optimistic u m], cb_newMessage := []\<rparr>))) =
           map (msg_json d') (ms @ [m])"
proof -
  note p = poll_after_send [OF tok ver(1,2) clock synced(1) sent]
  have list: "map (msg_json d') (ms @ [m]) = cb_messages st @ [(chat_optimistic u m)\<lparr>ce_sender :=
             Some \<lparr>cs_id = u_id u, cs_username = username u, cs_role = Some (role_str (role u))\<rparr>\<rparr>]"
    using p(2,3) synced(2) by (simp add: chat_optimistic_def message_entry_def)
  have "cb_changed (cb_messages st @ [chat_optimistic u m]) (map (msg_json d') (ms @ [m]))"
    unfolding list by (simp add: cb_changed_def chat_optimistic_def message_entry_def)
  moreover have "cb_messages (fst (cb_fetch verify d' (Some pid) (toast ''Message sent!'' s)
             (st\<lparr>cb_messages := cb_messages st @ [chat_optimistic u m], cb_newMessage := []\<rparr>))) =
           map (msg_json d') (ms @ [m])"
    using cb_fetch_Inr [of "toast ''Message sent!'' s" verify pid d' "ms @ [m]"] p(1) auth ver(3)
    by (simp add: toast_def)
  ultimately show ?thesis
    using cb_send_Inr [where s=s and tok=tok and verify=verify and u=u and d=d and st=st and pid=pid and m=m and d'=d' and ep=True] tok ver auth typed sent p(1) list by simp
qed

text \<open>
  C34. With Mongoose 6 or later (no \<open>execPopulate\<close>): the send stores the message
  but answers 500, so the chat shows an error and keeps its list and the
  typed text; the next poll then shows the message the page reported as not
  sent.
\<close>

theorem chat_send_saved_but_failed:
  assumes tok: "token s = Some tok" "CHR '' '' \<notin> set tok"
    and ver: "verify tok = Some (u_id u)" "find_by u_id (u_id u) (users d) = Some u" "s_user s = Some u"
    and auth: "isAuthenticated s" and typed: "js_trim (cb_newMessage st) \<noteq> []"
    and clock: "\<forall>x\<in>set (messages d). timestamp x \<le> now d"
    and synced: "fst (api_project_messages verify (bearer_of (token s)) (ObjId pid) d) = Inr ms"
      "cb_messages st = map (msg_json d) ms"
    and sent: "send_message u \<lparr>mb_projectId = Some (ObjId pid), mb_content = cb_newMessage st\<rparr> d = (Inr m, d')"
  shows "cb_send False verify d (Some pid) s st =
           (st, toast ''Error sending message: Server error: Could not send message.'' s, d') \<and>
         messages d' = messages d @ [m] \<and>
         cb_messages (fst (cb_fetch verify d' (Some pid)
             (toast ''Error sending message: Server error: Could not send message.'' s) st)) =
           cb_messages st @ [msg_json d' m]"
proof -
  note p = poll_after_send [OF tok ver(1,2) clock synced(1) sent]
  have "cb_messages (fst (cb_fetch verify d' (Some pid)
             (toast ''Error sending message: Server error: Could not send message.'' s) st)) =
        map (msg_json d') (ms @ [m])"
    using cb_fetch_Inr [of "toast ''Error sending message: Server error: Could not send message.'' s"
        verify pid d' "ms @ [m]"] p(1) auth ver(3)
    by (simp add: toast_def)
  then show ?thesis
    using cb_send_Inr [where s=s and tok=tok and verify=verify and u=u and d=d and st=st and pid=pid and m=m and d'=d' and ep=False] tok ver auth typed sent p(2,4) synced(2) by simp
qed

lemma chat_demo_facts:
  "find_by u_id (u_id demo_f1) (users chat_db) = Some demo_f1" "s_user f1_session = Some demo_f1"
  "js_trim (cb_newMessage chat_st0) \<noteq> []" "\<forall>x\<in>set (messages chat_db). timestamp x \<le> now chat_db"
  "fst (api_project_messages f1_verify (bearer_of (token f1_session)) (ObjId 3) chat_db) = Inr []"
  "cb_messages chat_st0 = map (msg_json chat_db) []"
  "send_message demo_f1 \<lparr>mb_projectId = Some (ObjId 3), mb_content = cb_newMessage chat_st0\<rparr> chat_db =
     (Inr chat_m0, chat_db1)"
proof -
  have p: "protect f1_verify chat_db (bearer_of (Some ''tok'')) = Inr demo_f1"
    by (rule protect_bearer_of) (simp_all add: f1_verify_def chat_db_def demo_defs find_by_def)
  show "find_by u_id (u_id demo_f1) (users chat_db) = Some demo_f1" "s_user f1_session = Some demo_f1"
    "js_trim (cb_newMessage chat_st0) \<noteq> []" "\<forall>x\<in>set (messages chat_db). timestamp x \<le> now chat_db"
    "cb_messages chat_st0 = map (msg_json chat_db) []"
    by (simp_all add: chat_db_def demo_defs find_by_def f1_session_def auth_login_def chat_st0_def
          js_trim_def js_whitespace_def)
  show "fst (api_project_messages f1_verify (bearer_of (token f1_session)) (ObjId 3) chat_db) = Inr []"
    by (simp add: f1_facts api_project_messages_def route_def p)
      (simp add: project_messages_def chat_db_def demo_defs find_by_def is_party_def)
  show "send_message demo_f1 \<lparr>mb_projectId = Some (ObjId 3), mb_content = cb_newMessage chat_st0\<rparr> chat_db =
     (Inr chat_m0, chat_db1)"
    by (simp add: send_message_def chat_db1_def chat_m0_def chat_st0_def chat_db_def demo_defs find_by_def
        is_party_def message_receiver_def insert_message_def js_trim_def js_whitespace_def Let_def)
qed

theorem chat_poll_replaces_optimistic_witness:
  "cb_send True f1_verify chat_db (Some 3) f1_session chat_st0 =
     (chat_st0\<lparr>cb_messages := [chat_optimistic demo_f1 chat_m0], cb_newMessage := []\<rparr>,
      toast ''Message sent!'' f1_session, chat_db1) \<and>
   cb_changed [chat_optimistic demo_f1 chat_m0] (map (msg_json chat_db1) [chat_m0])"
  using chat_poll_replaces_optimistic [where s=f1_session and tok="''tok''" and verify=f1_verify and u=demo_f1
      and d=chat_db and st=chat_st0 and pid=3 and ms="[]" and m=chat_m0 and d'=chat_db1]
    f1_facts chat_demo_facts
  by (simp add: chat_st0_def cb_changed_def chat_optimistic_def message_entry_def)

theorem chat_send_saved_but_failed_witness:
  "cb_send False f1_verify chat_db (Some 3) f1_session chat_st0 =
     (chat_st0, toast ''Error sending message: Server error: Could not send message.'' f1_session, chat_db1) \<and>
   messages chat_db1 = messages chat_db @ [chat_m0]"
  using chat_send_saved_but_failed [where s=f1_session and tok="''tok''" and verify=f1_verify and u=demo_f1
      and d=chat_db and st=chat_st0 and pid=3 and ms="[]" and m=chat_m0 and d'=chat_db1]
    f1_facts chat_demo_facts
  by simp

text \<open>
  Withdrawing one's own application from the page, once confirmed,
  deletes it on the server, reports success, and the list the page then
  shows is the server's current list, without the application.
\<close>

theorem withdraw_from_page:
  assumes tok: "token s = Some tok" "CHR '' '' \<notin> set tok"
    and ver: "verify tok = Some (u_id u)" "find_by u_id (u_id u) (users d) = Some u" "role u = Freelancer"
    and ready: "freelancer_ready s"
    and own: "find_by a_id aid (applications d) = Some a" "freelancer a = u_id u"
    and run: "ma_withdraw verify d True aid s st = (st', s', d')"
  shows "aid \<notin> set (map a_id (applications d')) \<and>
         fst (api_my_applications verify (bearer_of (token s')) d') = Inr (myApplications st') \<and>
         toasts s' = toasts s @ [''Application withdrawn successfully!'']"
proof -
  have del: "api_delete_application verify (bearer_of (token s)) (ObjId aid) d =
      (Inr (), d\<lparr>applications := delete_where (\<lambda>x. a_id x = aid) (applications d)\<rparr>)"
    by (simp add: api_delete_application_def api_as_session_user_roles [of s tok verify u d "[Freelancer, Admin]", OF tok ver(1,2)] ver(3) own
          delete_application_def)
  define d1 where "d1 = d\<lparr>applications := delete_where (\<lambda>x. a_id x = aid) (applications d)\<rparr>"
  define s1 where "s1 = toast ''Application withdrawn successfully!'' s"
  have ver1: "find_by u_id (u_id u) (users d1) = Some u" using ver(2) by (simp add: d1_def)
  have s1: "token s1 = token s" "freelancer_ready s1" using ready by (simp_all add: s1_def toast_def freelancer_ready_def)
  have r: "\<And>h. route verify (Some [Freelancer]) h d1 (bearer_of (token s1)) = h u d1"
    using api_as_session_user_roles [of s1 tok verify u d1 "[Freelancer]", OF _ tok(2) ver(1) ver1] s1(1) tok(1) ver(3)
    by simp
  have lst: "fst (api_my_applications verify (bearer_of (token s1)) d1) = my_applications u d1"
    by (simp add: api_my_applications_def r)
  then obtain as where as: "fst (api_my_applications verify (bearer_of (token s1)) d1) = Inr as"
    by (simp add: my_applications_def)
  have "ma_withdraw verify d True aid s st =
      (st\<lparr>ma_loading := False, ma_error := None, myApplications := as\<rparr>, s1, d1)"
    unfolding ma_withdraw_def del d1_def [symmetric] s1_def [symmetric]
    using ma_fetch_ready [OF s1(2) as] by simp
  with run have st': "st' = st\<lparr>ma_loading := False, ma_error := None, myApplications := as\<rparr>"
    and s': "s' = s1" and d': "d' = d1" by simp_all
  have "aid \<notin> set (map a_id (applications d1))" by (auto simp: d1_def set_delete_where)
  with as st' s' d' show ?thesis by (simp add: s1_def toast_def)
qed

theorem withdraw_from_page_witness:
  "4 \<notin> set (map a_id (applications (snd (snd (ma_withdraw f1_verify demo_db True 4 f1_session ma_initial))))) \<and>
   toasts (fst (snd (ma_withdraw f1_verify demo_db True 4 f1_session ma_initial))) =
     toasts f1_session @ [''Application withdrawn successfully!'']"
proof -
  have h: "find_by u_id (u_id demo_f1) (users demo_db) = Some demo_f1"
    "find_by a_id 4 (applications demo_db) = Some demo_a1" "freelancer demo_a1 = u_id demo_f1"
    "freelancer_ready f1_session"
    by (simp_all add: demo_defs find_by_def freelancer_ready_def f1_facts has_token_def)
  show ?thesis
    using withdraw_from_page [of f1_session "''tok''" f1_verify demo_f1 demo_db 4 demo_a1 ma_initial
        "fst (ma_withdraw f1_verify demo_db True 4 f1_session ma_initial)"
        "fst (snd (ma_withdraw f1_verify demo_db True 4 f1_session ma_initial))"
        "snd (snd (ma_withdraw f1_verify demo_db True 4 f1_session ma_initial))"] f1_facts h
    by simp
qed

text \<open>
  C36. In every database reachable without the general project edit, the Go
  To Work link of a row of the freelancer's applications leads to a project
  assigned to that freelancer, whose chat is open to them with the project's
  client as the receiver.
\<close>

theorem go_to_work_opens_chat:
  assumes r: "reachable no_edit d" and a: "a \<in> set (applications d)"
    and l: "row_work (ma_row_of d a) = Some l"
  shows "\<exists>p. find_by p_id (project a) (projects d) = Some p \<and> assignedTo p = Some (freelancer a) \<and>
             message_receiver (freelancer a) p = Some (client p) \<and>
             l = ''/freelancer/working-project/'' @ oid_str (p_id p)"
proof -
  have inv: "db_inv d" and aa: "accepted_assigned d" using reachable_no_edit_inv [OF r] by auto
  from l have acc: "a_status a = Accepted" and lnk: "l = ''/freelancer/working-project/'' @ oid_str (project a)"
    by (simp_all add: ma_row_of_def Let_def del: oid_str.simps split: if_splits)
  from aa a acc obtain p where p: "p \<in> set (projects d)" "p_id p = project a" "assignedTo p = Some (freelancer a)"
    unfolding accepted_assigned_def by blast
  have "distinct (map p_id (projects d))" using inv by (simp add: db_inv_def ids_ok_def)
  from find_by_distinct [OF this p(1)] p(2) have "find_by p_id (project a) (projects d) = Some p" by simp
  moreover have "message_receiver (freelancer a) p = Some (client p)"
    using p(3) by (simp add: message_receiver_def)
  ultimately show ?thesis using p lnk by auto
qed

theorem go_to_work_opens_chat_witness:
  "\<exists>p. find_by p_id 3 (projects (run scenario empty_db)) = Some p \<and> assignedTo p = Some 1 \<and>
       message_receiver 1 p = Some (client p)"
proof -
  let ?d = "run scenario empty_db"
  have r: "reachable no_edit ?d"
    by (rule reachable_run [OF reachable.init]) (simp add: scenario_def)
  have m: "map (\<lambda>a. (project a, freelancer a, a_status a)) (applications ?d) = [(3, 1, Accepted), (3, 2, Rejected)]"
    and ps: "map p_id (projects ?d) = [3]"
    by (simp_all add: scenario_def run_defs)
  obtain a rest where as: "applications ?d = a # rest" using m by (cases "applications ?d") auto
  with m have a: "project a = 3" "freelancer a = 1" "a_status a = Accepted" by simp_all
  have "find_by p_id 3 (projects ?d) \<noteq> None" using ps by (auto simp: find_by_None)
  then have "row_work (ma_row_of ?d a) = Some (''/freelancer/working-project/'' @ oid_str 3)"
    using a by (simp add: ma_row_of_def Let_def del: oid_str.simps)
  from go_to_work_opens_chat [OF r _ this] as a show ?thesis by auto
qed

end
