(* ===== verification/ClientLists.thy ===== *)
theory ClientLists
  imports ClientFreelancer
begin

text \<open>
  The project lists of the frontend: the freelancer's browse page
  (\<open>pages/freelancer/AllProjects.jsx\<close>), the client's posted projects with their
  Delete and Close buttons (\<open>pages/client/MyProjects.jsx\<close>) and the
  freelancer's working projects (\<open>pages/freelancer/MyWorkingProjects.jsx\<close>).
  The status filter of the two latter pages is the decoded \<open>status\<close> query
  parameter of the URL (\<open>URLSearchParams.get\<close>), passed as an option. The
  lemmas show that closing a project from the client's page freezes its
  applications on the server, and that the working-projects page misreads the
  filter \<open>in progress\<close> when it picks its heading.
\<close>

subsection \<open>All projects (freelancer)\<close>

record ap_state =
  ap_projects :: "project_doc list"
  ap_loading :: bool
  ap_error :: "string option"

definition ap_fetch :: "(string \<Rightarrow> oid option) \<Rightarrow> db \<Rightarrow> session \<Rightarrow> ap_state \<Rightarrow> ap_state \<times> session" where
  "ap_fetch verify d s st =
     (let st0 = st\<lparr>ap_loading := True, ap_error := None\<rparr>
      in if \<not> has_token (token s)
         then (st0\<lparr>ap_error := Some ''Authentication token not found. Please log in.'', ap_loading := False\<rparr>, s)
         else (case fst (api_all_projects verify (bearer_of (token s)) d) of
                 Inr ps \<Rightarrow> (st0\<lparr>ap_projects := ps, ap_loading := False\<rparr>, s)
               | Inl (HttpError _ m) \<Rightarrow>
                   (let e = msg_or m ''Failed to fetch projects.''
                    in (st0\<lparr>ap_error := Some e, ap_loading := False\<rparr>, toast (''Error loading projects: '' @ e) s))))"

definition ap_mount :: "(string \<Rightarrow> oid option) \<Rightarrow> db \<Rightarrow> session \<Rightarrow> ap_state \<Rightarrow> ap_state \<times> session" where
  "ap_mount verify d s st =
     (if isAuthenticated s \<and> userRole s = Some ''freelancer'' then ap_fetch verify d s st
      else (st\<lparr>ap_loading := False, ap_projects := []\<rparr>, s))"

text \<open>The View Details link of a row.\<close>

definition ap_link :: "project_doc \<Rightarrow> string" where
  "ap_link p = ''/freelancer/project-data/'' @ oid_str (p_id p)"

subsection \<open>My posted projects (client)\<close>

record mp_state =
  mp_projects :: "project_doc list"
  mp_loading :: bool
  mp_error :: "string option"

text \<open>\<open>if (statusFilter) url += ...\<close>: a missing or empty filter asks for everything.\<close>

definition status_query :: "string option \<Rightarrow> string" where
  "status_query sf = (case sf of None \<Rightarrow> [] | Some q \<Rightarrow> q)"

definition mp_fetch :: "(string \<Rightarrow> oid option) \<Rightarrow> db \<Rightarrow> string option \<Rightarrow> session \<Rightarrow> mp_state \<Rightarrow> mp_state \<times> session" where
  "mp_fetch verify d sf s st =
     (let st0 = st\<lparr>mp_loading := True, mp_error := None\<rparr>
      in if \<not> isAuthenticated s \<or> s_user s = None
         then (st0\<lparr>mp_error := Some ''User not authenticated or ID not available.'', mp_loading := False\<rparr>, s)
         else (case fst (api_my_posted_projects verify (bearer_of (token s)) (status_query sf) d) of
                 Inr ps \<Rightarrow> (st0\<lparr>mp_projects := ps, mp_loading := False\<rparr>, s)
               | Inl (HttpError _ m) \<Rightarrow>
                   (let e = msg_or m ''Failed to fetch your posted projects.''
                    in (st0\<lparr>mp_error := Some e, mp_loading := False\<rparr>, toast (''Error loading projects: '' @ e) s))))"

definition mp_view_applications :: "oid \<Rightarrow> session \<Rightarrow> session" where
  "mp_view_applications pid s = s\<lparr>location := ''/client/view-applications/'' @ oid_str pid\<rparr>"

definition mp_delete ::
  "(string \<Rightarrow> oid option) \<Rightarrow> db \<Rightarrow> string option \<Rightarrow> bool \<Rightarrow> oid \<Rightarrow> session \<Rightarrow> mp_state \<Rightarrow>
   mp_state \<times> session \<times> db" where
  "mp_delete verify d sf confirmed pid s st =
     (if \<not> confirmed then (st, s, d)
      else (case api_delete_project verify (bearer_of (token s)) (ObjId pid) d of
              (Inr _, d') \<Rightarrow>
                (let (st1, s1) = mp_fetch verify d' sf (toast ''Project deleted successfully!'' s) st
                 in (st1, s1, d'))
            | (Inl (HttpError _ m), d') \<Rightarrow>
                (st, toast (''Error deleting project: '' @ msg_or m ''Failed to delete project.'') s, d')))"

definition mp_close ::
  "(string \<Rightarrow> oid option) \<Rightarrow> db \<Rightarrow> string option \<Rightarrow> bool \<Rightarrow> oid \<Rightarrow> session \<Rightarrow> mp_state \<Rightarrow>
   mp_state \<times> session \<times> db" where
  "mp_close verify d sf confirmed pid s st =
     (if \<not> confirmed then (st, s, d)
      else (case api_update_project_status verify (bearer_of (token s)) (ObjId pid) ''completed'' d of
              (Inr _, d') \<Rightarrow>
                (let (st1, s1) = mp_fetch verify d' sf (toast ''Project marked as completed!'' s) st
                 in (st1, s1, d'))
            | (Inl (HttpError _ m), d') \<Rightarrow>
                (st, toast (''Error closing project: '' @ msg_or m ''Failed to close project.'') s, d')))"

definition mp_heading :: "string option \<Rightarrow> string \<times> string" where
  "mp_heading sf =
     (if sf = Some ''completed''
      then (''My Completed Projects'', ''You don't have any completed projects yet.'')
      else (''My Posted Projects'', ''You haven't posted any projects yet.''))"

datatype mp_action = ViewApplications | DeleteBtn | CloseBtn | ViewWorkDetails | ViewPaymentDetails

text \<open>The buttons of a row, in the order the page lists them, by the project's status.\<close>

definition mp_actions :: "project_doc \<Rightarrow> mp_action list" where
  "mp_actions p =
     (case p_status p of
        Open \<Rightarrow> [ViewApplications, DeleteBtn, CloseBtn]
      | Assigned \<Rightarrow> [ViewWorkDetails, CloseBtn, DeleteBtn]
      | InProgress \<Rightarrow> [ViewWorkDetails, CloseBtn, DeleteBtn]
      | Completed \<Rightarrow> [ViewPaymentDetails]
      | Cancelled \<Rightarrow> [])"

subsection \<open>My working projects (freelancer)\<close>

record mw_state =
  mw_projects :: "project_doc list"
  mw_loading :: bool
  mw_error :: "string option"

definition mw_fetch :: "(string \<Rightarrow> oid option) \<Rightarrow> db \<Rightarrow> string option \<Rightarrow> session \<Rightarrow> mw_state \<Rightarrow> mw_state \<times> session" where
  "mw_fetch verify d sf s st =
     (let st0 = st\<lparr>mw_loading := True, mw_error := None\<rparr>
      in case s_user s of
           None \<Rightarrow> (st0\<lparr>mw_error := Some ''User not authenticated or ID not available.'', mw_loading := False\<rparr>, s)
         | Some u \<Rightarrow>
             if \<not> isAuthenticated s
             then (st0\<lparr>mw_error := Some ''User not authenticated or ID not available.'', mw_loading := False\<rparr>, s)
             else (case fst (api_freelancer_working_projects verify (bearer_of (token s)) (ObjId (u_id u))
                               (status_query sf) d) of
                     Inr ps \<Rightarrow> (st0\<lparr>mw_projects := ps, mw_loading := False\<rparr>, s)
                   | Inl (HttpError _ m) \<Rightarrow>
                       (let e = msg_or m ''Failed to fetch your projects.''
                        in (st0\<lparr>mw_error := Some e, mw_loading := False\<rparr>, toast (''Error loading projects: '' @ e) s))))"

text \<open>
  The heading, the empty-list message and the suggestion link, chosen from the
  decoded filter with \<open>String.includes\<close>.
\<close>

definition mw_heading :: "string option \<Rightarrow> string \<times> string \<times> string" where
  "mw_heading sf =
     (case sf of
        Some q \<Rightarrow>
          if q \<noteq> [] \<and> contains q ''completed''
          then (''My Completed Projects'', ''You haven't completed any projects yet.'', ''/freelancer/my-applications'')
          else if q \<noteq> [] \<and> (contains q ''assigned'' \<or> contains q ''in%20progress'')
          then (''My Active Projects'', ''You don't have any active projects currently.'', ''/freelancer/all-projects'')
          else (''My Working Projects'', ''You currently have no projects assigned or in progress.'', ''/freelancer/all-projects'')
      | None \<Rightarrow> (''My Working Projects'', ''You currently have no projects assigned or in progress.'', ''/freelancer/all-projects''))"

definition mw_work_link :: "project_doc \<Rightarrow> string option" where
  "mw_work_link p =
     (if p_status p = Assigned \<or> p_status p = InProgress
      then Some (''/freelancer/working-project/'' @ oid_str (p_id p)) else None)"

subsection \<open>Fixtures\<close>

definition mp_initial :: mp_state where
  "mp_initial = \<lparr>mp_projects = [], mp_loading = True, mp_error = None\<rparr>"

subsection \<open>Lemmas\<close>

lemma update_status_completed:
  assumes "find_by p_id pid (projects d) = Some p" and "client p = u_id u \<or> role u = Admin"
  shows "update_project_status u (ObjId pid) ''completed'' d =
           (Inr (p\<lparr>p_status := Completed\<rparr>), d\<lparr>projects := save_by p_id (p\<lparr>p_status := Completed\<rparr>) (projects d)\<rparr>)"
  using assms by (simp add: update_project_status_def js_lower_def project_status_of_def)

lemma find_by_save_by_found:
  assumes "find_by key i xs = Some x" and "key y = i"
  shows "find_by key i (save_by key y xs) = Some y"
proof -
  from assms(1) have "x \<in> set xs" "key x = i" by (auto dest: find_by_Some)
  then have "key y \<in> set (map key xs)" using assms(2) by force
  from find_by_save_by [OF this] assms(2) show ?thesis by simp
qed

lemma mp_fetch_toasts: "\<exists>more. toasts (snd (mp_fetch verify d sf s st)) = toasts s @ more"
  by (auto simp: mp_fetch_def Let_def toast_def split: sum.split http_error.split)

lemma mp_close_ok:
  assumes "api_update_project_status verify (bearer_of (token s)) (ObjId pid) ''completed'' d = (Inr p', d')"
  shows "\<exists>st1. mp_close verify d sf True pid s st =
           (st1, snd (mp_fetch verify d' sf (toast ''Project marked as completed!'' s) st), d')"
  using assms by (simp add: mp_close_def split: prod.split)

text \<open>
  C37. Closing one's own project from the client's project list, once
  confirmed, stores it completed, and from then on the server refuses every
  status change of its applications, whoever of its client or an admin asks.
\<close>

theorem close_project_freezes_applications:
  assumes tok: "token s = Some tok" "CHR '' '' \<notin> set tok"
    and ver: "verify tok = Some (u_id u)" "find_by u_id (u_id u) (users d) = Some u" "role u = Client"
    and own: "find_by p_id pid (projects d) = Some p" "client p = u_id u"
    and run: "mp_close verify d sf True pid s st = (st', s', d')"
    and app: "find_by a_id aid (applications d') = Some a" "project a = pid"
    and who: "client p = u_id v \<or> role v = Admin"
  shows "find_by p_id pid (projects d') = Some (p\<lparr>p_status := Completed\<rparr>) \<and>
         update_application_status v (ObjId aid) newStatus d' =
           (Inl (HttpError 400 ''Cannot change application status for a completed project.''), d') \<and>
         (\<exists>more. toasts s' = toasts s @ ''Project marked as completed!'' # more)"
proof -
  define d1 where "d1 = d\<lparr>projects := save_by p_id (p\<lparr>p_status := Completed\<rparr>) (projects d)\<rparr>"
  have api: "api_update_project_status verify (bearer_of (token s)) (ObjId pid) ''completed'' d =
      (Inr (p\<lparr>p_status := Completed\<rparr>), d1)"
    by (simp add: api_update_project_status_def
          api_as_session_user_roles [of s tok verify u d "[Client, Admin]", OF tok ver(1,2)] ver(3)
          update_status_completed [OF own(1)] own(2) d1_def)
  obtain more where "toasts (snd (mp_fetch verify d1 sf (toast ''Project marked as completed!'' s) st)) =
        toasts s @ ''Project marked as completed!'' # more"
    using mp_fetch_toasts [of verify d1 sf "toast ''Project marked as completed!'' s" st]
    by (auto simp: toast_def)
  moreover obtain st1 where "mp_close verify d sf True pid s st =
      (st1, snd (mp_fetch verify d1 sf (toast ''Project marked as completed!'' s) st), d1)"
    using mp_close_ok [OF api] by blast
  ultimately have d': "d' = d1" and s': "toasts s' = toasts s @ ''Project marked as completed!'' # more"
    using run by auto
  have fp: "find_by p_id pid (projects d') = Some (p\<lparr>p_status := Completed\<rparr>)"
    using find_by_save_by_found [OF own(1), of "p\<lparr>p_status := Completed\<rparr>"] own(1) by (simp add: d' d1_def find_by_Some)
  have "update_application_status v (ObjId aid) newStatus d' =
           (Inl (HttpError 400 ''Cannot change application status for a completed project.''), d')"
    using app fp who by (simp add: update_application_status_def)
  with fp s' show ?thesis by blast
qed

theorem close_project_freezes_applications_witness:
  "update_application_status demo_client (ObjId 4) ''accepted''
      (snd (snd (mp_close demo_verify demo_db None True 3 client_session mp_initial))) =
     (Inl (HttpError 400 ''Cannot change application status for a completed project.''),
      snd (snd (mp_close demo_verify demo_db None True 3 client_session mp_initial)))"
proof -
  let ?r = "mp_close demo_verify demo_db None True 3 client_session mp_initial"
  have p: "protect demo_verify demo_db (bearer_of (Some ''tok'')) = Inr demo_client"
    by (rule protect_bearer_of) (simp_all add: demo_verify_def demo_defs find_by_def)
  have t: "token client_session = Some ''tok''" by (simp add: client_session_def auth_login_def)
  have "snd (snd ?r) = demo_db\<lparr>projects := [demo_project\<lparr>p_status := Completed\<rparr>]\<rparr>"
    by (simp add: mp_close_def t api_update_project_status_def route_def p authorize_roles_def
          split: prod.split)
       (simp add: update_project_status_def demo_defs find_by_def js_lower_def project_status_of_def save_by_def
          case_prod_unfold Let_def)
  then have a: "find_by a_id 4 (applications (snd (snd ?r))) = Some demo_a1"
    by (simp add: demo_defs find_by_def)
  have h: "CHR '' '' \<notin> set ''tok''" "demo_verify ''tok'' = Some (u_id demo_client)"
    "find_by u_id (u_id demo_client) (users demo_db) = Some demo_client" "role demo_client = Client"
    "find_by p_id 3 (projects demo_db) = Some demo_project" "client demo_project = u_id demo_client"
    "project demo_a1 = 3"
    by (simp_all add: demo_verify_def demo_defs find_by_def)
  show ?thesis
    using close_project_freezes_applications [of client_session "''tok''" demo_verify demo_client demo_db 3
        demo_project None mp_initial "fst ?r" "fst (snd ?r)" "snd (snd ?r)" 4 demo_a1 demo_client "''accepted''"]
      t h a by simp
qed

text \<open>
  The working-projects page misreads the filter \<open>in progress\<close>: the
  decoded query parameter never contains \<open>in%20progress\<close>, so a page opened
  with \<open>?status=in%20progress\<close> is headed as the unfiltered list, not as the
  active projects.
\<close>

theorem in_progress_heading_misread:
  "mw_heading (Some ''in progress'') =
     (''My Working Projects'', ''You currently have no projects assigned or in progress.'', ''/freelancer/all-projects'') \<and>
   mw_heading (Some ''assigned'') =
     (''My Active Projects'', ''You don't have any active projects currently.'', ''/freelancer/all-projects'')"
  by (simp add: mw_heading_def)

end
