(* ===== verification/Integrity.thy ===== *)
theory Integrity
  imports Workflow
begin

text \<open>
  The references between the collections, typed by role. Mongoose stores a
  reference as a bare ObjectId (\<open>ref: 'User'\<close>, \<open>ref: 'Project'\<close> in
  \<open>server/models\<close>) and checks neither that it exists nor the role of the user
  it names; \<open>refs_typed\<close> states that in a database the routes produce a
  project's client is a stored client, its assignee a stored freelancer, and an
  application refers to a stored project and a stored freelancer. The lemmas
  show that every request except the general project edit keeps this, by
  induction over the reachable databases, and, on top of it, that the accept
  request is always enabled for a pending application of an open project
  (progress of the workflow), and that from every such database the general
  project edit with \<open>assignedTo: null\<close> lets a second application of a
  project be accepted beside the first.
\<close>

definition has_user :: "user_doc list \<Rightarrow> oid \<Rightarrow> role \<Rightarrow> bool" where
  "has_user us i r \<longleftrightarrow> (\<exists>v\<in>set us. u_id v = i \<and> role v = r)"

definition proj_ok :: "user_doc list \<Rightarrow> project_doc \<Rightarrow> bool" where
  "proj_ok us p \<longleftrightarrow> has_user us (client p) Client \<and>
     (case assignedTo p of None \<Rightarrow> True | Some f \<Rightarrow> has_user us f Freelancer)"

definition app_ok :: "user_doc list \<Rightarrow> oid list \<Rightarrow> application_doc \<Rightarrow> bool" where
  "app_ok us pids a \<longleftrightarrow> project a \<in> set pids \<and> has_user us (freelancer a) Freelancer"

definition refs_typed :: "db \<Rightarrow> bool" where
  "refs_typed d \<longleftrightarrow> (\<forall>p\<in>set (projects d). proj_ok (users d) p) \<and>
     (\<forall>a\<in>set (applications d). app_ok (users d) (map p_id (projects d)) a)"

subsection \<open>Every request keeps the references typed\<close>

lemma has_user_mono: "has_user us i r \<Longrightarrow> set us \<subseteq> set us' \<Longrightarrow> has_user us' i r"
  by (auto simp: has_user_def)

lemma proj_ok_mono: "proj_ok us p \<Longrightarrow> set us \<subseteq> set us' \<Longrightarrow> proj_ok us' p"
  by (auto simp: proj_ok_def intro: has_user_mono split: option.splits)

lemma app_ok_mono:
  "app_ok us pids a \<Longrightarrow> set us \<subseteq> set us' \<Longrightarrow> set pids \<subseteq> set pids' \<Longrightarrow> app_ok us' pids' a"
  by (auto simp: app_ok_def intro: has_user_mono)

lemma refs_next_oid [simp]: "refs_typed (d\<lparr>next_oid := n\<rparr>) = refs_typed d"
  by (simp add: refs_typed_def)

lemma refs_now [simp]: "refs_typed (d\<lparr>now := n\<rparr>) = refs_typed d"
  by (simp add: refs_typed_def)

lemma refs_messages [simp]: "refs_typed (d\<lparr>messages := ms\<rparr>) = refs_typed d"
  by (simp add: refs_typed_def)

lemma refs_empty: "refs_typed empty_db"
  by (simp add: refs_typed_def empty_db_def)

lemma refs_delete_apps: "refs_typed d \<Longrightarrow> refs_typed (d\<lparr>applications := delete_where P (applications d)\<rparr>)"
  by (simp add: refs_typed_def set_delete_where)

lemma route_preserves_role:
  assumes "I d" and "\<And>u. u \<in> set (users d) \<Longrightarrow> role u \<in> set rs \<Longrightarrow> I (snd (h u d))"
  shows "I (snd (route verify (Some rs) h d hdr))"
  using assms protect_Inr
  by (auto simp: route_def authorize_roles_def split: sum.split option.split if_splits)

lemma register_refs: "refs_typed d \<Longrightarrow> refs_typed (snd (register hash sign b d))"
  by (auto simp: register_def Let_def refs_typed_def intro: proj_ok_mono app_ok_mono split: option.split)

lemma send_message_refs: "refs_typed d \<Longrightarrow> refs_typed (snd (send_message u b d))"
  by (auto simp: send_message_def insert_message_def Let_def
           split: option.split rid.split if_splits sum.split)

lemma has_user_in: "u \<in> set us \<Longrightarrow> has_user us (u_id u) (role u)"
  by (auto simp: has_user_def)

lemma create_project_refs:
  assumes "refs_typed d" "u \<in> set (users d)" "role u = Client"
  shows "refs_typed (snd (create_project u b d))"
proof -
  have "proj_ok (users d) \<lparr>p_id = next_oid d, client = u_id u, title = t, description = ds, budget = bg,
          p_status = Open, skillsRequired = sk, assignedTo = None, assignedAt = None\<rparr>" for t ds bg sk
    using has_user_in [OF assms(2)] assms(3) by (simp add: proj_ok_def)
  with assms(1) show ?thesis
    by (auto simp: create_project_def insert_project_def Let_def refs_typed_def
             intro: app_ok_mono split: if_splits sum.split mongo_error.split)
qed
lemma submit_refs:
  assumes "refs_typed d" "u \<in> set (users d)" "role u = Freelancer"
  shows "refs_typed (snd (submit_application u b d))"
proof -
  have "app_ok (users d) (map p_id (projects d))
          \<lparr>a_id = n, project = pid, freelancer = u_id u, bidAmount = x, coverLetter = cl,
           a_status = Pending, applicationDate = t\<rparr>"
    if "find_by p_id pid (projects d) = Some p" for n pid x cl t p
    using that has_user_in [OF assms(2)] assms(3) by (force simp: app_ok_def dest: find_by_Some)
  with assms(1) show ?thesis
    by (auto simp: submit_application_def insert_application_def Let_def refs_typed_def
             split: option.split prod.split sum.split rid.split if_splits)
qed

lemma withdraw_refs: "refs_typed d \<Longrightarrow> refs_typed (snd (delete_application u r d))"
  by (simp add: delete_application_def refs_delete_apps split: rid.split option.split)

lemma save_project_same_refs:
  assumes "refs_typed d" and "p \<in> set (projects d)" and "proj_ok (users d) p'" and "p_id p' = p_id p"
  shows "refs_typed (d\<lparr>projects := save_by p_id p' (projects d)\<rparr>)"
  using assms by (auto simp: refs_typed_def map_save_by dest: set_save_by)

lemma project_status_refs:
  assumes "refs_typed d" shows "refs_typed (snd (update_project_status u r st d))"
proof -
  have "refs_typed (d\<lparr>projects := save_by p_id (p\<lparr>p_status := s\<rparr>) (projects d)\<rparr>)"
    if "find_by p_id pid (projects d) = Some p" for pid p s
  proof (rule save_project_same_refs [OF assms])
    show "p \<in> set (projects d)" using find_by_Some [OF that] by simp
    then show "proj_ok (users d) (p\<lparr>p_status := s\<rparr>)"
      using assms by (simp add: refs_typed_def proj_ok_def)
  qed simp
  with assms show ?thesis
    by (simp add: update_project_status_def split: rid.split option.split)
qed

lemma delete_project_refs:
  assumes "refs_typed d" shows "refs_typed (snd (delete_project u r d))"
proof -
  have "refs_typed (d\<lparr>applications := delete_where (\<lambda>a. project a = pid) (applications d),
                      projects := delete_where (\<lambda>q. p_id q = pid) (projects d)\<rparr>)" for pid
    using assms by (fastforce simp: refs_typed_def app_ok_def set_delete_where image_iff)
  with assms show ?thesis by (simp add: delete_project_def Let_def split: rid.split option.split)
qed
lemma save_app_same_refs:
  assumes "refs_typed d" and "a \<in> set (applications d)"
  shows "refs_typed (d\<lparr>applications := save_by a_id (a\<lparr>a_status := s\<rparr>) (applications d)\<rparr>)"
  using assms by (auto simp: refs_typed_def app_ok_def dest: set_save_by)

lemma accept_effects_refs:
  assumes "refs_typed d" and "a \<in> set (applications d)" and "p \<in> set (projects d)"
  shows "refs_typed (accept_effects aid a p d)"
proof -
  have pa: "proj_ok (users d) (assign_project (freelancer a) p)"
    using assms by (auto simp: refs_typed_def proj_ok_def app_ok_def assign_project_def)
  show ?thesis
    using assms(1,3) pa
    by (auto simp: accept_effects_def Let_def refs_typed_def set_reject_other_pending app_ok_def
             map_save_by map_reject_other_pending assign_project_def dest: set_save_by)
qed

lemma set_app_status_refs:
  assumes "refs_typed d" shows "refs_typed (snd (update_application_status u r st d))"
proof (cases "\<exists>aid a p. r = ObjId aid \<and> find_by a_id aid (applications d) = Some a \<and>
                       find_by p_id (project a) (projects d) = Some p")
  case True
  then obtain aid a p where r: "r = ObjId aid" and fa: "find_by a_id aid (applications d) = Some a"
    and fp: "find_by p_id (project a) (projects d) = Some p" by blast
  have a: "a \<in> set (applications d)" using find_by_Some [OF fa] by simp
  have p: "p \<in> set (projects d)" using find_by_Some [OF fp] by simp
  have e: "refs_typed (accept_effects aid a p d)" using accept_effects_refs [OF assms a p] .
  have "a \<in> set (applications (accept_effects aid a p d))"
    using a find_by_Some [OF fa] by (auto simp: accept_effects_def Let_def set_reject_other_pending)
  then have acc: "refs_typed ((accept_effects aid a p d)\<lparr>applications :=
            save_by a_id (a\<lparr>a_status := s\<rparr>) (applications (accept_effects aid a p d))\<rparr>)" for s
    by (rule save_app_same_refs [OF e])
  have oth: "refs_typed (d\<lparr>applications := save_by a_id (a\<lparr>a_status := s\<rparr>) (applications d)\<rparr>)" for s
    by (rule save_app_same_refs [OF assms a])
  show ?thesis
    using assms e acc oth by (simp add: r update_status_eq [OF fa fp] Let_def split: option.split)
next
  case False
  with assms show ?thesis
    by (auto simp: update_application_status_def split: rid.split option.split)
qed
lemma has_user_delete:
  "has_user (delete_where (\<lambda>v. u_id v = uid) us) i r \<longleftrightarrow> has_user us i r \<and> i \<noteq> uid"
  by (auto simp: has_user_def set_delete_where)

lemma has_user_unique:
  assumes "distinct (map u_id us)" and "u \<in> set us" and "has_user us (u_id u) r"
  shows "r = role u"
  using assms distinct_key_eq [OF assms(1)] by (auto simp: has_user_def)

lemma refs_drop_user:
  assumes "refs_typed d"
    and "\<And>p. p \<in> set (projects d) \<Longrightarrow> client p \<noteq> uid \<and> assignedTo p \<noteq> Some uid"
    and "\<And>a. a \<in> set (applications d) \<Longrightarrow> freelancer a \<noteq> uid"
  shows "refs_typed (d\<lparr>users := delete_where (\<lambda>v. u_id v = uid) (users d)\<rparr>)"
  using assms by (fastforce simp: refs_typed_def proj_ok_def app_ok_def has_user_delete split: option.splits)

lemma delete_client_refs:
  assumes "refs_typed d" "distinct (map u_id (users d))" "u \<in> set (users d)" "role u = Client"
  shows "refs_typed ((delete_client_projects (u_id u) d)\<lparr>users :=
           delete_where (\<lambda>v. u_id v = u_id u) (users (delete_client_projects (u_id u) d))\<rparr>)"
proof -
  let ?S = "p_id ` {p \<in> set (projects d). client p = u_id u}"
  have fr: "f \<noteq> u_id u" if "has_user (users d) f Freelancer" for f
    using that has_user_unique [OF assms(2,3)] assms(4) by auto
  have r1: "refs_typed (delete_client_projects (u_id u) d)"
    using assms(1) by (fastforce simp: delete_client_projects_eq refs_typed_def app_ok_def image_iff)
  show ?thesis
  proof (rule refs_drop_user [OF r1])
    fix p assume "p \<in> set (projects (delete_client_projects (u_id u) d))"
    then have p: "p \<in> set (projects d)" "client p \<noteq> u_id u" by (auto simp: delete_client_projects_eq)
    then have "proj_ok (users d) p" using assms(1) by (simp add: refs_typed_def)
    with p fr show "client p \<noteq> u_id u \<and> assignedTo p \<noteq> Some (u_id u)"
      by (auto simp: proj_ok_def split: option.splits)
  next
    fix a assume "a \<in> set (applications (delete_client_projects (u_id u) d))"
    then have "a \<in> set (applications d)" by (simp add: delete_client_projects_eq)
    with assms(1) fr show "freelancer a \<noteq> u_id u" by (auto simp: refs_typed_def app_ok_def)
  qed
qed

lemma delete_freelancer_refs:
  assumes "refs_typed d" "distinct (map u_id (users d))" "u \<in> set (users d)" "role u = Freelancer"
  shows "refs_typed ((detach_freelancer (u_id u) d)\<lparr>users :=
           delete_where (\<lambda>v. u_id v = u_id u) (users (detach_freelancer (u_id u) d))\<rparr>)"
proof -
  have cl: "c \<noteq> u_id u" if "has_user (users d) c Client" for c
    using that has_user_unique [OF assms(2,3)] assms(4) by auto
  have r1: "refs_typed (detach_freelancer (u_id u) d)"
    using assms(1)
    by (fastforce simp: detach_freelancer_def refs_typed_def app_ok_def proj_ok_def set_delete_where
                        set_update_where map_update_where split: if_splits)
  show ?thesis
  proof (rule refs_drop_user [OF r1])
    fix p assume "p \<in> set (projects (detach_freelancer (u_id u) d))"
    then obtain q where q: "q \<in> set (projects d)"
      and p: "p = (if assignedTo q = Some (u_id u) then q\<lparr>assignedTo := None, p_status := Open\<rparr> else q)"
      by (auto simp: detach_freelancer_def set_update_where)
    have "proj_ok (users d) q" using assms(1) q by (simp add: refs_typed_def)
    with p cl show "client p \<noteq> u_id u \<and> assignedTo p \<noteq> Some (u_id u)"
      by (auto simp: proj_ok_def)
  qed (simp add: detach_freelancer_def set_delete_where)
qed

lemma delete_admin_refs:
  assumes "refs_typed d" "distinct (map u_id (users d))" "u \<in> set (users d)" "role u = Admin"
  shows "refs_typed (d\<lparr>users := delete_where (\<lambda>v. u_id v = u_id u) (users d)\<rparr>)"
proof -
  have ne: "i \<noteq> u_id u" if "has_user (users d) i r" "r \<noteq> Admin" for i r
    using that has_user_unique [OF assms(2,3)] assms(4) by auto
  show ?thesis
  proof (rule refs_drop_user [OF assms(1)])
    fix p assume "p \<in> set (projects d)"
    then have "proj_ok (users d) p" using assms(1) by (simp add: refs_typed_def)
    with ne show "client p \<noteq> u_id u \<and> assignedTo p \<noteq> Some (u_id u)"
      by (fastforce simp: proj_ok_def)
  next
    fix a assume "a \<in> set (applications d)"
    then have "app_ok (users d) (map p_id (projects d)) a" using assms(1) by (simp add: refs_typed_def)
    with ne show "freelancer a \<noteq> u_id u" by (fastforce simp: app_ok_def)
  qed
qed

lemma delete_user_refs:
  assumes "refs_typed d" "db_inv d" shows "refs_typed (snd (delete_user r d))"
proof (cases "\<exists>uid u. r = ObjId uid \<and> find_by u_id uid (users d) = Some u")
  case True
  then obtain uid u where r: "r = ObjId uid" and fu: "find_by u_id uid (users d) = Some u" by blast
  have u: "u \<in> set (users d)" "u_id u = uid" using find_by_Some [OF fu] by auto
  have dist: "distinct (map u_id (users d))" using assms(2) by (simp add: db_inv_def ids_ok_def)
  show ?thesis
  proof (cases "role u")
    case Client
    with delete_client_refs [OF assms(1) dist u(1)] u(2) show ?thesis
      by (simp add: r delete_user_found [OF fu] Let_def)
  next
    case Freelancer
    with delete_freelancer_refs [OF assms(1) dist u(1)] u(2) show ?thesis
      by (simp add: r delete_user_found [OF fu] Let_def)
  next
    case Admin
    with delete_admin_refs [OF assms(1) dist u(1)] u(2) show ?thesis
      by (simp add: r delete_user_found [OF fu] Let_def)
  qed
next
  case False
  with assms show ?thesis by (auto simp: delete_user_def split: rid.split option.split)
qed
lemma step_refs:
  assumes "db_inv d" and "refs_typed d" and "no_edit c"
  shows "refs_typed (step c d)"
proof (cases c)
  case (Register b)
  with assms(2) show ?thesis by (simp add: register_refs)
next
  case (Submit uid b)
  with assms(2) show ?thesis
    by (simp add: api_submit_application_def) (rule route_preserves_role; simp add: submit_refs)
next
  case (SetAppStatus uid r st)
  with assms(2) show ?thesis
    by (simp add: api_update_application_status_def) (rule route_preserves; simp add: set_app_status_refs)
next
  case (Withdraw uid r)
  with assms(2) show ?thesis
    by (simp add: api_delete_application_def) (rule route_preserves; simp add: withdraw_refs)
next
  case (CreateProject uid b)
  with assms(2) show ?thesis
    by (simp add: api_create_project_def) (rule route_preserves_role; simp add: create_project_refs)
next
  case (EditProject uid r b)
  with assms(3) show ?thesis by simp
next
  case (SetProjectStatus uid r st)
  with assms(2) show ?thesis
    by (simp add: api_update_project_status_def) (rule route_preserves; simp add: project_status_refs)
next
  case (DeleteProject uid r)
  with assms(2) show ?thesis
    by (simp add: api_delete_project_def) (rule route_preserves; simp add: delete_project_refs)
next
  case (SendMessage uid b)
  with assms(2) show ?thesis
    by (simp add: api_send_message_def) (rule route_preserves; simp add: send_message_refs)
next
  case (DeleteUser uid r)
  with assms(1,2) show ?thesis
    by (simp add: api_delete_user_def) (rule route_preserves; simp add: delete_user_refs)
next
  case Tick
  with assms(2) show ?thesis by simp
qed

lemma reachable_no_edit_refs:
  "reachable no_edit d \<Longrightarrow> db_inv d \<and> accepted_assigned d \<and> refs_typed d"
  by (induction rule: reachable.induct)
     (auto simp: db_inv_empty aa_empty refs_empty step_inv step_aa step_refs)

text \<open>
  C11. In every database reachable without the general project edit the
  references are typed by role: each project's client is a stored client and
  its assignee, if any, a stored freelancer; each application refers to a
  stored project and was made by a stored freelancer.
\<close>

theorem reachable_refs_typed:
  assumes "reachable no_edit d"
  shows "(\<forall>p\<in>set (projects d). has_user (users d) (client p) Client \<and>
            (case assignedTo p of None \<Rightarrow> True | Some f \<Rightarrow> has_user (users d) f Freelancer)) \<and>
         (\<forall>a\<in>set (applications d). project a \<in> p_id ` set (projects d) \<and>
            has_user (users d) (freelancer a) Freelancer)"
  using reachable_no_edit_refs [OF assms] by (simp add: refs_typed_def proj_ok_def app_ok_def)

theorem reachable_refs_typed_witness:
  "reachable no_edit (run scenario empty_db) \<and>
   project (hd (applications (run scenario empty_db))) \<in> p_id ` set (projects (run scenario empty_db)) \<and>
   has_user (users (run scenario empty_db)) (freelancer (hd (applications (run scenario empty_db)))) Freelancer"
proof -
  have r: "reachable no_edit (run scenario empty_db)"
    by (rule reachable_run [OF reachable.init]) (simp add: scenario_def)
  have "applications (run scenario empty_db) \<noteq> []"
    using arg_cong [OF scenario_apps, of length] by auto
  then have "hd (applications (run scenario empty_db)) \<in> set (applications (run scenario empty_db))"
    by simp
  with reachable_refs_typed [OF r] r show ?thesis by blast
qed

text \<open>
  C19. Progress of the workflow: in every database reachable without the
  general project edit, a pending application to a stored project that is
  neither completed nor assigned can always be accepted by the project's
  client; the request succeeds, stores the application accepted and the
  project assigned to its freelancer.
\<close>

theorem accept_always_enabled:
  assumes r: "reachable no_edit d" and a: "a \<in> set (applications d)" "a_status a = Pending"
    and fp: "find_by p_id (project a) (projects d) = Some p"
    and open_p: "p_status p \<noteq> Completed" "assignedTo p = None"
  shows "\<exists>d'. api_update_application_status (as_user (client p)) bearer (ObjId (a_id a)) ''accepted'' d =
                (Inr (a\<lparr>a_status := Accepted\<rparr>), d') \<and>
              step (SetAppStatus (client p) (ObjId (a_id a)) ''accepted'') d = d' \<and>
              a\<lparr>a_status := Accepted\<rparr> \<in> set (applications d') \<and>
              assign_project (freelancer a) p \<in> set (projects d')"
proof -
  have inv: "db_inv d" and refs: "refs_typed d" using reachable_no_edit_refs [OF r] by auto
  have p: "p \<in> set (projects d)" "p_id p = project a" using find_by_Some [OF fp] by auto
  from refs p(1) obtain v where v: "v \<in> set (users d)" "u_id v = client p" "role v = Client"
    by (auto simp: refs_typed_def proj_ok_def has_user_def)
  have fv: "find_by u_id (client p) (users d) = Some v"
    using find_by_distinct [of u_id "users d" v] inv v by (simp add: db_inv_def ids_ok_def)
  have fa: "find_by a_id (a_id a) (applications d) = Some a"
    using find_by_distinct [of a_id "applications d" a] inv a(1) by (simp add: db_inv_def ids_ok_def)
  define d1 where "d1 = accept_effects (a_id a) a p d"
  have upd: "update_application_status v (ObjId (a_id a)) ''accepted'' d =
      (Inr (a\<lparr>a_status := Accepted\<rparr>), d1\<lparr>applications := save_by a_id (a\<lparr>a_status := Accepted\<rparr>) (applications d1)\<rparr>)"
    using open_p v(2) by (simp add: update_status_eq [OF fa fp] application_status_of_def Let_def d1_def)
  have api: "api_update_application_status (as_user (client p)) bearer (ObjId (a_id a)) ''accepted'' d =
      (Inr (a\<lparr>a_status := Accepted\<rparr>), d1\<lparr>applications := save_by a_id (a\<lparr>a_status := Accepted\<rparr>) (applications d1)\<rparr>)"
    using v(3) by (simp add: api_update_application_status_def route_as_user fv authorize_roles_def upd)
  have "a \<in> set (applications d1)"
    using a by (auto simp: d1_def accept_effects_def Let_def set_reject_other_pending)
  then have A: "a\<lparr>a_status := Accepted\<rparr> \<in> set (save_by a_id (a\<lparr>a_status := Accepted\<rparr>) (applications d1))"
    by (rule save_by_in) simp
  have P: "assign_project (freelancer a) p \<in> set (projects d1)"
    using save_by_in [OF p(1)] by (simp add: d1_def accept_effects_def Let_def assign_project_def)
  show ?thesis using api A P by simp
qed

theorem accept_always_enabled_witness:
  "\<exists>d'. api_update_application_status (as_user 0) bearer (ObjId 5) ''accepted'' (run (take 6 scenario) empty_db) =
          (Inr ((applications (run (take 6 scenario) empty_db) ! 1)\<lparr>a_status := Accepted\<rparr>), d')"
proof -
  let ?d = "run (take 6 scenario) empty_db"
  have r: "reachable no_edit ?d"
    by (rule reachable_run [OF reachable.init]) (simp add: scenario_def)
  have m: "map (\<lambda>a. (a_id a, project a, a_status a)) (applications ?d) = [(4, 3, Pending), (5, 3, Pending)]"
    and ps: "map (\<lambda>p. (p_id p, client p, p_status p, assignedTo p)) (projects ?d) = [(3, 0, Open, None)]"
    by (simp_all add: scenario_def run_defs)
  let ?a = "applications ?d ! 1" and ?p = "projects ?d ! 0"
  have len: "length (applications ?d) = 2" "length (projects ?d) = 1"
    using arg_cong [OF m, of length] arg_cong [OF ps, of length] by simp_all
  have a: "a_id ?a = 5" "project ?a = 3" "a_status ?a = Pending" "?a \<in> set (applications ?d)"
    using arg_cong [OF m, of "\<lambda>xs. xs ! 1"] len by simp_all
  have p: "p_id ?p = 3" "client ?p = 0" "p_status ?p = Open" "assignedTo ?p = None"
    using arg_cong [OF ps, of "\<lambda>xs. xs ! 0"] len by simp_all
  obtain q where q: "projects ?d = [q]" using len(2) by (metis One_nat_def length_0_conv length_Suc_conv)
  then have f: "find_by p_id (project ?a) (projects ?d) = Some ?p" using p a by (simp add: find_by_def)
  from accept_always_enabled [OF r a(4) a(3) f] a p show ?thesis by auto
qed

lemma count_where_two:
  "x \<in> set xs \<Longrightarrow> y \<in> set xs \<Longrightarrow> x \<noteq> y \<Longrightarrow> P x \<Longrightarrow> P y \<Longrightarrow> 2 \<le> count_where P xs"
proof -
  assume a: "x \<in> set xs" "y \<in> set xs" "x \<noteq> y" "P x" "P y"
  then have "{x, y} \<subseteq> set (filter P xs)" by auto
  then have "card {x, y} \<le> card (set (filter P xs))" by (rule card_mono [OF finite_set])
  also have "\<dots> \<le> length (filter P xs)" by (rule card_length)
  finally show ?thesis using a(3) by (simp add: count_where_def)
qed

text \<open>
  C22. The general project edit breaks the single-accept invariant from every
  state in which it holds: in any database reachable without the edit, for
  any project that is not completed, has an accepted application and a
  second one that is not accepted, the client's edit clearing
  \<open>assignedTo\<close> followed by the client's accept of the second application
  leaves two accepted applications on the project.
\<close>

theorem edit_breaks_single_accept:
  assumes reach: "reachable no_edit d" and p: "p \<in> set (projects d)" "p_status p \<noteq> Completed" "project_errors p = []"
    and a: "a1 \<in> set (applications d)" "a2 \<in> set (applications d)" "project a1 = p_id p" "project a2 = p_id p"
      "a_status a1 = Accepted" "a_status a2 \<noteq> Accepted"
  defines "cs \<equiv> [EditProject (client p) (ObjId (p_id p))
                   \<lparr>pu_title = [], pu_description = [], pu_budget = [], pu_skills = None, pu_assigned = AssignNull\<rparr>,
                 SetAppStatus (client p) (ObjId (a_id a2)) ''accepted'']"
  shows "reachable (\<lambda>_. True) (run cs d) \<and>
         2 \<le> count_where (\<lambda>a. project a = p_id p \<and> a_status a = Accepted) (applications (run cs d))"
proof -
  have inv: "db_inv d" "refs_typed d" using reachable_no_edit_refs [OF reach] by simp_all
  have dist: "distinct (map u_id (users d))" "distinct (map p_id (projects d))" "distinct (map a_id (applications d))"
    using inv(1) by (simp_all add: db_inv_def ids_ok_def)
  obtain v where v: "v \<in> set (users d)" "u_id v = client p" "role v = Client"
    using inv(2) p(1) by (auto simp: refs_typed_def proj_ok_def has_user_def)
  have fv: "find_by u_id (client p) (users d) = Some v" using find_by_distinct [OF dist(1) v(1)] v(2) by simp
  have fp: "find_by p_id (p_id p) (projects d) = Some p" using find_by_distinct [OF dist(2) p(1)] .
  define p' where "p' = p\<lparr>assignedTo := None\<rparr>"
  define d1 where "d1 = d\<lparr>projects := save_by p_id p' (projects d)\<rparr>"
  have s1: "step (EditProject (client p) (ObjId (p_id p))
                   \<lparr>pu_title = [], pu_description = [], pu_budget = [], pu_skills = None, pu_assigned = AssignNull\<rparr>) d = d1"
    using fv fp v(2,3) p(3)
    by (simp add: project_errors_def api_update_project_def route_as_user authorize_roles_def update_project_def
        save_edited_project_def save_project_def d1_def p'_def)
  have fa2: "find_by a_id (a_id a2) (applications d1) = Some a2"
    using find_by_distinct [OF dist(3) a(2)] by (simp add: d1_def)
  have fp': "find_by p_id (project a2) (projects d1) = Some p'"
    using find_by_save_by [of p_id p' "projects d"] p(1) a(4) by (force simp: d1_def p'_def)
  define d2 where "d2 = accept_effects (a_id a2) a2 p' d1"
  define d3 where "d3 = d2\<lparr>applications := save_by a_id (a2\<lparr>a_status := Accepted\<rparr>) (applications d2)\<rparr>"
  have s2: "step (SetAppStatus (client p) (ObjId (a_id a2)) ''accepted'') d1 = d3"
    using fa2 fp' fv p(2) v(2,3)
    by (simp add: Let_def api_update_application_status_def route_as_user authorize_roles_def
        update_application_status_def application_status_of_def d1_def d2_def d3_def p'_def)
  have run: "run cs d = d3" using s1 s2 by (simp add: cs_def run_def)
  have ne: "a_id a1 \<noteq> a_id a2" using distinct_key_eq [OF dist(3) a(1,2)] a(5,6) by auto
  have "a1 \<in> set (applications d2)"
    using a(1,5) by (simp add: d2_def accept_effects_def reject_other_pending_def d1_def update_where_keep)
  then have "a1 \<in> set (applications d3)" using ne by (simp add: d3_def save_by_keep)
  moreover have "a2\<lparr>a_status := Accepted\<rparr> \<in> set (applications d3)"
  proof -
    have "a_id a2 \<in> set (map a_id (applications d2))"
      using a(2) by (simp add: d2_def accept_effects_def reject_other_pending_def d1_def coll_simps)
    then show ?thesis
      using find_by_save_by [of a_id "a2\<lparr>a_status := Accepted\<rparr>" "applications d2"] find_by_Some
      by (fastforce simp: d3_def)
  qed
  ultimately have "2 \<le> count_where (\<lambda>a. project a = p_id p \<and> a_status a = Accepted) (applications d3)"
  proof (rule count_where_two)
    show "a1 \<noteq> a2\<lparr>a_status := Accepted\<rparr>"
    proof
      assume "a1 = a2\<lparr>a_status := Accepted\<rparr>"
      then have "a_id a1 = a_id (a2\<lparr>a_status := Accepted\<rparr>)" by simp
      with ne show False by simp
    qed
  qed (use a(3-5) in simp_all)
  moreover have "reachable (\<lambda>_. True) (run cs d)"
    by (rule reachable_run [OF reachable_mono [OF reach]]) (simp_all add: list_all_iff)
  ultimately show ?thesis using run by simp
qed
lemma scenario_projects:
  "map (\<lambda>p. (p_id p, client p, p_status p, project_errors p)) (projects (run scenario empty_db)) =
     [(3, 0, Assigned, [])]"
  by (simp add: scenario_def run_defs project_errors_def)

lemma scenario_app_projects:
  "map (\<lambda>a. (a_id a, project a, a_status a)) (applications (run scenario empty_db)) =
     [(4, 3, Accepted), (5, 3, Rejected)]"
  by (simp add: scenario_def run_defs)

theorem edit_breaks_single_accept_witness:
  "reachable (\<lambda>_. True) (run [EditProject 0 (ObjId 3)
       \<lparr>pu_title = [], pu_description = [], pu_budget = [], pu_skills = None, pu_assigned = AssignNull\<rparr>,
     SetAppStatus 0 (ObjId 5) ''accepted''] (run scenario empty_db)) \<and>
   2 \<le> count_where (\<lambda>a. project a = 3 \<and> a_status a = Accepted)
     (applications (run [EditProject 0 (ObjId 3)
       \<lparr>pu_title = [], pu_description = [], pu_budget = [], pu_skills = None, pu_assigned = AssignNull\<rparr>,
     SetAppStatus 0 (ObjId 5) ''accepted''] (run scenario empty_db)))"
proof -
  let ?d = "run scenario empty_db"
  have r: "reachable no_edit ?d"
    by (rule reachable_run [OF reachable.init]) (simp add: scenario_def)
  from scenario_projects obtain P where P: "projects ?d = [P]" "p_id P = 3" "client P = 0"
      "p_status P = Assigned" "project_errors P = []"
    by (cases "projects ?d") auto
  from scenario_app_projects obtain A1 A2 where A: "applications ?d = [A1, A2]" "a_id A2 = 5"
      "project A1 = 3" "project A2 = 3" "a_status A1 = Accepted" "a_status A2 = Rejected"
    by (cases "applications ?d"; cases "tl (applications ?d)") auto
  show ?thesis
    using edit_breaks_single_accept [OF r, of P A1 A2] P A by simp
qed

end
