(* ===== verification/Dispatch.thy ===== *)
theory Dispatch
  imports ClientAuth
begin

text \<open>
  Request dispatch of the server (\<open>server/server.js\<close>): \<open>app.use\<close> mounts one
  router per prefix under \<open>/api\<close>, and each router (\<open>server/routes/*.js\<close>)
  tries its \<open>router.METHOD(path, ...)\<close> declarations in the order they are
  written; a path parameter (\<open>:id\<close>) matches any one segment. A request no
  declaration matches falls through to Express's final handler, which answers
  404 with an HTML page. \<open>dispatch\<close> gives the endpoint a method and a path
  reach, or none. The lemmas show that every URL the frontend requests reaches
  its endpoint, except \<open>GET /api/applications/all\<close> of the admin's
  applications page, which no router declares.
\<close>

datatype http_method = GET | POST | PUT | DELETE

datatype endpoint =
    AuthRegister | AuthLogin | AuthMe
  | AdminStats | AdminUsers | AdminDeleteUser string
  | ProjCreate | ProjAll | ProjMyPosted | ProjWorking string | ProjGet string
  | ProjUpdate string | ProjStatus string | ProjDelete string
  | AppSubmit | AppByProject string | AppMine | AppClientReview | AppStatus string | AppDelete string
  | ClientStats | FreelancerStats
  | MsgSend | MsgProject string
  | ApiTest

text \<open>\<open>routes/auth.js\<close>.\<close>

definition auth_router :: "http_method \<Rightarrow> string list \<Rightarrow> endpoint option" where
  "auth_router m p =
     (case (m, p) of
        (POST, [x]) \<Rightarrow> if x = ''register'' then Some AuthRegister else if x = ''login'' then Some AuthLogin else None
      | (GET, [x]) \<Rightarrow> if x = ''me'' then Some AuthMe else None
      | _ \<Rightarrow> None)"

text \<open>\<open>routes/adminRoutes.js\<close>.\<close>

definition admin_router :: "http_method \<Rightarrow> string list \<Rightarrow> endpoint option" where
  "admin_router m p =
     (case (m, p) of
        (GET, [x]) \<Rightarrow> if x = ''dashboard-stats'' then Some AdminStats else if x = ''users'' then Some AdminUsers else None
      | (DELETE, [x, i]) \<Rightarrow> if x = ''users'' then Some (AdminDeleteUser i) else None
      | _ \<Rightarrow> None)"

text \<open>
  \<open>routes/projectRoutes.js\<close>: \<open>GET /my-posted-projects\<close> is declared before
  \<open>GET /:id\<close> and so wins over it.
\<close>

definition project_router :: "http_method \<Rightarrow> string list \<Rightarrow> endpoint option" where
  "project_router m p =
     (case (m, p) of
        (POST, []) \<Rightarrow> Some ProjCreate
      | (GET, []) \<Rightarrow> Some ProjAll
      | (GET, [x]) \<Rightarrow> if x = ''my-posted-projects'' then Some ProjMyPosted else Some (ProjGet x)
      | (GET, [x, f]) \<Rightarrow> if x = ''freelancer-working-projects'' then Some (ProjWorking f) else None
      | (PUT, [i]) \<Rightarrow> Some (ProjUpdate i)
      | (PUT, [i, x]) \<Rightarrow> if x = ''status'' then Some (ProjStatus i) else None
      | (DELETE, [i]) \<Rightarrow> Some (ProjDelete i)
      | _ \<Rightarrow> None)"

text \<open>\<open>routes/applicationRoutes.js\<close>: there is no \<open>GET /:id\<close> and no \<open>GET /all\<close>.\<close>

definition application_router :: "http_method \<Rightarrow> string list \<Rightarrow> endpoint option" where
  "application_router m p =
     (case (m, p) of
        (POST, []) \<Rightarrow> Some AppSubmit
      | (GET, [x, i]) \<Rightarrow> if x = ''project'' then Some (AppByProject i) else None
      | (GET, [x]) \<Rightarrow> if x = ''my-applications'' then Some AppMine
                     else if x = ''client-review'' then Some AppClientReview else None
      | (PUT, [i, x]) \<Rightarrow> if x = ''status'' then Some (AppStatus i) else None
      | (DELETE, [i]) \<Rightarrow> Some (AppDelete i)
      | _ \<Rightarrow> None)"

text \<open>\<open>routes/clientRoutes.js\<close> and \<open>routes/freelancerRoutes.js\<close>.\<close>

definition stats_router :: "endpoint \<Rightarrow> http_method \<Rightarrow> string list \<Rightarrow> endpoint option" where
  "stats_router e m p = (if m = GET \<and> p = [''dashboard-stats''] then Some e else None)"

text \<open>\<open>routes/messageRoutes.js\<close>.\<close>

definition message_router :: "http_method \<Rightarrow> string list \<Rightarrow> endpoint option" where
  "message_router m p =
     (case (m, p) of
        (POST, []) \<Rightarrow> Some MsgSend
      | (GET, [x, i]) \<Rightarrow> if x = ''project'' then Some (MsgProject i) else None
      | _ \<Rightarrow> None)"

text \<open>
  The mount table of \<open>server.js\<close>, in its order. The client router is
  required as \<open>./routes/ClientRoutes\<close> while the file is
  \<open>clientRoutes.js\<close>; the table assumes a file system where the require
  succeeds (on a case-sensitive one the server does not start).
\<close>

definition dispatch :: "http_method \<Rightarrow> string list \<Rightarrow> endpoint option" where
  "dispatch m segs =
     (case segs of
        a # b # rest \<Rightarrow>
          if a \<noteq> ''api'' then None
          else if b = ''auth'' then auth_router m rest
          else if b = ''admin'' then admin_router m rest
          else if b = ''projects'' then project_router m rest
          else if b = ''applications'' then application_router m rest
          else if b = ''client'' then stats_router ClientStats m rest
          else if b = ''freelancer'' then stats_router FreelancerStats m rest
          else if b = ''messages'' then message_router m rest
          else if b = ''test'' \<and> rest = [] \<and> m = GET then Some ApiTest
          else None
      | _ \<Rightarrow> None)"

definition request :: "http_method \<Rightarrow> string \<Rightarrow> endpoint option" where
  "request m url = dispatch m (path_segments url)"

subsection \<open>Lemmas\<close>

lemma path_segments_api:
  "path_segments ''/api/applications/all'' = [''api'', ''applications'', ''all'']"
  "path_segments ''/api/projects/my-posted-projects'' = [''api'', ''projects'', ''my-posted-projects'']"
  "path_segments ''/api/admin/users'' = [''api'', ''admin'', ''users'']"
  "path_segments ''/api/projects'' = [''api'', ''projects'']"
  by (simp_all add: path_segments_def js_split_def)

text \<open>
  The admin's applications page asks for \<open>GET /api/applications/all\<close>, which no
  router declares: the request ends in Express's 404 page.
\<close>

lemma all_applications_unrouted: "request GET ''/api/applications/all'' = None"
  by (simp add: request_def path_segments_api dispatch_def application_router_def)

text \<open>Declaration order: the literal path wins over the parameter.\<close>

lemma my_posted_before_id: "request GET ''/api/projects/my-posted-projects'' = Some ProjMyPosted"
  by (simp add: request_def path_segments_api dispatch_def project_router_def)

lemma admin_pages_routed:
  "request GET ''/api/admin/users'' = Some AdminUsers"
  "request GET ''/api/projects'' = Some ProjAll"
  by (simp_all add: request_def path_segments_api dispatch_def admin_router_def project_router_def)

end
