(* ===== verification/AdminPages.thy ===== *)
theory AdminPages
  imports Dispatch ClientReview
begin

text \<open>
  The admin's pages of the frontend (\<open>pages/admin\<close>): the dashboard overview,
  the users, the projects and the applications. The three list pages share one
  shape, a list with a loading flag and an error, filled by one fetch whose
  failure shows the server's message; \<open>lp_load\<close> is that shared tail of the
  \<open>try/catch/finally\<close> of each fetch. The lemmas show that the applications page
  never loads, since its request has no route, and that an admin's View button
  on the projects page leads to a page guarded for freelancers.
\<close>

subsection \<open>A list page\<close>

record 'a list_page =
  lp_items :: "'a list"
  lp_loading :: bool
  lp_error :: "string option"

definition lp_initial :: "'a list_page" where
  "lp_initial = \<lparr>lp_items = [], lp_loading = True, lp_error = None\<rparr>"

text \<open>\<open>!token || userRole !== 'admin'\<close>, the guard of every admin fetch.\<close>

definition admin_ready :: "session \<Rightarrow> bool" where
  "admin_ready s \<longleftrightarrow> has_token (token s) \<and> userRole s = Some ''admin''"

text \<open>
  The reply handling: the list on success; otherwise the error is the
  server's message or the page's default, shown and toasted after
  \<open>prefix\<close>.
\<close>

definition lp_load ::
  "string \<Rightarrow> string \<Rightarrow> 'a list result \<Rightarrow> session \<Rightarrow> 'a list_page \<Rightarrow> 'a list_page \<times> session" where
  "lp_load dflt prefix reply s st =
     (case reply of
        Inr xs \<Rightarrow> (st\<lparr>lp_items := xs, lp_loading := False, lp_error := None\<rparr>, s)
      | Inl (HttpError _ m) \<Rightarrow>
          (let e = msg_or m dflt
           in (st\<lparr>lp_loading := False, lp_error := Some e\<rparr>, toast (prefix @ e) s)))"

definition lp_unauthorized :: "'a list_page \<Rightarrow> 'a list_page" where
  "lp_unauthorized st = st\<lparr>lp_loading := False, lp_error := Some ''Unauthorized access. Please log in as an Admin.''\<rparr>"

text \<open>The mount effect of the three list pages.\<close>

definition lp_mount :: "(session \<Rightarrow> 'a list_page \<Rightarrow> 'a list_page \<times> session) \<Rightarrow> session \<Rightarrow> 'a list_page \<Rightarrow>
   'a list_page \<times> session" where
  "lp_mount fetch s st =
     (if isAuthenticated s \<and> userRole s = Some ''admin'' then fetch s st
      else (st\<lparr>lp_loading := False, lp_items := []\<rparr>, s))"

subsection \<open>All users\<close>

definition au_fetch :: "(string \<Rightarrow> oid option) \<Rightarrow> db \<Rightarrow> session \<Rightarrow> user_doc list_page \<Rightarrow> user_doc list_page \<times> session" where
  "au_fetch verify d s st =
     (if \<not> admin_ready s then (lp_unauthorized st, s)
      else lp_load ''Failed to fetch users.'' ''Error loading users: ''
             (fst (api_all_users verify (bearer_of (token s)) d)) s st)"

definition au_delete ::
  "(string \<Rightarrow> oid option) \<Rightarrow> db \<Rightarrow> bool \<Rightarrow> oid \<Rightarrow> session \<Rightarrow> user_doc list_page \<Rightarrow>
   user_doc list_page \<times> session \<times> db" where
  "au_delete verify d confirmed uid s st =
     (if \<not> confirmed then (st, s, d)
      else (case api_delete_user verify (bearer_of (token s)) (ObjId uid) d of
              (Inr _, d') \<Rightarrow>
                (let (st1, s1) = au_fetch verify d' (toast ''User deleted successfully!'' s) st in (st1, s1, d'))
            | (Inl (HttpError _ m), d') \<Rightarrow>
                (st, toast (''Error deleting user: '' @ msg_or m ''Failed to delete user.'') s, d')))"

subsection \<open>All projects\<close>

definition adp_fetch :: "(string \<Rightarrow> oid option) \<Rightarrow> db \<Rightarrow> session \<Rightarrow> project_doc list_page \<Rightarrow> project_doc list_page \<times> session" where
  "adp_fetch verify d s st =
     (if \<not> admin_ready s then (lp_unauthorized st, s)
      else lp_load ''Failed to fetch projects.'' ''Error loading projects: ''
             (fst (api_all_projects verify (bearer_of (token s)) d)) s st)"

text \<open>\<open>handleViewProject\<close> reuses the freelancer's project page.\<close>

definition adp_view :: "oid \<Rightarrow> session \<Rightarrow> session" where
  "adp_view pid s = s\<lparr>location := ''/freelancer/project-data/'' @ oid_str pid\<rparr>"

definition adp_delete ::
  "(string \<Rightarrow> oid option) \<Rightarrow> db \<Rightarrow> bool \<Rightarrow> oid \<Rightarrow> session \<Rightarrow> project_doc list_page \<Rightarrow>
   project_doc list_page \<times> session \<times> db" where
  "adp_delete verify d confirmed pid s st =
     (if \<not> confirmed then (st, s, d)
      else (case api_delete_project verify (bearer_of (token s)) (ObjId pid) d of
              (Inr _, d') \<Rightarrow>
                (let (st1, s1) = adp_fetch verify d' (toast ''Project deleted successfully!'' s) st in (st1, s1, d'))
            | (Inl (HttpError _ m), d') \<Rightarrow>
                (st, toast (''Error deleting project: '' @ msg_or m ''Failed to delete project.'') s, d')))"

subsection \<open>All applications\<close>

text \<open>
  \<open>GET /api/applications/all\<close> has no route (\<open>all_applications_unrouted\<close>):
  Express answers 404 with an HTML page, and \<open>response.json()\<close> on it throws a
  \<open>SyntaxError\<close>, whose message (here Firefox's wording) becomes the error.
\<close>

definition html_json_error :: string where
  "html_json_error = ''JSON.parse: unexpected character at line 1 column 1 of the JSON data''"

definition unrouted_reply :: "'a list result" where
  "unrouted_reply = Inl (HttpError 404 html_json_error)"

definition adm_apps_fetch :: "session \<Rightarrow> application_doc list_page \<Rightarrow> application_doc list_page \<times> session" where
  "adm_apps_fetch s st =
     (if \<not> admin_ready s then (lp_unauthorized st, s)
      else lp_load ''Failed to fetch applications.'' ''Error loading applications: '' unrouted_reply s st)"

text \<open>\<open>handleAcceptApplication\<close> and \<open>handleRejectApplication\<close>: one handler per status.\<close>

definition adm_apps_status ::
  "(string \<Rightarrow> oid option) \<Rightarrow> db \<Rightarrow> bool \<Rightarrow> oid \<Rightarrow> string \<Rightarrow> session \<Rightarrow> application_doc list_page \<Rightarrow>
   application_doc list_page \<times> session \<times> db" where
  "adm_apps_status verify d confirmed aid st_new s st =
     (let verb = (if st_new = ''accepted'' then ''accept'' else ''reject'');
          done_msg = (if st_new = ''accepted'' then ''Application accepted successfully!''
                      else ''Application rejected successfully!'')
      in if \<not> confirmed then (st, s, d)
         else (case api_update_application_status verify (bearer_of (token s)) (ObjId aid) st_new d of
                 (Inr _, d') \<Rightarrow>
                   (let (st1, s1) = adm_apps_fetch (toast done_msg s) st in (st1, s1, d'))
               | (Inl (HttpError _ m), d') \<Rightarrow>
                   (st, toast (''Error '' @ verb @ ''ing application: '' @
                               msg_or m (''Failed to '' @ verb @ '' application.'')) s, d')))"

text \<open>The Accept and Reject buttons of a row: for pending applications only.\<close>

definition adm_apps_actions :: "application_doc \<Rightarrow> string list" where
  "adm_apps_actions a = (if a_status a = Pending then [''accepted'', ''rejected''] else [])"

subsection \<open>Dashboard overview\<close>

record ad_state =
  ad_stats :: admin_stats
  ad_loading :: bool
  ad_error :: "string option"

definition ad_initial :: ad_state where
  "ad_initial = \<lparr>ad_stats = \<lparr>totalUsers = 0, activeProjects = 0, pendingApplications = 0, totalRevenue = 0\<rparr>,
                 ad_loading = True, ad_error = None\<rparr>"

text \<open>
  \<open>localStorage.getItem('userRole')\<close>: the context stores only the token under
  \<open>localStorage\<close>, so the stored role is never there.
\<close>

definition stored_userRole :: "session \<Rightarrow> string option" where
  "stored_userRole s = None"

definition ad_fetch :: "(string \<Rightarrow> oid option) \<Rightarrow> db \<Rightarrow> session \<Rightarrow> ad_state \<Rightarrow> ad_state \<times> session" where
  "ad_fetch verify d s st =
     (let st0 = st\<lparr>ad_loading := True, ad_error := None\<rparr>
      in if \<not> admin_ready s
         then (let m = (if \<not> has_token (token s) then ''No authentication token found.''
                        else ''User is not an administrator.'')
               in (st0\<lparr>ad_error := Some (m @ '' Please log in as an administrator.''), ad_loading := False\<rparr>,
                   toast (''Authentication required: '' @ m) s))
         else (case fst (api_admin_dashboard verify (bearer_of (token s)) d) of
                 Inr stats \<Rightarrow> (st0\<lparr>ad_stats := stats, ad_loading := False\<rparr>, s)
               | Inl (HttpError c m) \<Rightarrow>
                   (let e = msg_or m (''Server responded with status '' @ oid_str c @ ''. Please check permissions.'')
                    in (st0\<lparr>ad_error := Some e, ad_loading := False\<rparr>, toast (''Error: '' @ e) s))))"

definition ad_mount :: "(string \<Rightarrow> oid option) \<Rightarrow> db \<Rightarrow> session \<Rightarrow> ad_state \<Rightarrow> ad_state \<times> session" where
  "ad_mount verify d s st =
     (if isAuthenticated s \<and> userRole s = Some ''admin'' then ad_fetch verify d s st
      else if has_token (token s) \<and> stored_userRole s = Some ''admin'' then ad_fetch verify d s st
      else (st\<lparr>ad_loading := False,
               ad_error := Some ''Authentication error. Please ensure you are logged in as an administrator.''\<rparr>,
            toast ''Not authorized to view admin dashboard.'' s))"

subsection \<open>Lemmas\<close>

lemma oid_str_no_slash: "CHR ''/'' \<notin> set (oid_str n) \<and> oid_str n \<noteq> []"
proof (induction n rule: oid_str.induct)
  case (1 n)
  have c: "char_of (48 + k) \<noteq> CHR ''/''" if "k < 10" for k :: nat
  proof
    assume "char_of (48 + k) = CHR ''/''"
    then have "of_char (char_of (48 + k) :: char) = (of_char CHR ''/'' :: nat)" by simp
    with that show False by (simp add: of_char_of)
  qed
  show ?case
    using 1 c [of n] c [of "n mod 10"] oid_str.simps [of n] by (auto simp del: oid_str.simps)
qed

lemma path_segments_project_data:
  "path_segments (''/freelancer/project-data/'' @ oid_str pid) = [''freelancer'', ''project-data'', oid_str pid]"
  using oid_str_no_slash [of pid]
  by (simp add: path_segments_def js_split_def js_split_aux_no_sep del: oid_str.simps)

text \<open>
  C32. The View button of the admin's projects page sends an admin to the
  freelancer's project page, whose guard admits freelancers only: the router
  redirects the admin to the landing page.
\<close>

lemma admin_view_redirected:
  assumes "\<not> s_loading s" "isAuthenticated s" "userRole s = Some ''admin''"
  shows "resolve (adp_view pid s) (location (adp_view pid s)) = RedirectTo ''/''"
proof -
  have "location (adp_view pid s) = ''/freelancer/project-data/'' @ oid_str pid" by (simp add: adp_view_def)
  then have "resolve (adp_view pid s) (location (adp_view pid s)) =
      protected_route (adp_view pid s) (Some [''freelancer'']) (ProjectDataF (oid_str pid))"
    by (simp only: resolve_def path_segments_project_data)
       (simp add: app_routes_def guarded_def freelancer_child_def del: oid_str.simps)
  with assms show ?thesis by (simp add: protected_route_def adp_view_def)
qed

lemma admin_applications_never_load:
  assumes "admin_ready s"
  shows "adm_apps_fetch s st =
           (st\<lparr>lp_loading := False, lp_error := Some html_json_error\<rparr>,
            toast (''Error loading applications: '' @ html_json_error) s)"
proof -
  have "html_json_error \<noteq> []" by (simp add: html_json_error_def)
  with assms show ?thesis by (simp add: adm_apps_fetch_def lp_load_def unrouted_reply_def msg_or_def Let_def)
qed

theorem admin_view_redirected_witness:
  "\<not> s_loading \<lparr>isAuthenticated = True, s_user = None, userRole = Some ''admin'', s_loading = False,
                token = Some ''tok'', location = ''/admin/projects'', toasts = []\<rparr> \<and>
   resolve (adp_view 3 \<lparr>isAuthenticated = True, s_user = None, userRole = Some ''admin'', s_loading = False,
                token = Some ''tok'', location = ''/admin/projects'', toasts = []\<rparr>)
     (location (adp_view 3 \<lparr>isAuthenticated = True, s_user = None, userRole = Some ''admin'', s_loading = False,
                token = Some ''tok'', location = ''/admin/projects'', toasts = []\<rparr>)) = RedirectTo ''/''"
  using admin_view_redirected [of "\<lparr>isAuthenticated = True, s_user = None, userRole = Some ''admin'', s_loading = False,
                token = Some ''tok'', location = ''/admin/projects'', toasts = []\<rparr>" 3]
  by simp

end
