(* ===== verification/DashboardPages.thy ===== *)
theory DashboardPages
  imports Dashboards ClientFreelancer
begin

text \<open>
  The dashboard overview pages of the client and the freelancer
  (\<open>pages/client/ClientDashboardOverview.jsx\<close>,
  \<open>pages/freelancer/FreelancerDashboardOverview.jsx\<close>) together with the JSON
  bodies the two stats routes send (\<open>res.json({...})\<close> in
  \<open>server/routes/clientRoutes.js\<close> and \<open>freelancerRoutes.js\<close>). A body is an
  association list from keys to values, and a page reads a field as
  \<open>data.key || 0\<close>, so a key the server does not send reads as 0. The lemmas
  show that the client page shows what its route computes, and that the
  freelancer page reads two keys the route never sends, so it always shows 0
  pending applications and no earnings.
\<close>

datatype jval = JNum real | JStr string

type_synonym jobj = "(string \<times> jval) list"

text \<open>\<open>data.key || 0\<close> for a numeric field.\<close>

definition json_num_or0 :: "jobj \<Rightarrow> string \<Rightarrow> real" where
  "json_num_or0 j k = (case map_of j k of Some (JNum x) \<Rightarrow> x | _ \<Rightarrow> 0)"

subsection \<open>The bodies of the stats routes\<close>

definition client_stats_json :: "client_stats \<Rightarrow> jobj" where
  "client_stats_json c =
     [(''totalPostedProjects'', JNum (real (totalPostedProjects c))),
      (''activeProjects'', JNum (real (cs_activeProjects c))),
      (''pendingApplications'', JNum (real (cs_pendingApplications c))),
      (''completedProjects'', JNum (real (cs_completedProjects c)))]"

text \<open>
  The earnings go out as \<open>totalEarnings.toFixed(2)\<close>; the model keeps the
  number (the two-decimal formatting is left out).
\<close>

definition freelancer_stats_json :: "freelancer_stats \<Rightarrow> jobj" where
  "freelancer_stats_json f =
     [(''activeProjects'', JNum (real (fs_activeProjects f))),
      (''pendingApplications'', JNum (real (fs_pendingApplications f))),
      (''completedProjects'', JNum (real (fs_completedProjects f))),
      (''earningsLastMonth'', JNum (earningsLastMonth f))]"

subsection \<open>Client dashboard page\<close>

record cd_state =
  cd_totalPosted :: real
  cd_active :: real
  cd_pending :: real
  cd_completed :: real
  cd_loading :: bool
  cd_error :: "string option"

definition cd_initial :: cd_state where
  "cd_initial = \<lparr>cd_totalPosted = 0, cd_active = 0, cd_pending = 0, cd_completed = 0,
                 cd_loading = True, cd_error = None\<rparr>"

definition cd_fetch :: "(string \<Rightarrow> oid option) \<Rightarrow> db \<Rightarrow> session \<Rightarrow> cd_state \<Rightarrow> cd_state \<times> session" where
  "cd_fetch verify d s st =
     (let st0 = st\<lparr>cd_loading := True, cd_error := None\<rparr>
      in if s_user s = None
         then (st0\<lparr>cd_error := Some ''User data not available. Please log in.'', cd_loading := False\<rparr>, s)
         else if \<not> has_token (token s) \<or> userRole s \<noteq> Some ''client''
         then (st0\<lparr>cd_error := Some ''Authentication required or not authorized.'', cd_loading := False\<rparr>,
               toast ''Please log in as a client to view this dashboard.'' s)
         else (case fst (api_client_dashboard verify (bearer_of (token s)) d) of
                 Inr c \<Rightarrow>
                   (let j = client_stats_json c
                    in (st0\<lparr>cd_totalPosted := json_num_or0 j ''totalPostedProjects'',
                            cd_active := json_num_or0 j ''activeProjects'',
                            cd_pending := json_num_or0 j ''pendingApplications'',
                            cd_completed := json_num_or0 j ''completedProjects'', cd_loading := False\<rparr>, s))
               | Inl (HttpError _ m) \<Rightarrow>
                   (let e = msg_or m ''Failed to fetch client dashboard stats.''
                    in (st0\<lparr>cd_error := Some e, cd_loading := False\<rparr>, toast (''Error loading dashboard: '' @ e) s))))"

definition cd_mount :: "(string \<Rightarrow> oid option) \<Rightarrow> db \<Rightarrow> session \<Rightarrow> cd_state \<Rightarrow> cd_state \<times> session" where
  "cd_mount verify d s st =
     (if isAuthenticated s \<and> userRole s = Some ''client'' \<and> s_user s \<noteq> None then cd_fetch verify d s st
      else (st\<lparr>cd_loading := False\<rparr>, s))"

subsection \<open>Freelancer dashboard page\<close>

record fd_state =
  fd_active :: real
  fd_pending :: real
  fd_completed :: real
  fd_earnings :: real
  fd_loading :: bool
  fd_error :: "string option"

definition fd_initial :: fd_state where
  "fd_initial = \<lparr>fd_active = 0, fd_pending = 0, fd_completed = 0, fd_earnings = 0,
                 fd_loading = True, fd_error = None\<rparr>"

text \<open>
  The page reads \<open>applicationsSubmitted\<close> and \<open>totalEarnings\<close>; the earnings are
  shown as \<open>$\<close> and \<open>parseFloat(...).toFixed(2)\<close> of the number kept here.
\<close>

definition fd_fetch :: "(string \<Rightarrow> oid option) \<Rightarrow> db \<Rightarrow> session \<Rightarrow> fd_state \<Rightarrow> fd_state \<times> session" where
  "fd_fetch verify d s st =
     (let st0 = st\<lparr>fd_loading := True, fd_error := None\<rparr>
      in if s_user s = None
         then (st0\<lparr>fd_error := Some ''User data not available. Please log in.'', fd_loading := False\<rparr>, s)
         else if \<not> has_token (token s) \<or> userRole s \<noteq> Some ''freelancer''
         then (st0\<lparr>fd_error := Some ''Authentication required or not authorized.'', fd_loading := False\<rparr>,
               toast ''Please log in as a freelancer to view this dashboard.'' s)
         else (case fst (api_freelancer_dashboard verify (bearer_of (token s)) d) of
                 Inr f \<Rightarrow>
                   (let j = freelancer_stats_json f
                    in (st0\<lparr>fd_active := json_num_or0 j ''activeProjects'',
                            fd_pending := json_num_or0 j ''applicationsSubmitted'',
                            fd_completed := json_num_or0 j ''completedProjects'',
                            fd_earnings := json_num_or0 j ''totalEarnings'', fd_loading := False\<rparr>, s))
               | Inl (HttpError _ m) \<Rightarrow>
                   (let e = msg_or m ''Failed to fetch freelancer dashboard stats.''
                    in (st0\<lparr>fd_error := Some e, fd_loading := False\<rparr>, toast (''Error loading dashboard: '' @ e) s))))"

definition fd_mount :: "(string \<Rightarrow> oid option) \<Rightarrow> db \<Rightarrow> session \<Rightarrow> fd_state \<Rightarrow> fd_state \<times> session" where
  "fd_mount verify d s st =
     (if isAuthenticated s \<and> userRole s = Some ''freelancer'' \<and> s_user s \<noteq> None then fd_fetch verify d s st
      else if \<not> isAuthenticated s \<or> userRole s \<noteq> Some ''freelancer''
      then (st\<lparr>fd_loading := False, fd_error := Some ''Please log in as a freelancer to view your dashboard.''\<rparr>, s)
      else (st, s))"

subsection \<open>Lemmas\<close>

lemma json_num_or0_client:
  "json_num_or0 (client_stats_json c) ''totalPostedProjects'' = real (totalPostedProjects c)"
  "json_num_or0 (client_stats_json c) ''activeProjects'' = real (cs_activeProjects c)"
  "json_num_or0 (client_stats_json c) ''pendingApplications'' = real (cs_pendingApplications c)"
  "json_num_or0 (client_stats_json c) ''completedProjects'' = real (cs_completedProjects c)"
  by (simp_all add: json_num_or0_def client_stats_json_def)

lemma json_num_or0_freelancer:
  "json_num_or0 (freelancer_stats_json f) ''activeProjects'' = real (fs_activeProjects f)"
  "json_num_or0 (freelancer_stats_json f) ''completedProjects'' = real (fs_completedProjects f)"
  "json_num_or0 (freelancer_stats_json f) ''applicationsSubmitted'' = 0"
  "json_num_or0 (freelancer_stats_json f) ''totalEarnings'' = 0"
  by (simp_all add: json_num_or0_def freelancer_stats_json_def)

lemma fd_fetch_ok:
  assumes "s_user s \<noteq> None" "has_token (token s)" "userRole s = Some ''freelancer''"
    and "fst (api_freelancer_dashboard verify (bearer_of (token s)) d) = Inr f"
  shows "fd_fetch verify d s st =
           (st\<lparr>fd_active := real (fs_activeProjects f), fd_pending := 0,
               fd_completed := real (fs_completedProjects f), fd_earnings := 0,
               fd_loading := False, fd_error := None\<rparr>, s)"
  using assms by (auto simp: fd_fetch_def json_num_or0_freelancer Let_def)

lemma cd_fetch_ok:
  assumes "s_user s \<noteq> None" "has_token (token s)" "userRole s = Some ''client''"
    and "fst (api_client_dashboard verify (bearer_of (token s)) d) = Inr c"
  shows "cd_fetch verify d s st =
           (st\<lparr>cd_totalPosted := real (totalPostedProjects c), cd_active := real (cs_activeProjects c),
               cd_pending := real (cs_pendingApplications c), cd_completed := real (cs_completedProjects c),
               cd_loading := False, cd_error := None\<rparr>, s)"
  using assms by (auto simp: cd_fetch_def json_num_or0_client Let_def)

text \<open>
  C6. For a logged-in freelancer whose token the server verifies, the
  dashboard overview shows the active and completed counts the server sends,
  but always 0 pending applications and \<open>$0.00\<close> earnings: the page reads
  \<open>applicationsSubmitted\<close> and \<open>totalEarnings\<close>, keys the route never sends
  (it sends \<open>pendingApplications\<close> and \<open>earningsLastMonth\<close>).
\<close>

theorem freelancer_overview_drops_counts:
  assumes "isAuthenticated s" "userRole s = Some ''freelancer''" "s_user s \<noteq> None"
    and "token s = Some tok" "tok \<noteq> []" "CHR '' '' \<notin> set tok"
    and "verify tok = Some (u_id u)" "find_by u_id (u_id u) (users d) = Some u" "role u = Freelancer"
  shows "fd_mount verify d s st =
           (st\<lparr>fd_active := real (fs_activeProjects (freelancer_dashboard (u_id u) d)), fd_pending := 0,
               fd_completed := real (fs_completedProjects (freelancer_dashboard (u_id u) d)), fd_earnings := 0,
               fd_loading := False, fd_error := None\<rparr>, s)"
proof -
  have "api_freelancer_dashboard verify (bearer_of (token s)) d = (Inr (freelancer_dashboard (u_id u) d), d)"
    using api_as_session_user_roles [of s tok verify u d "[Freelancer]"] assms(4-9)
    by (simp add: api_freelancer_dashboard_def)
  moreover have "has_token (token s)"
    using assms(4,5) by (simp add: has_token_def)
  ultimately show ?thesis
    using fd_fetch_ok [of s verify d] assms(1-3) by (simp add: fd_mount_def)
qed

theorem freelancer_overview_drops_counts_witness:
  "fd_mount f1_verify earn_db f1_session fd_initial =
     (fd_initial\<lparr>fd_active := 0, fd_pending := 0, fd_completed := 1, fd_earnings := 0,
                 fd_loading := False, fd_error := None\<rparr>, f1_session) \<and>
   earningsLastMonth (freelancer_dashboard 1 earn_db) = 500"
proof -
  have u: "find_by u_id (u_id demo_f1) (users earn_db) = Some demo_f1"
    by (simp add: earn_db_def demo_defs find_by_def)
  have "fd_mount f1_verify earn_db f1_session fd_initial =
           (fd_initial\<lparr>fd_active := real (fs_activeProjects (freelancer_dashboard (u_id demo_f1) earn_db)), fd_pending := 0,
               fd_completed := real (fs_completedProjects (freelancer_dashboard (u_id demo_f1) earn_db)), fd_earnings := 0,
               fd_loading := False, fd_error := None\<rparr>, f1_session)"
    using freelancer_overview_drops_counts [of f1_session "''tok''" f1_verify demo_f1 earn_db fd_initial] f1_facts u
    by simp
  then show ?thesis
    by (simp add: freelancer_dashboard_def freelancer_earnings_def earnings_rows_def earn_db_def demo_defs
                  count_where_def)
qed

end
