(* ===== verification/WorkingPages.thy ===== *)
theory WorkingPages
  imports ClientLists AdminPages
begin

text \<open>
  The pages where an assigned project is worked on: the client's list of
  assigned and in-progress projects (\<open>pages/client/ClientWorkingProjects.jsx\<close>)
  and its project page (\<open>pages/client/ProjectWorking.jsx\<close>), the freelancer's
  list of working projects (\<open>pages/freelancer/MyProjects.jsx\<close>) and its project
  page (\<open>pages/freelancer/WorkingProject.jsx\<close>). A project page loads the
  project by \<open>GET /api/projects/:id\<close>, checks on the client side that the
  viewer is its client or its assigned freelancer, and shows the ChatBox when
  the project is assigned or in progress. The lemmas follow a row of a list
  to its project page and its chat: every listed project opens, and whenever
  a page shows the chat the server's message route admits the viewer.
\<close>

subsection \<open>The project as the page receives it\<close>

text \<open>
  \<open>.populate('assignedTo', 'username email')\<close>: a reference to a user that
  no longer exists becomes \<open>null\<close> in the JSON the page reads.
\<close>

definition populated_assignee :: "db \<Rightarrow> project_doc \<Rightarrow> oid option" where
  "populated_assignee d p =
     (case assignedTo p of
        None \<Rightarrow> None
      | Some f \<Rightarrow> if user_exists d f then Some f else None)"

subsection \<open>The client's working projects list\<close>

record cwl_state =
  cwl_projects :: "project_doc list"
  cwl_loading :: bool
  cwl_error :: "string option"

definition cwl_initial :: cwl_state where
  "cwl_initial = \<lparr>cwl_projects = [], cwl_loading = True, cwl_error = None\<rparr>"

text \<open>
  \<open>fetchWorkingProjects\<close>, run on mount: the query
  \<open>status=assigned,in%20progress\<close>, decoded by Express.
\<close>

definition cwl_query :: string where
  "cwl_query = ''assigned,in progress''"

definition cwl_fetch :: "(string \<Rightarrow> oid option) \<Rightarrow> db \<Rightarrow> session \<Rightarrow> cwl_state \<Rightarrow> cwl_state \<times> session" where
  "cwl_fetch verify d s st =
     (let st0 = st\<lparr>cwl_loading := True, cwl_error := None\<rparr>
      in if \<not> isAuthenticated s \<or> s_user s = None
         then (st0\<lparr>cwl_error := Some ''User not authenticated or ID not available.'', cwl_loading := False\<rparr>, s)
         else (case fst (api_my_posted_projects verify (bearer_of (token s)) cwl_query d) of
                 Inr ps \<Rightarrow> (st0\<lparr>cwl_projects := ps, cwl_loading := False\<rparr>, s)
               | Inl (HttpError _ m) \<Rightarrow>
                   (let e = msg_or m ''Failed to fetch your working projects.''
                    in (st0\<lparr>cwl_error := Some e, cwl_loading := False\<rparr>,
                        toast (''Error loading working projects: '' @ e) s))))"

text \<open>The row's \<open>View Details & Chat\<close> link.\<close>

definition cwl_link :: "project_doc \<Rightarrow> string" where
  "cwl_link p = ''/client/working-project/'' @ oid_str (p_id p)"

subsection \<open>The freelancer's working projects list\<close>

record fwl_state =
  fwl_projects :: "project_doc list"
  fwl_loading :: bool
  fwl_error :: "string option"

definition fwl_initial :: fwl_state where
  "fwl_initial = \<lparr>fwl_projects = [], fwl_loading = True, fwl_error = None\<rparr>"

definition fwl_fetch :: "(string \<Rightarrow> oid option) \<Rightarrow> db \<Rightarrow> session \<Rightarrow> fwl_state \<Rightarrow> fwl_state \<times> session" where
  "fwl_fetch verify d s st =
     (let st0 = st\<lparr>fwl_loading := True, fwl_error := None\<rparr>
      in case s_user s of
           None \<Rightarrow> (st0\<lparr>fwl_error := Some ''Authentication token or user ID not found. Please log in.'',
                         fwl_loading := False\<rparr>, s)
         | Some u \<Rightarrow>
             if \<not> has_token (token s)
             then (st0\<lparr>fwl_error := Some ''Authentication token or user ID not found. Please log in.'',
                        fwl_loading := False\<rparr>, s)
             else (case fst (api_freelancer_working_projects verify (bearer_of (token s)) (ObjId (u_id u)) [] d) of
                     Inr ps \<Rightarrow> (st0\<lparr>fwl_projects := ps, fwl_loading := False\<rparr>, s)
                   | Inl (HttpError _ m) \<Rightarrow>
                       (let e = msg_or m ''Failed to fetch your working projects.''
                        in (st0\<lparr>fwl_error := Some e, fwl_loading := False\<rparr>,
                            toast (''Error loading working projects: '' @ e) s))))"

definition fwl_mount :: "(string \<Rightarrow> oid option) \<Rightarrow> db \<Rightarrow> session \<Rightarrow> fwl_state \<Rightarrow> fwl_state \<times> session" where
  "fwl_mount verify d s st =
     (if isAuthenticated s \<and> userRole s = Some ''freelancer'' \<and> s_user s \<noteq> None then fwl_fetch verify d s st
      else (st\<lparr>fwl_loading := False, fwl_projects := [],
               fwl_error := (if \<not> isAuthenticated s then Some ''Please log in to view your working projects.''
                             else if userRole s \<noteq> Some ''freelancer''
                             then Some ''You must be a freelancer to view this page.''
                             else fwl_error st)\<rparr>, s))"

text \<open>The row's \<open>View Work Details\<close> link.\<close>

definition fwl_link :: "project_doc \<Rightarrow> string" where
  "fwl_link p = ''/freelancer/working-project/'' @ oid_str (p_id p)"

subsection \<open>The two project pages\<close>

record wp_state =
  wp_project :: "project_doc option"
  wp_loading :: bool
  wp_error :: "string option"

definition wp_initial :: wp_state where
  "wp_initial = \<lparr>wp_project = None, wp_loading = True, wp_error = None\<rparr>"

text \<open>
  The shared part of both pages' \<open>fetchProjectDetails\<close>: the guard on the
  session, the request, and the page's own check \<open>owns\<close> on the project it
  received (the client's page compares \<open>data.client._id\<close>, the freelancer's
  \<open>data.assignedTo._id\<close>, with \<open>user.id\<close>).
\<close>

definition wp_fetch ::
  "string \<Rightarrow> (db \<Rightarrow> oid \<Rightarrow> project_doc \<Rightarrow> bool) \<Rightarrow> string \<Rightarrow>
   (string \<Rightarrow> oid option) \<Rightarrow> db \<Rightarrow> rid \<Rightarrow> session \<Rightarrow> wp_state \<Rightarrow> wp_state \<times> session" where
  "wp_fetch rl owns denied verify d r s st =
     (let st0 = st\<lparr>wp_loading := True, wp_error := None\<rparr>
      in case s_user s of
           None \<Rightarrow> (st0\<lparr>wp_error := Some ''Authentication or authorization required.'', wp_loading := False\<rparr>, s)
         | Some u \<Rightarrow>
             if \<not> has_token (token s) \<or> \<not> isAuthenticated s \<or> userRole s \<noteq> Some rl
             then (st0\<lparr>wp_error := Some ''Authentication or authorization required.'', wp_loading := False\<rparr>, s)
             else (case fst (api_get_project verify (bearer_of (token s)) r d) of
                     Inl (HttpError _ m) \<Rightarrow>
                       (let e = msg_or m ''Failed to fetch project details.''
                        in (st0\<lparr>wp_error := Some e, wp_loading := False\<rparr>, toast (''Error: '' @ e) s))
                   | Inr p \<Rightarrow>
                       if \<not> owns d (u_id u) p
                       then (st0\<lparr>wp_error := Some denied, wp_loading := False\<rparr>, s)
                       else (st0\<lparr>wp_project := Some (p\<lparr>assignedTo := populated_assignee d p\<rparr>),
                                 wp_loading := False\<rparr>, s)))"

text \<open>\<open>ProjectWorking.jsx\<close>, lines 16--53.\<close>

definition cw_fetch :: "(string \<Rightarrow> oid option) \<Rightarrow> db \<Rightarrow> rid \<Rightarrow> session \<Rightarrow> wp_state \<Rightarrow> wp_state \<times> session" where
  "cw_fetch = wp_fetch ''client'' (\<lambda>d uid p. client p = uid) ''Not authorized to view this project.''"

text \<open>\<open>WorkingProject.jsx\<close>, lines 16--53.\<close>

definition fw_fetch :: "(string \<Rightarrow> oid option) \<Rightarrow> db \<Rightarrow> rid \<Rightarrow> session \<Rightarrow> wp_state \<Rightarrow> wp_state \<times> session" where
  "fw_fetch = wp_fetch ''freelancer'' (\<lambda>d uid p. populated_assignee d p = Some uid)
                ''Not authorized to view this project or project not assigned to you.''"

text \<open>
  Whether the page renders the ChatBox: the client's page also asks for an
  assignee, the freelancer's only for the status.
\<close>

definition cw_chat :: "wp_state \<Rightarrow> bool" where
  "cw_chat st =
     (\<not> wp_loading st \<and> wp_error st = None \<and>
      (case wp_project st of
         None \<Rightarrow> False
       | Some p \<Rightarrow> p_status p \<in> {Assigned, InProgress} \<and> assignedTo p \<noteq> None))"

definition fw_chat :: "wp_state \<Rightarrow> bool" where
  "fw_chat st =
     (\<not> wp_loading st \<and> wp_error st = None \<and>
      (case wp_project st of
         None \<Rightarrow> False
       | Some p \<Rightarrow> p_status p \<in> {Assigned, InProgress}))"

subsection \<open>Lemmas\<close>

lemma populated_assignee_exists:
  "assignedTo p = Some f \<Longrightarrow> user_exists d f \<Longrightarrow> populated_assignee d p = Some f"
  by (simp add: populated_assignee_def)

lemma path_segments_working:
  "path_segments (''/freelancer/working-project/'' @ oid_str pid) = [''freelancer'', ''working-project'', oid_str pid]"
  using oid_str_no_slash [of pid]
  by (simp add: path_segments_def js_split_def js_split_aux_no_sep del: oid_str.simps)

lemma get_project_stored:
  assumes "db_inv d" "p \<in> set (projects d)" "user_exists d (client p)"
  shows "get_project (ObjId (p_id p)) d = Inr p"
proof -
  have "distinct (map p_id (projects d))"
    using assms(1) by (simp add: db_inv_def ids_ok_def)
  then have "find_by p_id (p_id p) (projects d) = Some p"
    using assms(2) by (rule find_by_distinct)
  then show ?thesis
    using assms(3) by (simp add: get_project_def)
qed

lemma fwl_fetch_ok:
  assumes "token s = Some tok" "tok \<noteq> []" "CHR '' '' \<notin> set tok"
    and "verify tok = Some (u_id u)" "find_by u_id (u_id u) (users d) = Some u" "role u = Freelancer"
    and "s_user s = Some u"
  shows "fwl_fetch verify d s st =
           (st\<lparr>fwl_projects := filter (\<lambda>p. user_exists d (client p))
                 (filter (\<lambda>p. assignedTo p = Some (u_id u) \<and> p_status p \<in> {Assigned, InProgress}) (projects d)),
               fwl_loading := False, fwl_error := None\<rparr>, s)"
proof -
  have ex: "user_exists d (u_id u)" using assms(5) by (simp add: user_exists_def)
  have "api_freelancer_working_projects verify (bearer_of (token s)) (ObjId (u_id u)) [] d =
          (Inr (filter (\<lambda>p. user_exists d (client p))
                 (filter (\<lambda>p. assignedTo p = Some (u_id u) \<and> p_status p \<in> {Assigned, InProgress}) (projects d))), d)"
    using api_as_session_user_roles [of s tok verify u d "[Freelancer, Admin]"
        "\<lambda>v d. (freelancer_working_projects v (ObjId (u_id u)) [] d, d)"] assms(1,3-6) ex
    by (simp add: api_freelancer_working_projects_def freelancer_working_projects_def)
  moreover have "has_token (token s)" using assms(1,2) by (simp add: has_token_def)
  ultimately show ?thesis using assms(7) by (simp add: fwl_fetch_def)
qed

lemma fw_fetch_ok:
  assumes "token s = Some tok" "tok \<noteq> []" "CHR '' '' \<notin> set tok"
    and "verify tok = Some (u_id u)" "find_by u_id (u_id u) (users d) = Some u"
    and "isAuthenticated s" "userRole s = Some ''freelancer''" "s_user s = Some u"
    and "get_project r d = Inr p" "assignedTo p = Some (u_id u)"
  shows "fw_fetch verify d r s st = (st\<lparr>wp_project := Some p, wp_loading := False, wp_error := None\<rparr>, s)"
proof -
  have ex: "user_exists d (u_id u)" using assms(5) by (simp add: user_exists_def)
  have "api_get_project verify (bearer_of (token s)) r d = (Inr p, d)"
    using api_as_session_user [of s tok verify u d "\<lambda>u d. (get_project r d, d)"] assms(1,3-5,9)
    by (simp add: api_get_project_def)
  moreover have "has_token (token s)" using assms(1,2) by (simp add: has_token_def)
  moreover have "populated_assignee d p = Some (u_id u)" using populated_assignee_exists assms(10) ex by simp
  ultimately show ?thesis using assms(6-8,10) by (simp add: fw_fetch_def wp_fetch_def)
qed

lemma wp_fetch_no_error:
  assumes "wp_error (fst (wp_fetch rl owns denied verify d r s st)) = None"
  shows "\<exists>u p. s_user s = Some u \<and> fst (api_get_project verify (bearer_of (token s)) r d) = Inr p \<and>
           owns d (u_id u) p \<and> wp_project (fst (wp_fetch rl owns denied verify d r s st)) =
             Some (p\<lparr>assignedTo := populated_assignee d p\<rparr>)"
  using assms
  by (auto simp: wp_fetch_def msg_or_def Let_def split: option.splits if_splits sum.splits http_error.splits)

lemma api_get_project_Inr:
  assumes "fst (api_get_project verify hdr r d) = Inr p"
  shows "\<exists>u. protect verify d hdr = Inr u \<and> r = ObjId (p_id p) \<and> find_by p_id (p_id p) (projects d) = Some p"
  using assms
  by (auto simp: api_get_project_def route_def get_project_def coll_simps
           split: sum.splits rid.splits option.splits if_splits dest: find_by_Some)

lemma party_chat_loads:
  assumes "token s = Some tok" "CHR '' '' \<notin> set tok" "verify tok = Some (u_id u)"
    and "find_by u_id (u_id u) (users d) = Some u" "isAuthenticated s" "s_user s = Some u"
    and "find_by p_id pid (projects d) = Some p" "is_party (u_id u) p"
  shows "fst (cb_fetch verify d (Some pid) s cst) =
           cst\<lparr>cb_messages := map (msg_json d) (sort_key timestamp (filter (\<lambda>m. m_project m = pid) (messages d))), cb_loading := False\<rparr>"
proof -
  have "api_project_messages verify (bearer_of (token s)) (ObjId pid) d =
      (Inr (sort_key timestamp (filter (\<lambda>m. m_project m = pid) (messages d))), d)"
    using api_as_session_user [of s tok verify u d "\<lambda>u d. (project_messages u (ObjId pid) d, d)"] assms
    by (simp add: api_project_messages_def project_messages_def)
  then show ?thesis
    using cb_fetch_Inr [where s=s and verify=verify and d=d and pid=pid and st=cst] assms(5,6) by simp
qed

lemma f1_chat_db_facts:
  "find_by u_id (u_id demo_f1) (users chat_db) = Some demo_f1" "s_user f1_session = Some demo_f1"
  "\<not> s_loading f1_session" "db_inv chat_db"
  by (simp_all add: chat_db_def demo_defs find_by_def f1_session_def auth_login_def db_inv_def ids_ok_def
                    pairs_unique_def)

lemma fw_fetch_chat_db:
  "fw_fetch f1_verify chat_db (ObjId 3) f1_session wp_initial =
     (wp_initial\<lparr>wp_project := Some (demo_project\<lparr>p_status := Assigned, assignedTo := Some 1\<rparr>),
                 wp_loading := False, wp_error := None\<rparr>, f1_session)"
proof -
  have "get_project (ObjId 3) chat_db = Inr (demo_project\<lparr>p_status := Assigned, assignedTo := Some 1\<rparr>)"
    by (simp add: get_project_def chat_db_def demo_defs find_by_def user_exists_def)
  then show ?thesis
    using fw_fetch_ok [where s=f1_session and tok="''tok''" and verify=f1_verify and u=demo_f1 and d=chat_db
        and r="ObjId 3" and p="demo_project\<lparr>p_status := Assigned, assignedTo := Some 1\<rparr>" and st=wp_initial]
      f1_facts f1_chat_db_facts by (simp add: demo_defs)
qed

text \<open>
  C35. For a logged-in freelancer whose token the server verifies, on a
  well-formed database, every project of the working projects list
  (\<open>MyProjects.jsx\<close>) opens: its \<open>View Work Details\<close> link is routed to the
  freelancer's working page, that page loads the project without an error and
  shows the chat, and the chat loads the project's messages.
\<close>

theorem working_list_opens_chat:
  assumes tok: "token s = Some tok" "tok \<noteq> []" "CHR '' '' \<notin> set tok"
    and ver: "verify tok = Some (u_id u)" "find_by u_id (u_id u) (users d) = Some u" "role u = Freelancer"
    and ses: "isAuthenticated s" "userRole s = Some ''freelancer''" "s_user s = Some u" "\<not> s_loading s"
    and inv: "db_inv d"
    and p: "p \<in> set (fwl_projects (fst (fwl_mount verify d s st)))"
  shows "resolve s (fwl_link p) = Render (WorkingProjectF (oid_str (p_id p))) \<and>
         fst (fw_fetch verify d (ObjId (p_id p)) s wst) = wst\<lparr>wp_project := Some p, wp_loading := False, wp_error := None\<rparr> \<and>
         fw_chat (fst (fw_fetch verify d (ObjId (p_id p)) s wst)) \<and>
         fst (cb_fetch verify d (Some (p_id p)) s cst) =
           cst\<lparr>cb_messages := map (msg_json d) (sort_key timestamp (filter (\<lambda>m. m_project m = p_id p) (messages d))), cb_loading := False\<rparr>"
proof -
  have pl: "p \<in> set (projects d)" "user_exists d (client p)" "assignedTo p = Some (u_id u)"
      "p_status p \<in> {Assigned, InProgress}"
    using p fwl_fetch_ok [where s=s and tok=tok and verify=verify and u=u and d=d and st=st, OF tok ver ses(3)] ses by (auto simp: fwl_mount_def)
  have g: "get_project (ObjId (p_id p)) d = Inr p" using get_project_stored [OF inv pl(1,2)] .
  have f: "fw_fetch verify d (ObjId (p_id p)) s wst = (wst\<lparr>wp_project := Some p, wp_loading := False, wp_error := None\<rparr>, s)"
    using fw_fetch_ok [where s=s and tok=tok and verify=verify and u=u and d=d and r="ObjId (p_id p)" and p=p and st=wst, OF tok ver(1,2) ses(1-3) g pl(3)] .
  have r: "resolve s (fwl_link p) = Render (WorkingProjectF (oid_str (p_id p)))"
  proof -
    have "resolve s (fwl_link p) =
        protected_route s (Some [''freelancer'']) (WorkingProjectF (oid_str (p_id p)))"
      by (simp only: resolve_def fwl_link_def path_segments_working)
         (simp add: app_routes_def guarded_def freelancer_child_def del: oid_str.simps)
    with ses show ?thesis by (simp add: protected_route_def)
  qed
  have m: "api_project_messages verify (bearer_of (token s)) (ObjId (p_id p)) d =
      (Inr (sort_key timestamp (filter (\<lambda>m. m_project m = p_id p) (messages d))), d)"
    using api_as_session_user [of s tok verify u d "\<lambda>u d. (project_messages u (ObjId (p_id p)) d, d)"]
      tok(1,3) ver(1,2) find_by_distinct [of p_id "projects d" p] inv pl
    by (simp add: api_project_messages_def project_messages_def is_party_def db_inv_def ids_ok_def)
  have c: "fst (cb_fetch verify d (Some (p_id p)) s cst) =
      cst\<lparr>cb_messages := map (msg_json d) (sort_key timestamp (filter (\<lambda>m. m_project m = p_id p) (messages d))), cb_loading := False\<rparr>"
    using cb_fetch_Inr [where s=s and verify=verify and d=d and pid="p_id p" and st=cst] ses m by simp
  show ?thesis using r f c pl(4) by (simp add: fw_chat_def)
qed

theorem working_list_opens_chat_witness:
  "fw_chat (fst (fw_fetch f1_verify chat_db (ObjId 3) f1_session wp_initial)) \<and>
   resolve f1_session (fwl_link (demo_project\<lparr>p_status := Assigned, assignedTo := Some 1\<rparr>)) =
     Render (WorkingProjectF (oid_str 3))"
proof -
  define p where "p = demo_project\<lparr>p_status := Assigned, assignedTo := Some 1\<rparr>"
  note u = f1_chat_db_facts(1) and ses = f1_chat_db_facts(2,3) and inv = f1_chat_db_facts(4)
  have l: "fwl_fetch f1_verify chat_db f1_session fwl_initial =
      (fwl_initial\<lparr>fwl_projects := filter (\<lambda>p. user_exists chat_db (client p))
            (filter (\<lambda>p. assignedTo p = Some (u_id demo_f1) \<and> p_status p \<in> {Assigned, InProgress}) (projects chat_db)),
          fwl_loading := False, fwl_error := None\<rparr>, f1_session)"
    using fwl_fetch_ok [where s=f1_session and tok="''tok''" and verify=f1_verify and u=demo_f1 and d=chat_db
        and st=fwl_initial] f1_facts u ses by simp
  have m: "p \<in> set (fwl_projects (fst (fwl_mount f1_verify chat_db f1_session fwl_initial)))"
    using l f1_facts by (simp add: fwl_mount_def p_def chat_db_def demo_defs user_exists_def find_by_def)
  have "resolve f1_session (fwl_link p) = Render (WorkingProjectF (oid_str (p_id p))) \<and>
      fw_chat (fst (fw_fetch f1_verify chat_db (ObjId (p_id p)) f1_session wp_initial))"
    using working_list_opens_chat [where s=f1_session and tok="''tok''" and verify=f1_verify and u=demo_f1
        and d=chat_db and p=p and st=fwl_initial and wst=wp_initial and cst=chat_st0] f1_facts u ses inv m
    by (simp add: fw_chat_def p_def del: oid_str.simps)
  then show ?thesis by (simp add: p_def demo_defs del: oid_str.simps)
qed

text \<open>
  C17. Whenever the client's or the freelancer's working page shows the chat,
  the server's message route admits the viewer: the ChatBox of the project
  loads its messages without an error. The pages' own checks (the client owns
  the project, the project is assigned to the freelancer) make the viewer a
  party of the project.
\<close>

theorem shown_chat_loads:
  assumes tok: "token s = Some tok" "CHR '' '' \<notin> set tok"
    and ver: "verify tok = Some (u_id u)" "find_by u_id (u_id u) (users d) = Some u" "s_user s = Some u"
    and shown: "cw_chat (fst (cw_fetch verify d r s st)) \<or> fw_chat (fst (fw_fetch verify d r s st))"
  shows "\<exists>pid ms. r = ObjId pid \<and> fst (cb_fetch verify d (Some pid) s cst) = cst\<lparr>cb_messages := ms, cb_loading := False\<rparr>"
proof -
  have pu: "protect verify d (bearer_of (token s)) = Inr u"
    using protect_bearer_of [of verify tok u d] tok ver by simp
  obtain owns rl den where e: "wp_error (fst (wp_fetch rl owns den verify d r s st)) = None"
      and own: "\<And>p. owns d (u_id u) p \<Longrightarrow> is_party (u_id u) p"
    using shown
  proof
    assume "cw_chat (fst (cw_fetch verify d r s st))"
    then show ?thesis
      using that [of "''client''" "\<lambda>d uid p. client p = uid" "''Not authorized to view this project.''"]
      by (simp add: cw_chat_def cw_fetch_def is_party_def)
  next
    assume a: "fw_chat (fst (fw_fetch verify d r s st))"
    have "wp_error (fst (fw_fetch verify d r s st)) = None" using a by (simp add: fw_chat_def)
    moreover have "\<And>p. populated_assignee d p = Some (u_id u) \<Longrightarrow> is_party (u_id u) p"
      by (auto simp: populated_assignee_def is_party_def split: option.splits if_splits)
    ultimately show ?thesis
      using that [of "''freelancer''" "\<lambda>d uid p. populated_assignee d p = Some uid"
          "''Not authorized to view this project or project not assigned to you.''"]
      by (simp add: fw_fetch_def)
  qed
  obtain u' p where "s_user s = Some u'" and g: "fst (api_get_project verify (bearer_of (token s)) r d) = Inr p"
      and o: "owns d (u_id u') p"
    using wp_fetch_no_error [OF e] by blast
  then have "u' = u" using ver(3) by simp
  obtain u'' where "r = ObjId (p_id p)" and f: "find_by p_id (p_id p) (projects d) = Some p"
    using api_get_project_Inr [OF g] by blast
  moreover have "isAuthenticated s"
    using shown by (auto simp: cw_chat_def fw_chat_def cw_fetch_def fw_fetch_def wp_fetch_def Let_def
                          split: option.splits if_splits)
  ultimately show ?thesis
    using party_chat_loads [where s=s and tok=tok and verify=verify and u=u and d=d and pid="p_id p" and p=p
        and cst=cst] tok ver f own o \<open>u' = u\<close> by blast
qed

theorem shown_chat_loads_witness:
  "\<exists>pid ms. ObjId 3 = ObjId pid \<and>
     fst (cb_fetch f1_verify chat_db (Some pid) f1_session chat_st0) = chat_st0\<lparr>cb_messages := ms, cb_loading := False\<rparr>"
proof -
  have "fw_chat (fst (fw_fetch f1_verify chat_db (ObjId 3) f1_session wp_initial))"
    by (simp add: fw_fetch_chat_db fw_chat_def demo_defs)
  then show ?thesis
    using shown_chat_loads [where s=f1_session and tok="''tok''" and verify=f1_verify and u=demo_f1 and d=chat_db
        and r="ObjId 3" and st=wp_initial and cst=chat_st0] f1_facts f1_chat_db_facts by blast
qed

end
