(* ===== verification/Navigation.thy ===== *)
theory Navigation
  imports WorkingPages DashboardPages
begin

text \<open>
  The frontend's static navigation: the header of \<open>components/Layout.jsx\<close>,
  the sidebars of the three portals (\<open>pages/admin/Admin.jsx\<close>,
  \<open>pages/client/Client.jsx\<close>, \<open>pages/freelancer/Freelancer.jsx\<close>), the buttons
  of the landing page and the card and quick links of the three dashboard
  overview pages. A link is a path and the value of its \<open>status\<close> query
  parameter, if it has one; the router matches the path only. The lemmas follow
  each link through \<open>App\<close>'s route tree (\<open>resolve\<close>): the sidebars only lead to
  pages of the portal, three quick links of the admin overview lead to the 404
  page, and the freelancer overview's completed-projects card leads to a page
  that ignores the filter and can never list a completed project.
\<close>

type_synonym nav_link = "string \<times> string option"

text \<open>The header of \<open>Layout\<close>: Home, About Us, and login or the role's dashboard.\<close>

definition header_links :: "session \<Rightarrow> nav_link list" where
  "header_links s =
     [(''/'', None), (''/about-us'', None)] @
     (if \<not> isAuthenticated s then [(''/login'', None)]
      else (if userRole s = Some ''admin'' then [(''/admin/dashboard'', None)] else []) @
           (if userRole s = Some ''client'' then [(''/client/dashboard'', None)] else []) @
           (if userRole s = Some ''freelancer'' then [(''/freelancer/dashboard'', None)] else []))"

text \<open>The header's Logout button: \<open>logout()\<close> of the context, which navigates home.\<close>

definition header_logout :: "session \<Rightarrow> session" where
  "header_logout s = auth_logout True s"

text \<open>
  The links of \<open>components/Navbar.jsx\<close>, an older header that no page renders:
  Home and Login/Register, whatever the session.
\<close>

definition navbar_links :: "nav_link list" where
  "navbar_links = [(''/'', None), (''/login'', None)]"

definition landing_links :: "nav_link list" where
  "landing_links = [(''/login'', None), (''/admin-login'', None)]"

subsection \<open>The portals' sidebars\<close>

definition admin_sidebar :: "nav_link list" where
  "admin_sidebar = [(''/admin'', None), (''/admin/users'', None), (''/admin/projects'', None),
                    (''/admin/applications'', None)]"

definition client_sidebar :: "nav_link list" where
  "client_sidebar = [(''/client'', None), (''/client/new-project'', None), (''/client/my-posted-projects'', None),
                     (''/client/my-working-projects'', None), (''/client/profile'', None)]"

definition freelancer_sidebar :: "nav_link list" where
  "freelancer_sidebar = [(''/freelancer'', None), (''/freelancer/all-projects'', None),
                         (''/freelancer/my-applications'', None), (''/freelancer/my-projects'', None),
                         (''/freelancer/profile'', None)]"

subsection \<open>The overview pages' links\<close>

definition admin_overview_links :: "nav_link list" where
  "admin_overview_links =
     [(''/admin/users'', None), (''/admin/projects'', None), (''/admin/applications'', None),
      (''/admin/add-user'', None), (''/admin/post-announcement'', None), (''/admin/settings'', None)]"

definition client_overview_links :: "nav_link list" where
  "client_overview_links =
     [(''/client/my-posted-projects'', None), (''/client/my-working-projects'', None),
      (''/client/review-applications'', None), (''/client/my-posted-projects'', Some ''completed''),
      (''/client/new-project'', None), (''/client/my-posted-projects'', None), (''/client/profile'', None)]"

text \<open>
  The earnings card's link \<open>to="#"\<close> only shows a toast and is left out.
\<close>

definition freelancer_overview_links :: "nav_link list" where
  "freelancer_overview_links =
     [(''/freelancer/my-projects'', Some ''assigned,in progress''), (''/freelancer/my-applications'', None),
      (''/freelancer/my-projects'', Some ''completed''),
      (''/freelancer/all-projects'', None), (''/freelancer/my-applications'', None),
      (''/freelancer/my-projects'', None)]"

definition completed_card_link :: nav_link where
  "completed_card_link = freelancer_overview_links ! 2"

text \<open>Following a link: the router matches its path; the page may read the query.\<close>

definition follow :: "session \<Rightarrow> nav_link \<Rightarrow> outcome" where
  "follow s l = resolve s (fst l)"

subsection \<open>The landing page's backend check\<close>

datatype backend_status = Checking | Connected | BackendError

record landing_state =
  backendStatus :: backend_status
  backendMessage :: string

definition landing_initial :: landing_state where
  "landing_initial = \<lparr>backendStatus = Checking, backendMessage = []\<rparr>"

text \<open>The reply of \<open>app.get('/api/test')\<close> in \<open>server.js\<close>.\<close>

definition api_test_message :: string where
  "api_test_message = ''Backend is connected and healthy!''"

text \<open>
  \<open>checkBackend\<close>: \<open>up\<close> says whether the server answers at all (otherwise
  \<open>fetch\<close> rejects); a request no route matches gets Express's 404.
\<close>

definition landing_check :: "bool \<Rightarrow> landing_state \<Rightarrow> landing_state" where
  "landing_check up st =
     (if \<not> up
      then st\<lparr>backendStatus := BackendError,
              backendMessage := ''Error: Failed to connect to backend. Is the server running?''\<rparr>
      else (case request GET ''/api/test'' of
              Some ApiTest \<Rightarrow> st\<lparr>backendStatus := Connected, backendMessage := api_test_message\<rparr>
            | _ \<Rightarrow> st\<lparr>backendStatus := BackendError,
                         backendMessage := ''Failed to connect to backend. Is the server running?''\<rparr>))"

text \<open>
  The effect of the page: one check on mount, then one every five seconds
  (\<open>setInterval\<close>); the list says, tick by tick, whether the server was up.
\<close>

definition landing_poll :: "bool list \<Rightarrow> landing_state \<Rightarrow> landing_state" where
  "landing_poll ups st = fold landing_check ups st"

subsection \<open>Lemmas\<close>

lemma api_test_routed: "request GET ''/api/test'' = Some ApiTest"
  by (simp add: request_def path_segments_def js_split_def dispatch_def)

text \<open>
  The landing page recovers: whatever happened before, a tick at which the
  server is up leaves the page connected with the server's message.
\<close>

lemma landing_poll_recovers:
  "landing_poll (ups @ [True]) st =
     (landing_poll ups st)\<lparr>backendStatus := Connected, backendMessage := api_test_message\<rparr>"
  by (simp add: landing_poll_def landing_check_def api_test_routed)

lemma sidebars_render:
  assumes "\<not> s_loading s" "isAuthenticated s"
  shows "userRole s = Some ''admin'' \<Longrightarrow>
           map (follow s) admin_sidebar = [Render AdminOverview, Render AllUsers, Render AdminProjects,
                                          Render AdminApplications]"
    and "userRole s = Some ''client'' \<Longrightarrow>
           map (follow s) client_sidebar = [Render ClientOverview, Render NewProjectC, Render ClientMyProjects,
                                           Render ClientWorkingProjects, Render ClientProfile]"
    and "userRole s = Some ''freelancer'' \<Longrightarrow>
           map (follow s) freelancer_sidebar = [Render FreelancerOverview, Render AllProjectsF, Render MyApplicationsF,
                                               Render MyWorkingProjectsF, Render ProfileF]"
  using assms
  by (simp_all add: follow_def admin_sidebar_def client_sidebar_def freelancer_sidebar_def resolve_def
        path_segments_def js_split_def app_routes_def guarded_def admin_child_def client_child_def
        freelancer_child_def protected_route_def admin_protected_route_def)

lemma navbar_links_render: "map (follow s) navbar_links = [Render Landing, Render Authenticate]"
  by (simp add: follow_def navbar_links_def resolve_def path_segments_def js_split_def app_routes_def)

lemma admin_quick_links_404:
  assumes "\<not> s_loading s" "isAuthenticated s" "userRole s = Some ''admin''"
  shows "map (follow s) (drop 3 admin_overview_links) = [Render NotFound, Render NotFound, Render NotFound]"
  using assms
  by (simp add: follow_def admin_overview_links_def resolve_def path_segments_def js_split_def app_routes_def
        guarded_def admin_child_def)

lemma working_projects_active:
  assumes "fst (api_freelancer_working_projects verify hdr r [] d) = Inr ps" "p \<in> set ps"
  shows "p_status p \<in> {Assigned, InProgress}"
proof -
  obtain d' where "api_freelancer_working_projects verify hdr r [] d = (Inr ps, d')"
    using assms(1) by (metis prod.collapse)
  then obtain u where "freelancer_working_projects u r [] d = Inr ps"
    using route_Inr by (fastforce simp: api_freelancer_working_projects_def)
  with assms(2) show ?thesis
    by (auto simp: freelancer_working_projects_def split: if_splits rid.splits)
qed

text \<open>
  C29. The freelancer overview's card \<open>View Completed Projects\<close> links to
  \<open>/freelancer/my-projects?status=completed\<close>, which the router renders as
  \<open>MyProjects.jsx\<close>; that page ignores the query and asks the server for the
  default statuses, so for every session and database the list it shows holds
  no completed project. (\<open>MyWorkingProjects.jsx\<close>, which reads the filter, has
  no route.)
\<close>

theorem completed_card_lists_active:
  assumes "\<not> s_loading s" "isAuthenticated s" "userRole s = Some ''freelancer''"
  shows "follow s completed_card_link = Render MyWorkingProjectsF \<and> snd completed_card_link = Some ''completed'' \<and>
         (\<forall>p\<in>set (fwl_projects (fst (fwl_mount verify d s fwl_initial))). p_status p \<noteq> Completed)"
proof -
  have "follow s completed_card_link = Render MyWorkingProjectsF \<and> snd completed_card_link = Some ''completed''"
    using assms
    by (simp add: completed_card_link_def freelancer_overview_links_def follow_def resolve_def path_segments_def
          js_split_def app_routes_def guarded_def freelancer_child_def protected_route_def)
  moreover have "p_status p \<noteq> Completed" if "p \<in> set (fwl_projects (fst (fwl_mount verify d s fwl_initial)))" for p
    using that working_projects_active [of verify _ _ d _ p]
    by (fastforce simp: fwl_mount_def fwl_fetch_def fwl_initial_def Let_def
          split: option.splits if_splits sum.splits http_error.splits)
  ultimately show ?thesis by blast
qed

theorem completed_card_lists_active_witness:
  "follow f1_session completed_card_link = Render MyWorkingProjectsF \<and>
   fwl_projects (fst (fwl_mount f1_verify chat_db f1_session fwl_initial)) =
     [demo_project\<lparr>p_status := Assigned, assignedTo := Some 1\<rparr>] \<and>
   p_status (hd (fwl_projects (fst (fwl_mount f1_verify chat_db f1_session fwl_initial)))) \<noteq> Completed"
proof -
  have l: "fwl_projects (fst (fwl_mount f1_verify chat_db f1_session fwl_initial)) =
      [demo_project\<lparr>p_status := Assigned, assignedTo := Some 1\<rparr>]"
    using fwl_fetch_ok [where s=f1_session and tok="''tok''" and verify=f1_verify and u=demo_f1 and d=chat_db
        and st=fwl_initial] f1_facts f1_chat_db_facts
    by (simp add: fwl_mount_def chat_db_def demo_defs user_exists_def find_by_def)
  have "follow f1_session completed_card_link = Render MyWorkingProjectsF \<and>
      (\<forall>p\<in>set (fwl_projects (fst (fwl_mount f1_verify chat_db f1_session fwl_initial))). p_status p \<noteq> Completed)"
    using completed_card_lists_active [of f1_session f1_verify chat_db] f1_facts f1_chat_db_facts by simp
  with l show ?thesis by simp
qed

lemma oid_str_digits: "\<forall>c\<in>set (oid_str n). of_char c < (58::nat)"
proof (induction n rule: oid_str.induct)
  case (1 n)
  have c: "of_char (char_of (48 + k) :: char) < (58::nat)" if "k < 10" for k :: nat
    using that by (simp add: of_char_of)
  show ?case
    using 1 c [of n] c [of "n mod 10"] oid_str.simps [of n] by (auto simp del: oid_str.simps)
qed

lemma oid_str_not_word:
  assumes "w \<noteq> []" "of_char (hd w) \<ge> (58::nat)"
  shows "oid_str n \<noteq> w"
proof
  assume "oid_str n = w"
  then have "hd w \<in> set (oid_str n)" using assms(1) by simp
  with oid_str_digits [of n] assms(2) show False by fastforce
qed

lemma path_segments_with_id:
  "path_segments (''/api/projects/'' @ oid_str n) = [''api'', ''projects'', oid_str n]"
  "path_segments (''/api/projects/'' @ oid_str n @ ''/status'') = [''api'', ''projects'', oid_str n, ''status'']"
  "path_segments (''/api/projects/freelancer-working-projects/'' @ oid_str n) =
     [''api'', ''projects'', ''freelancer-working-projects'', oid_str n]"
  "path_segments (''/api/applications/'' @ oid_str n) = [''api'', ''applications'', oid_str n]"
  "path_segments (''/api/applications/'' @ oid_str n @ ''/status'') = [''api'', ''applications'', oid_str n, ''status'']"
  "path_segments (''/api/applications/project/'' @ oid_str n) = [''api'', ''applications'', ''project'', oid_str n]"
  "path_segments (''/api/messages/project/'' @ oid_str n) = [''api'', ''messages'', ''project'', oid_str n]"
  "path_segments (''/api/admin/users/'' @ oid_str n) = [''api'', ''admin'', ''users'', oid_str n]"
  using oid_str_no_slash [of n]
  by (simp_all add: path_segments_def js_split_def js_split_aux_no_sep js_split_aux_prefix del: oid_str.simps)

text \<open>
  A request URL with a document id in the place of a route parameter reaches
  the route it means, whatever the id: an id is a string of digits, so it never
  equals a literal segment such as \<open>my-posted-projects\<close> that a router declares
  before its \<open>/:id\<close> route, and it never contains a slash.
\<close>

lemma id_urls_routed:
  "request GET (''/api/projects/'' @ oid_str n) = Some (ProjGet (oid_str n)) \<and>
   request PUT (''/api/projects/'' @ oid_str n) = Some (ProjUpdate (oid_str n)) \<and>
   request PUT (''/api/projects/'' @ oid_str n @ ''/status'') = Some (ProjStatus (oid_str n)) \<and>
   request DELETE (''/api/projects/'' @ oid_str n) = Some (ProjDelete (oid_str n)) \<and>
   request GET (''/api/projects/freelancer-working-projects/'' @ oid_str n) = Some (ProjWorking (oid_str n)) \<and>
   request PUT (''/api/applications/'' @ oid_str n @ ''/status'') = Some (AppStatus (oid_str n)) \<and>
   request DELETE (''/api/applications/'' @ oid_str n) = Some (AppDelete (oid_str n)) \<and>
   request GET (''/api/applications/project/'' @ oid_str n) = Some (AppByProject (oid_str n)) \<and>
   request GET (''/api/messages/project/'' @ oid_str n) = Some (MsgProject (oid_str n)) \<and>
   request DELETE (''/api/admin/users/'' @ oid_str n) = Some (AdminDeleteUser (oid_str n))"
proof -
  have "oid_str n \<noteq> ''my-posted-projects''"
    by (rule oid_str_not_word) simp_all
  then show ?thesis
    by (simp only: request_def path_segments_with_id)
       (simp add: dispatch_def project_router_def application_router_def message_router_def admin_router_def
          del: oid_str.simps)
qed

end
