(* ===== verification/Profiles.thy ===== *)
theory Profiles
  imports DashboardPages
begin

text \<open>
  The two profile pages (\<open>pages/freelancer/Profile.jsx\<close>,
  \<open>pages/client/Profile.jsx\<close>), which show the body of \<open>GET /api/auth/me\<close>:
  the route answers \<open>{ user: {...} }\<close> with the registration date under the
  key \<open>registrationDate\<close> (\<open>routes/auth.js\<close>). On failure both pages show the
  status and the raw text of the reply. The lemmas show what each page shows
  after a successful load: the client's profile shows the registration date,
  the freelancer's never does, since it looks for \<open>createdAt\<close>.
\<close>

text \<open>The \<open>user\<close> object of the reply of \<open>GET /api/auth/me\<close>.\<close>

definition me_json :: "user_doc \<Rightarrow> jobj" where
  "me_json u =
     [(''id'', JStr (oid_str (u_id u))), (''username'', JStr (username u)), (''email'', JStr (email u)),
      (''role'', JStr (role_str (role u))), (''registrationDate'', JNum (real (u_createdAt u)))]"

text \<open>
  \<open>response.text()\<close> of an error reply \<open>res.status(c).json({ message })\<close>:
  the serialised object.
\<close>

definition json_message_text :: "string \<Rightarrow> string" where
  "json_message_text m = ''{'' @ [CHR 0x22] @ ''message'' @ [CHR 0x22] @ '':'' @ [CHR 0x22] @ m @ [CHR 0x22] @ ''}''"

definition profile_error :: "nat \<Rightarrow> string \<Rightarrow> string" where
  "profile_error c m = ''Failed to fetch profile: '' @ oid_str c @ '' - '' @ json_message_text m"

record pf_state =
  pf_user :: "jobj option"
  pf_loading :: bool
  pf_error :: "string option"

definition pf_initial :: pf_state where
  "pf_initial = \<lparr>pf_user = None, pf_loading = True, pf_error = None\<rparr>"

text \<open>The request and its reply, shared by both pages' \<open>fetchUserProfile\<close>.\<close>

definition pf_load :: "(string \<Rightarrow> oid option) \<Rightarrow> db \<Rightarrow> session \<Rightarrow> pf_state \<Rightarrow> pf_state \<times> session" where
  "pf_load verify d s st =
     (case me verify d (bearer_of (token s)) of
        Inr u \<Rightarrow> (st\<lparr>pf_user := Some (me_json u), pf_loading := False\<rparr>, s)
      | Inl (HttpError c m) \<Rightarrow>
          (let e = profile_error c m
           in (st\<lparr>pf_error := Some e, pf_loading := False\<rparr>, toast (''Error loading profile: '' @ e) s)))"

subsection \<open>Freelancer profile\<close>

definition fp_fetch :: "(string \<Rightarrow> oid option) \<Rightarrow> db \<Rightarrow> session \<Rightarrow> pf_state \<Rightarrow> pf_state \<times> session" where
  "fp_fetch verify d s st =
     (let st0 = st\<lparr>pf_loading := True, pf_error := None\<rparr>
      in if \<not> has_token (token s) \<or> \<not> isAuthenticated s \<or> userRole s \<noteq> Some ''freelancer''
         then (st0\<lparr>pf_error := Some ''Authentication required or not authorized to view this profile.'',
                    pf_loading := False\<rparr>, s)
         else pf_load verify d s st0)"

definition fp_mount :: "(string \<Rightarrow> oid option) \<Rightarrow> db \<Rightarrow> session \<Rightarrow> pf_state \<Rightarrow> pf_state \<times> session" where
  "fp_mount verify d s st =
     (if isAuthenticated s \<and> userRole s = Some ''freelancer'' then fp_fetch verify d s st
      else (st\<lparr>pf_loading := False, pf_user := None\<rparr>, s))"

text \<open>
  The basic information the page shows: username, e-mail, role, and the
  member-since line when \<open>userData.createdAt\<close> is set.
\<close>

definition fp_rows :: "pf_state \<Rightarrow> (string \<times> jval option) list" where
  "fp_rows st =
     (case pf_user st of
        None \<Rightarrow> []
      | Some j \<Rightarrow>
          [(''Username'', map_of j ''username''), (''Email'', map_of j ''email''), (''Role'', map_of j ''role'')] @
          (case map_of j ''createdAt'' of None \<Rightarrow> [] | Some v \<Rightarrow> [(''Member Since'', Some v)]))"

subsection \<open>Client profile\<close>

text \<open>The client's page fetches on mount without checking the session.\<close>

definition cp_fetch :: "(string \<Rightarrow> oid option) \<Rightarrow> db \<Rightarrow> session \<Rightarrow> pf_state \<Rightarrow> pf_state \<times> session" where
  "cp_fetch verify d s st = pf_load verify d s (st\<lparr>pf_loading := True, pf_error := None\<rparr>)"

definition cp_rows :: "pf_state \<Rightarrow> (string \<times> jval option) list" where
  "cp_rows st =
     (case pf_user st of
        None \<Rightarrow> []
      | Some j \<Rightarrow>
          [(''Username'', map_of j ''username''), (''Email'', map_of j ''email''), (''Role'', map_of j ''role''),
           (''Member Since'', map_of j ''registrationDate'')])"

subsection \<open>Lemmas\<close>

lemma me_session_user:
  assumes "token s = Some tok" "CHR '' '' \<notin> set tok"
    and "verify tok = Some (u_id u)" "find_by u_id (u_id u) (users d) = Some u"
  shows "me verify d (bearer_of (token s)) = Inr u"
  using protect_bearer_of [of verify tok u d] assms by (simp add: me_def route_def)

lemma profiles_show_registration:
  assumes "token s = Some tok" "tok \<noteq> []" "CHR '' '' \<notin> set tok"
    and "verify tok = Some (u_id u)" "find_by u_id (u_id u) (users d) = Some u"
  shows "isAuthenticated s \<Longrightarrow> userRole s = Some ''freelancer'' \<Longrightarrow>
           fp_rows (fst (fp_mount verify d s st)) =
             [(''Username'', Some (JStr (username u))), (''Email'', Some (JStr (email u))),
              (''Role'', Some (JStr (role_str (role u))))]"
    and "cp_rows (fst (cp_fetch verify d s st)) =
             [(''Username'', Some (JStr (username u))), (''Email'', Some (JStr (email u))),
              (''Role'', Some (JStr (role_str (role u)))),
              (''Member Since'', Some (JNum (real (u_createdAt u))))]"
  using me_session_user [where s=s and tok=tok and verify=verify and u=u and d=d] assms
  by (simp_all add: fp_mount_def fp_fetch_def cp_fetch_def pf_load_def fp_rows_def cp_rows_def me_json_def
        has_token_def)

lemma client_profile_without_token:
  assumes "token s = None" "verify ''null'' = None"
  shows "cp_fetch verify d s st =
           (st\<lparr>pf_loading := False, pf_error := Some (profile_error 401 ''Not authorized, token failed'')\<rparr>,
            toast (''Error loading profile: '' @ profile_error 401 ''Not authorized, token failed'') s)"
proof -
  have "me verify d (bearer_of (token s)) = Inl (HttpError 401 ''Not authorized, token failed'')"
    using protect_bearer [of "''null''" verify d] assms by (simp add: me_def route_def bearer_of_def)
  then show ?thesis by (simp add: cp_fetch_def pf_load_def Let_def)
qed

end
