(* ===== verification/Routing.thy ===== *)
theory Routing
  imports Dispatch "HOL-Library.While_Combinator"
begin

text \<open>
  The route tables of the server as Express keeps them: each router is the
  list of its \<open>router.METHOD(path, ...)\<close> declarations in source order (its
  layer stack), and \<open>server.js\<close> is the list of its \<open>app.use(prefix, router)\<close>
  mounts and its \<open>app.get('/api/test')\<close>. Express answers a request by its
  \<open>next()\<close> loop: it walks the stack from an index until a layer matches.
  The loop is kept as a loop, with \<open>while_option\<close>; the lemmas show that it
  always stops, at the first matching layer, that the table-driven dispatch
  agrees with the dispatch function of \<open>Dispatch\<close>, and that no declaration
  of a router is shadowed by an earlier one.
\<close>

subsection \<open>Layers\<close>

text \<open>A path pattern segment: literal text, or a parameter such as \<open>:id\<close>.\<close>

datatype seg_pat = Lit string | Param

record layer =
  l_method :: http_method
  l_path :: "seg_pat list"
  l_endpoint :: "string list \<Rightarrow> endpoint"

fun seg_ok :: "seg_pat \<Rightarrow> string \<Rightarrow> bool" where
  "seg_ok (Lit l) s \<longleftrightarrow> s = l"
| "seg_ok Param s \<longleftrightarrow> True"

text \<open>The values of the parameters, in order (\<open>req.params\<close>).\<close>

fun path_params :: "seg_pat list \<Rightarrow> string list \<Rightarrow> string list" where
  "path_params (Lit _ # ps) (s # ss) = path_params ps ss"
| "path_params (Param # ps) (s # ss) = s # path_params ps ss"
| "path_params _ _ = []"

definition layer_matches :: "layer \<Rightarrow> http_method \<Rightarrow> string list \<Rightarrow> bool" where
  "layer_matches l m p \<longleftrightarrow> l_method l = m \<and> list_all2 seg_ok (l_path l) p"

subsection \<open>The \<open>next()\<close> loop\<close>

text \<open>
  From index \<open>i\<close>, step to the next layer while the current one does not
  match; the loop stops at the first match or at the end of the stack.
\<close>

definition first_index :: "('a \<Rightarrow> bool) \<Rightarrow> 'a list \<Rightarrow> nat \<Rightarrow> nat option" where
  "first_index P L i = while_option (\<lambda>j. j < length L \<and> \<not> P (L ! j)) Suc i"

definition stack_handle :: "layer list \<Rightarrow> http_method \<Rightarrow> string list \<Rightarrow> endpoint option" where
  "stack_handle L m p =
     (case first_index (\<lambda>l. layer_matches l m p) L 0 of
        Some j \<Rightarrow> if j < length L then Some (l_endpoint (L ! j) (path_params (l_path (L ! j)) p)) else None
      | None \<Rightarrow> None)"

definition mk_layer :: "http_method \<Rightarrow> seg_pat list \<Rightarrow> (string list \<Rightarrow> endpoint) \<Rightarrow> layer" where
  "mk_layer m ps e = \<lparr>l_method = m, l_path = ps, l_endpoint = e\<rparr>"

subsection \<open>The stacks of the routers\<close>

definition auth_stack :: "layer list" where
  "auth_stack =
     [mk_layer POST [Lit ''register''] (\<lambda>_. AuthRegister),
      mk_layer POST [Lit ''login''] (\<lambda>_. AuthLogin),
      mk_layer GET [Lit ''me''] (\<lambda>_. AuthMe)]"

definition admin_stack :: "layer list" where
  "admin_stack =
     [mk_layer GET [Lit ''dashboard-stats''] (\<lambda>_. AdminStats),
      mk_layer GET [Lit ''users''] (\<lambda>_. AdminUsers),
      mk_layer DELETE [Lit ''users'', Param] (\<lambda>ps. AdminDeleteUser (hd ps))]"

definition project_stack :: "layer list" where
  "project_stack =
     [mk_layer POST [] (\<lambda>_. ProjCreate),
      mk_layer GET [] (\<lambda>_. ProjAll),
      mk_layer GET [Lit ''my-posted-projects''] (\<lambda>_. ProjMyPosted),
      mk_layer GET [Lit ''freelancer-working-projects'', Param] (\<lambda>ps. ProjWorking (hd ps)),
      mk_layer GET [Param] (\<lambda>ps. ProjGet (hd ps)),
      mk_layer PUT [Param] (\<lambda>ps. ProjUpdate (hd ps)),
      mk_layer PUT [Param, Lit ''status''] (\<lambda>ps. ProjStatus (hd ps)),
      mk_layer DELETE [Param] (\<lambda>ps. ProjDelete (hd ps))]"

definition application_stack :: "layer list" where
  "application_stack =
     [mk_layer POST [] (\<lambda>_. AppSubmit),
      mk_layer GET [Lit ''project'', Param] (\<lambda>ps. AppByProject (hd ps)),
      mk_layer GET [Lit ''my-applications''] (\<lambda>_. AppMine),
      mk_layer GET [Lit ''client-review''] (\<lambda>_. AppClientReview),
      mk_layer PUT [Param, Lit ''status''] (\<lambda>ps. AppStatus (hd ps)),
      mk_layer DELETE [Param] (\<lambda>ps. AppDelete (hd ps))]"

definition stats_stack :: "endpoint \<Rightarrow> layer list" where
  "stats_stack e = [mk_layer GET [Lit ''dashboard-stats''] (\<lambda>_. e)]"

definition message_stack :: "layer list" where
  "message_stack =
     [mk_layer POST [] (\<lambda>_. MsgSend),
      mk_layer GET [Lit ''project'', Param] (\<lambda>ps. MsgProject (hd ps))]"

subsection \<open>The application\<close>

text \<open>
  A mount matches when its prefix is a prefix of the path (on segment
  boundaries); Express passes the rest of the path to the router and moves on
  to the next mount when the router has no matching layer.
\<close>

definition app_stack :: "(string list \<times> layer list) list" where
  "app_stack =
     [([''api'', ''auth''], auth_stack), ([''api'', ''admin''], admin_stack),
      ([''api'', ''projects''], project_stack), ([''api'', ''applications''], application_stack),
      ([''api'', ''client''], stats_stack ClientStats), ([''api'', ''freelancer''], stats_stack FreelancerStats),
      ([''api'', ''messages''], message_stack),
      ([], [mk_layer GET [Lit ''api'', Lit ''test''] (\<lambda>_. ApiTest)])]"

definition mount_handles :: "http_method \<Rightarrow> string list \<Rightarrow> string list \<times> layer list \<Rightarrow> bool" where
  "mount_handles m p mt \<longleftrightarrow>
     take (length (fst mt)) p = fst mt \<and> stack_handle (snd mt) m (drop (length (fst mt)) p) \<noteq> None"

definition app_handle :: "http_method \<Rightarrow> string list \<Rightarrow> endpoint option" where
  "app_handle m p =
     (case first_index (mount_handles m p) app_stack 0 of
        Some j \<Rightarrow>
          if j < length app_stack
          then stack_handle (snd (app_stack ! j)) m (drop (length (fst (app_stack ! j))) p)
          else None
      | None \<Rightarrow> None)"

text \<open>
  A request that a layer's path pattern accepts: its literal segments, and
  the id \<open>0\<close> for each parameter.
\<close>

definition layer_sample :: "layer \<Rightarrow> string list" where
  "layer_sample l = map (\<lambda>s. case s of Lit x \<Rightarrow> x | Param \<Rightarrow> ''0'') (l_path l)"

subsection \<open>Lemmas\<close>

lemma first_index_first:
  "i \<le> length L \<Longrightarrow> first_index P L i = Some (i + length (takeWhile (\<lambda>x. \<not> P x) (drop i L)))"
proof (induction "length L - i" arbitrary: i)
  case 0
  then have "i = length L" by simp
  then show ?case unfolding first_index_def by (subst while_option_unfold) simp
next
  case (Suc k)
  then have i: "i < length L" by simp
  then have d: "drop i L = L ! i # drop (Suc i) L" by (simp add: Cons_nth_drop_Suc)
  show ?case
  proof (cases "P (L ! i)")
    case True
    then show ?thesis using i d by (simp add: first_index_def while_option_unfold [of _ _ i])
  next
    case False
    have "first_index P L (Suc i) = Some (Suc i + length (takeWhile (\<lambda>x. \<not> P x) (drop (Suc i) L)))"
      using Suc.hyps(1) [of "Suc i"] Suc.hyps(2) i by simp
    then show ?thesis
      using False i d by (simp add: first_index_def while_option_unfold [of _ _ i])
  qed
qed

lemma find_takeWhile:
  "find P L = (if length (takeWhile (\<lambda>x. \<not> P x) L) < length L
               then Some (L ! length (takeWhile (\<lambda>x. \<not> P x) L)) else None)"
  by (induction L) auto

lemma stack_handle_find:
  "stack_handle L m p =
     (case find (\<lambda>l. layer_matches l m p) L of
        None \<Rightarrow> None
      | Some l \<Rightarrow> Some (l_endpoint l (path_params (l_path l) p)))"
  by (simp add: stack_handle_def first_index_first find_takeWhile)

lemma app_handle_find:
  "app_handle m p =
     (case find (mount_handles m p) app_stack of
        None \<Rightarrow> None
      | Some mt \<Rightarrow> stack_handle (snd mt) m (drop (length (fst mt)) p))"
  by (simp add: app_handle_def first_index_first find_takeWhile)

lemmas stack_simps = stack_handle_find layer_matches_def mk_layer_def

lemma auth_stack_router: "stack_handle auth_stack m p = auth_router m p"
  by (cases m; cases p rule: remdups_adj.cases;
      simp add: stack_simps auth_stack_def auth_router_def split: list.split)

lemma admin_stack_router: "stack_handle admin_stack m p = admin_router m p"
  by (cases m; cases p rule: remdups_adj.cases;
      simp add: stack_simps admin_stack_def admin_router_def split: list.split)

lemma project_stack_router: "stack_handle project_stack m p = project_router m p"
  by (cases m; cases p rule: remdups_adj.cases;
      simp add: stack_simps project_stack_def project_router_def split: list.split)

lemma application_stack_router: "stack_handle application_stack m p = application_router m p"
  by (cases m; cases p rule: remdups_adj.cases;
      simp add: stack_simps application_stack_def application_router_def split: list.split)

lemma message_stack_router: "stack_handle message_stack m p = message_router m p"
  by (cases m; cases p rule: remdups_adj.cases;
      simp add: stack_simps message_stack_def message_router_def split: list.split)

lemma stats_stack_router: "stack_handle (stats_stack e) m p = stats_router e m p"
  by (cases m; cases p rule: remdups_adj.cases; simp add: stack_simps stats_stack_def stats_router_def split: list.split)

lemmas stack_routers = auth_stack_router admin_stack_router project_stack_router application_stack_router
  message_stack_router stats_stack_router

lemma test_stack:
  "stack_handle [mk_layer GET [Lit ''api'', Lit ''test''] (\<lambda>_. ApiTest)] m p =
     (if m = GET \<and> p = [''api'', ''test''] then Some ApiTest else None)"
  by (cases p rule: remdups_adj.cases; simp add: stack_simps split: list.split)

text \<open>
  The route tables, walked by Express's loop (the mounts of \<open>server.js\<close> in
  order, then each router's declarations in order), answer every request
  exactly as the dispatch function of \<open>Dispatch\<close> does.
\<close>

lemma app_handle_dispatch: "app_handle m p = dispatch m p"
  by (cases p rule: remdups_adj.cases;
      simp add: app_handle_find app_stack_def mount_handles_def stack_routers test_stack dispatch_def
        split: list.split)

text \<open>
  C24. No route declaration of the server is dead: in every router, each
  declaration is the first one, in declaration order, that matches a request
  of its own method and path (with the id \<open>0\<close> for a parameter), so no
  earlier declaration such as \<open>/:id\<close> shadows a later literal path such as
  \<open>/my-posted-projects\<close>.
\<close>

theorem route_declarations_live:
  "\<forall>L\<in>set [auth_stack, admin_stack, project_stack, application_stack, stats_stack e, message_stack].
     \<forall>i<length L. first_index (\<lambda>l. layer_matches l (l_method (L ! i)) (layer_sample (L ! i))) L 0 = Some i"
  by (simp add: first_index_first auth_stack_def admin_stack_def project_stack_def application_stack_def
        stats_stack_def message_stack_def mk_layer_def layer_matches_def layer_sample_def All_less_Suc
        eval_nat_numeral)

text \<open>
  Express's \<open>next()\<close> loop over a layer stack always stops: started at
  any index within the stack it returns an index no larger than the stack's
  length, the matching layer there if it is within the stack, and no layer
  it skipped matches.
\<close>

lemma next_loop_terminates:
  assumes "i \<le> length L"
  shows "\<exists>j. first_index P L i = Some j \<and> j \<le> length L \<and> (j < length L \<longrightarrow> P (L ! j)) \<and>
             (\<forall>k. i \<le> k \<and> k < j \<longrightarrow> \<not> P (L ! k))"
proof -
  let ?b = "\<lambda>j. j < length L \<and> \<not> P (L ! j)"
  let ?I = "\<lambda>j. i \<le> j \<and> j \<le> length L \<and> (\<forall>k. i \<le> k \<and> k < j \<longrightarrow> \<not> P (L ! k))"
  have step: "?I (Suc j) \<and> length L - Suc j < length L - j" if I: "?I j" and b: "?b j" for j
  proof -
    have "\<forall>k. i \<le> k \<and> k < Suc j \<longrightarrow> \<not> P (L ! k)"
    proof (intro allI impI)
      fix k assume "i \<le> k \<and> k < Suc j"
      then have "k < j \<or> k = j" by arith
      then show "\<not> P (L ! k)" using I b \<open>i \<le> k \<and> k < Suc j\<close> by blast
    qed
    moreover have "i \<le> Suc j" "Suc j \<le> length L" "length L - Suc j < length L - j"
      using I b by arith+
    ultimately show ?thesis by blast
  qed
  have init: "?I i" using assms by auto
  obtain j where w: "while_option ?b Suc i = Some j"
    using measure_while_option_Some [where P = ?I and b = ?b and c = Suc and f = "\<lambda>j. length L - j", OF step init]
    by blast
  have "?I j"
    using while_option_rule [where P = ?I, OF _ w init] step by blast
  moreover have "\<not> ?b j" using while_option_stop [OF w] .
  ultimately show ?thesis using w by (simp add: first_index_def)
qed

theorem route_declarations_live_witness:
  "first_index (\<lambda>l. layer_matches l GET [''my-posted-projects'']) project_stack 0 = Some 2"
proof -
  have "\<forall>i<length project_stack.
          first_index (\<lambda>l. layer_matches l (l_method (project_stack ! i)) (layer_sample (project_stack ! i)))
            project_stack 0 = Some i"
    using route_declarations_live by simp
  moreover have "2 < length project_stack" by (simp add: project_stack_def)
  ultimately have "first_index (\<lambda>l. layer_matches l (l_method (project_stack ! 2)) (layer_sample (project_stack ! 2)))
      project_stack 0 = Some 2" by blast
  moreover have "l_method (project_stack ! 2) = GET" "layer_sample (project_stack ! 2) = [''my-posted-projects'']"
    by (simp_all add: project_stack_def mk_layer_def layer_sample_def)
  ultimately show ?thesis by simp
qed

end
