(* ===== verification/LoginPage.thy ===== *)
theory LoginPage
  imports ClientAuth
begin

text \<open>
  The stand-alone login form \<open>components/Login.jsx\<close>, which App.js does not
  route to (its own comment says so) but which is part of the client. Its
  \<open>handleSubmit\<close> posts to \<open>/api/auth/login\<close> and on success calls the
  context's \<open>login(data.token, data.user.role, data.user)\<close>, while
  \<open>AuthContext.login\<close> takes \<open>(token, userData)\<close>: the role string arrives
  as the user object. The argument of \<open>login\<close> is therefore a JavaScript
  value of two shapes here, and \<open>context_login\<close> is \<open>AuthContext.login\<close> on
  both; on a user object it is \<open>auth_login\<close>.
\<close>

datatype user_arg = UserObject user_doc | RoleString string

text \<open>
  \<open>userData.role\<close>: the role of a user object; a string has no property
  \<open>role\<close>, so it reads \<open>undefined\<close>.
\<close>

definition arg_role :: "user_arg \<Rightarrow> string option" where
  "arg_role a = (case a of UserObject u \<Rightarrow> Some (role_str (role u)) | RoleString _ \<Rightarrow> None)"

text \<open>
  \<open>AuthContext.login\<close>: \<open>setUser(userData)\<close>, \<open>setUserRole(userData.role)\<close>,
  the stored token, and the dashboard of the role, or \<open>/\<close> when the role is
  none of the three. The session holds user documents; a string passed as the
  user is none, so \<open>s_user\<close> holds no document after it.
\<close>

definition context_login :: "string \<Rightarrow> user_arg \<Rightarrow> session \<Rightarrow> session" where
  "context_login tok a s =
     s\<lparr>isAuthenticated := True, s_user := (case a of UserObject u \<Rightarrow> Some u | RoleString _ \<Rightarrow> None),
       userRole := arg_role a, token := Some tok,
       location := (case arg_role a of Some r \<Rightarrow> dashboard_path r | None \<Rightarrow> ''/''),
       s_loading := False\<rparr>"

text \<open>
  \<open>handleSubmit\<close> of \<open>Login\<close>: the login request, then the context's
  \<open>login\<close> with the role string in the place of the user, or the server's
  message (or the form's default) as a toast. The form's own \<open>loading\<close> flag is
  set for the request and cleared in \<open>finally\<close>, so it is false after either
  branch.
\<close>

definition login_submit ::
  "(string \<Rightarrow> string \<Rightarrow> bool) \<Rightarrow> (oid \<Rightarrow> string) \<Rightarrow> string \<Rightarrow> string \<Rightarrow> session \<Rightarrow> db \<Rightarrow> session" where
  "login_submit hash_ok sign em pw s d =
     (case login hash_ok sign em pw d of
        Inr (tok, u) \<Rightarrow> context_login tok (RoleString (role_str (role u))) s
      | Inl (HttpError _ m) \<Rightarrow>
          s\<lparr>toasts := toasts s @ [if m = [] then ''Login failed. Please check your credentials.'' else m]\<rparr>)"

subsection \<open>Lemmas\<close>

lemma context_login_object: "context_login tok (UserObject u) s = auth_login tok u s"
  by (cases "role u") (simp_all add: context_login_def auth_login_def arg_role_def dashboard_path_def)

lemma login_submit_success:
  assumes "login hash_ok sign em pw d = Inr (tok, u)"
  shows "login_submit hash_ok sign em pw s d =
           s\<lparr>isAuthenticated := True, s_user := None, userRole := None, token := Some tok,
             location := ''/'', s_loading := False\<rparr>"
  using assms by (simp add: login_submit_def context_login_def arg_role_def)

lemma login_submit_dashboard_refused:
  assumes "login hash_ok sign em pw d = Inr (tok, u)"
  shows "resolve (login_submit hash_ok sign em pw s d) (dashboard_path (role_str (role u))) =
           (if role u = Admin then RedirectTo ''/admin-login'' else RedirectTo ''/'')"
  using assms
  by (cases "role u")
     (simp_all add: login_submit_success dashboard_path_def resolve_def path_segments_dash app_routes_def
        guarded_def client_child_def freelancer_child_def admin_child_def protected_route_def
        admin_protected_route_def)

lemma login_submit_error:
  assumes "login hash_ok sign em pw d = Inl (HttpError c m)"
  shows "login_submit hash_ok sign em pw s d =
           s\<lparr>toasts := toasts s @ [if m = [] then ''Login failed. Please check your credentials.'' else m]\<rparr>"
  using assms by (simp add: login_submit_def)

end
