(* ===== verification/AuthPage.thy ===== *)
theory AuthPage
  imports ClientAuth
begin

text \<open>
  The controls of the login and registration page (\<open>pages/Authenticate.jsx\<close>):
  which inputs the page renders in each mode, what each one stores, and the
  \<open>required\<close> attributes that keep the browser from submitting the form
  with an empty field. The form states the page can reach are an inductive
  set, closed under the inputs it renders; the role select offers only
  \<open>freelancer\<close> and \<open>client\<close>. The lemmas show, by rule induction, that the
  role of every reachable form is one of the two, and that a submission of
  the page never adds an admin account (C27 shows that a request built by
  hand does).
\<close>

text \<open>The initial \<open>useState\<close> values: login mode, empty fields, role \<open>freelancer\<close>.\<close>

definition auth_form_initial :: auth_form where
  "auth_form_initial =
     \<lparr>isLogin = True, af_username = [], af_email = [], af_password = [], af_role = ''freelancer''\<rparr>"

text \<open>The values of the role select's options.\<close>

definition role_options :: "string list" where
  "role_options = [''freelancer'', ''client'']"

text \<open>
  A user input: typing into a field, choosing in the select, or clicking the
  Register/Login toggle.
\<close>

datatype af_event = InUsername string | InEmail string | InPassword string | InRole string | InToggle

text \<open>
  Whether the page renders the control of an input in the form's mode: the
  username field and the role select only when registering, and the select
  yields only the value of one of its options.
\<close>

definition af_rendered :: "auth_form \<Rightarrow> af_event \<Rightarrow> bool" where
  "af_rendered f e =
     (case e of
        InUsername _ \<Rightarrow> \<not> isLogin f
      | InRole r \<Rightarrow> \<not> isLogin f \<and> r \<in> set role_options
      | _ \<Rightarrow> True)"

text \<open>The \<open>onChange\<close> and \<open>onClick\<close> handlers: each sets one piece of state.\<close>

definition af_apply :: "af_event \<Rightarrow> auth_form \<Rightarrow> auth_form" where
  "af_apply e f =
     (case e of
        InUsername x \<Rightarrow> f\<lparr>af_username := x\<rparr>
      | InEmail x \<Rightarrow> f\<lparr>af_email := x\<rparr>
      | InPassword x \<Rightarrow> f\<lparr>af_password := x\<rparr>
      | InRole r \<Rightarrow> f\<lparr>af_role := r\<rparr>
      | InToggle \<Rightarrow> f\<lparr>isLogin := \<not> isLogin f\<rparr>)"

text \<open>
  A sequence of inputs as the user performs them: each input is to a control
  the page renders at that moment.
\<close>

fun af_run_ok :: "af_event list \<Rightarrow> auth_form \<Rightarrow> bool" where
  "af_run_ok [] f = True"
| "af_run_ok (e # es) f = (af_rendered f e \<and> af_run_ok es (af_apply e f))"

inductive af_reachable :: "auth_form \<Rightarrow> bool" where
  init: "af_reachable auth_form_initial"
| input: "af_reachable f \<Longrightarrow> af_rendered f e \<Longrightarrow> af_reachable (af_apply e f)"

text \<open>
  The \<open>required\<close> attributes of the rendered inputs: e-mail and password,
  and the username when registering. The browser's check of the e-mail's
  syntax is stricter and is not modelled.
\<close>

definition af_required :: "auth_form \<Rightarrow> bool" where
  "af_required f \<longleftrightarrow> af_email f \<noteq> [] \<and> af_password f \<noteq> [] \<and> (isLogin f \<or> af_username f \<noteq> [])"

text \<open>A press of the submit button: \<open>handleAuth\<close> runs only when the form is valid.\<close>

definition auth_page_submit ::
  "(string \<Rightarrow> string) \<Rightarrow> (string \<Rightarrow> string \<Rightarrow> bool) \<Rightarrow> (oid \<Rightarrow> string) \<Rightarrow>
   auth_form \<Rightarrow> session \<Rightarrow> db \<Rightarrow> session \<times> db" where
  "auth_page_submit hash hash_ok sign f s d =
     (if af_required f then handle_auth hash hash_ok sign f s d else (s, d))"

text \<open>A registration typed into the page, for the examples.\<close>

definition af_demo_events :: "af_event list" where
  "af_demo_events = [InToggle, InUsername ''eve'', InEmail ''eve@example.com'', InPassword ''pw'', InRole ''client'']"

subsection \<open>Lemmas\<close>

lemma af_reachable_role: "af_reachable f \<Longrightarrow> af_role f \<in> set role_options"
  by (induction rule: af_reachable.induct)
     (auto simp: auth_form_initial_def role_options_def af_rendered_def af_apply_def split: af_event.splits)

lemma af_reachable_run: "af_reachable f \<Longrightarrow> af_run_ok es f \<Longrightarrow> af_reachable (fold af_apply es f)"
  by (induction es arbitrary: f) (auto intro: af_reachable.input)

lemma af_run_ok_snoc: "af_run_ok (es @ [e]) f = (af_run_ok es f \<and> af_rendered (fold af_apply es f) e)"
  by (induction es arbitrary: f) auto

text \<open>The reachable forms are exactly those of the input sequences the page allows.\<close>

lemma af_reachable_iff_run:
  "af_reachable f \<longleftrightarrow> (\<exists>es. af_run_ok es auth_form_initial \<and> f = fold af_apply es auth_form_initial)"
proof
  assume "af_reachable f"
  then show "\<exists>es. af_run_ok es auth_form_initial \<and> f = fold af_apply es auth_form_initial"
  proof (induction rule: af_reachable.induct)
    case init
    show ?case by (rule exI [of _ "[]"]) simp
  next
    case (input f e)
    then obtain es where "af_run_ok es auth_form_initial" "f = fold af_apply es auth_form_initial" by blast
    then show ?case using input.hyps(2) by (intro exI [of _ "es @ [e]"]) (simp add: af_run_ok_snoc)
  qed
next
  assume "\<exists>es. af_run_ok es auth_form_initial \<and> f = fold af_apply es auth_form_initial"
  then show "af_reachable f" using af_reachable_run [OF af_reachable.init] by blast
qed

lemma role_options_of: "r \<in> set role_options \<Longrightarrow> role_of r \<in> {Some Freelancer, Some Client}"
  by (auto simp: role_options_def role_of_def)

lemma register_admins:
  assumes "role_of (reg_role b) \<noteq> Some Admin"
  shows "filter (\<lambda>u. role u = Admin) (users (snd (register hash sign b d))) =
         filter (\<lambda>u. role u = Admin) (users d)"
  using assms by (auto simp: register_def Let_def split: option.split)

lemma handle_auth_admins:
  assumes "\<not> isLogin f \<Longrightarrow> role_of (af_role f) \<noteq> Some Admin"
  shows "filter (\<lambda>u. role u = Admin) (users (snd (handle_auth hash hash_ok sign f s d))) =
         filter (\<lambda>u. role u = Admin) (users d)"
proof (cases "isLogin f")
  case True
  then show ?thesis
    by (simp add: handle_auth_def split: sum.split prod.split http_error.split)
next
  case False
  let ?b = "\<lparr>reg_username = af_username f, reg_email = af_email f, reg_password = af_password f,
             reg_role = af_role f\<rparr>"
  have "snd (handle_auth hash hash_ok sign f s d) = snd (register hash sign ?b d)"
    using False by (simp add: handle_auth_def split: sum.split prod.split http_error.split)
  then show ?thesis using register_admins [of ?b hash sign d] assms False by simp
qed

text \<open>
  C14. Whatever a user does on the login and registration page, a submission
  adds no admin account: the accounts with role admin after it are those
  before it, in the same order.
\<close>

theorem page_registration_no_admin:
  assumes "af_reachable f" and "auth_page_submit hash hash_ok sign f s d = (s', d')"
  shows "filter (\<lambda>u. role u = Admin) (users d') = filter (\<lambda>u. role u = Admin) (users d)"
proof -
  have "role_of (af_role f) \<noteq> Some Admin"
    using role_options_of [OF af_reachable_role [OF assms(1)]] by auto
  then show ?thesis
    using assms(2) handle_auth_admins [of f hash hash_ok sign s d]
    by (auto simp: auth_page_submit_def split: if_splits)
qed

theorem page_registration_no_admin_witness:
  "af_reachable (fold af_apply af_demo_events auth_form_initial) \<and>
   filter (\<lambda>u. role u = Admin)
     (users (snd (auth_page_submit id (\<lambda>_ _. False) (\<lambda>_. ''t'') (fold af_apply af_demo_events auth_form_initial)
                   demo_session demo_db))) =
   filter (\<lambda>u. role u = Admin) (users demo_db)"
proof -
  let ?f = "fold af_apply af_demo_events auth_form_initial"
  have r: "af_reachable ?f"
    by (rule af_reachable_run [OF af_reachable.init])
       (simp add: af_demo_events_def af_rendered_def af_apply_def auth_form_initial_def role_options_def)
  show ?thesis
    using page_registration_no_admin [OF r, of id "\<lambda>_ _. False" "\<lambda>_. ''t''" demo_session demo_db
        "fst (auth_page_submit id (\<lambda>_ _. False) (\<lambda>_. ''t'') ?f demo_session demo_db)"
        "snd (auth_page_submit id (\<lambda>_ _. False) (\<lambda>_. ''t'') ?f demo_session demo_db)"] r
    by simp
qed

end
