(* ===== verification/Spec2Isabelle.thy ===== *)
theory Spec2Isabelle
  imports Concurrency Dashboards ClientLists Integrity AdminPages DashboardPages WorkingPages Navigation Profiles Routing LoginPage AuthPage
begin

text \<open>
  A verification model of FreelanceFinder, a freelance marketplace: an
  Express/Mongoose REST backend (\<open>src/Project Files/server\<close>) and a React
  frontend (\<open>src/Project Files/client/src\<close>). Clients post projects,
  freelancers apply to them, the client accepts one application, and the two
  parties chat on the assigned project; an admin oversees everything. The
  frontend's pages call the backend's routes over HTTP; in the model a page
  handler calls the route's definition (\<open>api_*\<close>) on the database directly,
  with the \<open>Authorization\<close> header the page builds, so each page theory composes
  the client code with the server code it talks to.

  \<^bold>\<open>Server theories.\<close>
  \<^item> \<open>Prelude\<close>: identifiers, HTTP error replies, MongoDB collections as lists of
    documents and the Mongoose calls on them (\<open>find_by\<close>, \<open>save_by\<close>,
    \<open>update_where\<close>, \<open>delete_where\<close>, \<open>count_where\<close>), the JavaScript string
    built-ins the handlers use (\<open>js_split\<close>, \<open>trim\<close>), and their lemmas.
  \<^item> \<open>Store\<close>: the schemas of \<open>server/models\<close> as records and datatypes, the
    database record \<open>db\<close> (collections, the next fresh ObjectId, the clock),
    document insertion with the validators and the unique (project, freelancer)
    index, and the well-formedness invariant \<open>db_inv\<close>.
  \<^item> \<open>Auth\<close>: \<open>middleware/authMiddleware.js\<close> (\<open>protect\<close>, \<open>authorize_roles\<close>,
    and \<open>route\<close>, middleware composed with a handler) and \<open>routes/auth.js\<close>
    (\<open>register\<close>, \<open>login\<close>, \<open>me\<close>). A handler has type
    \<open>user \<Rightarrow> params \<Rightarrow> db \<Rightarrow> 'a result \<times> db\<close>; an error is \<open>Inl\<close> of an HTTP
    status and message, and every early \<open>return res.status(..)\<close> of the source is
    such a branch.
  \<^item> \<open>Applications\<close>, \<open>Projects\<close>, \<open>Admin\<close>, \<open>Messages\<close>, \<open>Dashboards\<close>: one
    definition per handler of \<open>applicationRoutes.js\<close>, \<open>projectRoutes.js\<close>,
    \<open>adminRoutes.js\<close>, \<open>messageRoutes.js\<close>, \<open>clientRoutes.js\<close> and
    \<open>freelancerRoutes.js\<close>, with its guards in the source's order. Claims
    C1--C5, C7, C8 (submission, acceptance, the completed and assigned
    guards, withdrawal), C9, C10 (cascade delete, direct status edit), C12, C13
    (user deletion cascades), C15 (the revenue counter), C16 (who may chat)
    and C18 (the earnings aggregation equals a plain sum). \<open>Admin\<close> also
    holds the model of \<open>parseFloat\<close> the revenue counter uses: an optional
    sign, \<open>Infinity\<close>, and the longest decimal prefix with its exponent, as
    the ECMAScript grammar of StrDecimalLiteral reads it, over the JavaScript
    number values \<open>js_num\<close> (NaN, a finite real, the two infinities).
    \<open>Messages\<close> also gives the JSON of a message with its populated sender, and
    the send route's reply after \<open>execPopulate()\<close>, which exists up to
    Mongoose 5 and throws from Mongoose 6 on (the flag \<open>exec_populate\<close>).
  \<^item> \<open>Dispatch\<close>: the mount table of \<open>server.js\<close> and the route declarations of
    every router, in their order, as a function from method and path to the
    endpoint that answers, or none (Express's 404 page).
  \<^item> \<open>Routing\<close>: the same tables as Express keeps them, layer stacks in source
    order walked by its \<open>next()\<close> loop, kept as a \<open>while_option\<close> loop;
    the loop always stops at the first matching layer, and the table-driven
    dispatch equals \<open>dispatch\<close> on every request; C24 (no declaration of any
    router is shadowed by an earlier one).
  \<^item> \<open>Workflow\<close>: every state-changing route as a constructor of \<open>api_call\<close>,
    \<open>step\<close> the server's answer to one request, and \<open>reachable\<close> the databases
    reachable from the empty one by rule induction; C20, C21 (the invariant,
    and at most one accepted application per project without the general
    project edit). The JWT check is the
    identity on the caller's id (\<open>as_user\<close>, \<open>bearer\<close>), password hashing the
    identity.
  \<^item> \<open>Concurrency\<close>: the accept request split into its read-and-check and
    write phases, a refinement of the one-step handler, and two accepts
    interleaved between their phases (C23).
  \<^item> \<open>Integrity\<close>: the references between collections, typed by role, hold in
    every reachable database (C11), an acceptable pending application can
    always be accepted (C19), and from every such database the general
    project edit followed by a second accept leaves two accepted
    applications on one project (C22).

  \<^bold>\<open>Client theories.\<close>
  \<^item> \<open>ClientAuth\<close>: \<open>context/AuthContext.jsx\<close> as a \<open>session\<close> record (the
    provider's state, the location and the toasts shown), \<open>App.js\<close>'s route
    tree and guards (\<open>resolve\<close>), the Authenticate and AdminLoginForm submits;
    C25--C27.
  \<^item> \<open>AuthPage\<close>: the controls of the Authenticate page (its fields, the role
    select with its two options, the mode toggle, the \<open>required\<close> attributes)
    as an inductive set of reachable form states, equal to the states of the
    input sequences the page allows; C14 (a submission of the page adds no
    admin account, by rule induction; C27 shows a request built by hand does).
  \<^item> \<open>LoginPage\<close>: the unrouted \<open>components/Login.jsx\<close> and \<open>AuthContext.login\<close>
    on both shapes of its second argument: Login passes the role string where
    the context expects the user object, so the session gets no role and the
    user lands on \<open>/\<close>, refused by the guard of their own dashboard.
  \<^item> \<open>ClientPages\<close>: the freelancer's ProjectData page and the NewProject form;
    C28, C30. \<open>Number()\<close> is modelled as the ECMAScript StringToNumber
    (whitespace trimmed, the empty string 0, \<open>0x\<close>/\<open>0o\<close>/\<open>0b\<close> literals, a
    sign, \<open>Infinity\<close>, decimals with an exponent, anything else NaN), and
    the application modal's form with the constraints of its inputs
    (\<open>type=number\<close> with \<open>min=0\<close>, \<open>required\<close> on both): the browser submits
    only a valid floating-point number that is not negative and a non-empty
    cover letter, and for such a bid \<open>Number()\<close> gives its decimal value.
  \<^item> \<open>ClientReview\<close>: ProjectApplications and ClientReviewApplications; C31.
  \<^item> \<open>ClientFreelancer\<close>: MyApplications and the ChatBox, whose list holds the
    JSON the server sends; C33 (with Mongoose 5 a send's optimistic entry,
    whose sender has no role, is always replaced at the next poll), C34 (with
    Mongoose 6 a send is stored and reported as failed) and C36.
  \<^item> \<open>ClientLists\<close>: AllProjects, the client's MyProjects and
    MyWorkingProjects (which no route renders); C37. The status filter is the decoded query
    parameter, as \<open>URLSearchParams.get\<close> returns it.
  \<^item> \<open>AdminPages\<close>: AllUsers, AdminProjects, AdminApplications and
    AdminDashboardOverview, composed with the routes and the dispatch; C32
    (the admin's View button ends at a freelancer-only page). The error of
    \<open>response.json()\<close> on an HTML page is Firefox's wording.
  \<^item> \<open>DashboardPages\<close>: the JSON bodies of the two stats routes and the client
    and freelancer overview pages; C6 (the freelancer page reads keys the
    server never sends). \<open>toFixed(2)\<close> formatting is left out everywhere.
  \<^item> \<open>WorkingPages\<close>: the client's and the freelancer's working project lists
    and project pages, with the populated project the pages receive; C35 (a
    listed project opens with its chat) and C17 (a chat a page shows is one
    the server lets the viewer read).
  \<^item> \<open>Navigation\<close>: every static link of the header (\<open>components/Layout.jsx\<close>),
    the portal sidebars, the landing page, the overview pages and the
    unrendered \<open>Navbar\<close>, followed
    through the route tree, and the landing page's periodic backend check;
    C29 (the completed-projects card lands on a page that ignores its
    filter).
  \<^item> \<open>Profiles\<close>: the body of \<open>GET /api/auth/me\<close> and the two profile pages;
    the freelancer's page looks for a key the route does not send.

  Each theory opens with its own summary; helper lemmas shared by the claims
  sit in the theory of the component they are about. Every definition
  evaluates; the witnesses of the claims are computed by \<open>simp\<close> on small
  concrete databases (\<open>demo_db\<close>, \<open>earn_db\<close>, the spec's scenario).

  \<^bold>\<open>Termination and fuel.\<close> The source's own iterations are \<open>map\<close>,
  \<open>filter\<close>, \<open>forEach\<close> and MongoDB queries over finite collections, modelled
  by structural recursion over lists, as are the digit loops of
  \<open>parseFloat\<close> and \<open>Number()\<close>; \<open>oid_str\<close> (the digits of an id, decimal in
  the model where MongoDB uses hexadecimal) is a \<open>fun\<close> whose termination is
  proved. The one loop kept as a loop is Express's walk over a layer stack
  (\<open>Routing.first_index\<close>, a \<open>while_option\<close>), whose termination from every
  start index is the lemma \<open>next_loop_terminates\<close>, with the measure
  \<open>length L - j\<close>. The landing page's polling timer runs until the page
  unmounts; it is modelled as a finite sequence of ticks, and each
  poll of the ChatBox as one call of its fetch. No fuel is needed.

  \<^bold>\<open>Not modelled.\<close> \<open>server/db.js\<close> and \<open>app.listen\<close> (I/O only); CORS,
  dotenv and \<open>express.json\<close>; JWT signing and bcrypt (parameters); the
  React rendering and styling of every page beyond what each page shows and
  which buttons and links it offers; the ChatBox's polling timer and
  scrolling; \<open>console\<close> logging; date formatting and \<open>toFixed\<close>. The
  component \<open>components/Register.jsx\<close> is rendered by no route and only shows
  an alert; \<open>AboutUs\<close> is static markup. The session keeps
  user documents only, so the string \<open>Login.jsx\<close> stores as the user is
  recorded as no document. The browser's syntax check of \<open>type=email\<close>
  inputs is not modelled (the page model lets more forms through, which
  only strengthens C14).
\<close>

end
